(* ===== verification/Owsec_Prelude.thy ===== *)
theory Owsec_Prelude
  imports Main "HOL-Library.Word"
begin

text \<open>
  Shared vocabulary of the development: the machine integers of the sources, the
  \<^theory_text>\<open>named_theorems\<close> collections the component theories fill, and generic facts on
  lists, options and words that several components use.
\<close>

unbundle bit_operations_syntax

type_synonym u8 = "8 word"
type_synonym u32 = "32 word"
type_synonym u64 = "64 word"

named_theorems totp_defs
named_theorems acl_defs
named_theorems acl_simps

text \<open>Bitwise equality of words, one concrete bit at a time.\<close>

lemma word_eq_by_bits:
  fixes a b :: "'a::len word"
  assumes "list_all (\<lambda>n. bit a n = bit b n) [0..<LENGTH('a)]"
  shows "a = b"
  using assms by (intro bit_word_eqI) (auto simp: list_all_iff)

lemma upt_64: "[0..<64::nat] =
  [0,1,2,3,4,5,6,7,8,9,10,11,12,13,14,15,16,17,18,19,20,21,22,23,24,25,26,27,28,29,30,31,
   32,33,34,35,36,37,38,39,40,41,42,43,44,45,46,47,48,49,50,51,52,53,54,55,56,57,58,59,60,61,62,63]"
  by (simp add: upt_rec)

lemma upt_8: "[0..<8::nat] = [0,1,2,3,4,5,6,7]"
  by (simp add: upt_rec)

lemma word_cases_upto:
  fixes w :: "'a::len word"
  assumes "unat w < n"
  shows "w \<in> set (map of_nat [0..<n])"
proof -
  have "w = of_nat (unat w)" by simp
  with assms show ?thesis by (auto intro!: image_eqI [of _ _ "unat w"])
qed

text \<open>A list of even length, or of a length divisible by \<open>k\<close>, is consumed by chunks.\<close>

lemma length_take_drop_induct [case_names short chunk]:
  fixes xs :: "'a list"
  assumes "0 < k"
    and "\<And>xs. length xs < k \<Longrightarrow> P xs"
    and "\<And>xs. k \<le> length xs \<Longrightarrow> P (drop k xs) \<Longrightarrow> P xs"
  shows "P xs"
proof (induction "length xs" arbitrary: xs rule: less_induct)
  case less
  show ?case
  proof (cases "length xs < k")
    case True
    then show ?thesis by (rule assms(2))
  next
    case False
    with assms(1) have "length (drop k xs) < length xs" by auto
    then have "P (drop k xs)" by (rule less.hyps)
    moreover from False have "k \<le> length xs" by simp
    ultimately show ?thesis by (intro assms(3) [of xs])
  qed
qed

subsection \<open>Decimal text\<close>

text \<open>\<^verbatim>\<open>std::to_string\<close> and \<^verbatim>\<open>fmt::format("{}", n)\<close> of an unsigned number.\<close>

definition digit :: "nat \<Rightarrow> char" where
  "digit n = char_of (48 + n)"

fun to_dec :: "nat \<Rightarrow> string" where
  "to_dec n = (if n < 10 then [digit n] else to_dec (n div 10) @ [digit (n mod 10)])"

declare to_dec.simps [simp del]

lemma to_dec_not_empty: "to_dec n \<noteq> []"
  by (subst to_dec.simps) simp

lemma digit_code: "n < 10 \<Longrightarrow> of_char (digit n) = 48 + n"
  by (simp add: digit_def)

lemma to_dec_digits: "c \<in> set (to_dec n) \<Longrightarrow> \<exists>d < 10. c = digit d"
proof (induction n rule: to_dec.induct)
  case (1 n)
  show ?case
  proof (cases "n < 10")
    case True
    with "1.prems" show ?thesis by (auto simp: to_dec.simps [of n])
  next
    case False
    with "1.prems" consider "c \<in> set (to_dec (n div 10))" | "c = digit (n mod 10)"
      by (auto simp: to_dec.simps [of n])
    then show ?thesis using "1.IH" [OF False] by cases (auto intro: exI [of _ "n mod 10"])
  qed
qed

lemma to_dec_no_bar: "CHR ''|'' \<notin> set (to_dec n)"
proof
  assume "CHR ''|'' \<in> set (to_dec n)"
  then obtain d where "d < 10" "CHR ''|'' = digit d" using to_dec_digits by blast
  then have "(of_char CHR ''|'' :: nat) = 48 + d" using digit_code by metis
  with \<open>d < 10\<close> show False by simp
qed

end
