(* ===== verification/Totp_Bytes.thy ===== *)
theory Totp_Bytes
  imports Owsec_Prelude
begin

text \<open>
  The byte library of \<^verbatim>\<open>src/seclibs/cpptotp/bytes.cpp\<close>: hexadecimal, big-endian and base32
  conversions. A \<^verbatim>\<open>ByteString\<close> is a list of \<open>u8\<close>, a \<^verbatim>\<open>std::string\<close> a \<open>string\<close>, and
  \<^verbatim>\<open>std::invalid_argument\<close> the error of a sum.
\<close>

type_synonym byte_string = "u8 list"

datatype bytes_error =
    HexLengthOdd
  | IncorrectB32ChunkLength
  | PaddingFollowedByNonPadding
  | NotABase32Character char
  | InvalidPaddingCount
  | NeedChunkOf1To5Bytes
  | B32LengthNotDivisibleBy8

subsection \<open>Clearing and moving byte strings\<close>

definition clearByteString :: "byte_string \<Rightarrow> byte_string" where
  "clearByteString bstr = map (\<lambda>_. 0) bstr"

text \<open>Target and source after the call.\<close>

definition swizzleByteStrings :: "byte_string \<Rightarrow> byte_string \<Rightarrow> byte_string \<times> byte_string" where
  "swizzleByteStrings target source = (source, clearByteString source)"

subsection \<open>Hexadecimal\<close>

text \<open>
  The last branch sits behind \<^verbatim>\<open>assert(0)\<close>; \<open>toHexString\<close> masks its arguments, so it is not
  taken (\<open>nibbleToLCHex_masked\<close>).
\<close>

definition nibbleToLCHex :: "u8 \<Rightarrow> char" where
  "nibbleToLCHex nib =
     (if nib < 0xa then char_of (unat nib + of_char CHR ''0'')
      else if nib < 0x10 then char_of (unat (nib - 10) + of_char CHR ''a'')
      else CHR 0x00)"

definition in_range :: "char \<Rightarrow> char \<Rightarrow> char \<Rightarrow> bool" where
  "in_range lo hi c \<longleftrightarrow> of_char lo \<le> (of_char c :: nat) \<and> of_char c \<le> (of_char hi :: nat)"

definition hexToNibble :: "char \<Rightarrow> u8" where
  "hexToNibble c =
     (if in_range CHR ''0'' CHR ''9'' c then of_nat (of_char c - of_char CHR ''0'')
      else if in_range CHR ''A'' CHR ''F'' c then of_nat (of_char c - of_char CHR ''A'' + 10)
      else if in_range CHR ''a'' CHR ''f'' c then of_nat (of_char c - of_char CHR ''a'' + 10)
      else 0xff)"

fun toHexString :: "byte_string \<Rightarrow> string" where
  "toHexString [] = []"
| "toHexString (b # bstr) =
     nibbleToLCHex (drop_bit 4 b AND 0x0F) # nibbleToLCHex (drop_bit 0 b AND 0x0F) # toHexString bstr"

definition isHexDigit :: "char \<Rightarrow> bool" where
  "isHexDigit c \<longleftrightarrow> in_range CHR ''0'' CHR ''9'' c \<or> in_range CHR ''A'' CHR ''F'' c
     \<or> in_range CHR ''a'' CHR ''f'' c"

fun hexPairs :: "string \<Rightarrow> byte_string" where
  "hexPairs (t # b # hstr) = (push_bit 4 (hexToNibble t) OR hexToNibble b) # hexPairs hstr"
| "hexPairs hstr = []"

definition fromHexStringSkipUnknown :: "string \<Rightarrow> bytes_error + byte_string" where
  "fromHexStringSkipUnknown str =
     (let hstr = filter isHexDigit str
      in if length hstr mod 2 \<noteq> 0 then Inl HexLengthOdd else Inr (hexPairs hstr))"

subsection \<open>Big-endian integers\<close>

definition u32beToByteString :: "u32 \<Rightarrow> byte_string" where
  "u32beToByteString num =
     [ucast (drop_bit 24 num AND 0xFF), ucast (drop_bit 16 num AND 0xFF),
      ucast (drop_bit 8 num AND 0xFF), ucast (drop_bit 0 num AND 0xFF)]"

definition u64beToByteString :: "u64 \<Rightarrow> byte_string" where
  "u64beToByteString num =
     u32beToByteString (ucast (drop_bit 32 num AND 0xFFFFFFFF)) @
     u32beToByteString (ucast (drop_bit 0 num AND 0xFFFFFFFF))"

subsection \<open>Base32\<close>

text \<open>One step of the character loop of \<^verbatim>\<open>b32ChunkToBytes\<close>: index, \<^verbatim>\<open>whole\<close> and \<^verbatim>\<open>padcount\<close>.\<close>

definition b32CharBits :: "char \<Rightarrow> nat \<Rightarrow> bytes_error + (u64 \<times> nat)" where
  "b32CharBits c padcount =
     (if c = CHR ''='' then Inr (0, padcount + 1)
      else if padcount > 0 then Inl PaddingFollowedByNonPadding
      else if in_range CHR ''A'' CHR ''Z'' c
        then Inr (ucast (of_nat (of_char c - of_char CHR ''A'') :: u8), padcount)
      else if in_range CHR ''2'' CHR ''7'' c
        then Inr (ucast (of_nat (of_char c - of_char CHR ''2'' + 26) :: u8), padcount)
      else Inl (NotABase32Character c))"

fun b32Loop :: "nat \<Rightarrow> string \<Rightarrow> u64 \<Rightarrow> nat \<Rightarrow> bytes_error + (u64 \<times> nat)" where
  "b32Loop i [] whole padcount = Inr (whole, padcount)"
| "b32Loop i (c # str) whole padcount =
     (case b32CharBits c padcount of
        Inl e \<Rightarrow> Inl e
      | Inr (bits, padcount') \<Rightarrow> b32Loop (i + 1) str (whole OR push_bit ((7 - i) * 5) bits) padcount')"

definition b32FinalCount :: "nat \<Rightarrow> nat option" where
  "b32FinalCount padcount =
     (if padcount = 0 then Some 5 else if padcount = 1 then Some 4
      else if padcount = 3 then Some 3 else if padcount = 4 then Some 2
      else if padcount = 6 then Some 1 else None)"

definition b32ChunkToBytes :: "string \<Rightarrow> bytes_error + byte_string" where
  "b32ChunkToBytes str =
     (if length str \<noteq> 8 then Inl IncorrectB32ChunkLength
      else case b32Loop 0 str 0 0 of
        Inl e \<Rightarrow> Inl e
      | Inr (whole, padcount) \<Rightarrow>
          (case b32FinalCount padcount of
             None \<Rightarrow> Inl InvalidPaddingCount
           | Some finalcount \<Rightarrow>
               Inr (map (\<lambda>i. ucast (drop_bit ((4 - i) * 8) whole AND 0xFF)) [0..<finalcount])))"

definition bytesWhole :: "byte_string \<Rightarrow> u64" where
  "bytesWhole bs =
     (let whole = 0 OR push_bit 32 (ucast (bs ! 0));
          whole = (if length bs > 1 then whole OR push_bit 24 (ucast (bs ! 1)) else whole);
          whole = (if length bs > 2 then whole OR push_bit 16 (ucast (bs ! 2)) else whole);
          whole = (if length bs > 3 then whole OR push_bit 8 (ucast (bs ! 3)) else whole)
      in if length bs > 4 then whole OR ucast (bs ! 4) else whole)"

definition bytesPutchars :: "byte_string \<Rightarrow> nat" where
  "bytesPutchars bs =
     2 + (if length bs > 1 then 2 else 0) + (if length bs > 2 then 1 else 0)
       + (if length bs > 3 then 2 else 0) + (if length bs > 4 then 1 else 0)"

definition b32Char :: "u8 \<Rightarrow> char" where
  "b32Char val =
     (if val < 26 then char_of (unat val + of_char CHR ''A'')
      else char_of (unat (val - 26) + of_char CHR ''2''))"

definition bytesToB32Chunk :: "byte_string \<Rightarrow> bytes_error + string" where
  "bytesToB32Chunk bs =
     (if length bs < 1 \<or> length bs > 5 then Inl NeedChunkOf1To5Bytes
      else let whole = bytesWhole bs; putchars = bytesPutchars bs
        in Inr (map (\<lambda>i. b32Char (ucast (drop_bit ((7 - i) * 5) whole AND 0x1F))) [0..<putchars]
                @ replicate (8 - putchars) CHR ''=''))"

text \<open>The chunk loops of \<^verbatim>\<open>fromBase32\<close> and \<^verbatim>\<open>toBase32\<close>; the first throwing chunk ends the loop.\<close>

fun fromBase32Loop :: "string \<Rightarrow> bytes_error + byte_string" where
  "fromBase32Loop b32str =
     (if b32str = [] then Inr []
      else case b32ChunkToBytes (take 8 b32str) of
        Inl e \<Rightarrow> Inl e
      | Inr chk \<Rightarrow>
          (case fromBase32Loop (drop 8 b32str) of Inl e \<Rightarrow> Inl e | Inr ret \<Rightarrow> Inr (chk @ ret)))"

declare fromBase32Loop.simps [simp del]

definition fromBase32 :: "string \<Rightarrow> bytes_error + byte_string" where
  "fromBase32 b32str =
     (if length b32str mod 8 \<noteq> 0 then Inl B32LengthNotDivisibleBy8 else fromBase32Loop b32str)"

text \<open>The \<^verbatim>\<open>while\<close> loop of \<^verbatim>\<open>fromUnpaddedBase32\<close>, which pads to a multiple of eight.\<close>

function padTo8 :: "string \<Rightarrow> string" where
  "padTo8 newstr = (if length newstr mod 8 \<noteq> 0 then padTo8 (newstr @ ''='') else newstr)"
  by pat_completeness auto
termination
proof (relation "measure (\<lambda>s. (8 - length s mod 8) mod 8)", goal_cases)
  case (2 s)
  then have "length s mod 8 < 8" "0 < length s mod 8" by simp_all
  then show ?case by (auto simp: mod_Suc)
qed simp

declare padTo8.simps [simp del]

definition fromUnpaddedBase32 :: "string \<Rightarrow> bytes_error + byte_string" where
  "fromUnpaddedBase32 b32str = fromBase32 (padTo8 b32str)"

fun toBase32 :: "byte_string \<Rightarrow> bytes_error + string" where
  "toBase32 bs =
     (if bs = [] then Inr []
      else if length bs < 5 then bytesToB32Chunk bs
      else case bytesToB32Chunk (take 5 bs) of
        Inl e \<Rightarrow> Inl e
      | Inr chk \<Rightarrow> (case toBase32 (drop 5 bs) of Inl e \<Rightarrow> Inl e | Inr ret \<Rightarrow> Inr (chk @ ret)))"

declare toBase32.simps [simp del]

subsection \<open>Hexadecimal round trip\<close>

lemma nibble_lt16: "x AND 0x0F < (16::u8)"
  using word_and_le1 [of x "0x0F"] by (simp add: word_le_nat_alt word_less_nat_alt)

lemma hexToNibble_nibbleToLCHex:
  assumes "n < (16::u8)"
  shows "hexToNibble (nibbleToLCHex n) = n \<and> isHexDigit (nibbleToLCHex n)"
proof -
  have "n \<in> set (map of_nat [0..<16])"
    using assms by (intro word_cases_upto) (simp add: word_less_nat_alt)
  then have "n \<in> {0,1,2,3,4,5,6,7,8,9,10,11,12,13,14,15}"
    by (simp add: upt_rec)
  then show ?thesis
    by (elim insertE emptyE)
      (simp_all add: hexToNibble_def nibbleToLCHex_def isHexDigit_def in_range_def)
qed

lemma nibble_join:
  "push_bit 4 (drop_bit 4 b AND 0x0F) OR (drop_bit 0 b AND 0x0F) = (b::u8)"
  by (rule word_eq_by_bits) (simp add: upt_8 bit_simps)

lemma toHexString_isHexDigit: "list_all isHexDigit (toHexString bs)"
  by (induction bs) (simp_all add: hexToNibble_nibbleToLCHex nibble_lt16)

lemma length_toHexString: "length (toHexString bs) = 2 * length bs"
  by (induction bs) simp_all

lemma hexPairs_toHexString: "hexPairs (toHexString bs) = bs"
proof (induction bs)
  case (Cons b bs)
  then show ?case
    by (simp only: toHexString.simps hexPairs.simps nibble_join
        hexToNibble_nibbleToLCHex [OF nibble_lt16, THEN conjunct1])
qed simp

subsection \<open>Base32 round trip\<close>

text \<open>\<open>b32Acc\<close> is the value of \<^verbatim>\<open>whole\<close> after the loop has read the characters of \<open>vs\<close>.\<close>

lemma five_bits_lt32: "ucast (x AND 0x1F :: u64) < (32::u8)"
proof -
  have "x AND 0x1F \<le> (0x1F::u64)" by (rule word_and_le1)
  then have "unat (x AND 0x1F) \<le> 31" by (simp add: word_le_nat_alt)
  then show ?thesis by (simp add: word_less_nat_alt unsigned_ucast_eq take_bit_nat_def)
qed

lemma b32CharBits_b32Char:
  assumes "v < (32::u8)"
  shows "b32CharBits (b32Char v) 0 = Inr (ucast v, 0)"
proof -
  have "v \<in> set (map of_nat [0..<32])"
    using assms by (intro word_cases_upto) (simp add: word_less_nat_alt)
  then have "v \<in> {0,1,2,3,4,5,6,7,8,9,10,11,12,13,14,15,16,17,18,19,20,21,22,23,24,25,26,27,28,29,30,31}"
    by (simp add: upt_rec)
  then show ?thesis
    by (elim insertE emptyE) (simp_all add: b32CharBits_def b32Char_def in_range_def char_of_eq_iff take_bit_nat_def)
qed

fun b32Acc :: "nat \<Rightarrow> u8 list \<Rightarrow> u64 \<Rightarrow> u64" where
  "b32Acc i [] whole = whole"
| "b32Acc i (v # vs) whole = b32Acc (i + 1) vs (whole OR push_bit ((7 - i) * 5) (ucast v))"

lemma b32Loop_chars:
  "\<forall>v \<in> set vs. v < 32 \<Longrightarrow>
   b32Loop i (map b32Char vs @ rest) whole 0 = b32Loop (i + length vs) rest (b32Acc i vs whole) 0"
  by (induction vs arbitrary: i whole) (simp_all add: b32CharBits_b32Char)

lemma b32Loop_pads: "b32Loop i (replicate p CHR ''='') whole c = Inr (whole, c + p)"
  by (induction p arbitrary: i c) (simp_all add: b32CharBits_def)


lemma bit_u8_high [simp]: "8 \<le> n \<Longrightarrow> \<not> bit (x::u8) n"
  using bit_imp_le_length by force

lemma bits_norm: "Suc (Suc 0) = 2" "Suc (Suc (Suc 0)) = 3"
  by simp_all

lemmas b32_bits = upt_64 upt_8 bit_simps bytesWhole_def bits_norm

abbreviation b32Vals :: "byte_string \<Rightarrow> u8 list" where
  "b32Vals bs \<equiv> map (\<lambda>i. ucast (drop_bit ((7 - i) * 5) (bytesWhole bs) AND 0x1F)) [0..<bytesPutchars bs]"

lemma b32Acc_1: "b32Acc 0 (b32Vals [a]) 0 = bytesWhole [a]"
  by (rule word_eq_by_bits) (simp add: b32_bits upt_rec bytesPutchars_def)
lemma b32Acc_2: "b32Acc 0 (b32Vals [a,b]) 0 = bytesWhole [a,b]"
  by (rule word_eq_by_bits) (simp add: b32_bits upt_rec bytesPutchars_def)
lemma b32Acc_3: "b32Acc 0 (b32Vals [a,b,c]) 0 = bytesWhole [a,b,c]"
  by (rule word_eq_by_bits) (simp add: b32_bits upt_rec bytesPutchars_def)
lemma b32Acc_4: "b32Acc 0 (b32Vals [a,b,c,d]) 0 = bytesWhole [a,b,c,d]"
  by (rule word_eq_by_bits) (simp add: b32_bits upt_rec bytesPutchars_def)
lemma b32Acc_5: "b32Acc 0 (b32Vals [a,b,c,d,e]) 0 = bytesWhole [a,b,c,d,e]"
  by (rule word_eq_by_bits) (simp add: b32_bits upt_rec bytesPutchars_def)

lemma length_1_to_5:
  assumes "1 \<le> length bs" "length bs \<le> 5"
  obtains a where "bs = [a]" | a b where "bs = [a,b]" | a b c where "bs = [a,b,c]"
    | a b c d where "bs = [a,b,c,d]" | a b c d e where "bs = [a,b,c,d,e]"
  using assms by (auto simp: Suc_le_length_iff numeral_eq_Suc le_Suc_eq length_Suc_conv)

lemma b32Acc_whole:
  assumes "1 \<le> length bs" "length bs \<le> 5"
  shows "b32Acc 0 (b32Vals bs) 0 = bytesWhole bs"
  using assms by (rule length_1_to_5) (simp_all only: b32Acc_1 b32Acc_2 b32Acc_3 b32Acc_4 b32Acc_5)


lemma u8_eq_bits:
  "(x::u8) = y \<longleftrightarrow> list_all (\<lambda>n. bit x n = bit y n) [0,1,2,3,4,5,6,7]"
  using word_eq_by_bits [of x y] by (auto simp: upt_8)

lemma bytes_of_whole:
  assumes "1 \<le> length bs" "length bs \<le> 5"
  shows "map (\<lambda>i. ucast (drop_bit ((4 - i) * 8) (bytesWhole bs) AND 0xFF)) [0..<length bs] = bs"
  using assms
  by (rule length_1_to_5) (simp_all add: upt_rec u8_eq_bits b32_bits)

lemma bytesToB32Chunk_ok:
  assumes "1 \<le> length bs" "length bs \<le> 5"
  shows "bytesToB32Chunk bs =
    Inr (map b32Char (b32Vals bs) @ replicate (8 - bytesPutchars bs) CHR ''='')"
  using assms by (auto simp: bytesToB32Chunk_def Let_def comp_def)

lemma b32FinalCount_putchars:
  assumes "1 \<le> length bs" "length bs \<le> 5"
  shows "b32FinalCount (8 - bytesPutchars bs) = Some (length bs) \<and> bytesPutchars bs \<le> 8"
  using assms by (rule length_1_to_5) (simp_all add: b32FinalCount_def bytesPutchars_def)

lemma b32Chunk_roundtrip:
  assumes "1 \<le> length bs" "length bs \<le> 5"
  obtains s where "bytesToB32Chunk bs = Inr s" "length s = 8" "b32ChunkToBytes s = Inr bs"
proof -
  let ?s = "map b32Char (b32Vals bs) @ replicate (8 - bytesPutchars bs) CHR ''=''"
  have loop: "b32Loop 0 ?s 0 0 = Inr (bytesWhole bs, 8 - bytesPutchars bs)"
    using b32Loop_chars [of "b32Vals bs" 0 "replicate (8 - bytesPutchars bs) CHR ''=''" 0] assms
    by (simp add: b32Loop_pads b32Acc_whole five_bits_lt32)
  have len: "length ?s = 8"
    using b32FinalCount_putchars [OF assms] by simp
  have "b32ChunkToBytes ?s = Inr bs"
    using loop len b32FinalCount_putchars [OF assms] bytes_of_whole [OF assms]
    by (simp add: b32ChunkToBytes_def)
  with bytesToB32Chunk_ok [OF assms] len show ?thesis by (rule that)
qed

lemma base32_roundtrip_aux:
  "\<exists>s. toBase32 bs = Inr s \<and> length s mod 8 = 0 \<and> fromBase32Loop s = Inr bs"
proof (induction bs rule: toBase32.induct)
  case (1 bs)
  show ?case
  proof (cases "length bs \<le> 5")
    case True
    show ?thesis
    proof (cases "bs = []")
      case True
      then show ?thesis by (simp add: toBase32.simps fromBase32Loop.simps)
    next
      case False
      with \<open>length bs \<le> 5\<close> obtain s where "bytesToB32Chunk bs = Inr s" "length s = 8" "b32ChunkToBytes s = Inr bs"
        by (metis One_nat_def Suc_leI b32Chunk_roundtrip length_greater_0_conv)
      then show ?thesis using False True
        by (auto simp: toBase32.simps [of bs] toBase32.simps [of "[]"]
            fromBase32Loop.simps [of s] fromBase32Loop.simps [of "[]"])
    qed
  next
    case False
    then have "1 \<le> length (take 5 bs)" "length (take 5 bs) \<le> 5" by auto
    then obtain s where s: "bytesToB32Chunk (take 5 bs) = Inr s" "length s = 8"
        "b32ChunkToBytes s = Inr (take 5 bs)"
      by (rule b32Chunk_roundtrip)
    from False have ne: "bs \<noteq> []" "\<not> length bs < 5" by auto
    obtain r where r: "toBase32 (drop 5 bs) = Inr r" "length r mod 8 = 0"
        "fromBase32Loop r = Inr (drop 5 bs)"
      using "1.IH" [OF ne s(1)] by auto
    have "toBase32 bs = Inr (s @ r)"
      using s r ne by (simp add: toBase32.simps [of bs])
    moreover have "fromBase32Loop (s @ r) = Inr bs"
    proof -
      have "s \<noteq> []" "take 8 (s @ r) = s" "drop 8 (s @ r) = r" using s(2) by auto
      then show ?thesis
        using s(3) r(3) by (subst fromBase32Loop.simps) simp
    qed
    ultimately show ?thesis using s r by auto
  qed
qed

subsection \<open>The codec interface\<close>

text \<open>
  What the TOTP code relies on: encoding never fails and decoding undoes it. Both text formats
  of the library meet it.
\<close>

locale byte_codec =
  fixes encode :: "byte_string \<Rightarrow> 'e + string"
    and decode :: "string \<Rightarrow> 'e + byte_string"
  assumes encode_decodes: "\<exists>s. encode bs = Inr s \<and> decode s = Inr bs"
begin

lemma encode_never_fails: "isl (encode bs) = False"
  using encode_decodes [of bs] by auto

lemma encode_injective: "encode bs = encode bs' \<Longrightarrow> bs = bs'"
  using encode_decodes [of bs] encode_decodes [of bs'] by auto

lemma decode_onto: "\<exists>s. decode s = Inr bs"
  using encode_decodes [of bs] by auto

end

interpretation hex_codec: byte_codec "\<lambda>bs. Inr (toHexString bs)" fromHexStringSkipUnknown
proof unfold_locales
  fix bs
  have "filter isHexDigit (toHexString bs) = toHexString bs"
    using toHexString_isHexDigit [of bs] by (simp add: filter_id_conv list_all_iff)
  then show "\<exists>s. Inr (toHexString bs) = Inr s \<and> fromHexStringSkipUnknown s = Inr bs"
    by (simp add: fromHexStringSkipUnknown_def length_toHexString hexPairs_toHexString)
qed

interpretation base32_codec: byte_codec toBase32 fromBase32
proof unfold_locales
  fix bs
  show "\<exists>s. toBase32 bs = Inr s \<and> fromBase32 s = Inr bs"
    using base32_roundtrip_aux [of bs] unfolding fromBase32_def by metis
qed

lemma padTo8_eq: "padTo8 s = s @ replicate ((8 - length s mod 8) mod 8) CHR ''=''"
proof (induction s rule: padTo8.induct)
  case (1 s)
  show ?case
  proof (cases "length s mod 8 = 0")
    case True
    then show ?thesis by (simp add: padTo8.simps [of s])
  next
    case False
    have "length s mod 8 \<in> {1,2,3,4,5,6,7}"
      using False mod_less_divisor [of 8 "length s"] by auto
    then have "(8 - length s mod 8) mod 8 = Suc ((8 - Suc (length s) mod 8) mod 8)"
      by (auto simp: mod_Suc)
    with False 1 show ?thesis by (simp add: padTo8.simps [of s])
  qed
qed

lemma b32Char_not_pad: "v < 32 \<Longrightarrow> b32Char v \<noteq> CHR ''=''"
  using b32CharBits_b32Char [of v] by (auto simp: b32CharBits_def)

lemma bytesToB32Chunk_shape:
  assumes "1 \<le> length bs" "length bs \<le> 5"
  obtains s where "bytesToB32Chunk bs = Inr (s @ replicate (8 - bytesPutchars bs) CHR ''='')"
    "CHR ''='' \<notin> set s" "2 \<le> bytesPutchars bs"
proof (rule that [OF bytesToB32Chunk_ok [OF assms]])
  show "CHR ''='' \<notin> set (map b32Char (b32Vals bs))"
    by (auto dest!: b32Char_not_pad [OF five_bits_lt32, THEN not_sym [THEN notE]])
  show "2 \<le> bytesPutchars bs" by (simp add: bytesPutchars_def)
qed

lemma toBase32_shape:
  "\<exists>s p. toBase32 bs = Inr (s @ replicate p CHR ''='') \<and> p < 8 \<and> CHR ''='' \<notin> set s"
proof (induction bs rule: toBase32.induct)
  case (1 bs)
  show ?case
  proof (cases "bs = []")
    case True
    then show ?thesis by (auto simp: toBase32.simps intro: exI [of _ 0])
  next
    case False
    then have "1 \<le> length (take 5 bs)" "length (take 5 bs) \<le> 5" by (cases bs; simp)+
    then obtain s where s: "bytesToB32Chunk (take 5 bs) =
        Inr (s @ replicate (8 - bytesPutchars (take 5 bs)) CHR ''='')" "CHR ''='' \<notin> set s"
        "2 \<le> bytesPutchars (take 5 bs)"
      by (rule bytesToB32Chunk_shape)
    show ?thesis
    proof (cases "length bs < 5")
      case True
      with False s show ?thesis
        by (auto simp: toBase32.simps [of bs] intro!: exI [of _ s] exI [of _ "8 - bytesPutchars bs"])
    next
      case long: False
      then have pads: "8 - bytesPutchars (take 5 bs) = 0" by (simp add: bytesPutchars_def)
      obtain r p where "toBase32 (drop 5 bs) = Inr (r @ replicate p CHR ''='')" "p < 8"
          "CHR ''='' \<notin> set r"
        using "1.IH" [OF False long s(1)] by auto
      with False long s pads show ?thesis
        by (auto simp: toBase32.simps [of bs] intro!: exI [of _ "s @ r"] exI [of _ p])
    qed
  qed
qed

lemma base32_padding:
  assumes "length (s @ replicate p CHR ''='') mod 8 = 0" "p < 8"
  shows "padTo8 s = s @ replicate p CHR ''=''"
proof -
  obtain k where k: "length s + p = 8 * k" using assms(1) by auto
  have "(8 - length s mod 8) mod 8 = p"
  proof (cases "p = 0")
    case True
    with k show ?thesis by simp
  next
    case False
    with k assms(2) have "length s = 8 * (k - 1) + (8 - p)" by simp
    then have "length s mod 8 = (8 - p) mod 8" by simp
    with False assms(2) show ?thesis by simp
  qed
  then show ?thesis by (simp add: padTo8_eq)
qed

text \<open>
  C32. Every byte string survives the trip through base32: encoding succeeds, and decoding gives
  it back, from the padded text and also from the text with its trailing \<^verbatim>\<open>=\<close> signs cut off, the
  form in which authenticator secrets are exchanged.
\<close>

theorem base32_roundtrip:
  "\<exists>s p. toBase32 bs = Inr (s @ replicate p CHR ''='') \<and> CHR ''='' \<notin> set s
     \<and> fromBase32 (s @ replicate p CHR ''='') = Inr bs \<and> fromUnpaddedBase32 s = Inr bs"
proof -
  obtain s p where sp: "toBase32 bs = Inr (s @ replicate p CHR ''='')" "p < 8" "CHR ''='' \<notin> set s"
    using toBase32_shape by blast
  with base32_roundtrip_aux [of bs] have len: "length (s @ replicate p CHR ''='') mod 8 = 0"
    by auto
  moreover have "fromBase32 (s @ replicate p CHR ''='') = Inr bs"
    using base32_codec.encode_decodes [of bs] sp(1) by auto
  ultimately show ?thesis
    using sp base32_padding [OF len sp(2)]
    by (intro exI [of _ s] exI [of _ p]) (simp add: fromUnpaddedBase32_def)
qed

text \<open>
  Hexadecimal text of any byte string decodes to it, and two byte strings with the same
  text are equal.
\<close>

theorem hex_roundtrip:
  "fromHexStringSkipUnknown (toHexString bs) = Inr bs
   \<and> (toHexString bs = toHexString bs' \<longleftrightarrow> bs = bs')"
  using hex_codec.encode_decodes [of bs] hex_codec.encode_injective [of bs bs'] by auto

end
