(* ===== verification/Totp_Sha1.thy ===== *)
theory Totp_Sha1
  imports Totp_Bytes
begin

text \<open>
  SHA-1 and HMAC-SHA-1 of \<^verbatim>\<open>src/seclibs/cpptotp/sha1.cpp\<close>. Loops over an index are folds over
  the index range; the padding \<^verbatim>\<open>while\<close> loop is a recursive function with a termination proof.
\<close>

definition lrot32 :: "u32 \<Rightarrow> nat \<Rightarrow> u32" where
  "lrot32 num rotcount = push_bit rotcount num OR drop_bit (32 - rotcount) num"

text \<open>The \<^verbatim>\<open>0x00\<close> padding loop.\<close>

lemma sha1Pad_measure:
  assumes "m < (64::nat)" "m \<noteq> 56"
  shows "(120 - Suc m mod 64) mod 64 < (120 - m) mod 64"
proof -
  consider "m < 56" | "56 < m" "m < 63" | "m = 63" using assms by linarith
  then show ?thesis
  proof cases
    case 1
    then have "(120 - m) mod 64 = 56 - m" "(120 - Suc m mod 64) mod 64 = 55 - m"
      by (simp_all add: mod_if)
    with 1 show ?thesis by simp
  next
    case 2
    then have "(120 - m) mod 64 = 120 - m" "(120 - Suc m mod 64) mod 64 = 119 - m"
      by simp_all
    with 2 show ?thesis by simp
  next
    case 3
    then show ?thesis by simp
  qed
qed

function sha1Pad :: "byte_string \<Rightarrow> byte_string" where
  "sha1Pad bstr = (if length bstr mod (512 div 8) \<noteq> 448 div 8 then sha1Pad (bstr @ [0x00]) else bstr)"
  by pat_completeness auto
termination
proof (relation "measure (\<lambda>b. (120 - length b mod 64) mod 64)", goal_cases)
  case (2 b)
  have "Suc (length b mod 64) mod 64 = Suc (length b) mod 64" by (simp add: mod_Suc_eq)
  with 2 sha1Pad_measure [of "length b mod 64"] show ?case by simp
qed simp

declare sha1Pad.simps [simp del]

definition sha1Padded :: "byte_string \<Rightarrow> byte_string" where
  "sha1Padded msg =
     sha1Pad (msg @ [0x80]) @ u64beToByteString (of_nat (length msg) * 8)"

definition chunkWords :: "byte_string \<Rightarrow> u32 list" where
  "chunkWords chunk =
     map (\<lambda>j. push_bit 24 (ucast (chunk ! (4 * j + 0))) OR push_bit 16 (ucast (chunk ! (4 * j + 1)))
            OR push_bit 8 (ucast (chunk ! (4 * j + 2))) OR push_bit 0 (ucast (chunk ! (4 * j + 3))))
       [0..<16]"

definition extendPlain :: "u32 list \<Rightarrow> nat \<Rightarrow> u32 list" where
  "extendPlain words j =
     words @ [lrot32 (words ! (j - 3) XOR words ! (j - 8) XOR words ! (j - 14) XOR words ! (j - 16)) 1]"

definition extendSimd :: "u32 list \<Rightarrow> nat \<Rightarrow> u32 list" where
  "extendSimd words j =
     words @ [lrot32 (words ! (j - 6) XOR words ! (j - 16) XOR words ! (j - 28) XOR words ! (j - 32)) 2]"

definition sha1Words :: "byte_string \<Rightarrow> u32 list" where
  "sha1Words chunk = foldl extendSimd (foldl extendPlain (chunkWords chunk) [16..<32]) [32..<80]"

definition sha1F :: "nat \<Rightarrow> u32 \<Rightarrow> u32 \<Rightarrow> u32 \<Rightarrow> u32" where
  "sha1F j b c d =
     (if j < 20 then (b AND c) OR (NOT b AND d)
      else if j < 40 then b XOR c XOR d
      else if j < 60 then (b AND c) OR (b AND d) OR (c AND d)
      else b XOR c XOR d)"

definition sha1K :: "nat \<Rightarrow> u32" where
  "sha1K j =
     (if j < 20 then 0x5A827999 else if j < 40 then 0x6ED9EBA1
      else if j < 60 then 0x8F1BBCDC else 0xCA62C1D6)"

type_synonym sha1_state = "u32 \<times> u32 \<times> u32 \<times> u32 \<times> u32"

fun sha1Round :: "u32 list \<Rightarrow> sha1_state \<Rightarrow> nat \<Rightarrow> sha1_state" where
  "sha1Round words (a, b, c, d, e) j =
     (lrot32 a 5 + sha1F j b c d + e + sha1K j + words ! j, a, lrot32 b 30, c, d)"

fun sha1Chunk :: "sha1_state \<Rightarrow> byte_string \<Rightarrow> sha1_state" where
  "sha1Chunk (h0, h1, h2, h3, h4) chunk =
     (case foldl (sha1Round (sha1Words chunk)) (h0, h1, h2, h3, h4) [0..<80] of
        (a, b, c, d, e) \<Rightarrow> (h0 + a, h1 + b, h2 + c, h3 + d, h4 + e))"

definition sha1Init :: sha1_state where
  "sha1Init = (0x67452301, 0xEFCDAB89, 0x98BADCFE, 0x10325476, 0xC3D2E1F0)"

fun sha1Digest :: "sha1_state \<Rightarrow> byte_string" where
  "sha1Digest (h0, h1, h2, h3, h4) =
     u32beToByteString h0 @ u32beToByteString h1 @ u32beToByteString h2 @ u32beToByteString h3
       @ u32beToByteString h4"

definition sha1 :: "byte_string \<Rightarrow> byte_string" where
  "sha1 msg =
     (let bstr = sha1Padded msg
      in sha1Digest (foldl (\<lambda>h i. sha1Chunk h (take 64 (drop (i * 64) bstr))) sha1Init
                       [0..<length bstr div 64]))"

definition hmacSha1 :: "byte_string \<Rightarrow> byte_string \<Rightarrow> nat \<Rightarrow> byte_string" where
  "hmacSha1 key msg blockSize =
     (let realKey = (if length key > blockSize then fst (swizzleByteStrings key (sha1 key)) else key);
          realKey = (if length realKey < blockSize
                     then realKey @ replicate (blockSize - length realKey) 0x00 else realKey);
          innerPadKey = map (\<lambda>b. b XOR 0x36) realKey;
          outerPadKey = map (\<lambda>b. b XOR 0x5c) realKey;
          innerHash = sha1 (innerPadKey @ msg)
      in sha1 (outerPadKey @ innerHash))"

subsection \<open>Reference definitions\<close>

text \<open>
  SHA-1 as FIPS 180 states it (padding in closed form, the schedule \<open>fipsW\<close> as the recurrence
  with the library's rotation, \<open>Ch\<close> and \<open>Maj\<close> with exclusive or, blocks consumed from the
  front), and HMAC of RFC 2104 over a hash \<open>H\<close> with block size \<open>B\<close>. \<open>sha1WordsRef\<close> is the
  unoptimised schedule as a list, an intermediate step.
\<close>

definition sha1WordsRef :: "byte_string \<Rightarrow> u32 list" where
  "sha1WordsRef chunk = foldl extendPlain (chunkWords chunk) [16..<80]"

definition fipsPad :: "byte_string \<Rightarrow> byte_string" where
  "fipsPad msg = msg @ 0x80 # replicate ((119 - length msg mod 64) mod 64) 0
     @ u64beToByteString (of_nat (8 * length msg))"

function fipsW :: "u32 list \<Rightarrow> nat \<Rightarrow> u32" where
  "fipsW M t = (if t < 16 then M ! t
     else word_rotl 1 (fipsW M (t - 3) XOR fipsW M (t - 8) XOR fipsW M (t - 14) XOR fipsW M (t - 16)))"
  by pat_completeness auto
termination by (relation "measure snd") auto
declare fipsW.simps [simp del]

definition fipsCh :: "u32 \<Rightarrow> u32 \<Rightarrow> u32 \<Rightarrow> u32" where
  "fipsCh x y z = (x AND y) XOR (NOT x AND z)"

definition fipsMaj :: "u32 \<Rightarrow> u32 \<Rightarrow> u32 \<Rightarrow> u32" where
  "fipsMaj x y z = (x AND y) XOR (x AND z) XOR (y AND z)"

definition fipsF :: "nat \<Rightarrow> u32 \<Rightarrow> u32 \<Rightarrow> u32 \<Rightarrow> u32" where
  "fipsF t = (if t < 20 then fipsCh else if 40 \<le> t \<and> t < 60 then fipsMaj
              else (\<lambda>x y z. x XOR y XOR z))"

fun fipsRounds :: "u32 list \<Rightarrow> nat \<Rightarrow> sha1_state \<Rightarrow> sha1_state" where
  "fipsRounds M 0 h = h"
| "fipsRounds M (Suc t) h =
     (case fipsRounds M t h of (a, b, c, d, e) \<Rightarrow>
        (word_rotl 5 a + fipsF t b c d + e + sha1K t + fipsW M t, a, word_rotl 30 b, c, d))"

fun fipsBlocks :: "sha1_state \<Rightarrow> byte_string list \<Rightarrow> sha1_state" where
  "fipsBlocks h [] = h"
| "fipsBlocks (h0, h1, h2, h3, h4) (B # Bs) =
     (case fipsRounds (chunkWords B) 80 (h0, h1, h2, h3, h4) of (a, b, c, d, e) \<Rightarrow>
        fipsBlocks (a + h0, b + h1, c + h2, d + h3, e + h4) Bs)"

fun blocks64 :: "byte_string \<Rightarrow> byte_string list" where
  "blocks64 bs = (if length bs < 64 then [] else take 64 bs # blocks64 (drop 64 bs))"
declare blocks64.simps [simp del]

definition sha1Ref :: "byte_string \<Rightarrow> byte_string" where
  "sha1Ref msg = sha1Digest (fipsBlocks sha1Init (blocks64 (fipsPad msg)))"

definition hmacKey :: "(byte_string \<Rightarrow> byte_string) \<Rightarrow> nat \<Rightarrow> byte_string \<Rightarrow> byte_string" where
  "hmacKey H B K =
     (let K1 = (if length K \<le> B then K else H K) in K1 @ replicate (B - length K1) 0)"

definition hmacRef ::
  "(byte_string \<Rightarrow> byte_string) \<Rightarrow> nat \<Rightarrow> byte_string \<Rightarrow> byte_string \<Rightarrow> byte_string" where
  "hmacRef H B K txt =
     H (map2 (XOR) (hmacKey H B K) (replicate B 0x5c)
        @ H (map2 (XOR) (hmacKey H B K) (replicate B 0x36) @ txt))"

subsection \<open>The padded message\<close>

lemma length_u32be [simp]: "length (u32beToByteString n) = 4"
  by (simp add: u32beToByteString_def)

lemma length_u64be [simp]: "length (u64beToByteString n) = 8"
  by (simp add: u64beToByteString_def)

lemma sha1Pad_mod: "length (sha1Pad b) mod 64 = 56"
  by (induction b rule: sha1Pad.induct) (subst sha1Pad.simps, simp)

lemma sha1Pad_prefix: "\<exists>n. sha1Pad b = b @ replicate n 0"
proof (induction b rule: sha1Pad.induct)
  case (1 b)
  show ?case
  proof (cases "length b mod 64 = 56")
    case True
    then show ?thesis by (simp add: sha1Pad.simps [of b])
  next
    case False
    with 1 obtain n where "sha1Pad (b @ [0]) = (b @ [0]) @ replicate n 0" by auto
    with False have "sha1Pad b = b @ replicate (Suc n) 0"
      by (simp add: sha1Pad.simps [of b])
    then show ?thesis by blast
  qed
qed

lemma length_sha1Padded: "length (sha1Padded msg) mod 64 = 0"
  using sha1Pad_mod [of "msg @ [0x80]"] by (simp add: sha1Padded_def mod_Suc) presburger

lemma length_sha1 [simp]: "length (sha1 msg) = 20"
  by (cases "foldl (\<lambda>h i. sha1Chunk h (take 64 (drop (i * 64) (sha1Padded msg)))) sha1Init
       [0..<length (sha1Padded msg) div 64]") (simp add: sha1_def Let_def)

subsection \<open>The message schedule\<close>

lemma bit_lrot32:
  assumes "0 < k" "k < 32"
  shows "bit (lrot32 x k) n \<longleftrightarrow> n < 32 \<and> (if n < k then bit x (32 - k + n) else bit x (n - k))"
proof -
  have "\<not> bit x (32 - k + n)" if "k \<le> n"
    using that assms bit_imp_le_length [of x "32 - k + n"] by auto
  then show ?thesis
    using assms by (auto simp: lrot32_def bit_simps add.commute)
qed

lemma lrot32_xor: "0 < n \<Longrightarrow> n < 32 \<Longrightarrow> lrot32 (x XOR y) n = lrot32 x n XOR lrot32 y n"
  by (rule bit_word_eqI) (simp add: bit_lrot32 bit_simps)

lemma lrot32_lrot32: "lrot32 (lrot32 x 1) 1 = lrot32 x 2"
proof (rule bit_word_eqI)
  fix n
  assume "n < LENGTH(32)"
  then consider "n = 0" | "n = 1" | "2 \<le> n" "n < 32" by fastforce
  then show "bit (lrot32 (lrot32 x 1) 1) n = bit (lrot32 x 2) n"
    by cases (auto simp: bit_lrot32 numeral_2_eq_2)
qed

lemma length_chunkWords: "length (chunkWords chunk) = 16"
  by (simp add: chunkWords_def)

lemma length_foldl_extendPlain:
  "length ws = m \<Longrightarrow> m \<le> n \<Longrightarrow> length (foldl extendPlain ws [m..<n]) = n"
proof (induction n)
  case (Suc n)
  then show ?case by (cases "m = Suc n") (simp_all add: extendPlain_def)
qed simp

text \<open>Entry \<open>i\<close> of the plain schedule satisfies the recurrence, at every later length too.\<close>

lemma foldl_extendPlain_nth:
  assumes "length ws = 16" "16 \<le> i" "i < n"
  shows "let w = foldl extendPlain ws [16..<n]
         in w ! i = lrot32 (w ! (i - 3) XOR w ! (i - 8) XOR w ! (i - 14) XOR w ! (i - 16)) 1"
  using assms(3)
proof (induction n)
  case (Suc n)
  define w where "w = foldl extendPlain ws [16..<n]"
  have n: "16 \<le> n" using Suc.prems assms(2) by simp
  have len: "length w = n" using n assms(1) by (simp add: w_def length_foldl_extendPlain)
  have step: "foldl extendPlain ws [16..<Suc n] = extendPlain w n" using n by (simp add: w_def)
  show ?case
  proof (cases "i < n")
    case True
    then have "w ! i = lrot32 (w ! (i - 3) XOR w ! (i - 8) XOR w ! (i - 14) XOR w ! (i - 16)) 1"
      using Suc.IH by (simp add: w_def Let_def)
    moreover have "i - 3 < n" "i - 8 < n" "i - 14 < n" "i - 16 < n" using True by auto
    ultimately show ?thesis using len True assms(2)
      unfolding step by (simp add: extendPlain_def nth_append Let_def)
  next
    case False
    with Suc.prems have "i = n" by simp
    with len assms(2) show ?thesis
      unfolding step by (simp add: extendPlain_def nth_append Let_def)
  qed
qed simp

lemma extendSimd_eq_extendPlain:
  assumes "length ws = 16" "32 \<le> n"
  shows "extendSimd (foldl extendPlain ws [16..<n]) n = extendPlain (foldl extendPlain ws [16..<n]) n"
proof -
  define w where "w = foldl extendPlain ws [16..<n]"
  have rec: "w ! i = lrot32 (w ! (i - 3) XOR w ! (i - 8) XOR w ! (i - 14) XOR w ! (i - 16)) 1"
    if "16 \<le> i" "i < n" for i
    using foldl_extendPlain_nth [OF assms(1) that] by (simp add: w_def Let_def)
  have e: "n - 3 - 3 = n - 6" "n - 3 - 8 = n - 11" "n - 3 - 14 = n - 17" "n - 3 - 16 = n - 19"
    "n - 8 - 3 = n - 11" "n - 8 - 8 = n - 16" "n - 8 - 14 = n - 22" "n - 8 - 16 = n - 24"
    "n - 14 - 3 = n - 17" "n - 14 - 8 = n - 22" "n - 14 - 14 = n - 28" "n - 14 - 16 = n - 30"
    "n - 16 - 3 = n - 19" "n - 16 - 8 = n - 24" "n - 16 - 14 = n - 30" "n - 16 - 16 = n - 32"
    by simp_all
  have "w ! (n - 3) XOR w ! (n - 8) XOR w ! (n - 14) XOR w ! (n - 16)
      = lrot32 (w ! (n - 6) XOR w ! (n - 16) XOR w ! (n - 28) XOR w ! (n - 32)) 1"
    using rec [of "n - 3"] rec [of "n - 8"] rec [of "n - 14"] rec [of "n - 16"] assms(2)
    by (simp only: e) (simp add: lrot32_xor [symmetric] xor.assoc xor.left_commute xor.commute)
  then show ?thesis
    by (simp add: extendSimd_def extendPlain_def w_def [symmetric] lrot32_lrot32 [symmetric])
qed

lemma sha1Words_eq_sha1WordsRef: "sha1Words chunk = sha1WordsRef chunk"
proof -
  let ?ws = "chunkWords chunk"
  have "foldl extendSimd (foldl extendPlain ?ws [16..<32]) [32..<n] = foldl extendPlain ?ws [16..<n]"
    if "32 \<le> n" for n
    using that
  proof (induction n rule: dec_induct)
    case (step n)
    then show ?case
      using extendSimd_eq_extendPlain [OF length_chunkWords, of n] by simp
  qed simp
  from this [of 80] show ?thesis by (simp add: sha1Words_def sha1WordsRef_def)
qed

subsection \<open>Equivalence with the reference\<close>

lemma lrot32_rotl: "0 < n \<Longrightarrow> n < 32 \<Longrightarrow> lrot32 x n = word_rotl n x"
proof (rule bit_word_eqI)
  fix m assume n: "0 < n" "n < 32" and "m < LENGTH(32)"
  then have m: "m < 32" by simp
  show "bit (lrot32 x n) m = bit (word_rotl n x) m"
  proof (cases "m < n")
    case True
    then have "m + (32 - n) < 32" using n by simp
    then have "(m + (32 - n)) mod 32 = 32 - n + m" by simp
    with True n m show ?thesis unfolding bit_lrot32 [OF n] bit_word_rotl_iff by simp
  next
    case False
    then have "m + (32 - n) = (m - n) + 32" using n by simp
    moreover have "m - n < 32" using m by simp
    ultimately have "(m + (32 - n)) mod 32 = m - n" by simp
    with False n m show ?thesis unfolding bit_lrot32 [OF n] bit_word_rotl_iff by simp
  qed
qed

lemma pad_count_step:
  assumes "m < (64::nat)" "m \<noteq> 56"
  shows "(120 - m) mod 64 = Suc ((120 - Suc m mod 64) mod 64)"
proof -
  consider "m < 56" | "56 < m" "m < 63" | "m = 63" using assms by linarith
  then show ?thesis
  proof cases
    case 1
    then have "(120 - m) mod 64 = 56 - m" "(120 - Suc m mod 64) mod 64 = 55 - m"
      by (simp_all add: mod_if)
    with 1 show ?thesis by simp
  qed simp_all
qed

lemma sha1Pad_eq: "sha1Pad b = b @ replicate ((120 - length b mod 64) mod 64) 0"
proof (induction b rule: sha1Pad.induct)
  case (1 b)
  show ?case
  proof (cases "length b mod 64 = 56")
    case True
    then show ?thesis by (simp add: sha1Pad.simps [of b])
  next
    case False
    have "(120 - length b mod 64) mod 64 = Suc ((120 - Suc (length b) mod 64) mod 64)"
      using False pad_count_step [of "length b mod 64"]
      by (simp add: mod_Suc_eq)
    with 1 False show ?thesis by (simp add: sha1Pad.simps [of b])
  qed
qed

lemma sha1Padded_fipsPad: "sha1Padded msg = fipsPad msg"
proof -
  have "length msg mod 64 < 64" by simp
  then have "(120 - Suc (length msg) mod 64) mod 64 = (119 - length msg mod 64) mod 64"
    unfolding mod_Suc_eq [of "length msg" 64, symmetric]
    by (cases "length msg mod 64 = 63") auto
  then show ?thesis by (simp add: sha1Padded_def fipsPad_def sha1Pad_eq mult.commute)
qed

lemma sha1F_fipsF: "t < 80 \<Longrightarrow> sha1F t = fipsF t"
proof (intro ext)
  fix b c d assume "t < 80"
  have "(b AND c) OR (NOT b AND d) = fipsCh b c d"
    by (rule bit_word_eqI) (auto simp: fipsCh_def bit_simps)
  moreover have "(b AND c) OR (b AND d) OR (c AND d) = fipsMaj b c d"
    by (rule bit_word_eqI) (auto simp: fipsMaj_def bit_simps)
  ultimately show "sha1F t b c d = fipsF t b c d"
    by (simp add: sha1F_def fipsF_def)
qed

lemma nth_extendPlain: "i < length w \<Longrightarrow> extendPlain w n ! i = w ! i"
  by (simp add: extendPlain_def nth_append)

lemma foldl_extendPlain_prefix:
  "length ws = 16 \<Longrightarrow> i < 16 \<Longrightarrow> 16 \<le> n \<Longrightarrow> foldl extendPlain ws [16..<n] ! i = ws ! i"
proof (induction n)
  case (Suc n)
  then show ?case
    using length_foldl_extendPlain [of ws 16 n]
    by (cases "16 \<le> n") (simp_all add: nth_extendPlain not_le)
qed simp

lemma sha1Words_fipsW: "t < 80 \<Longrightarrow> sha1Words chunk ! t = fipsW (chunkWords chunk) t"
proof (induction t rule: less_induct)
  case (less t)
  show ?case
  proof (cases "t < 16")
    case True
    then show ?thesis
      using foldl_extendPlain_prefix [OF length_chunkWords [of chunk], of t 80]
      by (simp add: sha1Words_eq_sha1WordsRef sha1WordsRef_def fipsW.simps)
  next
    case False
    then have "sha1Words chunk ! t = lrot32 (sha1Words chunk ! (t - 3) XOR sha1Words chunk ! (t - 8)
        XOR sha1Words chunk ! (t - 14) XOR sha1Words chunk ! (t - 16)) 1"
      using foldl_extendPlain_nth [OF length_chunkWords [of chunk], of t 80] less.prems
      by (simp add: sha1Words_eq_sha1WordsRef sha1WordsRef_def Let_def)
    with False less show ?thesis by (subst fipsW.simps) (simp add: lrot32_rotl)
  qed
qed

lemma sha1Rounds_fips:
  "t \<le> 80 \<Longrightarrow> foldl (sha1Round (sha1Words chunk)) h [0..<t] = fipsRounds (chunkWords chunk) t h"
proof (induction t)
  case (Suc t)
  obtain a b c d e where "fipsRounds (chunkWords chunk) t h = (a, b, c, d, e)" by (metis prod_cases5)
  with Suc show ?case by (simp add: sha1Words_fipsW sha1F_fipsF lrot32_rotl)
qed simp

lemma sha1Chunk_fips: "sha1Chunk h chunk = fipsBlocks h [chunk]"
proof -
  obtain h0 h1 h2 h3 h4 where h: "h = (h0, h1, h2, h3, h4)" by (metis prod_cases5)
  show ?thesis unfolding h by (simp add: sha1Rounds_fips add.commute split: prod.splits)
qed

lemma fipsBlocks_append: "fipsBlocks h (Bs @ Cs) = fipsBlocks (fipsBlocks h Bs) Cs"
  by (induction h Bs rule: fipsBlocks.induct) (auto split: prod.splits)

lemma blocks64_eq: "blocks64 bs = map (\<lambda>i. take 64 (drop (i * 64) bs)) [0..<length bs div 64]"
proof (induction bs rule: blocks64.induct)
  case (1 bs)
  show ?case
  proof (cases "length bs < 64")
    case True
    then show ?thesis by (simp add: blocks64.simps [of bs])
  next
    case False
    then obtain n where n: "length bs div 64 = Suc n" by (cases "length bs div 64") auto
    with False have "(length bs - 64) div 64 = n" using le_div_geq [of 64 "length bs"] by simp
    then show ?thesis
      using 1 False n
      by (simp add: blocks64.simps [of bs] upt_conv_Cons map_Suc_upt [symmetric] comp_def
          add.commute del: upt_Suc)
  qed
qed

lemma foldl_sha1Chunk_fips: "foldl (\<lambda>h i. sha1Chunk h (f i)) h xs = fipsBlocks h (map f xs)"
proof (induction xs arbitrary: h)
  case (Cons x xs)
  then show ?case using fipsBlocks_append [of h "[f x]" "map f xs"] by (simp add: sha1Chunk_fips)
qed simp

lemma sha1_eq_sha1Ref: "sha1 = sha1Ref"
proof (rule ext)
  show "sha1 msg = sha1Ref msg" for msg
    unfolding sha1_def sha1Ref_def Let_def foldl_sha1Chunk_fips blocks64_eq sha1Padded_fipsPad ..
qed

text \<open>
  C14. The SHA-1 of the library, with its padding loop and its vectorisable message schedule,
  returns for every message the digest that FIPS 180 defines, and it has twenty bytes.
\<close>

theorem sha1_fips180: "sha1 msg = sha1Ref msg \<and> length (sha1 msg) = 20"
  by (simp flip: sha1_eq_sha1Ref)

subsection \<open>HMAC over a hash function\<close>

text \<open>The laws HMAC needs of its hash: a fixed digest length below the block size.\<close>

locale block_hash =
  fixes H :: "byte_string \<Rightarrow> byte_string" and B L :: nat
  assumes digest_length: "length (H x) = L"
    and digest_fits: "L \<le> B"
begin

lemma length_hmacKey: "length (hmacKey H B K) = B"
  using digest_length digest_fits by (simp add: hmacKey_def Let_def)

lemma length_hmacRef: "length (hmacRef H B K txt) = L"
  by (simp add: hmacRef_def digest_length)

lemma xor_replicate: "map2 (XOR) (hmacKey H B K) (replicate B c) = map (\<lambda>b. b XOR c) (hmacKey H B K)"
proof -
  have "map2 (XOR) ks (replicate (length ks) c) = map (\<lambda>b. b XOR c) ks" for ks :: byte_string
    by (induction ks) simp_all
  from this [of "hmacKey H B K"] show ?thesis by (simp add: length_hmacKey)
qed

end

interpretation sha1_hash: block_hash sha1 64 20
  by unfold_locales simp_all

lemma hmacSha1_key:
  "(let realKey = (if length key > 64 then fst (swizzleByteStrings key (sha1 key)) else key)
    in if length realKey < 64 then realKey @ replicate (64 - length realKey) 0x00 else realKey)
   = hmacKey sha1 64 key"
  by (auto simp: hmacKey_def Let_def swizzleByteStrings_def)

lemma hmacSha1_eq_hmacRef: "hmacSha1 key msg 64 = hmacRef sha1 64 key msg"
  unfolding hmacRef_def sha1_hash.xor_replicate
  unfolding hmacSha1_key [symmetric] hmacSha1_def Let_def ..

lemma length_hmacSha1 [simp]: "length (hmacSha1 key msg bs) = 20"
  by (simp add: hmacSha1_def Let_def)

text \<open>
  \<^verbatim>\<open>hmacSha1\<close> with the block size of SHA-1 is HMAC of RFC 2104 over the FIPS digest, for
  keys below, at and above the block size.
\<close>

theorem hmacSha1_rfc2104: "hmacSha1 key msg 64 = hmacRef sha1Ref 64 key msg"
  using hmacSha1_eq_hmacRef [of key msg] by (simp only: sha1_eq_sha1Ref)

end
