(* ===== verification/Totp_Otp.thy ===== *)
theory Totp_Otp
  imports Totp_Sha1
begin

text \<open>
  One-time passwords of \<^verbatim>\<open>src/seclibs/cpptotp/otp.cpp\<close>. Reads outside a byte string, the
  \<^verbatim>\<open>std::out_of_range\<close> of \<^verbatim>\<open>substr\<close> and divisions by zero are \<open>None\<close>.
\<close>

type_synonym hmac_func = "byte_string \<Rightarrow> byte_string \<Rightarrow> byte_string"

definition hmacSha1_64 :: hmac_func where
  "hmacSha1_64 key msg = hmacSha1 key msg 64"

text \<open>\<^verbatim>\<open>basic_string::operator[]\<close>: the position one past the end reads as zero.\<close>

definition bsAt :: "byte_string \<Rightarrow> nat \<Rightarrow> u8 option" where
  "bsAt s i = (if i < length s then Some (s ! i) else if i = length s then Some 0 else None)"

definition bsSubstr :: "byte_string \<Rightarrow> nat \<Rightarrow> nat \<Rightarrow> byte_string option" where
  "bsSubstr s pos n = (if pos > length s then None else Some (take n (drop pos s)))"

definition digits10 :: "nat \<Rightarrow> u32" where
  "digits10 digitCount = foldl (\<lambda>d i. d * 10) 1 [0..<digitCount]"

definition hotp :: "byte_string \<Rightarrow> u64 \<Rightarrow> nat \<Rightarrow> hmac_func \<Rightarrow> u32 option" where
  "hotp key counter digitCount hmacf =
     (let msg = u64beToByteString counter;
          hmac = hmacf key msg
      in if hmac = [] then None
         else
           (let offset = (hmac ! (length hmac - 1)) AND 0x0F
            in case bsSubstr hmac (unat offset) 4 of
                 None \<Rightarrow> None
               | Some fourWord \<Rightarrow>
                   (case (bsAt fourWord 0, bsAt fourWord 1, bsAt fourWord 2, bsAt fourWord 3) of
                      (Some b0, Some b1, Some b2, Some b3) \<Rightarrow>
                        (let ret = push_bit 24 (ucast b0) OR push_bit 16 (ucast b1)
                                     OR push_bit 8 (ucast b2) OR push_bit 0 (ucast b3)
                         in if digits10 digitCount = 0 then None
                            else Some ((ret AND 0x7fffffff) mod digits10 digitCount))
                    | _ \<Rightarrow> None)))"

definition totp ::
  "byte_string \<Rightarrow> u64 \<Rightarrow> u64 \<Rightarrow> u64 \<Rightarrow> nat \<Rightarrow> hmac_func \<Rightarrow> u32 option" where
  "totp key timeNow timeStart timeStep digitCount hmacf =
     (if timeStep = 0 then None
      else hotp key ((timeNow - timeStart) div timeStep) digitCount hmacf)"

subsection \<open>Dynamic truncation of RFC 4226, on natural numbers\<close>

definition be4 :: "byte_string \<Rightarrow> nat \<Rightarrow> nat" where
  "be4 h off = unat (h ! off) * 2 ^ 24 + unat (h ! (off + 1)) * 2 ^ 16
     + unat (h ! (off + 2)) * 2 ^ 8 + unat (h ! (off + 3))"

definition truncateRef :: "byte_string \<Rightarrow> nat \<Rightarrow> nat" where
  "truncateRef h d = be4 h (unat (last h) mod 16) mod 2 ^ 31 mod 10 ^ d"

subsection \<open>Bounds and truncation\<close>

lemma unat_digits10: "d \<le> 9 \<Longrightarrow> unat (digits10 d) = 10 ^ d"
proof (induction d)
  case (Suc d)
  then have d: "unat (digits10 d) = 10 ^ d" by simp
  have "(10::nat) ^ Suc d \<le> 10 ^ 9" using Suc.prems by (intro power_increasing) simp_all
  then have "10 * 10 ^ d < (2::nat) ^ 32" by simp
  then show ?case
    using d by (simp add: digits10_def unat_word_ariths)
qed (simp add: digits10_def)

lemma push_bit_or_nat:
  assumes "y < (2::nat) ^ n"
  shows "push_bit n x OR y = x * 2 ^ n + y"
proof -
  have "push_bit n x AND y = 0"
  proof (rule bit_eqI)
    fix m
    have "\<not> bit y m" if "n \<le> m"
    proof -
      have "y < 2 ^ m" using assms that by (meson less_le_trans one_le_numeral power_increasing)
      then show ?thesis by (simp add: bit_iff_odd)
    qed
    then show "bit (push_bit n x AND y) m = bit (0::nat) m" by (auto simp: bit_simps)
  qed
  then show ?thesis by (simp flip: disjunctive_add_eq_or add: push_bit_eq_mult)
qed

lemma unat_push_ucast8:
  "n \<le> 24 \<Longrightarrow> unat (push_bit n (ucast (b::u8)) :: u32) = push_bit n (unat b)"
proof -
  assume n: "n \<le> 24"
  have b: "unat b < 2 ^ 8" using unsigned_less [of b] by simp
  have "unat b * 2 ^ n < 2 ^ 8 * 2 ^ n" using b by (intro mult_strict_right_mono) simp_all
  also have "\<dots> \<le> (2::nat) ^ (8 + 24)"
    unfolding power_add [symmetric] using n by (intro power_increasing) simp_all
  finally have "push_bit n (unat b) < 2 ^ 32" by (simp add: push_bit_eq_mult)
  with b show ?thesis
    by (simp add: unsigned_push_bit_eq unsigned_ucast_eq take_bit_nat_eq_self)
qed

lemma unat_be4_word:
  fixes a b c d :: u8
  shows "unat (push_bit 24 (ucast a) OR push_bit 16 (ucast b) OR push_bit 8 (ucast c)
      OR push_bit 0 (ucast d) :: u32)
    = unat a * 2 ^ 24 + unat b * 2 ^ 16 + unat c * 2 ^ 8 + unat d"
proof -
  have lt: "unat a < 2 ^ 8" "unat b < 2 ^ 8" "unat c < 2 ^ 8" "unat d < 2 ^ 8"
    using unsigned_less [of a] unsigned_less [of b] unsigned_less [of c] unsigned_less [of d]
    by simp_all
  have cd: "push_bit 8 (unat c) OR unat d = unat c * 2 ^ 8 + unat d"
    using lt by (intro push_bit_or_nat) simp
  have bcd: "push_bit 16 (unat b) OR (unat c * 2 ^ 8 + unat d)
      = unat b * 2 ^ 16 + (unat c * 2 ^ 8 + unat d)"
    using lt by (intro push_bit_or_nat) simp
  have abcd: "push_bit 24 (unat a) OR (unat b * 2 ^ 16 + (unat c * 2 ^ 8 + unat d))
      = unat a * 2 ^ 24 + (unat b * 2 ^ 16 + (unat c * 2 ^ 8 + unat d))"
    using lt by (intro push_bit_or_nat) simp
  have d: "unat (push_bit 0 (ucast d) :: u32) = unat d"
    using unat_push_ucast8 [of 0 d] by simp
  show ?thesis
    unfolding unsigned_or_eq unat_push_ucast8 [of 24, simplified] unat_push_ucast8 [of 16, simplified]
      unat_push_ucast8 [of 8, simplified] d cd bcd abcd by simp
qed

text \<open>An HMAC of at least twenty bytes is never read out of range.\<close>

lemma hotp_truncates:
  assumes len: "length h = 20" and h: "hmacf key (u64beToByteString counter) = h" and d: "d \<le> 9"
  shows "\<exists>r. hotp key counter d hmacf = Some r \<and> unat r = truncateRef h d"
proof -
  define off where "off = unat (last h AND 0x0F)"
  have last: "h ! (length h - 1) = last h" using len by (subst last_conv_nth) auto
  have "last h AND 0x0F < (16::u8)" by (rule nibble_lt16)
  then have off: "off \<le> 15" by (simp add: off_def word_less_nat_alt)
  have "last h AND 0x0F = take_bit 4 (last h)" by (simp add: take_bit_eq_mask mask_eq_exp_minus_1)
  then have off_mod: "off = unat (last h) mod 16"
    using unat_mod [of "last h" 16] by (simp add: off_def take_bit_eq_mod)
  have sub: "bsSubstr h off 4 = Some (take 4 (drop off h))"
    using off len by (simp add: bsSubstr_def)
  have at: "bsAt (take 4 (drop off h)) i = Some (h ! (off + i))" if "i < 4" for i
    using that off len by (simp add: bsAt_def)
  have nz: "unat (digits10 d) = 10 ^ d" using d by (rule unat_digits10)
  then have nz': "digits10 d \<noteq> 0" by (metis power_not_zero unsigned_0 zero_neq_numeral)
  have "(x AND 0x7fffffff) = take_bit 31 x" for x :: u32
    by (simp add: take_bit_eq_mask mask_eq_exp_minus_1)
  then have "hotp key counter d hmacf = Some (take_bit 31 (push_bit 24 (ucast (h ! off))
      OR push_bit 16 (ucast (h ! (off + 1))) OR push_bit 8 (ucast (h ! (off + 2)))
      OR push_bit 0 (ucast (h ! (off + 3)))) mod digits10 d)"
    using len h at [of 0] at [of 1] at [of 2] at [of 3] sub nz' last
    by (auto simp: hotp_def Let_def off_def [symmetric])
  moreover have "unat (take_bit 31 (push_bit 24 (ucast (h ! off))
      OR push_bit 16 (ucast (h ! (off + 1))) OR push_bit 8 (ucast (h ! (off + 2)))
      OR push_bit 0 (ucast (h ! (off + 3)))) mod digits10 d) = truncateRef h d"
    unfolding unat_mod unsigned_take_bit_eq unat_be4_word nz
    by (simp add: truncateRef_def be4_def off_mod take_bit_eq_mod)
  ultimately show ?thesis by blast
qed

text \<open>
  C13. A one-time password of up to nine digits is always produced with the library's HMAC, no
  byte is read out of range, and its value is the dynamic truncation of RFC 4226 applied to the
  RFC 2104 HMAC of the big-endian counter; in particular it has at most the requested digits.
\<close>

theorem hotp_rfc4226:
  assumes "digitCount \<le> 9"
  shows "\<exists>r. hotp key counter digitCount hmacSha1_64 = Some r
    \<and> unat r = truncateRef (hmacRef sha1Ref 64 key (u64beToByteString counter)) digitCount
    \<and> unat r < 10 ^ digitCount"
proof -
  let ?h = "hmacRef sha1Ref 64 key (u64beToByteString counter)"
  have "length ?h = 20" unfolding sha1_eq_sha1Ref [symmetric] by (rule sha1_hash.length_hmacRef)
  moreover have "hmacSha1_64 key (u64beToByteString counter) = ?h"
    by (simp add: hmacSha1_64_def hmacSha1_eq_hmacRef sha1_eq_sha1Ref)
  ultimately obtain r where "hotp key counter digitCount hmacSha1_64 = Some r"
      "unat r = truncateRef ?h digitCount"
    using hotp_truncates assms by blast
  then show ?thesis by (auto simp: truncateRef_def)
qed

theorem hotp_rfc4226_witness:
  "\<exists>r. hotp [0x31, 0x32] 7 6 hmacSha1_64 = Some r
    \<and> unat r = truncateRef (hmacRef sha1Ref 64 [0x31, 0x32] (u64beToByteString 7)) 6
    \<and> unat r < 10 ^ 6"
  by (rule hotp_rfc4226) simp

text \<open>
  The time-based password depends on the clock only through the number of whole steps since
  \<^verbatim>\<open>timeStart\<close>: it is the same at every instant of a step, also across the wrap-around of the
  64-bit subtraction.
\<close>

theorem totp_constant_in_step:
  assumes "timeStep \<noteq> 0" and "unat (timeNow - timeStart) div unat timeStep = k"
    and "unat (timeNow' - timeStart) div unat timeStep = k"
  shows "totp key timeNow timeStart timeStep digitCount hmacf
      = totp key timeNow' timeStart timeStep digitCount hmacf
    \<and> totp key timeNow timeStart timeStep digitCount hmacf
      = hotp key (word_of_nat k) digitCount hmacf"
proof -
  have "(timeNow - timeStart) div timeStep = word_of_nat k"
       "(timeNow' - timeStart) div timeStep = word_of_nat k"
    using assms(2,3) by (simp_all add: word_arith_nat_div)
  then show ?thesis using assms(1) by (simp add: totp_def)
qed

theorem totp_constant_in_step_witness:
  "totp [0x31] 59 0 30 6 hmacSha1_64 = totp [0x31] 30 0 30 6 hmacSha1_64
    \<and> totp [0x31] 59 0 30 6 hmacSha1_64 = hotp [0x31] (word_of_nat 1) 6 hmacSha1_64"
  by (rule totp_constant_in_step) simp_all

end
