(* ===== verification/Rest_Json.thy ===== *)
theory Rest_Json
  imports Owsec_Prelude
begin

text \<open>
  JSON documents and the field helpers of \<^verbatim>\<open>src/framework/RESTAPI_utils.h\<close>
  (\<^verbatim>\<open>field_to_json\<close>, \<^verbatim>\<open>field_from_json\<close>, \<^verbatim>\<open>to_string\<close>, \<^verbatim>\<open>to_object\<close>, \<^verbatim>\<open>to_object_array\<close>,
  \<^verbatim>\<open>to_stringpair_array\<close>). Reading a field may throw; a reader returns the updated structure and
  whether it ran to its end, so an exception leaves the assignments made before it.
\<close>

datatype json =
    JNull
  | JBool bool
  | JNum int
  | JReal string
  | JStr string
  | JArr "json list"
  | JObj "(string \<times> json) list"

type_synonym jobj = "(string \<times> json) list"

text \<open>
  What the sources use of the Poco library, as parameters: conversions of a dynamic value
  (\<open>None\<close> when it throws), JSON parsing and condensing, and the string helpers.
\<close>

record poco =
  var_toString :: "json \<Rightarrow> string option"
  var_toU64 :: "json \<Rightarrow> u64 option"
  json_parse :: "string \<Rightarrow> json option"
  json_condense :: "json \<Rightarrow> string"
  str_toLower :: "string \<Rightarrow> string"
  str_trim :: "string \<Rightarrow> string"
  str_icompare :: "string \<Rightarrow> string \<Rightarrow> bool"
  str_tokens :: "char \<Rightarrow> string \<Rightarrow> string list"

text \<open>ASCII lower case, used to state what \<^verbatim>\<open>Poco::icompare\<close> and \<^verbatim>\<open>Poco::toLower\<close> document.\<close>

definition ascii_lower :: "char \<Rightarrow> char" where
  "ascii_lower c = (if 65 \<le> (of_char c :: nat) \<and> of_char c \<le> (90 :: nat)
     then char_of (of_char c + 32 :: nat) else c)"

text \<open>
  The documented behaviour the theorems rely on: text of strings, booleans and integers, the
  64-bit conversion of integers in range, parsing what was condensed, comparison and lower case on
  ASCII letters, and splitting at the one separator of a text.
\<close>

definition poco_ok :: "poco \<Rightarrow> bool" where
  "poco_ok P \<longleftrightarrow>
     (\<forall>s. var_toString P (JStr s) = Some s) \<and>
     (\<forall>b. var_toString P (JBool b) = Some (if b then ''true'' else ''false'')) \<and>
     (\<forall>n :: u64. var_toU64 P (JNum (uint n)) = Some n) \<and>
     (\<forall>j. json_parse P (json_condense P j) = Some j) \<and>
     (\<forall>j. json_condense P j \<noteq> []) \<and>
     json_parse P ''[]'' = Some (JArr []) \<and>
     (\<forall>s t. str_icompare P s t \<longleftrightarrow> map ascii_lower s = map ascii_lower t) \<and>
     (\<forall>s. str_toLower P s = map ascii_lower s) \<and>
     (\<forall>c a b. a \<noteq> [] \<longrightarrow> b \<noteq> [] \<longrightarrow> c \<notin> set a \<longrightarrow> c \<notin> set b \<longrightarrow>
        str_tokens P c (a @ c # b) = [a, b])"

subsection \<open>Writing objects\<close>

text \<open>\<^verbatim>\<open>Poco::JSON::Object::set\<close>: replaces the value of a key or adds it.\<close>

fun obj_set :: "string \<Rightarrow> json \<Rightarrow> jobj \<Rightarrow> jobj" where
  "obj_set k v [] = [(k, v)]"
| "obj_set k v ((k', v') # obj) = (if k = k' then (k, v) # obj else (k', v') # obj_set k v obj)"

definition obj_sets :: "(string \<times> json) list \<Rightarrow> jobj" where
  "obj_sets kvs = foldl (\<lambda>obj (k, v). obj_set k v obj) [] kvs"

definition jU64 :: "u64 \<Rightarrow> json" where
  "jU64 n = JNum (uint n)"

definition jStrings :: "string list \<Rightarrow> json" where
  "jStrings V = JArr (map JStr V)"

definition jPairs :: "(string \<times> string) list \<Rightarrow> json" where
  "jPairs S = JArr (map (\<lambda>i. JObj (obj_sets [(''tag'', JStr (fst i)), (''value'', JStr (snd i))])) S)"

definition jVec :: "('a \<Rightarrow> jobj) \<Rightarrow> 'a list \<Rightarrow> json" where
  "jVec to_json Value = JArr (map (\<lambda>i. JObj (to_json i)) Value)"

subsection \<open>Reading fields\<close>

type_synonym 'r reader = "'r \<Rightarrow> 'r \<times> bool"

text \<open>A sequence of readers under one \<^verbatim>\<open>try\<close>: the first exception ends it.\<close>

fun read_fields :: "'r reader list \<Rightarrow> 'r reader" where
  "read_fields [] r = (r, True)"
| "read_fields (p # ps) r = (case p r of (r', ok) \<Rightarrow> if ok then read_fields ps r' else (r', False))"

text \<open>\<^verbatim>\<open>Obj->has(Field) && !Obj->isNull(Field)\<close>, then an assignment that may throw.\<close>

definition fj_value ::
  "(json \<Rightarrow> 'v option) \<Rightarrow> jobj \<Rightarrow> string \<Rightarrow> (('v \<Rightarrow> 'v) \<Rightarrow> 'r \<Rightarrow> 'r) \<Rightarrow> 'r reader" where
  "fj_value conv Obj fld upd r =
     (case map_of Obj fld of
        None \<Rightarrow> (r, True)
      | Some v \<Rightarrow> if v = JNull then (r, True)
          else (case conv v of None \<Rightarrow> (r, False) | Some x \<Rightarrow> (upd (\<lambda>_. x) r, True)))"

definition fj_string :: "poco \<Rightarrow> jobj \<Rightarrow> string \<Rightarrow> ((string \<Rightarrow> string) \<Rightarrow> 'r \<Rightarrow> 'r) \<Rightarrow> 'r reader" where
  "fj_string P = fj_value (var_toString P)"

definition fj_enum ::
  "poco \<Rightarrow> (string \<Rightarrow> 'e) \<Rightarrow> jobj \<Rightarrow> string \<Rightarrow> (('e \<Rightarrow> 'e) \<Rightarrow> 'r \<Rightarrow> 'r) \<Rightarrow> 'r reader" where
  "fj_enum P F = fj_value (\<lambda>v. map_option F (var_toString P v))"

definition fj_bool :: "poco \<Rightarrow> jobj \<Rightarrow> string \<Rightarrow> ((bool \<Rightarrow> bool) \<Rightarrow> 'r \<Rightarrow> 'r) \<Rightarrow> 'r reader" where
  "fj_bool P = fj_value (\<lambda>v. map_option (\<lambda>s. s = ''true'') (var_toString P v))"

definition fj_u64 :: "poco \<Rightarrow> jobj \<Rightarrow> string \<Rightarrow> ((u64 \<Rightarrow> u64) \<Rightarrow> 'r \<Rightarrow> 'r) \<Rightarrow> 'r reader" where
  "fj_u64 P = fj_value (var_toU64 P)"

text \<open>The optional inner fields of a tag/value pair; a null one has no text, so it throws.\<close>

definition inner_string :: "poco \<Rightarrow> jobj \<Rightarrow> string \<Rightarrow> string option" where
  "inner_string P Inner fld =
     (case map_of Inner fld of None \<Rightarrow> Some [] | Some v \<Rightarrow> if v = JNull then None else var_toString P v)"

fun pairs_loop :: "poco \<Rightarrow> json list \<Rightarrow> (string \<times> string) list reader" where
  "pairs_loop P [] Vec = (Vec, True)"
| "pairs_loop P (JObj Inner # Arr) Vec =
     (case (inner_string P Inner ''tag'', inner_string P Inner ''value'') of
        (Some S1, Some S2) \<Rightarrow> pairs_loop P Arr (Vec @ [(S1, S2)])
      | _ \<Rightarrow> (Vec, False))"
| "pairs_loop P (_ # Arr) Vec = (Vec, False)"

fun strings_loop :: "poco \<Rightarrow> json list \<Rightarrow> string list reader" where
  "strings_loop P [] Value = (Value, True)"
| "strings_loop P (i # A) Value =
     (case (if i = JNull then None else var_toString P i) of
        Some s \<Rightarrow> strings_loop P A (Value @ [s])
      | None \<Rightarrow> (Value, False))"

fun vec_loop :: "(jobj \<Rightarrow> 'a reader) \<Rightarrow> 'a \<Rightarrow> json list \<Rightarrow> 'a list reader" where
  "vec_loop from_json NewItem [] Value = (Value, True)"
| "vec_loop from_json NewItem (JObj InnerObj # Arr) Value =
     vec_loop from_json NewItem Arr (Value @ [fst (from_json InnerObj NewItem)])"
| "vec_loop from_json NewItem (_ # Arr) Value = (Value, False)"

text \<open>
  The array readers run a loop on the field's current value (\<open>StringVec\<close> clears it first, the
  others append); \<open>sel\<close> and \<open>upd\<close> read and write the field.
\<close>

definition fj_array ::
  "(json list \<Rightarrow> 'v reader) \<Rightarrow> jobj \<Rightarrow> string \<Rightarrow> ('r \<Rightarrow> 'v) \<Rightarrow> (('v \<Rightarrow> 'v) \<Rightarrow> 'r \<Rightarrow> 'r) \<Rightarrow> 'r reader" where
  "fj_array loop Obj fld sel upd r =
     (case map_of Obj fld of
        Some (JArr Arr) \<Rightarrow> (case loop Arr (sel r) of (v, ok) \<Rightarrow> (upd (\<lambda>_. v) r, ok))
      | _ \<Rightarrow> (r, True))"

definition fj_pairs where
  "fj_pairs P = fj_array (pairs_loop P)"

definition fj_strings where
  "fj_strings P = fj_array (\<lambda>A _. strings_loop P A [])"

definition fj_vec where
  "fj_vec from_json NewItem = fj_array (vec_loop from_json NewItem)"

text \<open>A nested structure: its own \<^verbatim>\<open>from_json\<close> catches its exceptions.\<close>

definition fj_object ::
  "(jobj \<Rightarrow> 'v reader) \<Rightarrow> jobj \<Rightarrow> string \<Rightarrow> ('r \<Rightarrow> 'v) \<Rightarrow> (('v \<Rightarrow> 'v) \<Rightarrow> 'r \<Rightarrow> 'r) \<Rightarrow> 'r reader" where
  "fj_object from_json Obj fld sel upd r =
     (case map_of Obj fld of
        Some (JObj A) \<Rightarrow> (upd (\<lambda>_. fst (from_json A (sel r))) r, True)
      | _ \<Rightarrow> (r, True))"

subsection \<open>Documents as text\<close>

definition to_string_strings :: "poco \<Rightarrow> string list \<Rightarrow> string" where
  "to_string_strings P ObjectArray =
     (if ObjectArray = [] then ''[]'' else json_condense P (JArr (map JStr ObjectArray)))"

definition to_string_pairs :: "poco \<Rightarrow> (string \<times> string) list \<Rightarrow> string" where
  "to_string_pairs P ObjectArray =
     (if ObjectArray = [] then ''[]''
      else json_condense P (JArr (map (\<lambda>i. JArr [JStr (fst i), JStr (snd i)]) ObjectArray)))"

definition to_string_vec :: "poco \<Rightarrow> ('a \<Rightarrow> jobj) \<Rightarrow> 'a list \<Rightarrow> string" where
  "to_string_vec P to_json ObjectArray =
     (if ObjectArray = [] then ''[]'' else json_condense P (jVec to_json ObjectArray))"

definition to_string_obj :: "poco \<Rightarrow> ('a \<Rightarrow> jobj) \<Rightarrow> 'a \<Rightarrow> string" where
  "to_string_obj P to_json Object = json_condense P (JObj (to_json Object))"

text \<open>The array parsers catch everything and return what they have read so far.\<close>

definition to_object_array_strings :: "poco \<Rightarrow> string \<Rightarrow> string list" where
  "to_object_array_strings P ObjectString =
     (if ObjectString = [] then []
      else case json_parse P ObjectString of
        Some (JArr Object) \<Rightarrow> fst (strings_loop P Object [])
      | _ \<Rightarrow> [])"

fun stringpairs_loop :: "poco \<Rightarrow> json list \<Rightarrow> (string \<times> string) list reader" where
  "stringpairs_loop P [] R = (R, True)"
| "stringpairs_loop P (JArr InnerObject # Object) R =
     (case InnerObject of
        [a, b] \<Rightarrow>
          (case (var_toString P a, var_toString P b) of
             (Some S1, Some S2) \<Rightarrow> stringpairs_loop P Object (R @ [(S1, S2)])
           | _ \<Rightarrow> (R, False))
      | _ \<Rightarrow> stringpairs_loop P Object R)"
| "stringpairs_loop P (_ # Object) R = (R, False)"

definition to_stringpair_array :: "poco \<Rightarrow> string \<Rightarrow> (string \<times> string) list" where
  "to_stringpair_array P S =
     (if S = [] then []
      else case json_parse P S of
        Some (JArr Object) \<Rightarrow> fst (stringpairs_loop P Object [])
      | _ \<Rightarrow> [])"

definition to_object_array :: "poco \<Rightarrow> (jobj \<Rightarrow> 'a reader) \<Rightarrow> 'a \<Rightarrow> string \<Rightarrow> 'a list" where
  "to_object_array P from_json Obj ObjectString =
     (if ObjectString = [] then []
      else case json_parse P ObjectString of
        Some (JArr Object) \<Rightarrow> fst (vec_loop from_json Obj Object [])
      | _ \<Rightarrow> [])"

text \<open>\<^verbatim>\<open>to_object\<close> does not catch: \<open>None\<close> is the exception of a text that is not an object.\<close>

definition to_object :: "poco \<Rightarrow> (jobj \<Rightarrow> 'a reader) \<Rightarrow> 'a \<Rightarrow> string \<Rightarrow> 'a option" where
  "to_object P from_json Result ObjectString =
     (if ObjectString = [] then Some Result
      else case json_parse P ObjectString of
        Some (JObj Object) \<Rightarrow> Some (fst (from_json Object Result))
      | _ \<Rightarrow> None)"

subsection \<open>Reading back what was written\<close>

lemma obj_set_new: "k \<notin> fst ` set obj \<Longrightarrow> obj_set k v obj = obj @ [(k, v)]"
  by (induction obj) auto

lemma obj_sets_append:
  "distinct (map fst (obj @ kvs)) \<Longrightarrow> foldl (\<lambda>obj (k, v). obj_set k v obj) obj kvs = obj @ kvs"
proof (induction kvs arbitrary: obj)
  case (Cons kv kvs)
  obtain k v where kv: "kv = (k, v)" by force
  from Cons.prems have "k \<notin> fst ` set obj" by (auto simp: kv)
  with Cons.IH [of "obj @ [(k, v)]"] Cons.prems show ?case by (simp add: kv obj_set_new)
qed simp

lemma obj_sets_distinct: "distinct (map fst kvs) \<Longrightarrow> obj_sets kvs = kvs"
  using obj_sets_append [of "[]" kvs] by (simp add: obj_sets_def)

lemma map_of_obj_set: "map_of (obj_set k v obj) f = (if f = k then Some v else map_of obj f)"
  by (induction obj) auto

lemma poco_okD:
  assumes "poco_ok P"
  shows "var_toString P (JStr s) = Some s"
    and "var_toString P (JBool b) = Some (if b then ''true'' else ''false'')"
    and "var_toU64 P (JNum (uint n)) = Some n"
    and "json_parse P (json_condense P j) = Some j"
    and "json_condense P j \<noteq> []"
    and "json_parse P ''[]'' = Some (JArr [])"
    and "str_icompare P s t \<longleftrightarrow> map ascii_lower s = map ascii_lower t"
    and "str_toLower P s = map ascii_lower s"
    and "a \<noteq> [] \<Longrightarrow> d \<noteq> [] \<Longrightarrow> c \<notin> set a \<Longrightarrow> c \<notin> set d \<Longrightarrow> str_tokens P c (a @ c # d) = [a, d]"
  using assms unfolding poco_ok_def by blast+

lemma fj_hits:
  assumes "poco_ok P"
  shows "map_of Obj f = Some (JStr s) \<Longrightarrow> fj_string P Obj f upd r = (upd (\<lambda>_. s) r, True)"
    and "map_of Obj f = Some (JStr s) \<Longrightarrow> fj_enum P F Obj f updE r = (updE (\<lambda>_. F s) r, True)"
    and "map_of Obj f = Some (JBool b) \<Longrightarrow> fj_bool P Obj f updB r = (updB (\<lambda>_. b) r, True)"
    and "map_of Obj f = Some (jU64 n) \<Longrightarrow> fj_u64 P Obj f updN r = (updN (\<lambda>_. n) r, True)"
  using assms
  by (auto simp: fj_string_def fj_enum_def fj_bool_def fj_u64_def fj_value_def jU64_def poco_okD)

lemma fj_misses:
  assumes "map_of Obj f = None"
  shows "fj_value conv Obj f upd r = (r, True)"
    and "fj_array loop Obj f sel upd r = (r, True)"
    and "fj_object from_json Obj f sel upd r = (r, True)"
  using assms by (simp_all add: fj_value_def fj_array_def fj_object_def)

lemma strings_loop_JStr:
  "poco_ok P \<Longrightarrow> strings_loop P (map JStr xs) acc = (acc @ xs, True)"
  by (induction xs arbitrary: acc) (simp_all add: poco_okD)

lemma pairs_loop_jPairs:
  assumes "poco_ok P"
  shows "pairs_loop P (map (\<lambda>i. JObj (obj_sets [(''tag'', JStr (fst i)), (''value'', JStr (snd i))])) xs) acc
    = (acc @ xs, True)"
  using assms
  by (induction xs arbitrary: acc) (simp_all add: obj_sets_distinct inner_string_def poco_okD)

lemma stringpairs_loop_JArr:
  "poco_ok P \<Longrightarrow> stringpairs_loop P (map (\<lambda>i. JArr [JStr (fst i), JStr (snd i)]) xs) acc = (acc @ xs, True)"
  by (induction xs arbitrary: acc) (simp_all add: poco_okD)

lemma fj_array_hits:
  assumes "poco_ok P"
  shows "map_of Obj f = Some (jStrings xs) \<Longrightarrow> fj_strings P Obj f sel upd r = (upd (\<lambda>_. xs) r, True)"
    and "map_of Obj f = Some (jPairs ps) \<Longrightarrow> selp r = [] \<Longrightarrow>
           fj_pairs P Obj f selp updp r = (updp (\<lambda>_. ps) r, True)"
  using assms
  by (simp_all add: fj_strings_def fj_pairs_def fj_array_def jStrings_def jPairs_def
      strings_loop_JStr pairs_loop_jPairs)

lemma strings_text_roundtrip:
  "poco_ok P \<Longrightarrow> to_object_array_strings P (to_string_strings P xs) = xs"
  by (cases xs) (simp_all add: to_object_array_strings_def to_string_strings_def poco_okD
      strings_loop_JStr [where acc = "[]", simplified] flip: list.map(2))

lemma pairs_text_roundtrip:
  "poco_ok P \<Longrightarrow> to_stringpair_array P (to_string_pairs P xs) = xs"
  by (cases "xs = []") (simp_all add: to_stringpair_array_def to_string_pairs_def poco_okD
      stringpairs_loop_JArr)

subsection \<open>Structures with a JSON form\<close>

text \<open>
  A structure whose \<^verbatim>\<open>from_json\<close> restores, on a default object, what its \<^verbatim>\<open>to_json\<close> wrote. The
  container helpers are proved once from this law: a vector field, a nested field, the text of a
  vector and of an object.
\<close>

locale json_struct =
  fixes to_json :: "'a \<Rightarrow> jobj"
    and from_json :: "poco \<Rightarrow> jobj \<Rightarrow> 'a reader"
    and init :: 'a
  assumes reads_back: "poco_ok P \<Longrightarrow> from_json P (to_json r) init = (r, True)"
begin

lemma vec_loop_reads_back:
  assumes "poco_ok P"
  shows "vec_loop (from_json P) init (map (\<lambda>i. JObj (to_json i)) xs) acc = (acc @ xs, True)"
  using assms by (induction xs arbitrary: acc) (simp_all add: reads_back)

lemma fj_vec_hit:
  "poco_ok P \<Longrightarrow> map_of Obj f = Some (jVec to_json xs) \<Longrightarrow> sel r = [] \<Longrightarrow>
   fj_vec (from_json P) init Obj f sel upd r = (upd (\<lambda>_. xs) r, True)"
  by (simp add: fj_vec_def fj_array_def jVec_def vec_loop_reads_back)

lemma fj_object_hit:
  "poco_ok P \<Longrightarrow> map_of Obj f = Some (JObj (to_json x)) \<Longrightarrow> sel r = init \<Longrightarrow>
   fj_object (from_json P) Obj f sel upd r = (upd (\<lambda>_. x) r, True)"
  by (simp add: fj_object_def reads_back)

lemma vec_text_roundtrip:
  "poco_ok P \<Longrightarrow> to_object_array P (from_json P) init (to_string_vec P to_json xs) = xs"
  by (cases "xs = []")
    (simp_all add: to_object_array_def to_string_vec_def poco_okD jVec_def vec_loop_reads_back)

lemma obj_text_roundtrip:
  "poco_ok P \<Longrightarrow> to_object P (from_json P) init (to_string_obj P to_json x) = Some x"
  by (simp add: to_object_def to_string_obj_def poco_okD reads_back)

end

end
