(* ===== verification/Poco_Instance.thy ===== *)
theory Poco_Instance
  imports Rest_Json "HOL-Library.Countable"
begin

text \<open>
  A concrete instance of the library parameters, on which the hypotheses about the library hold.
  Condensed text is a run of characters whose length numbers the document.
\<close>

instance json :: countable
  by countable_datatype

fun inst_toString :: "json \<Rightarrow> string option" where
  "inst_toString (JStr s) = Some s"
| "inst_toString (JBool b) = Some (if b then ''true'' else ''false'')"
| "inst_toString (JReal s) = Some s"
| "inst_toString JNull = None"
| "inst_toString _ = Some ''value''"

fun inst_toU64 :: "json \<Rightarrow> u64 option" where
  "inst_toU64 (JNum n) = (if 0 \<le> n \<and> n < 2 ^ 64 then Some (word_of_int n) else None)"
| "inst_toU64 _ = None"

definition inst_condense :: "json \<Rightarrow> string" where
  "inst_condense j = replicate (Suc (to_nat j)) CHR ''x''"

definition inst_parse :: "string \<Rightarrow> json option" where
  "inst_parse s = (if s = ''[]'' then Some (JArr [])
     else if s \<noteq> [] \<and> s = replicate (length s) CHR ''x'' then Some (from_nat (length s - 1))
     else None)"

definition blank :: "char \<Rightarrow> bool" where
  "blank c \<longleftrightarrow> c \<in> set [CHR '' '', CHR 0x09, CHR 0x0A, CHR 0x0D]"

definition inst_trim :: "string \<Rightarrow> string" where
  "inst_trim s = rev (dropWhile blank (rev (dropWhile blank s)))"

fun inst_split :: "char \<Rightarrow> string \<Rightarrow> string \<Rightarrow> string list" where
  "inst_split c [] cur = [cur]"
| "inst_split c (x # xs) cur = (if x = c then cur # inst_split c xs [] else inst_split c xs (cur @ [x]))"

definition inst_tokens :: "char \<Rightarrow> string \<Rightarrow> string list" where
  "inst_tokens c s = (if s = [] then [] else inst_split c s [])"

definition poco_inst :: poco where
  "poco_inst =
     \<lparr>var_toString = inst_toString, var_toU64 = inst_toU64,
      json_parse = inst_parse, json_condense = inst_condense,
      str_toLower = map ascii_lower, str_trim = inst_trim,
      str_icompare = (\<lambda>s t. map ascii_lower s = map ascii_lower t),
      str_tokens = inst_tokens\<rparr>"

lemma inst_parse_condense: "inst_parse (inst_condense j) = Some j"
proof -
  have "inst_condense j \<noteq> ''[]''" by (simp add: inst_condense_def)
  then show ?thesis by (simp add: inst_parse_def inst_condense_def)
qed

lemma inst_split_none: "c \<notin> set xs \<Longrightarrow> inst_split c xs cur = [cur @ xs]"
  by (induction xs arbitrary: cur) auto

lemma inst_split_one:
  "c \<notin> set a \<Longrightarrow> c \<notin> set b \<Longrightarrow> inst_split c (a @ c # b) cur = [cur @ a, b]"
  by (induction a arbitrary: cur) (auto simp: inst_split_none)

lemma poco_inst_ok: "poco_ok poco_inst"
proof -
  have "inst_toU64 (JNum (uint n)) = Some n" for n :: u64
    using uint_lt2p [of n] by simp
  moreover have "inst_condense j \<noteq> []" for j by (simp add: inst_condense_def)
  moreover have "inst_parse ''[]'' = Some (JArr [])" by (simp add: inst_parse_def)
  ultimately show ?thesis by (simp add: poco_ok_def poco_inst_def inst_parse_condense inst_tokens_def inst_split_one)
qed

end
