(* ===== verification/Security_Objects.thy ===== *)
theory Security_Objects
  imports Poco_Instance
begin

text \<open>
  The data of the security service, \<^verbatim>\<open>src/RESTObjects/RESTAPI_SecurityObjects.h\<close>: one record per
  structure, \<open>X_init\<close> with the default member initialisers, and the \<^verbatim>\<open>to_json\<close> and
  \<^verbatim>\<open>from_json\<close> members of \<^verbatim>\<open>RESTAPI_SecurityObjects.cpp\<close>. Members the source leaves
  uninitialised (\<^verbatim>\<open>ActionLink::action\<close>, \<^verbatim>\<open>Preferences::modified\<close>, \<^verbatim>\<open>ApiKeyEntry::created\<close>,
  \<^verbatim>\<open>ProfileAction::access\<close>) start at zero here; members initialised from the clock start at zero
  and are set where an object is built. A binary object is its content as a string.
\<close>

subsection \<open>Enumerations\<close>

datatype USER_ROLE =
    UNKNOWN | ROOT | ADMIN | SUBSCRIBER | CSR | SYSTEM | INSTALLER | NOC | ACCOUNTING | PARTNER

definition UserTypeFromString :: "poco \<Rightarrow> string \<Rightarrow> USER_ROLE" where
  "UserTypeFromString P U =
     (if str_icompare P U ''root'' then ROOT
      else if str_icompare P U ''admin'' then ADMIN
      else if str_icompare P U ''subscriber'' then SUBSCRIBER
      else if str_icompare P U ''partner'' then PARTNER
      else if str_icompare P U ''csr'' then CSR
      else if str_icompare P U ''system'' then SYSTEM
      else if str_icompare P U ''installer'' then INSTALLER
      else if str_icompare P U ''noc'' then NOC
      else if str_icompare P U ''accounting'' then ACCOUNTING
      else UNKNOWN)"

fun UserTypeToString :: "USER_ROLE \<Rightarrow> string" where
  "UserTypeToString ROOT = ''root''"
| "UserTypeToString ADMIN = ''admin''"
| "UserTypeToString SUBSCRIBER = ''subscriber''"
| "UserTypeToString PARTNER = ''partner''"
| "UserTypeToString CSR = ''csr''"
| "UserTypeToString SYSTEM = ''system''"
| "UserTypeToString INSTALLER = ''installer''"
| "UserTypeToString NOC = ''noc''"
| "UserTypeToString ACCOUNTING = ''accounting''"
| "UserTypeToString UNKNOWN = ''unknown''"

datatype ResourceAccessType = NONE | READ | MODIFY | DELETE | CREATE | TEST | MOVE

definition ResourceAccessTypeFromString :: "poco \<Rightarrow> string \<Rightarrow> ResourceAccessType" where
  "ResourceAccessTypeFromString P s =
     (if str_icompare P s ''READ'' then READ
      else if str_icompare P s ''MODIFY'' then MODIFY
      else if str_icompare P s ''DELETE'' then DELETE
      else if str_icompare P s ''CREATE'' then CREATE
      else if str_icompare P s ''TEST'' then TEST
      else if str_icompare P s ''MOVE'' then MOVE
      else NONE)"

fun ResourceAccessTypeToString :: "ResourceAccessType \<Rightarrow> string" where
  "ResourceAccessTypeToString READ = ''READ''"
| "ResourceAccessTypeToString MODIFY = ''MODIFY''"
| "ResourceAccessTypeToString DELETE = ''DELETE''"
| "ResourceAccessTypeToString CREATE = ''CREATE''"
| "ResourceAccessTypeToString TEST = ''TEST''"
| "ResourceAccessTypeToString MOVE = ''MOVE''"
| "ResourceAccessTypeToString NONE = ''NONE''"

datatype LinkActions =
    LA_FORGOT_PASSWORD | LA_VERIFY_EMAIL | LA_SUB_FORGOT_PASSWORD | LA_SUB_VERIFY_EMAIL
  | LA_SUB_SIGNUP | LA_EMAIL_INVITATION

fun LinkActionsValue :: "LinkActions \<Rightarrow> u64" where
  "LinkActionsValue LA_FORGOT_PASSWORD = 1"
| "LinkActionsValue LA_VERIFY_EMAIL = 2"
| "LinkActionsValue LA_SUB_FORGOT_PASSWORD = 3"
| "LinkActionsValue LA_SUB_VERIFY_EMAIL = 4"
| "LinkActionsValue LA_SUB_SIGNUP = 5"
| "LinkActionsValue LA_EMAIL_INVITATION = 6"

subsection \<open>Structures\<close>

record AclTemplate =
  acl_Read :: bool
  acl_ReadWrite :: bool
  acl_ReadWriteCreate :: bool
  acl_Delete :: bool
  acl_PortalLogin :: bool

definition AclTemplate_init :: AclTemplate where
  "AclTemplate_init =
     \<lparr>acl_Read = True,
      acl_ReadWrite = True,
      acl_ReadWriteCreate = True,
      acl_Delete = True,
      acl_PortalLogin = True\<rparr>"

definition AclTemplate_to_json :: "AclTemplate \<Rightarrow> jobj" where
  "AclTemplate_to_json r = obj_sets
     [(''Read'', JBool (acl_Read r)),
      (''ReadWrite'', JBool (acl_ReadWrite r)),
      (''ReadWriteCreate'', JBool (acl_ReadWriteCreate r)),
      (''Delete'', JBool (acl_Delete r)),
      (''PortalLogin'', JBool (acl_PortalLogin r))]"

definition AclTemplate_from_json :: "poco \<Rightarrow> jobj \<Rightarrow> AclTemplate reader" where
  "AclTemplate_from_json P Obj = read_fields
     [fj_bool P Obj ''Read'' acl_Read_update,
      fj_bool P Obj ''ReadWrite'' acl_ReadWrite_update,
      fj_bool P Obj ''ReadWriteCreate'' acl_ReadWriteCreate_update,
      fj_bool P Obj ''Delete'' acl_Delete_update,
      fj_bool P Obj ''PortalLogin'' acl_PortalLogin_update]"

record WebToken =
  wt_access_token :: string
  wt_refresh_token :: string
  wt_id_token :: string
  wt_token_type :: string
  wt_username :: string
  wt_userMustChangePassword :: bool
  wt_errorCode :: u64
  wt_expires_in :: u64
  wt_idle_timeout :: u64
  wt_acl_template :: AclTemplate
  wt_created :: u64
  wt_lastRefresh :: u64

definition WebToken_init :: WebToken where
  "WebToken_init =
     \<lparr>wt_access_token = [],
      wt_refresh_token = [],
      wt_id_token = [],
      wt_token_type = [],
      wt_username = [],
      wt_userMustChangePassword = False,
      wt_errorCode = 0,
      wt_expires_in = 0,
      wt_idle_timeout = 0,
      wt_acl_template = AclTemplate_init,
      wt_created = 0,
      wt_lastRefresh = 0\<rparr>"

definition WebToken_to_json :: "WebToken \<Rightarrow> jobj" where
  "WebToken_to_json r = obj_sets
     [(''access_token'', JStr (wt_access_token r)),
      (''refresh_token'', JStr (wt_refresh_token r)),
      (''token_type'', JStr (wt_token_type r)),
      (''expires_in'', jU64 (wt_expires_in r)),
      (''idle_timeout'', jU64 (wt_idle_timeout r)),
      (''created'', jU64 (wt_created r)),
      (''username'', JStr (wt_username r)),
      (''userMustChangePassword'', JBool (wt_userMustChangePassword r)),
      (''errorCode'', jU64 (wt_errorCode r)),
      (''aclTemplate'', JObj (AclTemplate_to_json (wt_acl_template r))),
      (''errorCode'', jU64 (wt_errorCode r)),
      (''lastRefresh'', jU64 (wt_lastRefresh r))]"

definition WebToken_from_json :: "poco \<Rightarrow> jobj \<Rightarrow> WebToken reader" where
  "WebToken_from_json P Obj = read_fields
     [fj_object (AclTemplate_from_json P) Obj ''aclTemplate'' wt_acl_template wt_acl_template_update,
      fj_string P Obj ''access_token'' wt_access_token_update,
      fj_string P Obj ''refresh_token'' wt_refresh_token_update,
      fj_string P Obj ''token_type'' wt_token_type_update,
      fj_u64 P Obj ''expires_in'' wt_expires_in_update,
      fj_u64 P Obj ''idle_timeout'' wt_idle_timeout_update,
      fj_u64 P Obj ''created'' wt_created_update,
      fj_string P Obj ''username'' wt_username_update,
      fj_bool P Obj ''userMustChangePassword'' wt_userMustChangePassword_update,
      fj_u64 P Obj ''lastRefresh'' wt_lastRefresh_update]"

record NoteInfo =
  ni_created :: u64
  ni_createdBy :: string
  ni_note :: string

definition NoteInfo_init :: NoteInfo where
  "NoteInfo_init =
     \<lparr>ni_created = 0,
      ni_createdBy = [],
      ni_note = []\<rparr>"

definition NoteInfo_to_json :: "NoteInfo \<Rightarrow> jobj" where
  "NoteInfo_to_json r = obj_sets
     [(''created'', jU64 (ni_created r)),
      (''createdBy'', JStr (ni_createdBy r)),
      (''note'', JStr (ni_note r))]"

definition NoteInfo_from_json :: "poco \<Rightarrow> jobj \<Rightarrow> NoteInfo reader" where
  "NoteInfo_from_json P Obj = read_fields
     [fj_u64 P Obj ''created'' ni_created_update,
      fj_string P Obj ''createdBy'' ni_createdBy_update,
      fj_string P Obj ''note'' ni_note_update]"

record MobilePhoneNumber =
  mp_number :: string
  mp_verified :: bool
  mp_primary :: bool

definition MobilePhoneNumber_init :: MobilePhoneNumber where
  "MobilePhoneNumber_init =
     \<lparr>mp_number = [],
      mp_verified = False,
      mp_primary = False\<rparr>"

definition MobilePhoneNumber_to_json :: "MobilePhoneNumber \<Rightarrow> jobj" where
  "MobilePhoneNumber_to_json r = obj_sets
     [(''number'', JStr (mp_number r)),
      (''verified'', JBool (mp_verified r)),
      (''primary'', JBool (mp_primary r))]"

definition MobilePhoneNumber_from_json :: "poco \<Rightarrow> jobj \<Rightarrow> MobilePhoneNumber reader" where
  "MobilePhoneNumber_from_json P Obj = read_fields
     [fj_string P Obj ''number'' mp_number_update,
      fj_bool P Obj ''verified'' mp_verified_update,
      fj_bool P Obj ''primary'' mp_primary_update]"

record MfaAuthInfo =
  mfa_enabled :: bool
  mfa_method :: string

definition MfaAuthInfo_init :: MfaAuthInfo where
  "MfaAuthInfo_init =
     \<lparr>mfa_enabled = False,
      mfa_method = []\<rparr>"

definition MfaAuthInfo_to_json :: "MfaAuthInfo \<Rightarrow> jobj" where
  "MfaAuthInfo_to_json r = obj_sets
     [(''enabled'', JBool (mfa_enabled r)),
      (''method'', JStr (mfa_method r))]"

definition MfaAuthInfo_from_json :: "poco \<Rightarrow> jobj \<Rightarrow> MfaAuthInfo reader" where
  "MfaAuthInfo_from_json P Obj = read_fields
     [fj_bool P Obj ''enabled'' mfa_enabled_update,
      fj_string P Obj ''method'' mfa_method_update]"

record UserLoginLoginExtensions =
  ux_mobiles :: "MobilePhoneNumber list"
  ux_mfa :: MfaAuthInfo
  ux_authenticatorSecret :: string

definition UserLoginLoginExtensions_init :: UserLoginLoginExtensions where
  "UserLoginLoginExtensions_init =
     \<lparr>ux_mobiles = [],
      ux_mfa = MfaAuthInfo_init,
      ux_authenticatorSecret = []\<rparr>"

definition UserLoginLoginExtensions_to_json :: "UserLoginLoginExtensions \<Rightarrow> jobj" where
  "UserLoginLoginExtensions_to_json r = obj_sets
     [(''mobiles'', jVec MobilePhoneNumber_to_json (ux_mobiles r)),
      (''mfa'', JObj (MfaAuthInfo_to_json (ux_mfa r))),
      (''authenticatorSecret'', JStr (ux_authenticatorSecret r))]"

definition UserLoginLoginExtensions_from_json :: "poco \<Rightarrow> jobj \<Rightarrow> UserLoginLoginExtensions reader" where
  "UserLoginLoginExtensions_from_json P Obj = read_fields
     [fj_vec (MobilePhoneNumber_from_json P) MobilePhoneNumber_init Obj ''mobiles'' ux_mobiles ux_mobiles_update,
      fj_object (MfaAuthInfo_from_json P) Obj ''mfa'' ux_mfa ux_mfa_update,
      fj_string P Obj ''authenticatorSecret'' ux_authenticatorSecret_update]"

record MFAChallengeRequest =
  mcr_uuid :: string
  mcr_question :: string
  mcr_method :: string
  mcr_created :: u64

definition MFAChallengeRequest_init :: MFAChallengeRequest where
  "MFAChallengeRequest_init =
     \<lparr>mcr_uuid = [],
      mcr_question = [],
      mcr_method = [],
      mcr_created = 0\<rparr>"

definition MFAChallengeRequest_to_json :: "MFAChallengeRequest \<Rightarrow> jobj" where
  "MFAChallengeRequest_to_json r = obj_sets
     [(''uuid'', JStr (mcr_uuid r)),
      (''question'', JStr (mcr_question r)),
      (''created'', jU64 (mcr_created r)),
      (''method'', JStr (mcr_method r))]"

definition MFAChallengeRequest_from_json :: "poco \<Rightarrow> jobj \<Rightarrow> MFAChallengeRequest reader" where
  "MFAChallengeRequest_from_json P Obj = read_fields
     [fj_string P Obj ''uuid'' mcr_uuid_update,
      fj_string P Obj ''question'' mcr_question_update,
      fj_u64 P Obj ''created'' mcr_created_update,
      fj_string P Obj ''method'' mcr_method_update]"

record MFAChallengeResponse =
  mcs_uuid :: string
  mcs_answer :: string

definition MFAChallengeResponse_init :: MFAChallengeResponse where
  "MFAChallengeResponse_init =
     \<lparr>mcs_uuid = [],
      mcs_answer = []\<rparr>"

definition MFAChallengeResponse_to_json :: "MFAChallengeResponse \<Rightarrow> jobj" where
  "MFAChallengeResponse_to_json r = obj_sets
     [(''uuid'', JStr (mcs_uuid r)),
      (''answer'', JStr (mcs_answer r))]"

definition MFAChallengeResponse_from_json :: "poco \<Rightarrow> jobj \<Rightarrow> MFAChallengeResponse reader" where
  "MFAChallengeResponse_from_json P Obj = read_fields
     [fj_string P Obj ''uuid'' mcs_uuid_update,
      fj_string P Obj ''answer'' mcs_answer_update]"

record UserInfo =
  u_id :: string
  u_name :: string
  u_description :: string
  u_avatar :: string
  u_email :: string
  u_validated :: bool
  u_validationEmail :: string
  u_validationDate :: u64
  u_creationDate :: u64
  u_validationURI :: string
  u_changePassword :: bool
  u_lastLogin :: u64
  u_currentLoginURI :: string
  u_lastPasswordChange :: u64
  u_lastEmailCheck :: u64
  u_waitingForEmailCheck :: bool
  u_locale :: string
  u_notes :: "NoteInfo list"
  u_location :: string
  u_owner :: string
  u_createdBy :: string
  u_suspended :: bool
  u_blackListed :: bool
  u_userRole :: USER_ROLE
  u_userTypeProprietaryInfo :: UserLoginLoginExtensions
  u_securityPolicy :: string
  u_securityPolicyChange :: u64
  u_currentPassword :: string
  u_lastPasswords :: "string list"
  u_oauthType :: string
  u_oauthUserInfo :: string
  u_modified :: u64
  u_signingUp :: string

definition UserInfo_init :: UserInfo where
  "UserInfo_init =
     \<lparr>u_id = [],
      u_name = [],
      u_description = [],
      u_avatar = [],
      u_email = [],
      u_validated = False,
      u_validationEmail = [],
      u_validationDate = 0,
      u_creationDate = 0,
      u_validationURI = [],
      u_changePassword = False,
      u_lastLogin = 0,
      u_currentLoginURI = [],
      u_lastPasswordChange = 0,
      u_lastEmailCheck = 0,
      u_waitingForEmailCheck = False,
      u_locale = [],
      u_notes = [],
      u_location = [],
      u_owner = [],
      u_createdBy = [],
      u_suspended = False,
      u_blackListed = False,
      u_userRole = UNKNOWN,
      u_userTypeProprietaryInfo = UserLoginLoginExtensions_init,
      u_securityPolicy = [],
      u_securityPolicyChange = 0,
      u_currentPassword = [],
      u_lastPasswords = [],
      u_oauthType = [],
      u_oauthUserInfo = [],
      u_modified = 0,
      u_signingUp = []\<rparr>"

definition UserInfo_to_json :: "UserInfo \<Rightarrow> jobj" where
  "UserInfo_to_json r = obj_sets
     [(''id'', JStr (u_id r)),
      (''name'', JStr (u_name r)),
      (''description'', JStr (u_description r)),
      (''avatar'', JStr (u_avatar r)),
      (''email'', JStr (u_email r)),
      (''validated'', JBool (u_validated r)),
      (''validationEmail'', JStr (u_validationEmail r)),
      (''validationDate'', jU64 (u_validationDate r)),
      (''creationDate'', jU64 (u_creationDate r)),
      (''validationURI'', JStr (u_validationURI r)),
      (''changePassword'', JBool (u_changePassword r)),
      (''lastLogin'', jU64 (u_lastLogin r)),
      (''currentLoginURI'', JStr (u_currentLoginURI r)),
      (''lastPasswordChange'', jU64 (u_lastPasswordChange r)),
      (''lastEmailCheck'', jU64 (u_lastEmailCheck r)),
      (''waitingForEmailCheck'', JBool (u_waitingForEmailCheck r)),
      (''locale'', JStr (u_locale r)),
      (''notes'', jVec NoteInfo_to_json (u_notes r)),
      (''location'', JStr (u_location r)),
      (''owner'', JStr (u_owner r)),
      (''createdBy'', JStr (u_createdBy r)),
      (''suspended'', JBool (u_suspended r)),
      (''blackListed'', JBool (u_blackListed r)),
      (''userRole'', JStr (UserTypeToString (u_userRole r))),
      (''userTypeProprietaryInfo'', JObj (UserLoginLoginExtensions_to_json (u_userTypeProprietaryInfo r))),
      (''securityPolicy'', JStr (u_securityPolicy r)),
      (''securityPolicyChange'', jU64 (u_securityPolicyChange r)),
      (''currentPassword'', JStr (u_currentPassword r)),
      (''lastPasswords'', jStrings (u_lastPasswords r)),
      (''oauthType'', JStr (u_oauthType r)),
      (''oauthUserInfo'', JStr (u_oauthUserInfo r)),
      (''modified'', jU64 (u_modified r)),
      (''signingUp'', JStr (u_signingUp r))]"

definition UserInfo_from_json :: "poco \<Rightarrow> jobj \<Rightarrow> UserInfo reader" where
  "UserInfo_from_json P Obj = read_fields
     [fj_string P Obj ''id'' u_id_update,
      fj_string P Obj ''name'' u_name_update,
      fj_string P Obj ''description'' u_description_update,
      fj_string P Obj ''avatar'' u_avatar_update,
      fj_string P Obj ''email'' u_email_update,
      fj_string P Obj ''validationEmail'' u_validationEmail_update,
      fj_string P Obj ''validationURI'' u_validationURI_update,
      fj_string P Obj ''currentLoginURI'' u_currentLoginURI_update,
      fj_string P Obj ''locale'' u_locale_update,
      fj_vec (NoteInfo_from_json P) NoteInfo_init Obj ''notes'' u_notes u_notes_update,
      fj_string P Obj ''location'' u_location_update,
      fj_string P Obj ''owner'' u_owner_update,
      fj_string P Obj ''createdBy'' u_createdBy_update,
      fj_enum P (UserTypeFromString P) Obj ''userRole'' u_userRole_update,
      fj_string P Obj ''securityPolicy'' u_securityPolicy_update,
      fj_object (UserLoginLoginExtensions_from_json P) Obj ''userTypeProprietaryInfo'' u_userTypeProprietaryInfo u_userTypeProprietaryInfo_update,
      fj_u64 P Obj ''validationDate'' u_validationDate_update,
      fj_u64 P Obj ''creationDate'' u_creationDate_update,
      fj_u64 P Obj ''lastLogin'' u_lastLogin_update,
      fj_u64 P Obj ''lastPasswordChange'' u_lastPasswordChange_update,
      fj_u64 P Obj ''lastEmailCheck'' u_lastEmailCheck_update,
      fj_u64 P Obj ''securityPolicyChange'' u_securityPolicyChange_update,
      fj_bool P Obj ''validated'' u_validated_update,
      fj_bool P Obj ''changePassword'' u_changePassword_update,
      fj_bool P Obj ''waitingForEmailCheck'' u_waitingForEmailCheck_update,
      fj_bool P Obj ''suspended'' u_suspended_update,
      fj_bool P Obj ''blackListed'' u_blackListed_update,
      fj_string P Obj ''currentPassword'' u_currentPassword_update,
      fj_strings P Obj ''lastPasswords'' u_lastPasswords u_lastPasswords_update,
      fj_string P Obj ''oauthType'' u_oauthType_update,
      fj_string P Obj ''oauthUserInfo'' u_oauthUserInfo_update,
      fj_u64 P Obj ''modified'' u_modified_update,
      fj_string P Obj ''signingUp'' u_signingUp_update]"

record UserInfoList =
  ul_users :: "UserInfo list"

definition UserInfoList_init :: UserInfoList where
  "UserInfoList_init =
     \<lparr>ul_users = []\<rparr>"

definition UserInfoList_to_json :: "UserInfoList \<Rightarrow> jobj" where
  "UserInfoList_to_json r = obj_sets
     [(''users'', jVec UserInfo_to_json (ul_users r))]"

definition UserInfoList_from_json :: "poco \<Rightarrow> jobj \<Rightarrow> UserInfoList reader" where
  "UserInfoList_from_json P Obj = read_fields
     [fj_vec (UserInfo_from_json P) UserInfo_init Obj ''users'' ul_users ul_users_update]"

record InternalServiceInfo =
  isi_privateURI :: string
  isi_publicURI :: string
  isi_token :: string

definition InternalServiceInfo_init :: InternalServiceInfo where
  "InternalServiceInfo_init =
     \<lparr>isi_privateURI = [],
      isi_publicURI = [],
      isi_token = []\<rparr>"

definition InternalServiceInfo_to_json :: "InternalServiceInfo \<Rightarrow> jobj" where
  "InternalServiceInfo_to_json r = obj_sets
     [(''privateURI'', JStr (isi_privateURI r)),
      (''publicURI'', JStr (isi_publicURI r)),
      (''token'', JStr (isi_token r))]"

definition InternalServiceInfo_from_json :: "poco \<Rightarrow> jobj \<Rightarrow> InternalServiceInfo reader" where
  "InternalServiceInfo_from_json P Obj = read_fields
     [fj_string P Obj ''privateURI'' isi_privateURI_update,
      fj_string P Obj ''publicURI'' isi_publicURI_update,
      fj_string P Obj ''token'' isi_token_update]"

record InternalSystemServices =
  iss_key :: string
  iss_version :: string
  iss_services :: "InternalServiceInfo list"

definition InternalSystemServices_init :: InternalSystemServices where
  "InternalSystemServices_init =
     \<lparr>iss_key = [],
      iss_version = [],
      iss_services = []\<rparr>"

definition InternalSystemServices_to_json :: "InternalSystemServices \<Rightarrow> jobj" where
  "InternalSystemServices_to_json r = obj_sets
     [(''key'', JStr (iss_key r)),
      (''version'', JStr (iss_version r)),
      (''services'', jVec InternalServiceInfo_to_json (iss_services r))]"

definition InternalSystemServices_from_json :: "poco \<Rightarrow> jobj \<Rightarrow> InternalSystemServices reader" where
  "InternalSystemServices_from_json P Obj = read_fields
     [fj_string P Obj ''key'' iss_key_update,
      fj_string P Obj ''version'' iss_version_update,
      fj_vec (InternalServiceInfo_from_json P) InternalServiceInfo_init Obj ''services'' iss_services iss_services_update]"

record SystemEndpoint =
  se_type :: string
  se_id :: u64
  se_vendor :: string
  se_uri :: string
  se_authenticationType :: string

definition SystemEndpoint_init :: SystemEndpoint where
  "SystemEndpoint_init =
     \<lparr>se_type = [],
      se_id = 0,
      se_vendor = ''OpenWiFi'',
      se_uri = [],
      se_authenticationType = ''internal_v1''\<rparr>"

definition SystemEndpoint_to_json :: "SystemEndpoint \<Rightarrow> jobj" where
  "SystemEndpoint_to_json r = obj_sets
     [(''type'', JStr (se_type r)),
      (''id'', jU64 (se_id r)),
      (''vendor'', JStr (se_vendor r)),
      (''uri'', JStr (se_uri r)),
      (''authenticationType'', JStr (se_authenticationType r))]"

definition SystemEndpoint_from_json :: "poco \<Rightarrow> jobj \<Rightarrow> SystemEndpoint reader" where
  "SystemEndpoint_from_json P Obj = read_fields
     [fj_string P Obj ''type'' se_type_update,
      fj_u64 P Obj ''id'' se_id_update,
      fj_string P Obj ''vendor'' se_vendor_update,
      fj_string P Obj ''uri'' se_uri_update,
      fj_string P Obj ''authenticationType'' se_authenticationType_update]"

record SystemEndpointList =
  sel_endpoints :: "SystemEndpoint list"

definition SystemEndpointList_init :: SystemEndpointList where
  "SystemEndpointList_init =
     \<lparr>sel_endpoints = []\<rparr>"

definition SystemEndpointList_to_json :: "SystemEndpointList \<Rightarrow> jobj" where
  "SystemEndpointList_to_json r = obj_sets
     [(''endpoints'', jVec SystemEndpoint_to_json (sel_endpoints r))]"

definition SystemEndpointList_from_json :: "poco \<Rightarrow> jobj \<Rightarrow> SystemEndpointList reader" where
  "SystemEndpointList_from_json P Obj = read_fields
     [fj_vec (SystemEndpoint_from_json P) SystemEndpoint_init Obj ''endpoints'' sel_endpoints sel_endpoints_update]"

record UserInfoAndPolicy =
  uip_webtoken :: WebToken
  uip_userinfo :: UserInfo

definition UserInfoAndPolicy_init :: UserInfoAndPolicy where
  "UserInfoAndPolicy_init =
     \<lparr>uip_webtoken = WebToken_init,
      uip_userinfo = UserInfo_init\<rparr>"

definition UserInfoAndPolicy_to_json :: "UserInfoAndPolicy \<Rightarrow> jobj" where
  "UserInfoAndPolicy_to_json r = obj_sets
     [(''tokenInfo'', JObj (WebToken_to_json (uip_webtoken r))),
      (''userInfo'', JObj (UserInfo_to_json (uip_userinfo r)))]"

definition UserInfoAndPolicy_from_json :: "poco \<Rightarrow> jobj \<Rightarrow> UserInfoAndPolicy reader" where
  "UserInfoAndPolicy_from_json P Obj = read_fields
     [fj_object (WebToken_from_json P) Obj ''tokenInfo'' uip_webtoken uip_webtoken_update,
      fj_object (UserInfo_from_json P) Obj ''userInfo'' uip_userinfo uip_userinfo_update]"

record ProfileAction =
  pa_resource :: string
  pa_access :: ResourceAccessType

definition ProfileAction_init :: ProfileAction where
  "ProfileAction_init =
     \<lparr>pa_resource = [],
      pa_access = NONE\<rparr>"

definition ProfileAction_to_json :: "ProfileAction \<Rightarrow> jobj" where
  "ProfileAction_to_json r = obj_sets
     [(''resource'', JStr (pa_resource r)),
      (''access'', JStr (ResourceAccessTypeToString (pa_access r)))]"

definition ProfileAction_from_json :: "poco \<Rightarrow> jobj \<Rightarrow> ProfileAction reader" where
  "ProfileAction_from_json P Obj = read_fields
     [fj_string P Obj ''resource'' pa_resource_update,
      fj_enum P (ResourceAccessTypeFromString P) Obj ''access'' pa_access_update]"

record SecurityProfile =
  sp_id :: u64
  sp_name :: string
  sp_description :: string
  sp_policy :: "ProfileAction list"
  sp_role :: string
  sp_notes :: "NoteInfo list"

definition SecurityProfile_init :: SecurityProfile where
  "SecurityProfile_init =
     \<lparr>sp_id = 0,
      sp_name = [],
      sp_description = [],
      sp_policy = [],
      sp_role = [],
      sp_notes = []\<rparr>"

definition SecurityProfile_to_json :: "SecurityProfile \<Rightarrow> jobj" where
  "SecurityProfile_to_json r = obj_sets
     [(''id'', jU64 (sp_id r)),
      (''name'', JStr (sp_name r)),
      (''description'', JStr (sp_description r)),
      (''policy'', jVec ProfileAction_to_json (sp_policy r)),
      (''role'', JStr (sp_role r)),
      (''notes'', jVec NoteInfo_to_json (sp_notes r))]"

definition SecurityProfile_from_json :: "poco \<Rightarrow> jobj \<Rightarrow> SecurityProfile reader" where
  "SecurityProfile_from_json P Obj = read_fields
     [fj_u64 P Obj ''id'' sp_id_update,
      fj_string P Obj ''name'' sp_name_update,
      fj_string P Obj ''description'' sp_description_update,
      fj_vec (ProfileAction_from_json P) ProfileAction_init Obj ''policy'' sp_policy sp_policy_update,
      fj_string P Obj ''role'' sp_role_update,
      fj_vec (NoteInfo_from_json P) NoteInfo_init Obj ''notes'' sp_notes sp_notes_update]"

record SecurityProfileList =
  spl_profiles :: "SecurityProfile list"

definition SecurityProfileList_init :: SecurityProfileList where
  "SecurityProfileList_init =
     \<lparr>spl_profiles = []\<rparr>"

definition SecurityProfileList_to_json :: "SecurityProfileList \<Rightarrow> jobj" where
  "SecurityProfileList_to_json r = obj_sets
     [(''profiles'', jVec SecurityProfile_to_json (spl_profiles r))]"

definition SecurityProfileList_from_json :: "poco \<Rightarrow> jobj \<Rightarrow> SecurityProfileList reader" where
  "SecurityProfileList_from_json P Obj = read_fields
     [fj_vec (SecurityProfile_from_json P) SecurityProfile_init Obj ''profiles'' spl_profiles spl_profiles_update]"

record ActionLink =
  al_id :: string
  al_action :: u64
  al_userId :: string
  al_actionTemplate :: string
  al_variables :: "(string \<times> string) list"
  al_locale :: string
  al_message :: string
  al_sent :: u64
  al_created :: u64
  al_expires :: u64
  al_completed :: u64
  al_canceled :: u64
  al_userAction :: bool

definition ActionLink_init :: ActionLink where
  "ActionLink_init =
     \<lparr>al_id = [],
      al_action = 0,
      al_userId = [],
      al_actionTemplate = [],
      al_variables = [],
      al_locale = [],
      al_message = [],
      al_sent = 0,
      al_created = 0,
      al_expires = 0,
      al_completed = 0,
      al_canceled = 0,
      al_userAction = True\<rparr>"

definition ActionLink_to_json :: "ActionLink \<Rightarrow> jobj" where
  "ActionLink_to_json r = obj_sets
     [(''id'', JStr (al_id r)),
      (''action'', jU64 (al_action r)),
      (''userId'', JStr (al_userId r)),
      (''actionTemplate'', JStr (al_actionTemplate r)),
      (''variables'', jPairs (al_variables r)),
      (''locale'', JStr (al_locale r)),
      (''message'', JStr (al_message r)),
      (''sent'', jU64 (al_sent r)),
      (''created'', jU64 (al_created r)),
      (''expires'', jU64 (al_expires r)),
      (''completed'', jU64 (al_completed r)),
      (''canceled'', jU64 (al_canceled r)),
      (''userAction'', JBool (al_userAction r))]"

definition ActionLink_from_json :: "poco \<Rightarrow> jobj \<Rightarrow> ActionLink reader" where
  "ActionLink_from_json P Obj = read_fields
     [fj_string P Obj ''id'' al_id_update,
      fj_u64 P Obj ''action'' al_action_update,
      fj_string P Obj ''userId'' al_userId_update,
      fj_string P Obj ''actionTemplate'' al_actionTemplate_update,
      fj_pairs P Obj ''variables'' al_variables al_variables_update,
      fj_string P Obj ''locale'' al_locale_update,
      fj_string P Obj ''message'' al_message_update,
      fj_u64 P Obj ''sent'' al_sent_update,
      fj_u64 P Obj ''created'' al_created_update,
      fj_u64 P Obj ''expires'' al_expires_update,
      fj_u64 P Obj ''completed'' al_completed_update,
      fj_u64 P Obj ''canceled'' al_canceled_update,
      fj_bool P Obj ''userAction'' al_userAction_update]"

record Preferences =
  pr_id :: string
  pr_modified :: u64
  pr_data :: "(string \<times> string) list"

definition Preferences_init :: Preferences where
  "Preferences_init =
     \<lparr>pr_id = [],
      pr_modified = 0,
      pr_data = []\<rparr>"

definition Preferences_to_json :: "Preferences \<Rightarrow> jobj" where
  "Preferences_to_json r = obj_sets
     [(''id'', JStr (pr_id r)),
      (''modified'', jU64 (pr_modified r)),
      (''data'', jPairs (pr_data r))]"

definition Preferences_from_json :: "poco \<Rightarrow> jobj \<Rightarrow> Preferences reader" where
  "Preferences_from_json P Obj = read_fields
     [fj_string P Obj ''id'' pr_id_update,
      fj_u64 P Obj ''modified'' pr_modified_update,
      fj_pairs P Obj ''data'' pr_data pr_data_update]"

record SubMfaConfig =
  smc_id :: string
  smc_type :: string
  smc_sms :: string
  smc_email :: string

definition SubMfaConfig_init :: SubMfaConfig where
  "SubMfaConfig_init =
     \<lparr>smc_id = [],
      smc_type = [],
      smc_sms = [],
      smc_email = []\<rparr>"

definition SubMfaConfig_to_json :: "SubMfaConfig \<Rightarrow> jobj" where
  "SubMfaConfig_to_json r = obj_sets
     [(''id'', JStr (smc_id r)),
      (''type'', JStr (smc_type r)),
      (''sms'', JStr (smc_sms r)),
      (''email'', JStr (smc_email r))]"

definition SubMfaConfig_from_json :: "poco \<Rightarrow> jobj \<Rightarrow> SubMfaConfig reader" where
  "SubMfaConfig_from_json P Obj = read_fields
     [fj_string P Obj ''id'' smc_id_update,
      fj_string P Obj ''type'' smc_type_update,
      fj_string P Obj ''sms'' smc_sms_update,
      fj_string P Obj ''email'' smc_email_update]"

record Token =
  t_token :: string
  t_refreshToken :: string
  t_tokenType :: string
  t_userName :: string
  t_created :: u64
  t_expires :: u64
  t_idleTimeout :: u64
  t_revocationDate :: u64
  t_lastRefresh :: u64

definition Token_init :: Token where
  "Token_init =
     \<lparr>t_token = [],
      t_refreshToken = [],
      t_tokenType = [],
      t_userName = [],
      t_created = 0,
      t_expires = 0,
      t_idleTimeout = 0,
      t_revocationDate = 0,
      t_lastRefresh = 0\<rparr>"

definition Token_to_json :: "Token \<Rightarrow> jobj" where
  "Token_to_json r = obj_sets
     [(''token'', JStr (t_token r)),
      (''refreshToken'', JStr (t_refreshToken r)),
      (''tokenType'', JStr (t_tokenType r)),
      (''userName'', JStr (t_userName r)),
      (''created'', jU64 (t_created r)),
      (''expires'', jU64 (t_expires r)),
      (''idleTimeout'', jU64 (t_idleTimeout r)),
      (''revocationDate'', jU64 (t_revocationDate r)),
      (''lastRefresh'', jU64 (t_lastRefresh r))]"

definition Token_from_json :: "poco \<Rightarrow> jobj \<Rightarrow> Token reader" where
  "Token_from_json P Obj = read_fields
     [fj_string P Obj ''token'' t_token_update,
      fj_string P Obj ''refreshToken'' t_refreshToken_update,
      fj_string P Obj ''tokenType'' t_tokenType_update,
      fj_string P Obj ''userName'' t_userName_update,
      fj_u64 P Obj ''created'' t_created_update,
      fj_u64 P Obj ''expires'' t_expires_update,
      fj_u64 P Obj ''idleTimeout'' t_idleTimeout_update,
      fj_u64 P Obj ''revocationDate'' t_revocationDate_update,
      fj_u64 P Obj ''lastRefresh'' t_lastRefresh_update]"

record Avatar =
  av_id :: string
  av_type :: string
  av_created :: u64
  av_name :: string
  av_avatar :: string

definition Avatar_init :: Avatar where
  "Avatar_init =
     \<lparr>av_id = [],
      av_type = [],
      av_created = 0,
      av_name = [],
      av_avatar = []\<rparr>"

record LoginRecordInfo =
  lr_sessionId :: string
  lr_userId :: string
  lr_email :: string
  lr_login :: u64
  lr_logout :: u64

definition LoginRecordInfo_init :: LoginRecordInfo where
  "LoginRecordInfo_init =
     \<lparr>lr_sessionId = [],
      lr_userId = [],
      lr_email = [],
      lr_login = 0,
      lr_logout = 0\<rparr>"

definition LoginRecordInfo_to_json :: "LoginRecordInfo \<Rightarrow> jobj" where
  "LoginRecordInfo_to_json r = obj_sets
     [(''sessionId'', JStr (lr_sessionId r)),
      (''userId'', JStr (lr_userId r)),
      (''email'', JStr (lr_email r)),
      (''login'', jU64 (lr_login r)),
      (''logout'', jU64 (lr_logout r))]"

record ApiKeyAccessRight =
  aar_service :: string
  aar_access :: string

definition ApiKeyAccessRight_init :: ApiKeyAccessRight where
  "ApiKeyAccessRight_init =
     \<lparr>aar_service = [],
      aar_access = []\<rparr>"

definition ApiKeyAccessRight_to_json :: "ApiKeyAccessRight \<Rightarrow> jobj" where
  "ApiKeyAccessRight_to_json r = obj_sets
     [(''service'', JStr (aar_service r)),
      (''access'', JStr (aar_access r))]"

definition ApiKeyAccessRight_from_json :: "poco \<Rightarrow> jobj \<Rightarrow> ApiKeyAccessRight reader" where
  "ApiKeyAccessRight_from_json P Obj = read_fields
     [fj_string P Obj ''service'' aar_service_update,
      fj_string P Obj ''access'' aar_access_update]"

record ApiKeyAccessRightList =
  aarl_acls :: "ApiKeyAccessRight list"

definition ApiKeyAccessRightList_init :: ApiKeyAccessRightList where
  "ApiKeyAccessRightList_init =
     \<lparr>aarl_acls = []\<rparr>"

definition ApiKeyAccessRightList_to_json :: "ApiKeyAccessRightList \<Rightarrow> jobj" where
  "ApiKeyAccessRightList_to_json r = obj_sets
     [(''acls'', jVec ApiKeyAccessRight_to_json (aarl_acls r))]"

definition ApiKeyAccessRightList_from_json :: "poco \<Rightarrow> jobj \<Rightarrow> ApiKeyAccessRightList reader" where
  "ApiKeyAccessRightList_from_json P Obj = read_fields
     [fj_vec (ApiKeyAccessRight_from_json P) ApiKeyAccessRight_init Obj ''acls'' aarl_acls aarl_acls_update]"

record ApiKeyEntry =
  ak_id :: string
  ak_userUuid :: string
  ak_name :: string
  ak_description :: string
  ak_apiKey :: string
  ak_salt :: string
  ak_created :: u64
  ak_expiresOn :: u64
  ak_rights :: ApiKeyAccessRightList
  ak_lastUse :: u64

definition ApiKeyEntry_init :: ApiKeyEntry where
  "ApiKeyEntry_init =
     \<lparr>ak_id = [],
      ak_userUuid = [],
      ak_name = [],
      ak_description = [],
      ak_apiKey = [],
      ak_salt = [],
      ak_created = 0,
      ak_expiresOn = 0,
      ak_rights = ApiKeyAccessRightList_init,
      ak_lastUse = 0\<rparr>"

definition ApiKeyEntry_to_json :: "ApiKeyEntry \<Rightarrow> jobj" where
  "ApiKeyEntry_to_json r = obj_sets
     [(''id'', JStr (ak_id r)),
      (''userUuid'', JStr (ak_userUuid r)),
      (''name'', JStr (ak_name r)),
      (''apiKey'', JStr (ak_apiKey r)),
      (''salt'', JStr (ak_salt r)),
      (''description'', JStr (ak_description r)),
      (''expiresOn'', jU64 (ak_expiresOn r)),
      (''rights'', JObj (ApiKeyAccessRightList_to_json (ak_rights r))),
      (''lastUse'', jU64 (ak_lastUse r))]"

definition ApiKeyEntry_from_json :: "poco \<Rightarrow> jobj \<Rightarrow> ApiKeyEntry reader" where
  "ApiKeyEntry_from_json P Obj = read_fields
     [fj_string P Obj ''id'' ak_id_update,
      fj_string P Obj ''userUuid'' ak_userUuid_update,
      fj_string P Obj ''name'' ak_name_update,
      fj_string P Obj ''apiKey'' ak_apiKey_update,
      fj_string P Obj ''salt'' ak_salt_update,
      fj_string P Obj ''description'' ak_description_update,
      fj_u64 P Obj ''expiresOn'' ak_expiresOn_update,
      fj_object (ApiKeyAccessRightList_from_json P) Obj ''rights'' ak_rights ak_rights_update,
      fj_u64 P Obj ''lastUse'' ak_lastUse_update]"

record ApiKeyEntryList =
  akl_apiKeys :: "ApiKeyEntry list"

definition ApiKeyEntryList_init :: ApiKeyEntryList where
  "ApiKeyEntryList_init =
     \<lparr>akl_apiKeys = []\<rparr>"

definition ApiKeyEntryList_to_json :: "ApiKeyEntryList \<Rightarrow> jobj" where
  "ApiKeyEntryList_to_json r = obj_sets
     [(''apiKeys'', jVec ApiKeyEntry_to_json (akl_apiKeys r))]"

definition ApiKeyEntryList_from_json :: "poco \<Rightarrow> jobj \<Rightarrow> ApiKeyEntryList reader" where
  "ApiKeyEntryList_from_json P Obj = read_fields
     [fj_vec (ApiKeyEntry_from_json P) ApiKeyEntry_init Obj ''apiKeys'' akl_apiKeys akl_apiKeys_update]"

record ExtraSystemConfiguration =
  esc_parameterName :: string
  esc_parameterValue :: string

definition ExtraSystemConfiguration_init :: ExtraSystemConfiguration where
  "ExtraSystemConfiguration_init =
     \<lparr>esc_parameterName = [],
      esc_parameterValue = []\<rparr>"

definition ExtraSystemConfiguration_to_json :: "ExtraSystemConfiguration \<Rightarrow> jobj" where
  "ExtraSystemConfiguration_to_json r = obj_sets
     [(''parameterName'', JStr (esc_parameterName r)),
      (''parameterValue'', JStr (esc_parameterValue r))]"

definition ExtraSystemConfiguration_from_json :: "poco \<Rightarrow> jobj \<Rightarrow> ExtraSystemConfiguration reader" where
  "ExtraSystemConfiguration_from_json P Obj = read_fields
     [fj_string P Obj ''parameterName'' esc_parameterName_update,
      fj_string P Obj ''parameterValue'' esc_parameterValue_update]"

subsection \<open>Text of the enumerations\<close>

lemma role_text: "poco_ok P \<Longrightarrow> UserTypeFromString P (UserTypeToString r) = r"
  by (cases r) (simp_all add: UserTypeFromString_def poco_okD ascii_lower_def)

lemma access_text:
  "poco_ok P \<Longrightarrow> ResourceAccessTypeFromString P (ResourceAccessTypeToString a) = a"
  by (cases a) (simp_all add: ResourceAccessTypeFromString_def poco_okD ascii_lower_def)

subsection \<open>JSON forms\<close>

interpretation AclTemplate_json: json_struct AclTemplate_to_json AclTemplate_from_json AclTemplate_init
  by unfold_locales (simp add: AclTemplate_to_json_def AclTemplate_from_json_def AclTemplate_init_def
      obj_sets_distinct fj_hits fj_array_hits role_text access_text)

interpretation NoteInfo_json: json_struct NoteInfo_to_json NoteInfo_from_json NoteInfo_init
  by unfold_locales (simp add: NoteInfo_to_json_def NoteInfo_from_json_def NoteInfo_init_def
      obj_sets_distinct fj_hits fj_array_hits role_text access_text)

interpretation MobilePhoneNumber_json: json_struct MobilePhoneNumber_to_json MobilePhoneNumber_from_json MobilePhoneNumber_init
  by unfold_locales (simp add: MobilePhoneNumber_to_json_def MobilePhoneNumber_from_json_def MobilePhoneNumber_init_def
      obj_sets_distinct fj_hits fj_array_hits role_text access_text)

interpretation MfaAuthInfo_json: json_struct MfaAuthInfo_to_json MfaAuthInfo_from_json MfaAuthInfo_init
  by unfold_locales (simp add: MfaAuthInfo_to_json_def MfaAuthInfo_from_json_def MfaAuthInfo_init_def
      obj_sets_distinct fj_hits fj_array_hits role_text access_text)

interpretation UserLoginLoginExtensions_json: json_struct UserLoginLoginExtensions_to_json UserLoginLoginExtensions_from_json UserLoginLoginExtensions_init
  by unfold_locales (simp add: UserLoginLoginExtensions_to_json_def UserLoginLoginExtensions_from_json_def UserLoginLoginExtensions_init_def
      obj_sets_distinct fj_hits fj_array_hits MobilePhoneNumber_json.fj_vec_hit MobilePhoneNumber_json.fj_object_hit MfaAuthInfo_json.fj_vec_hit MfaAuthInfo_json.fj_object_hit role_text access_text)

interpretation MFAChallengeRequest_json: json_struct MFAChallengeRequest_to_json MFAChallengeRequest_from_json MFAChallengeRequest_init
  by unfold_locales (simp add: MFAChallengeRequest_to_json_def MFAChallengeRequest_from_json_def MFAChallengeRequest_init_def
      obj_sets_distinct fj_hits fj_array_hits role_text access_text)

interpretation MFAChallengeResponse_json: json_struct MFAChallengeResponse_to_json MFAChallengeResponse_from_json MFAChallengeResponse_init
  by unfold_locales (simp add: MFAChallengeResponse_to_json_def MFAChallengeResponse_from_json_def MFAChallengeResponse_init_def
      obj_sets_distinct fj_hits fj_array_hits role_text access_text)

interpretation UserInfo_json: json_struct UserInfo_to_json UserInfo_from_json UserInfo_init
  by unfold_locales (simp add: UserInfo_to_json_def UserInfo_from_json_def UserInfo_init_def
      obj_sets_distinct fj_hits fj_array_hits NoteInfo_json.fj_vec_hit NoteInfo_json.fj_object_hit UserLoginLoginExtensions_json.fj_vec_hit UserLoginLoginExtensions_json.fj_object_hit role_text access_text)

interpretation UserInfoList_json: json_struct UserInfoList_to_json UserInfoList_from_json UserInfoList_init
  by unfold_locales (simp add: UserInfoList_to_json_def UserInfoList_from_json_def UserInfoList_init_def
      obj_sets_distinct fj_hits fj_array_hits UserInfo_json.fj_vec_hit UserInfo_json.fj_object_hit role_text access_text)

interpretation InternalServiceInfo_json: json_struct InternalServiceInfo_to_json InternalServiceInfo_from_json InternalServiceInfo_init
  by unfold_locales (simp add: InternalServiceInfo_to_json_def InternalServiceInfo_from_json_def InternalServiceInfo_init_def
      obj_sets_distinct fj_hits fj_array_hits role_text access_text)

interpretation InternalSystemServices_json: json_struct InternalSystemServices_to_json InternalSystemServices_from_json InternalSystemServices_init
  by unfold_locales (simp add: InternalSystemServices_to_json_def InternalSystemServices_from_json_def InternalSystemServices_init_def
      obj_sets_distinct fj_hits fj_array_hits InternalServiceInfo_json.fj_vec_hit InternalServiceInfo_json.fj_object_hit role_text access_text)

interpretation SystemEndpoint_json: json_struct SystemEndpoint_to_json SystemEndpoint_from_json SystemEndpoint_init
  by unfold_locales (simp add: SystemEndpoint_to_json_def SystemEndpoint_from_json_def SystemEndpoint_init_def
      obj_sets_distinct fj_hits fj_array_hits role_text access_text)

interpretation SystemEndpointList_json: json_struct SystemEndpointList_to_json SystemEndpointList_from_json SystemEndpointList_init
  by unfold_locales (simp add: SystemEndpointList_to_json_def SystemEndpointList_from_json_def SystemEndpointList_init_def
      obj_sets_distinct fj_hits fj_array_hits SystemEndpoint_json.fj_vec_hit SystemEndpoint_json.fj_object_hit role_text access_text)

interpretation ProfileAction_json: json_struct ProfileAction_to_json ProfileAction_from_json ProfileAction_init
  by unfold_locales (simp add: ProfileAction_to_json_def ProfileAction_from_json_def ProfileAction_init_def
      obj_sets_distinct fj_hits fj_array_hits role_text access_text)

interpretation SecurityProfile_json: json_struct SecurityProfile_to_json SecurityProfile_from_json SecurityProfile_init
  by unfold_locales (simp add: SecurityProfile_to_json_def SecurityProfile_from_json_def SecurityProfile_init_def
      obj_sets_distinct fj_hits fj_array_hits ProfileAction_json.fj_vec_hit ProfileAction_json.fj_object_hit NoteInfo_json.fj_vec_hit NoteInfo_json.fj_object_hit role_text access_text)

interpretation SecurityProfileList_json: json_struct SecurityProfileList_to_json SecurityProfileList_from_json SecurityProfileList_init
  by unfold_locales (simp add: SecurityProfileList_to_json_def SecurityProfileList_from_json_def SecurityProfileList_init_def
      obj_sets_distinct fj_hits fj_array_hits SecurityProfile_json.fj_vec_hit SecurityProfile_json.fj_object_hit role_text access_text)

interpretation ActionLink_json: json_struct ActionLink_to_json ActionLink_from_json ActionLink_init
  by unfold_locales (simp add: ActionLink_to_json_def ActionLink_from_json_def ActionLink_init_def
      obj_sets_distinct fj_hits fj_array_hits role_text access_text)

interpretation Preferences_json: json_struct Preferences_to_json Preferences_from_json Preferences_init
  by unfold_locales (simp add: Preferences_to_json_def Preferences_from_json_def Preferences_init_def
      obj_sets_distinct fj_hits fj_array_hits role_text access_text)

interpretation SubMfaConfig_json: json_struct SubMfaConfig_to_json SubMfaConfig_from_json SubMfaConfig_init
  by unfold_locales (simp add: SubMfaConfig_to_json_def SubMfaConfig_from_json_def SubMfaConfig_init_def
      obj_sets_distinct fj_hits fj_array_hits role_text access_text)

interpretation Token_json: json_struct Token_to_json Token_from_json Token_init
  by unfold_locales (simp add: Token_to_json_def Token_from_json_def Token_init_def
      obj_sets_distinct fj_hits fj_array_hits role_text access_text)

interpretation ApiKeyAccessRight_json: json_struct ApiKeyAccessRight_to_json ApiKeyAccessRight_from_json ApiKeyAccessRight_init
  by unfold_locales (simp add: ApiKeyAccessRight_to_json_def ApiKeyAccessRight_from_json_def ApiKeyAccessRight_init_def
      obj_sets_distinct fj_hits fj_array_hits role_text access_text)

interpretation ApiKeyAccessRightList_json: json_struct ApiKeyAccessRightList_to_json ApiKeyAccessRightList_from_json ApiKeyAccessRightList_init
  by unfold_locales (simp add: ApiKeyAccessRightList_to_json_def ApiKeyAccessRightList_from_json_def ApiKeyAccessRightList_init_def
      obj_sets_distinct fj_hits fj_array_hits ApiKeyAccessRight_json.fj_vec_hit ApiKeyAccessRight_json.fj_object_hit role_text access_text)

interpretation ExtraSystemConfiguration_json: json_struct ExtraSystemConfiguration_to_json ExtraSystemConfiguration_from_json ExtraSystemConfiguration_init
  by unfold_locales (simp add: ExtraSystemConfiguration_to_json_def ExtraSystemConfiguration_from_json_def ExtraSystemConfiguration_init_def
      obj_sets_distinct fj_hits fj_array_hits role_text access_text)

text \<open>
  \<^verbatim>\<open>WebToken::from_json\<close> does not read the error code and the identity token, and
  \<^verbatim>\<open>ApiKeyEntry\<close> has no JSON field for its creation time; everything else comes back.
\<close>

lemma WebToken_reads_back:
  "poco_ok P \<Longrightarrow> WebToken_from_json P (WebToken_to_json r) WebToken_init
     = (r\<lparr>wt_errorCode := 0, wt_id_token := []\<rparr>, True)"
  by (simp add: WebToken_to_json_def WebToken_from_json_def WebToken_init_def obj_sets_def
      fj_hits AclTemplate_json.fj_object_hit)

lemma ApiKeyEntry_reads_back:
  "poco_ok P \<Longrightarrow> ApiKeyEntry_from_json P (ApiKeyEntry_to_json r) ApiKeyEntry_init
     = (r\<lparr>ak_created := 0\<rparr>, True)"
  by (simp add: ApiKeyEntry_to_json_def ApiKeyEntry_from_json_def ApiKeyEntry_init_def
      obj_sets_distinct fj_hits ApiKeyAccessRightList_json.fj_object_hit)



text \<open>
  A token returned by the service and read back from its JSON keeps every member that the
  JSON carries; only the error code and the identity token fall back to their defaults.
\<close>

theorem token_info_json_roundtrip:
  assumes "poco_ok P"
  shows "UserInfoAndPolicy_from_json P (UserInfoAndPolicy_to_json i) UserInfoAndPolicy_init
    = (i\<lparr>uip_webtoken := (uip_webtoken i)\<lparr>wt_errorCode := 0, wt_id_token := []\<rparr>\<rparr>, True)"
  using assms
  by (simp add: UserInfoAndPolicy_to_json_def UserInfoAndPolicy_from_json_def
      UserInfoAndPolicy_init_def obj_sets_distinct fj_object_def WebToken_reads_back
      UserInfo_json.reads_back)

theorem token_info_json_roundtrip_witness:
  "UserInfoAndPolicy_from_json poco_inst (UserInfoAndPolicy_to_json UserInfoAndPolicy_init)
      UserInfoAndPolicy_init
    = (UserInfoAndPolicy_init\<lparr>uip_webtoken :=
        (uip_webtoken UserInfoAndPolicy_init)\<lparr>wt_errorCode := 0, wt_id_token := []\<rparr>\<rparr>, True)"
  by (rule token_info_json_roundtrip [OF poco_inst_ok])

end
