(* ===== verification/Acl_Processor.thy ===== *)
theory Acl_Processor
  imports Security_Objects
begin

text \<open>
  The access rules of \<^verbatim>\<open>src/ACLProcessor.h\<close>: the role matrix \<^verbatim>\<open>Can\<close>, used for subscriber
  records, and the record-level predicates the user handlers call.
\<close>

datatype ACL_OPS = ACL_READ | ACL_MODIFY | ACL_DELETE | ACL_CREATE

definition IsRoot :: "UserInfo \<Rightarrow> bool" where
  [acl_defs]: "IsRoot User \<longleftrightarrow> u_userRole User = ROOT"

definition IsAdmin :: "UserInfo \<Rightarrow> bool" where
  [acl_defs]: "IsAdmin User \<longleftrightarrow> u_userRole User = ADMIN"

definition IsSelf :: "UserInfo \<Rightarrow> UserInfo \<Rightarrow> bool" where
  [acl_defs]: "IsSelf User Target \<longleftrightarrow> u_id User = u_id Target"

definition WasCreatedBy :: "UserInfo \<Rightarrow> UserInfo \<Rightarrow> bool" where
  [acl_defs]: "WasCreatedBy User Target \<longleftrightarrow> u_createdBy Target \<noteq> [] \<and> u_createdBy Target = u_id User"

definition IsNonRootTarget :: "UserInfo \<Rightarrow> bool" where
  [acl_defs]: "IsNonRootTarget Target \<longleftrightarrow> u_userRole Target \<noteq> ROOT"

text \<open>The four branches of \<^verbatim>\<open>Can\<close>.\<close>

definition CanDelete :: "UserInfo \<Rightarrow> UserInfo \<Rightarrow> bool" where
  "CanDelete User Target =
     (if u_id User = u_id Target then u_userRole User \<noteq> ROOT
      else case u_userRole User of
        ROOT \<Rightarrow> True
      | ADMIN \<Rightarrow> u_userRole Target \<noteq> ROOT \<and> u_userRole Target \<noteq> PARTNER
      | SUBSCRIBER \<Rightarrow> u_id User = u_id Target
      | CSR \<Rightarrow> False
      | SYSTEM \<Rightarrow> u_userRole Target \<noteq> ROOT \<and> u_userRole Target \<noteq> PARTNER
      | INSTALLER \<Rightarrow> u_id User = u_id Target
      | NOC \<Rightarrow> u_userRole Target = NOC
      | ACCOUNTING \<Rightarrow> u_userRole Target = ACCOUNTING
      | PARTNER \<Rightarrow> u_userRole Target \<noteq> ROOT
      | UNKNOWN \<Rightarrow> False)"

definition CanRead :: "UserInfo \<Rightarrow> UserInfo \<Rightarrow> bool" where
  "CanRead User Target \<longleftrightarrow>
     u_userRole User = ROOT \<or> u_userRole User = ADMIN \<or> u_userRole User = PARTNER"

definition CanCreate :: "UserInfo \<Rightarrow> UserInfo \<Rightarrow> bool" where
  "CanCreate User Target =
     (case u_userRole User of
        ROOT \<Rightarrow> True
      | ADMIN \<Rightarrow> u_userRole Target \<noteq> ROOT \<and> u_userRole Target \<noteq> PARTNER
      | SUBSCRIBER \<Rightarrow> False
      | CSR \<Rightarrow> u_userRole Target = CSR
      | SYSTEM \<Rightarrow> u_userRole Target \<noteq> ROOT \<and> u_userRole Target \<noteq> PARTNER
      | INSTALLER \<Rightarrow> u_userRole Target = INSTALLER
      | NOC \<Rightarrow> u_userRole Target = NOC
      | ACCOUNTING \<Rightarrow> u_userRole Target = ACCOUNTING
      | PARTNER \<Rightarrow> u_userRole Target \<noteq> ROOT
      | UNKNOWN \<Rightarrow> False)"

definition CanModify :: "UserInfo \<Rightarrow> UserInfo \<Rightarrow> bool" where
  "CanModify User Target =
     (case u_userRole User of
        ROOT \<Rightarrow> True
      | ADMIN \<Rightarrow> u_userRole Target \<noteq> ROOT \<and> u_userRole Target \<noteq> PARTNER
      | SUBSCRIBER \<Rightarrow> u_id User = u_id Target
      | CSR \<Rightarrow> u_userRole Target = CSR
      | SYSTEM \<Rightarrow> u_userRole Target \<noteq> ROOT \<and> u_userRole Target \<noteq> PARTNER
      | INSTALLER \<Rightarrow> u_userRole Target = INSTALLER
      | NOC \<Rightarrow> u_userRole Target = NOC
      | ACCOUNTING \<Rightarrow> u_userRole Target = ACCOUNTING
      | PARTNER \<Rightarrow> u_userRole Target \<noteq> ROOT
      | UNKNOWN \<Rightarrow> False)"

fun Can :: "UserInfo \<Rightarrow> UserInfo \<Rightarrow> ACL_OPS \<Rightarrow> bool" where
  "Can User Target ACL_DELETE = CanDelete User Target"
| "Can User Target ACL_READ = CanRead User Target"
| "Can User Target ACL_CREATE = CanCreate User Target"
| "Can User Target ACL_MODIFY = CanModify User Target"

definition CanReadUserRecord :: "UserInfo \<Rightarrow> UserInfo \<Rightarrow> bool" where
  [acl_defs]: "CanReadUserRecord User Target =
     (if IsRoot User then True
      else if IsSelf User Target \<and> IsNonRootTarget Target then True
      else if \<not> IsAdmin User then False
      else WasCreatedBy User Target)"

definition CanCreateUserRecord :: "UserInfo \<Rightarrow> UserInfo \<Rightarrow> bool" where
  [acl_defs]: "CanCreateUserRecord User Target =
     (if IsRoot User then True
      else if \<not> IsAdmin User then False
      else IsNonRootTarget Target \<and> u_userRole Target \<noteq> PARTNER)"

definition CanDeleteUserRecord :: "UserInfo \<Rightarrow> UserInfo \<Rightarrow> bool" where
  [acl_defs]: "CanDeleteUserRecord User Target =
     (if IsSelf User Target then False
      else if IsRoot User then True
      else if \<not> IsAdmin User then False
      else WasCreatedBy User Target \<and> IsNonRootTarget Target)"

definition CanModifyUserRecord :: "UserInfo \<Rightarrow> UserInfo \<Rightarrow> bool" where
  [acl_defs]: "CanModifyUserRecord User Target =
     (if IsRoot User then True
      else if IsSelf User Target then IsNonRootTarget Target
      else if \<not> IsAdmin User then False
      else IsNonRootTarget Target \<and> WasCreatedBy User Target)"

definition CanResetUserMFA :: "UserInfo \<Rightarrow> UserInfo \<Rightarrow> bool" where
  [acl_defs]: "CanResetUserMFA User Target =
     (if IsRoot User then True
      else if IsSelf User Target then IsNonRootTarget Target
      else if \<not> IsAdmin User then False
      else IsNonRootTarget Target \<and> WasCreatedBy User Target)"

definition CanChangeUserRole :: "UserInfo \<Rightarrow> UserInfo \<Rightarrow> USER_ROLE \<Rightarrow> bool" where
  [acl_defs]: "CanChangeUserRole User Target NewRole =
     (if IsSelf User Target then False
      else if IsRoot User then True
      else if \<not> IsAdmin User then False
      else NewRole \<noteq> ROOT \<and> IsNonRootTarget Target \<and> WasCreatedBy User Target)"

subsection \<open>Laws of the access rules\<close>

text \<open>
  A write permission: held by every root over others, never by a non-root user over a root
  record. The record predicates that change a record of the user database meet it.
\<close>

locale write_permission =
  fixes allowed :: "UserInfo \<Rightarrow> UserInfo \<Rightarrow> bool"
  assumes root_allowed: "IsRoot User \<Longrightarrow> \<not> IsSelf User Target \<Longrightarrow> allowed User Target"
    and protects_root: "allowed User Target \<Longrightarrow> IsRoot User \<or> IsNonRootTarget Target"
    and needs_standing: "allowed User Target \<Longrightarrow>
          IsRoot User \<or> IsSelf User Target \<or> (IsAdmin User \<and> WasCreatedBy User Target)"
begin

lemma outsider_denied:
  "\<not> IsRoot User \<Longrightarrow> \<not> IsSelf User Target \<Longrightarrow> \<not> WasCreatedBy User Target \<Longrightarrow> \<not> allowed User Target"
  using needs_standing by blast

lemma plain_role_only_self:
  "u_userRole User \<notin> {ROOT, ADMIN} \<Longrightarrow> allowed User Target \<Longrightarrow> IsSelf User Target"
  using needs_standing by (auto simp: IsRoot_def IsAdmin_def)

end

interpretation modify_perm: write_permission CanModifyUserRecord
  by unfold_locales (auto simp: acl_defs split: if_splits)

interpretation delete_perm: write_permission CanDeleteUserRecord
  by unfold_locales (auto simp: acl_defs split: if_splits)

interpretation mfa_perm: write_permission CanResetUserMFA
  by unfold_locales (auto simp: acl_defs split: if_splits)

interpretation role_perm: write_permission "\<lambda>User Target. CanChangeUserRole User Target NewRole"
  for NewRole
  by unfold_locales (auto simp: acl_defs split: if_splits)

text \<open>
  C15. No user record with the root role can be changed by someone who is not root: not modified,
  not deleted, not given another role, its multi-factor settings not reset; and nobody below root
  can create a root record or turn a record into one.
\<close>

theorem root_records_protected:
  assumes "\<not> IsRoot User"
  shows "(IsRoot Target \<longrightarrow> \<not> CanModifyUserRecord User Target \<and> \<not> CanDeleteUserRecord User Target
           \<and> \<not> CanResetUserMFA User Target \<and> \<not> CanChangeUserRole User Target NewRole
           \<and> \<not> CanCreateUserRecord User Target)
    \<and> \<not> CanChangeUserRole User Target ROOT"
  using assms by (auto simp: acl_defs)

theorem root_records_protected_witness:
  "IsRoot (UserInfo_init\<lparr>u_id := ''r'', u_userRole := ROOT\<rparr>)
   \<and> \<not> CanModifyUserRecord (UserInfo_init\<lparr>u_id := ''a'', u_userRole := ADMIN\<rparr>)
        (UserInfo_init\<lparr>u_id := ''r'', u_userRole := ROOT\<rparr>)
   \<and> \<not> CanDeleteUserRecord (UserInfo_init\<lparr>u_id := ''a'', u_userRole := ADMIN\<rparr>)
        (UserInfo_init\<lparr>u_id := ''r'', u_userRole := ROOT\<rparr>)
   \<and> \<not> CanChangeUserRole (UserInfo_init\<lparr>u_id := ''a'', u_userRole := ADMIN\<rparr>)
        (UserInfo_init\<lparr>u_id := ''r'', u_userRole := ROOT\<rparr>) ROOT"
  using root_records_protected [of "UserInfo_init\<lparr>u_id := ''a'', u_userRole := ADMIN\<rparr>"
      "UserInfo_init\<lparr>u_id := ''r'', u_userRole := ROOT\<rparr>" CSR]
  by (simp add: IsRoot_def UserInfo_init_def)

text \<open>
  Changing the user database needs standing: whoever may modify, delete, reset the
  multi-factor settings or change the role of a record is root, is the owner of the record, or is
  the administrator who created it; users with any other role can only reach their own record, and
  nobody can delete or re-role themselves.
\<close>

theorem user_record_standing:
  "(CanModifyUserRecord User Target \<or> CanDeleteUserRecord User Target
      \<or> CanResetUserMFA User Target \<or> CanChangeUserRole User Target NewRole \<longrightarrow>
      IsRoot User \<or> IsSelf User Target \<or> (IsAdmin User \<and> WasCreatedBy User Target))
   \<and> (IsSelf User Target \<longrightarrow>
        \<not> CanDeleteUserRecord User Target \<and> \<not> CanChangeUserRole User Target NewRole)"
  by (auto dest: modify_perm.needs_standing delete_perm.needs_standing mfa_perm.needs_standing
      role_perm.needs_standing simp: CanChangeUserRole_def CanDeleteUserRecord_def)

theorem user_record_standing_witness:
  "CanModifyUserRecord (UserInfo_init\<lparr>u_id := ''a'', u_userRole := ADMIN\<rparr>)
     (UserInfo_init\<lparr>u_id := ''c'', u_createdBy := ''a''\<rparr>)
   \<and> (IsRoot (UserInfo_init\<lparr>u_id := ''a'', u_userRole := ADMIN\<rparr>)
      \<or> IsSelf (UserInfo_init\<lparr>u_id := ''a'', u_userRole := ADMIN\<rparr>)
           (UserInfo_init\<lparr>u_id := ''c'', u_createdBy := ''a''\<rparr>)
      \<or> (IsAdmin (UserInfo_init\<lparr>u_id := ''a'', u_userRole := ADMIN\<rparr>)
         \<and> WasCreatedBy (UserInfo_init\<lparr>u_id := ''a'', u_userRole := ADMIN\<rparr>)
             (UserInfo_init\<lparr>u_id := ''c'', u_createdBy := ''a''\<rparr>)))"
proof -
  have "CanModifyUserRecord (UserInfo_init\<lparr>u_id := ''a'', u_userRole := ADMIN\<rparr>)
     (UserInfo_init\<lparr>u_id := ''c'', u_createdBy := ''a''\<rparr>)"
    by (simp add: acl_defs UserInfo_init_def)
  with user_record_standing [of "UserInfo_init\<lparr>u_id := ''a'', u_userRole := ADMIN\<rparr>"
      "UserInfo_init\<lparr>u_id := ''c'', u_createdBy := ''a''\<rparr>" CSR]
  show ?thesis by blast
qed

text \<open>
  The role matrix used for subscriber records: whatever the operation other than reading, a
  non-root user never gets it on the root record of somebody else, and no root can delete itself,
  so the system cannot lose its last root through self-deletion.
\<close>

theorem role_matrix_safe:
  assumes "Can User Target op" "op \<noteq> ACL_READ"
  shows "(u_userRole Target = ROOT \<longrightarrow> u_userRole User = ROOT \<or> u_id User = u_id Target)
    \<and> (op = ACL_DELETE \<and> u_id User = u_id Target \<longrightarrow> u_userRole User \<noteq> ROOT)"
  using assms
  by (cases op)
    (auto simp: CanDelete_def CanCreate_def CanModify_def split: USER_ROLE.splits if_splits)

theorem role_matrix_safe_witness:
  "Can (UserInfo_init\<lparr>u_id := ''r'', u_userRole := ROOT\<rparr>)
     (UserInfo_init\<lparr>u_id := ''q'', u_userRole := ROOT\<rparr>) ACL_DELETE
   \<and> (u_userRole (UserInfo_init\<lparr>u_id := ''r'', u_userRole := ROOT\<rparr>) = ROOT
      \<or> u_id (UserInfo_init\<lparr>u_id := ''r'', u_userRole := ROOT\<rparr>)
        = u_id (UserInfo_init\<lparr>u_id := ''q'', u_userRole := ROOT\<rparr>))"
proof -
  have can: "Can (UserInfo_init\<lparr>u_id := ''r'', u_userRole := ROOT\<rparr>)
     (UserInfo_init\<lparr>u_id := ''q'', u_userRole := ROOT\<rparr>) ACL_DELETE"
    by (simp add: CanDelete_def UserInfo_init_def)
  have "u_userRole (UserInfo_init\<lparr>u_id := ''q'', u_userRole := ROOT\<rparr>) = ROOT"
    by (simp add: UserInfo_init_def)
  with can role_matrix_safe [OF can] show ?thesis by blast
qed

end
