(* ===== verification/Storage_Rows.thy ===== *)
theory Storage_Rows
  imports Security_Objects
begin

text \<open>
  The rows of the database: the tuple types of \<^verbatim>\<open>src/storage/orm_*.h\<close>, with one component per
  column, and the two \<^verbatim>\<open>Convert\<close> functions of each table. Structured members are stored as
  JSON text. Converting a row back may throw (\<^verbatim>\<open>to_object\<close> on the user's extension text), so it
  returns an option.
\<close>

record TokenRecordTuple =
  tr_token :: string
  tr_refreshToken :: string
  tr_tokenType :: string
  tr_userName :: string
  tr_created :: u64
  tr_expires :: u64
  tr_idleTimeout :: u64
  tr_revocationDate :: u64
  tr_lastRefresh :: u64

definition Token_to_tuple :: "poco \<Rightarrow> Token \<Rightarrow> TokenRecordTuple" where
  "Token_to_tuple P U =
     \<lparr>tr_token = t_token U,
      tr_refreshToken = t_refreshToken U,
      tr_tokenType = t_tokenType U,
      tr_userName = t_userName U,
      tr_created = t_created U,
      tr_expires = t_expires U,
      tr_idleTimeout = t_idleTimeout U,
      tr_revocationDate = t_revocationDate U,
      tr_lastRefresh = t_lastRefresh U\<rparr>"

definition Token_from_tuple :: "poco \<Rightarrow> TokenRecordTuple \<Rightarrow> Token option" where
  "Token_from_tuple P T = Some
     \<lparr>t_token = tr_token T,
      t_refreshToken = tr_refreshToken T,
      t_tokenType = tr_tokenType T,
      t_userName = tr_userName T,
      t_created = tr_created T,
      t_expires = tr_expires T,
      t_idleTimeout = tr_idleTimeout T,
      t_revocationDate = tr_revocationDate T,
      t_lastRefresh = tr_lastRefresh T\<rparr>"

record UserInfoRecordTuple =
  ur_id :: string
  ur_name :: string
  ur_description :: string
  ur_avatar :: string
  ur_email :: string
  ur_validated :: bool
  ur_validationEmail :: string
  ur_validationDate :: u64
  ur_creationDate :: u64
  ur_validationURI :: string
  ur_changePassword :: bool
  ur_lastLogin :: u64
  ur_currentLoginURI :: string
  ur_lastPasswordChange :: u64
  ur_lastEmailCheck :: u64
  ur_waitingForEmailCheck :: bool
  ur_locale :: string
  ur_notes :: string
  ur_location :: string
  ur_owner :: string
  ur_createdBy :: string
  ur_suspended :: bool
  ur_blackListed :: bool
  ur_userRole :: string
  ur_userTypeProprietaryInfo :: string
  ur_securityPolicy :: string
  ur_securityPolicyChange :: u64
  ur_currentPassword :: string
  ur_lastPasswords :: string
  ur_oauthType :: string
  ur_oauthUserInfo :: string
  ur_modified :: u64
  ur_signingUp :: string

definition UserInfo_to_tuple :: "poco \<Rightarrow> UserInfo \<Rightarrow> UserInfoRecordTuple" where
  "UserInfo_to_tuple P U =
     \<lparr>ur_id = u_id U,
      ur_name = u_name U,
      ur_description = u_description U,
      ur_avatar = u_avatar U,
      ur_email = u_email U,
      ur_validated = u_validated U,
      ur_validationEmail = u_validationEmail U,
      ur_validationDate = u_validationDate U,
      ur_creationDate = u_creationDate U,
      ur_validationURI = u_validationURI U,
      ur_changePassword = u_changePassword U,
      ur_lastLogin = u_lastLogin U,
      ur_currentLoginURI = u_currentLoginURI U,
      ur_lastPasswordChange = u_lastPasswordChange U,
      ur_lastEmailCheck = u_lastEmailCheck U,
      ur_waitingForEmailCheck = u_waitingForEmailCheck U,
      ur_locale = u_locale U,
      ur_notes = to_string_vec P NoteInfo_to_json (u_notes U),
      ur_location = u_location U,
      ur_owner = u_owner U,
      ur_createdBy = u_createdBy U,
      ur_suspended = u_suspended U,
      ur_blackListed = u_blackListed U,
      ur_userRole = UserTypeToString (u_userRole U),
      ur_userTypeProprietaryInfo = to_string_obj P UserLoginLoginExtensions_to_json (u_userTypeProprietaryInfo U),
      ur_securityPolicy = u_securityPolicy U,
      ur_securityPolicyChange = u_securityPolicyChange U,
      ur_currentPassword = u_currentPassword U,
      ur_lastPasswords = to_string_strings P (u_lastPasswords U),
      ur_oauthType = u_oauthType U,
      ur_oauthUserInfo = u_oauthUserInfo U,
      ur_modified = u_modified U,
      ur_signingUp = u_signingUp U\<rparr>"

definition UserInfo_from_tuple :: "poco \<Rightarrow> UserInfoRecordTuple \<Rightarrow> UserInfo option" where
  "UserInfo_from_tuple P T =
     map_option (\<lambda>ext.
     \<lparr>u_id = ur_id T,
      u_name = ur_name T,
      u_description = ur_description T,
      u_avatar = ur_avatar T,
      u_email = ur_email T,
      u_validated = ur_validated T,
      u_validationEmail = ur_validationEmail T,
      u_validationDate = ur_validationDate T,
      u_creationDate = ur_creationDate T,
      u_validationURI = ur_validationURI T,
      u_changePassword = ur_changePassword T,
      u_lastLogin = ur_lastLogin T,
      u_currentLoginURI = ur_currentLoginURI T,
      u_lastPasswordChange = ur_lastPasswordChange T,
      u_lastEmailCheck = ur_lastEmailCheck T,
      u_waitingForEmailCheck = ur_waitingForEmailCheck T,
      u_locale = ur_locale T,
      u_notes = to_object_array P (NoteInfo_from_json P) NoteInfo_init (ur_notes T),
      u_location = ur_location T,
      u_owner = ur_owner T,
      u_createdBy = ur_createdBy T,
      u_suspended = ur_suspended T,
      u_blackListed = ur_blackListed T,
      u_userRole = UserTypeFromString P (ur_userRole T),
      u_userTypeProprietaryInfo = ext,
      u_securityPolicy = ur_securityPolicy T,
      u_securityPolicyChange = ur_securityPolicyChange T,
      u_currentPassword = ur_currentPassword T,
      u_lastPasswords = to_object_array_strings P (ur_lastPasswords T),
      u_oauthType = ur_oauthType T,
      u_oauthUserInfo = ur_oauthUserInfo T,
      u_modified = ur_modified T,
      u_signingUp = ur_signingUp T\<rparr>)
     (to_object P (UserLoginLoginExtensions_from_json P) UserLoginLoginExtensions_init
        (ur_userTypeProprietaryInfo T))"

record LoginInfoRecordTuple =
  lrr_sessionId :: string
  lrr_userId :: string
  lrr_email :: string
  lrr_login :: u64
  lrr_logout :: u64

definition LoginRecordInfo_to_tuple :: "poco \<Rightarrow> LoginRecordInfo \<Rightarrow> LoginInfoRecordTuple" where
  "LoginRecordInfo_to_tuple P U =
     \<lparr>lrr_sessionId = lr_sessionId U,
      lrr_userId = lr_userId U,
      lrr_email = lr_email U,
      lrr_login = lr_login U,
      lrr_logout = lr_logout U\<rparr>"

definition LoginRecordInfo_from_tuple :: "poco \<Rightarrow> LoginInfoRecordTuple \<Rightarrow> LoginRecordInfo option" where
  "LoginRecordInfo_from_tuple P T = Some
     \<lparr>lr_sessionId = lrr_sessionId T,
      lr_userId = lrr_userId T,
      lr_email = lrr_email T,
      lr_login = lrr_login T,
      lr_logout = lrr_logout T\<rparr>"

record ActionLinkRecordTuple =
  alr_id :: string
  alr_action :: u64
  alr_userId :: string
  alr_actionTemplate :: string
  alr_variables :: string
  alr_locale :: string
  alr_message :: string
  alr_sent :: u64
  alr_created :: u64
  alr_expires :: u64
  alr_completed :: u64
  alr_canceled :: u64
  alr_userAction :: bool

definition ActionLink_to_tuple :: "poco \<Rightarrow> ActionLink \<Rightarrow> ActionLinkRecordTuple" where
  "ActionLink_to_tuple P U =
     \<lparr>alr_id = al_id U,
      alr_action = al_action U,
      alr_userId = al_userId U,
      alr_actionTemplate = al_actionTemplate U,
      alr_variables = to_string_pairs P (al_variables U),
      alr_locale = al_locale U,
      alr_message = al_message U,
      alr_sent = al_sent U,
      alr_created = al_created U,
      alr_expires = al_expires U,
      alr_completed = al_completed U,
      alr_canceled = al_canceled U,
      alr_userAction = al_userAction U\<rparr>"

definition ActionLink_from_tuple :: "poco \<Rightarrow> ActionLinkRecordTuple \<Rightarrow> ActionLink option" where
  "ActionLink_from_tuple P T = Some
     \<lparr>al_id = alr_id T,
      al_action = alr_action T,
      al_userId = alr_userId T,
      al_actionTemplate = alr_actionTemplate T,
      al_variables = to_stringpair_array P (alr_variables T),
      al_locale = alr_locale T,
      al_message = alr_message T,
      al_sent = alr_sent T,
      al_created = alr_created T,
      al_expires = alr_expires T,
      al_completed = alr_completed T,
      al_canceled = alr_canceled T,
      al_userAction = alr_userAction T\<rparr>"

record ApiKeyRecordTuple =
  akr_id :: string
  akr_userUuid :: string
  akr_name :: string
  akr_description :: string
  akr_apiKey :: string
  akr_salt :: string
  akr_created :: u64
  akr_expiresOn :: u64
  akr_rights :: string
  akr_lastUse :: u64

definition ApiKeyEntry_to_tuple :: "poco \<Rightarrow> ApiKeyEntry \<Rightarrow> ApiKeyRecordTuple" where
  "ApiKeyEntry_to_tuple P U =
     \<lparr>akr_id = ak_id U,
      akr_userUuid = ak_userUuid U,
      akr_name = ak_name U,
      akr_description = ak_description U,
      akr_apiKey = ak_apiKey U,
      akr_salt = ak_salt U,
      akr_created = ak_created U,
      akr_expiresOn = ak_expiresOn U,
      akr_rights = to_string_vec P ApiKeyAccessRight_to_json (aarl_acls (ak_rights U)),
      akr_lastUse = ak_lastUse U\<rparr>"

definition ApiKeyEntry_from_tuple :: "poco \<Rightarrow> ApiKeyRecordTuple \<Rightarrow> ApiKeyEntry option" where
  "ApiKeyEntry_from_tuple P T = Some
     \<lparr>ak_id = akr_id T,
      ak_userUuid = akr_userUuid T,
      ak_name = akr_name T,
      ak_description = akr_description T,
      ak_apiKey = akr_apiKey T,
      ak_salt = akr_salt T,
      ak_created = akr_created T,
      ak_expiresOn = akr_expiresOn T,
      ak_rights = ApiKeyAccessRightList_init\<lparr>aarl_acls :=
           to_object_array P (ApiKeyAccessRight_from_json P) ApiKeyAccessRight_init (akr_rights T)\<rparr>,
      ak_lastUse = akr_lastUse T\<rparr>"

record PreferencesRecordTuple =
  prr_id :: string
  prr_modified :: u64
  prr_data :: string

definition Preferences_to_tuple :: "poco \<Rightarrow> Preferences \<Rightarrow> PreferencesRecordTuple" where
  "Preferences_to_tuple P U =
     \<lparr>prr_id = pr_id U,
      prr_modified = pr_modified U,
      prr_data = to_string_pairs P (pr_data U)\<rparr>"

definition Preferences_from_tuple :: "poco \<Rightarrow> PreferencesRecordTuple \<Rightarrow> Preferences option" where
  "Preferences_from_tuple P T = Some
     \<lparr>pr_id = prr_id T,
      pr_modified = prr_modified T,
      pr_data = to_stringpair_array P (prr_data T)\<rparr>"

record AvatarRecordTuple =
  avr_id :: string
  avr_type :: string
  avr_created :: u64
  avr_name :: string
  avr_avatar :: string

definition Avatar_to_tuple :: "poco \<Rightarrow> Avatar \<Rightarrow> AvatarRecordTuple" where
  "Avatar_to_tuple P U =
     \<lparr>avr_id = av_id U,
      avr_type = av_type U,
      avr_created = av_created U,
      avr_name = av_name U,
      avr_avatar = av_avatar U\<rparr>"

definition Avatar_from_tuple :: "poco \<Rightarrow> AvatarRecordTuple \<Rightarrow> Avatar option" where
  "Avatar_from_tuple P T = Some
     \<lparr>av_id = avr_id T,
      av_type = avr_type T,
      av_created = avr_created T,
      av_name = avr_name T,
      av_avatar = avr_avatar T\<rparr>"

subsection \<open>A row gives back its record\<close>

lemma Token_tuple_roundtrip:
  "poco_ok P \<Longrightarrow> Token_from_tuple P (Token_to_tuple P U) = Some U"
  by (simp add: Token_from_tuple_def Token_to_tuple_def)

lemma UserInfo_tuple_roundtrip:
  "poco_ok P \<Longrightarrow> UserInfo_from_tuple P (UserInfo_to_tuple P U) = Some U"
  by (simp add: UserInfo_from_tuple_def UserInfo_to_tuple_def
      UserLoginLoginExtensions_json.obj_text_roundtrip NoteInfo_json.vec_text_roundtrip
      strings_text_roundtrip role_text)

lemma LoginRecordInfo_tuple_roundtrip:
  "poco_ok P \<Longrightarrow> LoginRecordInfo_from_tuple P (LoginRecordInfo_to_tuple P U) = Some U"
  by (simp add: LoginRecordInfo_from_tuple_def LoginRecordInfo_to_tuple_def)

lemma ActionLink_tuple_roundtrip:
  "poco_ok P \<Longrightarrow> ActionLink_from_tuple P (ActionLink_to_tuple P U) = Some U"
  by (simp add: ActionLink_from_tuple_def ActionLink_to_tuple_def pairs_text_roundtrip)

lemma ApiKeyEntry_tuple_roundtrip:
  "poco_ok P \<Longrightarrow> ApiKeyEntry_from_tuple P (ApiKeyEntry_to_tuple P U) = Some U"
  by (simp add: ApiKeyEntry_from_tuple_def ApiKeyEntry_to_tuple_def
      ApiKeyAccessRight_json.vec_text_roundtrip ApiKeyAccessRightList_init_def)

lemma Preferences_tuple_roundtrip:
  "poco_ok P \<Longrightarrow> Preferences_from_tuple P (Preferences_to_tuple P U) = Some U"
  by (simp add: Preferences_from_tuple_def Preferences_to_tuple_def pairs_text_roundtrip)

lemma Avatar_tuple_roundtrip:
  "poco_ok P \<Longrightarrow> Avatar_from_tuple P (Avatar_to_tuple P U) = Some U"
  by (simp add: Avatar_from_tuple_def Avatar_to_tuple_def)

end
