(* ===== verification/Sec_World.thy ===== *)
theory Sec_World
  imports Storage_Rows "HOL-Library.State_Monad"
begin

text \<open>
  The state of the service and the monad its operations run in. The state holds the tables of
  \<^verbatim>\<open>StorageService\<close>, the caches in front of them, the caches of the multi-factor, TOTP and SMS
  subsystems and the messages handed to the mailer and to Kafka. Code outside the repository is
  the environment \<open>env\<close>; what it answers may change from step to step, so it is indexed by the
  step counter of the state.
\<close>

subsection \<open>The environment\<close>

text \<open>
  A database statement succeeds, throws while it executes, or throws when its transaction
  commits.
\<close>

datatype db_outcome = DbOk | DbExecFails | DbCommitFails

text \<open>
  Handing a message to the mail server succeeds or ends in an exception of one of the three
  kinds the mailer tells apart.
\<close>

datatype smtp_outcome = SmtpSent | SmtpRefused | SmtpPocoFails | SmtpStdFails

record env =
  e_poco :: poco
  e_clock :: "nat \<Rightarrow> u64"
  e_uuid :: "nat \<Rightarrow> string"
  e_rand :: "nat \<Rightarrow> nat"
  e_random :: "nat \<Rightarrow> nat \<Rightarrow> nat \<Rightarrow> nat"
  e_hires :: "nat \<Rightarrow> nat"
  e_sha2 :: "string \<Rightarrow> u8 list"
  e_sha2Hex :: "string \<Rightarrow> string"
  e_hmacHex :: "string \<Rightarrow> string"
  e_passwordOk :: "string \<Rightarrow> bool"
  e_subPasswordOk :: "string \<Rightarrow> bool"
  e_db :: "nat \<Rightarrow> db_outcome"
  e_evict :: "nat \<Rightarrow> string \<Rightarrow> bool"
  e_kafka :: bool
  e_smsEnabled :: bool
  e_smsSend :: "nat \<Rightarrow> bool"
  e_smtpEnabled :: bool
  e_smtpSend :: "nat \<Rightarrow> smtp_outcome"
  e_smtpSender :: string
  e_templateDir :: string
  e_loadFile :: "string \<Rightarrow> string"
  e_replaceInPlace :: "string \<Rightarrow> string \<Rightarrow> string \<Rightarrow> string"
  e_mailRetry :: u64
  e_mailAbandon :: u64
  e_helperEmail :: string
  e_systemLoginSite :: string
  e_helperSite :: string
  e_globalHelperEmail :: string
  e_userSignature :: string
  e_subHelperEmail :: string
  e_subSystemLoginSite :: string
  e_subHelperSite :: string
  e_globalSubHelperEmail :: string
  e_subSignature :: string
  e_qrSvg :: "string \<Rightarrow> string"
  e_issuer :: string
  e_publicEndPoint :: string
  e_publicAPIEndPoint :: string
  e_tokenAging :: u64
  e_refreshLifeSpan :: u64
  e_howManyOldPassword :: u64
  e_strHash :: "string \<Rightarrow> u64"
  e_millis :: "nat \<Rightarrow> int"
  e_myHash :: string
  e_provEndPoints :: "string list"
  e_passwordPattern :: string
  e_accessPolicy :: string
  e_passwordPolicy :: string
  e_subAccessPolicy :: string
  e_subPasswordPolicy :: string
  e_wwwAssets :: string
  e_uiURI :: string
  e_avatarMaxSize :: int
  e_services :: "(string \<times> u64 \<times> string) list"
  e_isFile :: "string \<Rightarrow> bool"

subsection \<open>State\<close>

datatype MESSAGE_ATTRIBUTES =
    RECIPIENT_EMAIL | RECIPIENT_FIRST_NAME | RECIPIENT_LAST_NAME | RECIPIENT_INITIALS
  | RECIPIENT_FULL_NAME | RECIPIENT_SALUTATION | ACTION_LINK | SUBJECT | TEMPLATE_TXT
  | TEMPLATE_HTML | LOGO | TEXT | CHALLENGE_CODE | SENDER | ACTION_LINK_HTML
  | USER_HELPER_EMAIL | SUB_HELPER_EMAIL | GLOBAL_USER_HELPER_EMAIL | GLOBAL_SUB_HELPER_EMAIL
  | USER_HELPER_SITE | SUB_HELPER_SITE | USER_SYSTEM_LOGIN | SUB_SYSTEM_LOGIN | USER_SIGNATURE
  | SUB_SIGNATURE | TRANSFER_REQUESTER | TRANSFER_ENTITY | ORIGINAL_REDIRECTOR | NEW_REDIRECTOR
  | TRANSFER_REASON | SERIAL_NUMBER | ORIGINAL_ENTITY_NAME | UUID

type_synonym MessageAttributes = "MESSAGE_ATTRIBUTES \<rightharpoonup> string"

record MessageEvent =
  me_Posted :: u64
  me_LastTry :: u64
  me_Sent :: u64
  me_TemplateName :: string
  me_Attrs :: MessageAttributes
  me_Subscriber :: bool

text \<open>What the mail server was given: sender, recipient, subject and body.\<close>

record MailMessage =
  mm_Sender :: string
  mm_Recipient :: string
  mm_Subject :: string
  mm_Content :: string

record MFACacheEntry =
  mc_UInfo :: UserInfoAndPolicy
  mc_Answer :: string
  mc_Created :: u64
  mc_Method :: string

record TotpEntry =
  te_Subscriber :: bool
  te_Start :: u64
  te_Done :: u64
  te_Verifications :: u64
  te_Secret :: string
  te_QRCode :: string
  te_LastCode :: string

record SMSValidationCacheEntry =
  sv_Number :: string
  sv_Code :: string
  sv_UserName :: string
  sv_Created :: u64
  sv_Validated :: bool

record ClientCacheEntry =
  cc_Start :: int
  cc_Count :: int

text \<open>
  The service keeps the same tables twice, for users and for subscribers. A cache of the Poco
  library is a partial map, or an association list where the sources enumerate it; entries may
  vanish at any step (\<open>e_evict\<close>).
\<close>

datatype realm_id = Users | Subs

record realm =
  r_users :: "UserInfoRecordTuple list"
  r_byId :: "string \<rightharpoonup> UserInfo"
  r_byEmail :: "string \<rightharpoonup> string"
  r_tokens :: "TokenRecordTuple list"
  r_tokenCache :: "(string \<times> Token) list"
  r_logins :: "LoginInfoRecordTuple list"
  r_prefs :: "PreferencesRecordTuple list"
  r_avatars :: "AvatarRecordTuple list"

record world =
  w_tick :: nat
  w_usr :: realm
  w_sub :: realm
  w_links :: "ActionLinkRecordTuple list"
  w_apikeys :: "ApiKeyRecordTuple list"
  w_mfa :: "string \<rightharpoonup> MFACacheEntry"
  w_totp :: "string \<rightharpoonup> TotpEntry"
  w_sms :: "SMSValidationCacheEntry list"
  w_smsSent :: "(string \<times> string) list"
  w_pendingMessages :: "MessageEvent list"
  w_messages :: "MessageEvent list"
  w_delivered :: "MailMessage list"
  w_removedTokens :: "string list"
  w_rates :: "u64 \<rightharpoonup> ClientCacheEntry"
  w_secrets :: "(string \<times> string) list"
  w_secretFile :: "string option"
  w_prov :: "string list"
  w_levels :: "(string \<times> int) list"
  w_reloads :: "string list"

fun realm_of :: "realm_id \<Rightarrow> world \<Rightarrow> realm" where
  "realm_of Users w = w_usr w"
| "realm_of Subs w = w_sub w"

fun upd_realm :: "realm_id \<Rightarrow> (realm \<Rightarrow> realm) \<Rightarrow> world \<Rightarrow> world" where
  "upd_realm Users f w = w\<lparr>w_usr := f (w_usr w)\<rparr>"
| "upd_realm Subs f w = w\<lparr>w_sub := f (w_sub w)\<rparr>"

definition realm_empty :: realm where
  "realm_empty = \<lparr>r_users = [], r_byId = Map.empty, r_byEmail = Map.empty, r_tokens = [],
     r_tokenCache = [], r_logins = [], r_prefs = [], r_avatars = []\<rparr>"

definition world_empty :: world where
  "world_empty = \<lparr>w_tick = 0, w_usr = realm_empty, w_sub = realm_empty, w_links = [],
     w_apikeys = [], w_mfa = Map.empty, w_totp = Map.empty, w_sms = [], w_smsSent = [],
     w_pendingMessages = [], w_messages = [], w_delivered = [], w_removedTokens = [], w_rates = Map.empty,
     w_secrets = [], w_secretFile = None, w_prov = [], w_levels = [], w_reloads = []\<rparr>"

subsection \<open>The monad\<close>

type_synonym 'a sec = "(world, 'a) state"

definition ret :: "'a \<Rightarrow> 'a sec" where
  "ret x = State_Monad.return x"

definition gets :: "(world \<Rightarrow> 'a) \<Rightarrow> 'a sec" where
  "gets f = State (\<lambda>w. (f w, w))"

definition modify :: "(world \<Rightarrow> world) \<Rightarrow> unit sec" where
  "modify f = State (\<lambda>w. ((), f w))"

text \<open>One interaction with the environment.\<close>

definition step :: "nat sec" where
  "step = State (\<lambda>w. (w_tick w, w\<lparr>w_tick := Suc (w_tick w)\<rparr>))"

definition Now :: "env \<Rightarrow> u64 sec" where
  "Now E = do { t \<leftarrow> step; ret (e_clock E t) }"

definition CreateUUID :: "env \<Rightarrow> string sec" where
  "CreateUUID E = do { t \<leftarrow> step; ret (e_uuid E t) }"

definition Random :: "env \<Rightarrow> nat \<Rightarrow> nat \<Rightarrow> nat sec" where
  "Random E lo hi = do { t \<leftarrow> step; ret (e_random E t lo hi) }"

definition db_step :: "env \<Rightarrow> db_outcome sec" where
  "db_step E = do { t \<leftarrow> step; ret (e_db E t) }"

text \<open>A \<^verbatim>\<open>for\<close> loop over a vector.\<close>

fun foreach :: "'a list \<Rightarrow> ('a \<Rightarrow> unit sec) \<Rightarrow> unit sec" where
  "foreach [] body = ret ()"
| "foreach (x # xs) body = do { body x; foreach xs body }"

subsection \<open>Postconditions\<close>

text \<open>
  \<open>wp m Q w\<close>: running \<open>m\<close> from \<open>w\<close> ends in a result and a state that satisfy \<open>Q\<close>. Every
  operation is total, so this is also a claim of termination.
\<close>

definition wp :: "'a sec \<Rightarrow> ('a \<Rightarrow> world \<Rightarrow> bool) \<Rightarrow> world \<Rightarrow> bool" where
  "wp m Q w = (case run_state m w of (x, w') \<Rightarrow> Q x w')"

named_theorems wp_rules

lemma wp_bind [simp, wp_rules]: "wp (State_Monad.bind m f) Q = wp m (\<lambda>x. wp (f x) Q)"
  by (rule ext) (simp add: wp_def split: prod.splits)

lemma wp_ret [simp, wp_rules]: "wp (ret x) Q = Q x"
  by (rule ext) (simp add: wp_def ret_def)

lemma wp_gets [simp, wp_rules]: "wp (gets f) Q w = Q (f w) w"
  by (simp add: wp_def gets_def)

lemma wp_modify [simp, wp_rules]: "wp (modify f) Q w = Q () (f w)"
  by (simp add: wp_def modify_def)

lemma wp_step [simp, wp_rules]: "wp step Q w = Q (w_tick w) (w\<lparr>w_tick := Suc (w_tick w)\<rparr>)"
  by (simp add: wp_def step_def)

lemma wp_mono: "wp m Q w \<Longrightarrow> (\<And>x w'. Q x w' \<Longrightarrow> R x w') \<Longrightarrow> wp m R w"
  by (auto simp: wp_def split: prod.splits)

lemma wp_conj: "wp m Q w \<Longrightarrow> wp m R w \<Longrightarrow> wp m (\<lambda>x w'. Q x w' \<and> R x w') w"
  by (auto simp: wp_def split: prod.splits)

lemma wp_run: "wp m Q w \<longleftrightarrow> (\<forall>x w'. run_state m w = (x, w') \<longrightarrow> Q x w')"
  by (auto simp: wp_def split: prod.splits)

lemma wp_runD: "wp m Q w \<Longrightarrow> run_state m w = (x, w') \<Longrightarrow> Q x w'"
  by (simp add: wp_def)

text \<open>Branches of a program, for use with \<open>rule\<close> when a condition is not decided by \<open>simp\<close>.\<close>

lemma wp_if [wp_rules]:
  "wp (if b then m else n) Q w = (if b then wp m Q w else wp n Q w)"
  by simp

lemma wp_case_option [wp_rules]:
  "wp (case x of None \<Rightarrow> m | Some y \<Rightarrow> f y) Q w = (case x of None \<Rightarrow> wp m Q w | Some y \<Rightarrow> wp (f y) Q w)"
  by (simp split: option.splits)

lemma wp_case_prod [wp_rules]:
  "wp (case p of (x, y) \<Rightarrow> f x y) Q w = (case p of (x, y) \<Rightarrow> wp (f x y) Q w)"
  by (simp split: prod.splits)

lemma wp_let [wp_rules]: "wp (let x = e in f x) Q w = (let x = e in wp (f x) Q w)"
  by simp

subsection \<open>Preservation\<close>

definition preserves :: "(world \<Rightarrow> bool) \<Rightarrow> 'a sec \<Rightarrow> bool" where
  "preserves I m \<longleftrightarrow> (\<forall>w. I w \<longrightarrow> wp m (\<lambda>_. I) w)"

named_theorems pres

lemma preserves_bind [pres]:
  "preserves I m \<Longrightarrow> (\<And>x. preserves I (f x)) \<Longrightarrow> preserves I (State_Monad.bind m f)"
  unfolding preserves_def by (auto intro: wp_mono)

lemma preserves_ret [pres]: "preserves I (ret x)"
  by (simp add: preserves_def)

lemma preserves_gets [pres]: "preserves I (gets f)"
  by (simp add: preserves_def)

lemma preserves_if [pres]:
  "preserves I m \<Longrightarrow> preserves I n \<Longrightarrow> preserves I (if b then m else n)"
  by simp

lemma preserves_option [pres]:
  "preserves I m \<Longrightarrow> (\<And>y. preserves I (f y)) \<Longrightarrow> preserves I (case x of None \<Rightarrow> m | Some y \<Rightarrow> f y)"
  by (cases x) simp_all

lemma preserves_prod [pres]:
  "(\<And>x y. preserves I (f x y)) \<Longrightarrow> preserves I (case p of (x, y) \<Rightarrow> f x y)"
  by (cases p) simp

lemma preserves_let [pres]: "(\<And>x. preserves I (f x)) \<Longrightarrow> preserves I (let x = e in f x)"
  by simp

lemma preserves_modify: "(\<And>w. I w \<Longrightarrow> I (g w)) \<Longrightarrow> preserves I (modify g)"
  by (simp add: preserves_def)

lemma preserves_foreach [pres]: "(\<And>x. preserves I (f x)) \<Longrightarrow> preserves I (foreach xs f)"
  by (induction xs) (auto intro: pres)

lemma preservesD: "preserves I m \<Longrightarrow> I w \<Longrightarrow> wp m (\<lambda>_. I) w"
  by (simp add: preserves_def)

lemma preserves_step: "(\<And>w n. I w \<Longrightarrow> I (w\<lparr>w_tick := n\<rparr>)) \<Longrightarrow> preserves I step"
  by (simp add: preserves_def)

subsection \<open>Realms\<close>

lemma realm_upd [simp]: "realm_of R (upd_realm R f w) = f (realm_of R w)"
  by (cases R) simp_all

lemma realm_upd_other [simp]: "R \<noteq> R' \<Longrightarrow> realm_of R (upd_realm R' f w) = realm_of R w"
  by (cases R; cases R') simp_all

lemma realm_tick [simp]: "realm_of R (w\<lparr>w_tick := n\<rparr>) = realm_of R w"
  by (cases R) simp_all

lemma tick_upd_realm [simp]: "w_tick (upd_realm R f w) = w_tick w"
  by (cases R) simp_all

lemma upd_realm_tick [simp]: "upd_realm R f (w\<lparr>w_tick := n\<rparr>) = (upd_realm R f w)\<lparr>w_tick := n\<rparr>"
  by (cases R) simp_all

subsection \<open>The persistent part of a state\<close>

text \<open>
  The state without the caches of the tables, the step counter, the rates of the clients and the
  announcements to other services. Reading never changes it; frame conditions are equations between such parts.
\<close>

definition drop_caches :: "realm \<Rightarrow> realm" where
  "drop_caches r = r\<lparr>r_byId := Map.empty, r_byEmail := Map.empty, r_tokenCache := []\<rparr>"

definition persist :: "world \<Rightarrow> world" where
  "persist w = w\<lparr>w_tick := 0, w_removedTokens := [], w_rates := Map.empty, w_prov := [], w_usr := drop_caches (w_usr w),
     w_sub := drop_caches (w_sub w)\<rparr>"

lemma persist_tick [simp]: "persist (w\<lparr>w_tick := n\<rparr>) = persist w"
  by (simp add: persist_def)

lemma persist_removedTokens [simp]: "persist (w\<lparr>w_removedTokens := r\<rparr>) = persist w"
  by (simp add: persist_def)

lemma persist_rates [simp]: "persist (w\<lparr>w_rates := r\<rparr>) = persist w" "persist (w\<lparr>w_prov := r1\<rparr>) = persist w"
  by (simp_all add: persist_def)

lemma persist_upd_realm_cache [simp]:
  "persist (upd_realm R (r_byId_update f) w) = persist w"
  "persist (upd_realm R (r_byEmail_update g) w) = persist w"
  "persist (upd_realm R (r_tokenCache_update h) w) = persist w"
  by (cases R; simp add: persist_def drop_caches_def)+

lemma persist_upd_realm_rows [simp]:
  "persist (upd_realm R (r_users_update f1) w) = upd_realm R (r_users_update f1) (persist w)"
  "persist (upd_realm R (r_tokens_update f2) w) = upd_realm R (r_tokens_update f2) (persist w)"
  "persist (upd_realm R (r_logins_update f3) w) = upd_realm R (r_logins_update f3) (persist w)"
  "persist (upd_realm R (r_prefs_update f4) w) = upd_realm R (r_prefs_update f4) (persist w)"
  "persist (upd_realm R (r_avatars_update f5) w) = upd_realm R (r_avatars_update f5) (persist w)"
  by (cases R; simp add: persist_def drop_caches_def)+

lemma persist_sel [simp]:
  "r_users (realm_of R (persist w)) = r_users (realm_of R w)"
  "r_tokens (realm_of R (persist w)) = r_tokens (realm_of R w)"
  "r_logins (realm_of R (persist w)) = r_logins (realm_of R w)"
  "r_prefs (realm_of R (persist w)) = r_prefs (realm_of R w)"
  "r_avatars (realm_of R (persist w)) = r_avatars (realm_of R w)"
  "w_links (persist w) = w_links w" "w_apikeys (persist w) = w_apikeys w"
  "w_mfa (persist w) = w_mfa w" "w_totp (persist w) = w_totp w" "w_sms (persist w) = w_sms w"
  "w_smsSent (persist w) = w_smsSent w" "w_pendingMessages (persist w) = w_pendingMessages w"
  "w_messages (persist w) = w_messages w" "w_delivered (persist w) = w_delivered w"
  by (cases R; simp add: persist_def drop_caches_def)+

lemma persist_other [simp]:
  "persist (w\<lparr>w_links := a\<rparr>) = (persist w)\<lparr>w_links := a\<rparr>"
  "persist (w\<lparr>w_apikeys := b\<rparr>) = (persist w)\<lparr>w_apikeys := b\<rparr>"
  "persist (w\<lparr>w_mfa := c\<rparr>) = (persist w)\<lparr>w_mfa := c\<rparr>"
  "persist (w\<lparr>w_totp := d\<rparr>) = (persist w)\<lparr>w_totp := d\<rparr>"
  "persist (w\<lparr>w_sms := e\<rparr>) = (persist w)\<lparr>w_sms := e\<rparr>"
  "persist (w\<lparr>w_smsSent := f\<rparr>) = (persist w)\<lparr>w_smsSent := f\<rparr>"
  "persist (w\<lparr>w_pendingMessages := g\<rparr>) = (persist w)\<lparr>w_pendingMessages := g\<rparr>"
  "persist (w\<lparr>w_messages := h\<rparr>) = (persist w)\<lparr>w_messages := h\<rparr>"
  "persist (w\<lparr>w_delivered := i\<rparr>) = (persist w)\<lparr>w_delivered := i\<rparr>"
  by (simp_all add: persist_def)

lemma persist_eqD:
  assumes "persist w' = persist w"
  shows "r_users (realm_of R w') = r_users (realm_of R w)"
    and "r_tokens (realm_of R w') = r_tokens (realm_of R w)"
    and "r_logins (realm_of R w') = r_logins (realm_of R w)"
    and "w_links w' = w_links w" and "w_apikeys w' = w_apikeys w"
    and "w_mfa w' = w_mfa w" and "w_totp w' = w_totp w" and "w_sms w' = w_sms w"
    and "r_prefs (realm_of R w') = r_prefs (realm_of R w)" and "r_avatars (realm_of R w') = r_avatars (realm_of R w)"
  using assms persist_sel by metis+

text \<open>Operations that only read, up to caches.\<close>

definition reads_only :: "'a sec \<Rightarrow> bool" where
  "reads_only m \<longleftrightarrow> (\<forall>w. wp m (\<lambda>_ w'. persist w' = persist w) w)"

named_theorems ro

lemma reads_onlyI: "(\<And>w. wp m (\<lambda>_ w'. persist w' = persist w) w) \<Longrightarrow> reads_only m"
  by (simp add: reads_only_def)

lemma reads_onlyD: "reads_only m \<Longrightarrow> wp m (\<lambda>_ w'. persist w' = persist w) w"
  by (simp add: reads_only_def)

lemma reads_only_bind [ro]:
  "reads_only m \<Longrightarrow> (\<And>x. reads_only (f x)) \<Longrightarrow> reads_only (State_Monad.bind m f)"
  by (rule reads_onlyI) (auto intro!: wp_mono [OF reads_onlyD] wp_mono [OF reads_onlyD [of "f _"]])

lemma reads_only_basic [ro]: "reads_only (ret x)" "reads_only (gets f)" "reads_only step"
  by (simp_all add: reads_only_def)

lemma reads_only_if [ro]: "reads_only m \<Longrightarrow> reads_only n \<Longrightarrow> reads_only (if b then m else n)"
  by simp

lemma reads_only_option [ro]:
  "reads_only m \<Longrightarrow> (\<And>y. reads_only (f y)) \<Longrightarrow> reads_only (case x of None \<Rightarrow> m | Some y \<Rightarrow> f y)"
  by (cases x) simp_all

lemma reads_only_prod [ro]:
  "(\<And>x y. reads_only (f x y)) \<Longrightarrow> reads_only (case p of (x, y) \<Rightarrow> f x y)"
  by (cases p) simp

lemma reads_only_let [ro]: "(\<And>x. reads_only (f x)) \<Longrightarrow> reads_only (let x = e in f x)"
  by simp

lemma reads_only_foreach [ro]: "(\<And>x. reads_only (f x)) \<Longrightarrow> reads_only (foreach xs f)"
  by (induction xs) (auto intro: ro)

lemma reads_only_env [ro]:
  "reads_only (Now E)" "reads_only (CreateUUID E)" "reads_only (Random E lo hi)"
  "reads_only (db_step E)"
  by (simp_all add: reads_only_def Now_def CreateUUID_def Random_def db_step_def)

end
