(* ===== verification/Passwords.thy ===== *)
theory Passwords
  imports Sec_World
begin

text \<open>
  Password hashing and the password history, from \<^verbatim>\<open>src/AuthService.cpp\<close> and \<^verbatim>\<open>Utils::ToHex\<close>. The
  digest is a parameter; salts are the decimal text of a clock reading. \<^verbatim>\<open>SetPassword\<close> indexes the
  first token of a stored password, which throws for an empty one: \<open>None\<close>.
\<close>

definition hex_digit :: "nat \<Rightarrow> char" where
  "hex_digit n = ''0123456789abcdef'' ! n"

fun ToHex :: "u8 list \<Rightarrow> string" where
  "ToHex [] = []"
| "ToHex (i # B) = hex_digit (unat (drop_bit 4 (i AND 0xf0))) # hex_digit (unat (i AND 0x0f)) # ToHex B"

definition GetMeSomeSalt :: "env \<Rightarrow> string sec" where
  "GetMeSomeSalt E = do { t \<leftarrow> step; ret (to_dec (e_hires E t)) }"

text \<open>\<^verbatim>\<open>Poco::trim(Poco::toLower(UserName))\<close>.\<close>

definition hash_name :: "env \<Rightarrow> string \<Rightarrow> string" where
  "hash_name E UserName = str_trim (e_poco E) (str_toLower (e_poco E) UserName)"

definition ComputeNewPasswordHash :: "env \<Rightarrow> string \<Rightarrow> string \<Rightarrow> string sec" where
  "ComputeNewPasswordHash E UserName Password = do {
     let UName = hash_name E UserName;
     Salt \<leftarrow> GetMeSomeSalt E;
     ret (Salt @ ''|'' @ ToHex (e_sha2 E (Salt @ Password @ UName)))
   }"

definition ValidatePasswordHash :: "env \<Rightarrow> string \<Rightarrow> string \<Rightarrow> string \<Rightarrow> bool" where
  "ValidatePasswordHash E UserName Password StoredPassword =
     (let UName = hash_name E UserName;
          Tokens = str_tokens (e_poco E) CHR ''|'' StoredPassword
      in if length Tokens = 1 then Tokens ! 0 = ToHex (e_sha2 E (Password @ UName))
         else if length Tokens = 2 then Tokens ! 1 = ToHex (e_sha2 E (Tokens ! 0 @ Password @ UName))
         else False)"

definition ValidateSubPasswordHash :: "env \<Rightarrow> string \<Rightarrow> string \<Rightarrow> string \<Rightarrow> bool" where
  "ValidateSubPasswordHash E UserName Password StoredPassword =
     (let UName = hash_name E UserName;
          Tokens = str_tokens (e_poco E) CHR ''|'' StoredPassword
      in if length Tokens = 1 then Tokens ! 0 = ToHex (e_sha2 E (Password @ UName))
         else if length Tokens = 2 then Tokens ! 1 = ToHex (e_sha2 E (Tokens ! 0 @ Password @ UName))
         else False)"

text \<open>
  The search of the history: every salt of the history is tried against every stored hash;
  entries without a salt are compared directly. \<open>Some True\<close>: the password was used.
\<close>

definition salted_match :: "env \<Rightarrow> string \<Rightarrow> string \<Rightarrow> string \<Rightarrow> string \<Rightarrow> bool" where
  "salted_match E Salt NewPassword email j =
     (let OldTokens = str_tokens (e_poco E) CHR ''|'' j
      in length OldTokens = 2 \<and> OldTokens ! 1 = ToHex (e_sha2 E (Salt @ NewPassword @ email)))"

fun password_used :: "env \<Rightarrow> string \<Rightarrow> string \<Rightarrow> string list \<Rightarrow> string list \<Rightarrow> bool option" where
  "password_used E NewPassword email lastPasswords [] = Some False"
| "password_used E NewPassword email lastPasswords (i # rest) =
     (let Tokens = str_tokens (e_poco E) CHR ''|'' i
      in if length Tokens = 2 then
           (if list_ex (salted_match E (Tokens ! 0) NewPassword email) lastPasswords then Some True
            else password_used E NewPassword email lastPasswords rest)
         else if Tokens = [] then None
         else if Tokens ! 0 = ToHex (e_sha2 E (NewPassword @ email)) then Some True
         else password_used E NewPassword email lastPasswords rest)"

definition SetPassword :: "env \<Rightarrow> string \<Rightarrow> UserInfo \<Rightarrow> (UserInfo \<times> bool) option sec" where
  "SetPassword E NewPassword UInfo = do {
     let UInfo = UInfo\<lparr>u_email := str_toLower (e_poco E) (u_email UInfo)\<rparr>;
     case password_used E NewPassword (u_email UInfo) (u_lastPasswords UInfo) (u_lastPasswords UInfo) of
       None \<Rightarrow> ret None
     | Some used \<Rightarrow>
         if used then ret (Some (UInfo, False))
         else do {
           let kept = (if of_nat (length (u_lastPasswords UInfo)) = e_howManyOldPassword E
                       then tl (u_lastPasswords UInfo) else u_lastPasswords UInfo);
           NewHash \<leftarrow> ComputeNewPasswordHash E (u_email UInfo) NewPassword;
           ret (Some (UInfo\<lparr>u_lastPasswords := kept @ [NewHash], u_currentPassword := NewHash,
                            u_changePassword := False\<rparr>, True))
         }
   }"

text \<open>\<^verbatim>\<open>SetSubPassword\<close> has the same body.\<close>

definition SetSubPassword :: "env \<Rightarrow> string \<Rightarrow> UserInfo \<Rightarrow> (UserInfo \<times> bool) option sec" where
  "SetSubPassword E NewPassword UInfo = SetPassword E NewPassword UInfo"

subsection \<open>A hash validates the password it was made from\<close>

definition sha2_ok :: "env \<Rightarrow> bool" where
  "sha2_ok E \<longleftrightarrow> (\<forall>x. e_sha2 E x \<noteq> [])"

text \<open>The text of a salted hash.\<close>

definition salted_hash :: "env \<Rightarrow> nat \<Rightarrow> string \<Rightarrow> string \<Rightarrow> string" where
  "salted_hash E n Password UName =
     to_dec n @ ''|'' @ ToHex (e_sha2 E (to_dec n @ Password @ UName))"

lemma hex_digit_no_bar: "n < 16 \<Longrightarrow> hex_digit n \<noteq> CHR ''|''"
proof -
  assume "n < 16"
  then have "hex_digit n \<in> set ''0123456789abcdef''" unfolding hex_digit_def by (intro nth_mem) simp
  then show ?thesis by auto
qed

lemma nibbles_lt16: "unat (drop_bit 4 (i AND 0xf0 :: u8)) < 16" "unat (i AND 0x0f :: u8) < 16"
proof -
  have "i AND 0x0f \<le> (0x0f :: u8)" by (rule word_and_le1)
  then show "unat (i AND 0x0f :: u8) < 16" by (simp add: word_le_nat_alt)
  have "unat (drop_bit 4 (i AND 0xf0 :: u8)) = unat (i AND 0xf0) div 16"
    using unat_div [of "i AND 0xf0" 16] by (simp add: drop_bit_eq_div)
  moreover have "unat (i AND 0xf0 :: u8) < 256" using unsigned_less [of "i AND 0xf0 :: u8"] by simp
  ultimately show "unat (drop_bit 4 (i AND 0xf0 :: u8)) < 16" by linarith
qed

lemma ToHex_no_bar: "CHR ''|'' \<notin> set (ToHex B)"
  by (induction B) (auto dest: sym simp: hex_digit_no_bar nibbles_lt16)

lemma ToHex_not_empty: "B \<noteq> [] \<Longrightarrow> ToHex B \<noteq> []"
  by (cases B) simp_all

lemma salted_hash_tokens:
  assumes "poco_ok (e_poco E)" "sha2_ok E"
  shows "str_tokens (e_poco E) CHR ''|'' (salted_hash E n pw name)
    = [to_dec n, ToHex (e_sha2 E (to_dec n @ pw @ name))]"
  using poco_okD(9) [OF assms(1) to_dec_not_empty [of n] ToHex_not_empty to_dec_no_bar [of n] ToHex_no_bar]
    assms(2) by (simp add: salted_hash_def sha2_ok_def)

lemma wp_ComputeNewPasswordHash [simp]:
  "wp (ComputeNewPasswordHash E name pw) Q w =
     Q (salted_hash E (e_hires E (w_tick w)) pw (hash_name E name)) (w\<lparr>w_tick := Suc (w_tick w)\<rparr>)"
  by (simp add: ComputeNewPasswordHash_def GetMeSomeSalt_def salted_hash_def Let_def)

lemma ComputeNewPasswordHash_ro [ro]: "reads_only (ComputeNewPasswordHash E name pw)"
  by (simp add: reads_only_def)

lemma validates_salted_hash:
  assumes "poco_ok (e_poco E)" "sha2_ok E"
  shows "ValidatePasswordHash E name pw (salted_hash E n pw (hash_name E name))"
  by (simp add: ValidatePasswordHash_def salted_hash_tokens [OF assms])

subsection \<open>The history\<close>

lemma password_used_hit:
  assumes ok: "poco_ok (e_poco E)" "sha2_ok E"
    and mem: "salted_hash E n pw name \<in> set all" and tokens: "\<forall>h \<in> set rest. str_tokens (e_poco E) CHR ''|'' h \<noteq> []"
    and rest: "salted_hash E n pw name \<in> set rest"
  shows "password_used E pw name all rest = Some True"
  using tokens rest
proof (induction rest)
  case (Cons i rest)
  show ?case
  proof (cases "i = salted_hash E n pw name")
    case True
    have "salted_match E (to_dec n) pw name (salted_hash E n pw name)"
      by (simp add: salted_match_def salted_hash_tokens [OF ok])
    with mem have "list_ex (salted_match E (to_dec n) pw name) all" by (auto simp: list_ex_iff)
    with True show ?thesis by (simp add: salted_hash_tokens [OF ok])
  next
    case False
    with Cons show ?thesis by (auto simp: Let_def)
  qed
qed simp

lemma of_nat_eq_u64: "n \<le> unat (m :: u64) \<Longrightarrow> of_nat n = m \<longleftrightarrow> n = unat m"
proof -
  assume n: "n \<le> unat m"
  have "unat m < 2 ^ 64" by (rule order.strict_trans2 [OF unsigned_less]) simp
  with n have "n < 2 ^ 64" by simp
  then have "unat (of_nat n :: u64) = n" by (simp add: unsigned_of_nat take_bit_nat_eq_self)
  then show ?thesis by (metis word_unat_eq_iff)
qed

lemma kept_length:
  assumes "length lp \<le> unat N" "N \<noteq> 0"
  shows "length ((if of_nat (length lp) = (N :: u64) then tl lp else lp) @ [h]) \<le> unat N"
  using assms of_nat_eq_u64 [OF assms(1)] unat_eq_zero [of N] by (cases lp) (auto simp: Suc_le_eq word_greater_zero_iff unat_gt_0)

text \<open>
  C17. A password change that succeeds stores a hash that validates the new password for that
  account, makes it both the current password and the newest entry of the history, clears the
  forced-change flag, and never lets the history grow beyond the configured size.
\<close>

theorem set_password_installs:
  assumes "poco_ok (e_poco E)" "sha2_ok E"
    and "length (u_lastPasswords u) \<le> unat (e_howManyOldPassword E)" "e_howManyOldPassword E \<noteq> 0"
  shows "wp (SetPassword E pw u) (\<lambda>res w'. \<forall>u'. res = Some (u', True) \<longrightarrow>
      ValidatePasswordHash E (u_email u') pw (u_currentPassword u')
      \<and> last (u_lastPasswords u') = u_currentPassword u' \<and> \<not> u_changePassword u'
      \<and> length (u_lastPasswords u') \<le> unat (e_howManyOldPassword E) \<and> u_id u' = u_id u) w"
  unfolding SetPassword_def
  using kept_length [OF assms(3,4)]
  by (auto simp: Let_def validates_salted_hash [OF assms(1,2)] split: option.splits)

text \<open>
  A password whose hash is anywhere in the history cannot be chosen again, provided the
  account name has no surrounding blanks and no history entry is empty.
\<close>

theorem password_reuse_rejected:
  assumes "poco_ok (e_poco E)" "sha2_ok E"
    and "str_trim (e_poco E) (str_toLower (e_poco E) (u_email u)) = str_toLower (e_poco E) (u_email u)"
    and "\<forall>h \<in> set (u_lastPasswords u). str_tokens (e_poco E) CHR ''|'' h \<noteq> []"
    and "salted_hash E n pw (hash_name E (u_email u)) \<in> set (u_lastPasswords u)"
  shows "wp (SetPassword E pw u) (\<lambda>res w'. \<exists>u'. res = Some (u', False)) w"
proof -
  have "password_used E pw (str_toLower (e_poco E) (u_email u)) (u_lastPasswords u) (u_lastPasswords u)
      = Some True"
    using password_used_hit [OF assms(1,2) assms(5) assms(4) assms(5)] assms(3)
    by (simp add: hash_name_def)
  then show ?thesis by (simp add: SetPassword_def Let_def)
qed

end
