(* ===== verification/Env_Instance.thy ===== *)
theory Env_Instance
  imports Passwords
begin

text \<open>
  A concrete environment in which the hypotheses of the theorems hold: a database that never
  fails, a clock that advances with the steps, distinct identifiers.
\<close>

definition env_inst :: env where
  "env_inst =
     \<lparr>e_poco = poco_inst, e_clock = (\<lambda>n. of_nat (1000 + n)), e_uuid = (\<lambda>n. ''id'' @ to_dec n),
      e_rand = (\<lambda>n. n), e_random = (\<lambda>t lo hi. lo), e_hires = (\<lambda>n. 5000 + n),
      e_sha2 = (\<lambda>s. of_nat (length s) # map (\<lambda>c. of_nat (of_char c)) s),
      e_sha2Hex = (\<lambda>s. CHR ''s'' # s), e_hmacHex = (\<lambda>s. CHR ''h'' # s),
      e_passwordOk = (\<lambda>s. 8 \<le> length s), e_subPasswordOk = (\<lambda>s. 8 \<le> length s),
      e_db = (\<lambda>n. DbOk), e_evict = (\<lambda>n k. False), e_kafka = True,
      e_smsEnabled = True, e_smsSend = (\<lambda>n. True), e_smtpEnabled = True,
      e_smtpSend = (\<lambda>n. SmtpSent), e_smtpSender = ''sec@x.org'', e_templateDir = ''/templates'',
      e_loadFile = (\<lambda>f. f), e_replaceInPlace = (\<lambda>txt from to. txt),
      e_mailRetry = 120, e_mailAbandon = 7200, e_helperEmail = ''help@x.org'',
      e_systemLoginSite = ''x.org'', e_helperSite = ''x.org'', e_globalHelperEmail = ''help@x.org'',
      e_userSignature = ''TIP'', e_subHelperEmail = ''help@x.org'', e_subSystemLoginSite = ''x.org'',
      e_subHelperSite = ''x.org'', e_globalSubHelperEmail = ''help@x.org'', e_subSignature = ''TIP'',
      e_qrSvg = (\<lambda>s. s), e_issuer = ''OpenWiFi'', e_publicEndPoint = ''https://sec'',
      e_publicAPIEndPoint = ''https://sec/api/v1'', e_tokenAging = 2592000,
      e_refreshLifeSpan = 7776000, e_howManyOldPassword = 5, e_strHash = (\<lambda>s. of_nat (length s)),
      e_millis = (\<lambda>n. 1000 * int n), e_myHash = ''me'', e_provEndPoints = [''https://prov''],
      e_passwordPattern = ''.{8,}'', e_accessPolicy = ''/access'', e_passwordPolicy = ''/password'',
      e_subAccessPolicy = ''/subaccess'', e_subPasswordPolicy = ''/subpassword'', e_wwwAssets = ''/www'',
      e_uiURI = ''https://ui'', e_avatarMaxSize = 2000000, e_services = [(''owprov'', 7, ''https://prov'')],
      e_isFile = (\<lambda>f. True)\<rparr>"

lemma env_inst_ok [simp]: "poco_ok (e_poco env_inst)" "sha2_ok env_inst"
  by (simp_all add: env_inst_def poco_inst_ok sha2_ok_def)

theorem set_password_installs_witness:
  "wp (SetPassword env_inst ''Secret1!'' (UserInfo_init\<lparr>u_email := ''A@B.c''\<rparr>))
     (\<lambda>res w'. \<forall>u'. res = Some (u', True) \<longrightarrow>
      ValidatePasswordHash env_inst (u_email u') ''Secret1!'' (u_currentPassword u')
      \<and> last (u_lastPasswords u') = u_currentPassword u' \<and> \<not> u_changePassword u'
      \<and> length (u_lastPasswords u') \<le> unat (e_howManyOldPassword env_inst)
      \<and> u_id u' = u_id (UserInfo_init\<lparr>u_email := ''A@B.c''\<rparr>)) world_empty"
  by (rule set_password_installs) (simp_all add: UserInfo_init_def env_inst_def poco_inst_ok sha2_ok_def)

definition reuse_user :: UserInfo where
  "reuse_user = UserInfo_init\<lparr>u_email := ''a@b.c'',
     u_lastPasswords := [salted_hash env_inst 7 ''Secret1!'' (hash_name env_inst ''a@b.c'')]\<rparr>"

theorem password_reuse_rejected_witness:
  "wp (SetPassword env_inst ''Secret1!'' reuse_user) (\<lambda>res w'. \<exists>u'. res = Some (u', False)) world_empty"
proof (rule password_reuse_rejected)
  show "str_trim (e_poco env_inst) (str_toLower (e_poco env_inst) (u_email reuse_user))
      = str_toLower (e_poco env_inst) (u_email reuse_user)"
    by (simp add: reuse_user_def env_inst_def poco_inst_def inst_trim_def blank_def ascii_lower_def)
  show "\<forall>h \<in> set (u_lastPasswords reuse_user). str_tokens (e_poco env_inst) CHR ''|'' h \<noteq> []"
    by (simp add: reuse_user_def salted_hash_tokens)
qed (simp_all add: reuse_user_def)

end
