(* ===== verification/Orm.thy ===== *)
theory Orm
  imports Env_Instance
begin

text \<open>
  The object mapper \<^verbatim>\<open>ORM::DB\<close> of \<^verbatim>\<open>src/framework/orm.h\<close>, for a table with an optional cache.
  SQL statements act on the list of rows: an insert or an update that would repeat a primary key
  throws, a select by a column gives the first matching row. Every operation catches the
  exceptions of its statement, logs them and returns failure; an update and a delete run in a
  transaction whose commit comes after the cache was changed.
\<close>

record 'r dbcache =
  c_create :: "'r \<Rightarrow> unit sec"
  c_get :: "string \<Rightarrow> string \<Rightarrow> 'r option sec"
  c_update :: "'r \<Rightarrow> unit sec"
  c_delete :: "string \<Rightarrow> string \<Rightarrow> unit sec"

record ('t, 'r) db =
  d_rows :: "world \<Rightarrow> 't list"
  d_upd :: "('t list \<Rightarrow> 't list) \<Rightarrow> world \<Rightarrow> world"
  d_key :: "'t \<Rightarrow> string"
  d_field :: "string \<Rightarrow> 't \<Rightarrow> string"
  d_to :: "'r \<Rightarrow> 't"
  d_from :: "'t \<Rightarrow> 'r option"
  d_cache :: "'r dbcache option"

text \<open>The calls guarded by \<^verbatim>\<open>if (Cache_)\<close>.\<close>

definition cache_create :: "('t, 'r) db \<Rightarrow> 'r \<Rightarrow> unit sec" where
  "cache_create D R = (case d_cache D of None \<Rightarrow> ret () | Some C \<Rightarrow> c_create C R)"

definition cache_get :: "('t, 'r) db \<Rightarrow> string \<Rightarrow> string \<Rightarrow> 'r option sec" where
  "cache_get D F V = (case d_cache D of None \<Rightarrow> ret None | Some C \<Rightarrow> c_get C F V)"

definition cache_update :: "('t, 'r) db \<Rightarrow> 'r \<Rightarrow> unit sec" where
  "cache_update D R = (case d_cache D of None \<Rightarrow> ret () | Some C \<Rightarrow> c_update C R)"

definition cache_delete :: "('t, 'r) db \<Rightarrow> string \<Rightarrow> string \<Rightarrow> unit sec" where
  "cache_delete D F V = (case d_cache D of None \<Rightarrow> ret () | Some C \<Rightarrow> c_delete C F V)"

subsection \<open>Operations\<close>

definition CreateRecord :: "env \<Rightarrow> ('t, 'r) db \<Rightarrow> 'r \<Rightarrow> bool sec" where
  "CreateRecord E D R = do {
     out \<leftarrow> db_step E;
     rows \<leftarrow> gets (d_rows D);
     let RT = d_to D R;
     if out = DbExecFails \<or> list_ex (\<lambda>row. d_key D row = d_key D RT) rows then ret False
     else do {
       modify (d_upd D (\<lambda>rs. rs @ [RT]));
       cache_create D R;
       ret True
     }
   }"

text \<open>The select of \<^verbatim>\<open>GetRecord\<close>, run when the cache has no answer.\<close>

definition SelectRecord :: "env \<Rightarrow> ('t, 'r) db \<Rightarrow> string \<Rightarrow> string \<Rightarrow> 'r option sec" where
  "SelectRecord E D FieldName Value = do {
     out \<leftarrow> db_step E;
     rows \<leftarrow> gets (d_rows D);
     if out = DbExecFails then ret None
     else (case List.find (\<lambda>row. d_field D FieldName row = Value) rows of
         None \<Rightarrow> ret None
       | Some RT \<Rightarrow> (case d_from D RT of
           None \<Rightarrow> ret None
         | Some R \<Rightarrow> do { cache_update D R; ret (Some R) }))
   }"

definition GetRecord :: "env \<Rightarrow> ('t, 'r) db \<Rightarrow> string \<Rightarrow> string \<Rightarrow> 'r option sec" where
  "GetRecord E D FieldName Value = do {
     hit \<leftarrow> cache_get D FieldName Value;
     case hit of
       Some R \<Rightarrow> ret (Some R)
     | None \<Rightarrow> SelectRecord E D FieldName Value
   }"

text \<open>
  The records read so far and the result; conversion of a row may throw in the middle. Rows come
  in table order.
\<close>

fun convert_rows :: "('t \<Rightarrow> 'r option) \<Rightarrow> 't list \<Rightarrow> 'r list \<times> bool" where
  "convert_rows conv [] = ([], True)"
| "convert_rows conv (row # rows) =
     (case conv row of
        None \<Rightarrow> ([], False)
      | Some R \<Rightarrow> (case convert_rows conv rows of (Rs, ok) \<Rightarrow> (R # Rs, ok)))"

definition GetRecords ::
  "env \<Rightarrow> ('t, 'r) db \<Rightarrow> nat \<Rightarrow> nat \<Rightarrow> ('t \<Rightarrow> bool) \<Rightarrow> ('r list \<times> bool) sec" where
  "GetRecords E D Offset HowMany Where = do {
     out \<leftarrow> db_step E;
     rows \<leftarrow> gets (d_rows D);
     let RL = take HowMany (drop Offset (filter Where rows));
     if out = DbExecFails \<or> RL = [] then ret ([], False)
     else ret (convert_rows (d_from D) RL)
   }"

definition updated_rows :: "('t, 'r) db \<Rightarrow> string \<Rightarrow> string \<Rightarrow> 'r \<Rightarrow> 't list \<Rightarrow> 't list" where
  "updated_rows D FieldName Value R rows =
     map (\<lambda>row. if d_field D FieldName row = Value then d_to D R else row) rows"

definition UpdateRecord :: "env \<Rightarrow> ('t, 'r) db \<Rightarrow> string \<Rightarrow> string \<Rightarrow> 'r \<Rightarrow> bool sec" where
  "UpdateRecord E D FieldName Value R = do {
     out \<leftarrow> db_step E;
     rows \<leftarrow> gets (d_rows D);
     if out = DbExecFails \<or> \<not> distinct (map (d_key D) (updated_rows D FieldName Value R rows))
     then ret False
     else do {
       cache_update D R;
       if out = DbCommitFails then ret False
       else do { modify (d_upd D (updated_rows D FieldName Value R)); ret True }
     }
   }"

definition DeleteRecord :: "env \<Rightarrow> ('t, 'r) db \<Rightarrow> string \<Rightarrow> string \<Rightarrow> bool sec" where
  "DeleteRecord E D FieldName Value = do {
     out \<leftarrow> db_step E;
     if out = DbExecFails then ret False
     else do {
       cache_delete D FieldName Value;
       if out = DbCommitFails then ret False
       else do { modify (d_upd D (filter (\<lambda>row. d_field D FieldName row \<noteq> Value))); ret True }
     }
   }"

definition DeleteRecords :: "env \<Rightarrow> ('t, 'r) db \<Rightarrow> ('t \<Rightarrow> bool) \<Rightarrow> bool sec" where
  "DeleteRecords E D Where = do {
     out \<leftarrow> db_step E;
     if out \<noteq> DbOk then ret False
     else do { modify (d_upd D (filter (\<lambda>row. \<not> Where row))); ret True }
   }"

definition Exists :: "env \<Rightarrow> ('t, 'r) db \<Rightarrow> string \<Rightarrow> string \<Rightarrow> bool sec" where
  "Exists E D FieldName Value = do {
     R \<leftarrow> GetRecord E D FieldName Value;
     ret (R \<noteq> None)
   }"

definition ReplaceRecord :: "env \<Rightarrow> ('t, 'r) db \<Rightarrow> string \<Rightarrow> string \<Rightarrow> 'r \<Rightarrow> bool sec" where
  "ReplaceRecord E D FieldName Value R = do {
     found \<leftarrow> Exists E D FieldName Value;
     if found then UpdateRecord E D FieldName Value R else CreateRecord E D R
   }"

definition DBCount :: "env \<Rightarrow> ('t, 'r) db \<Rightarrow> ('t \<Rightarrow> bool) \<Rightarrow> nat sec" where
  "DBCount E D Where = do {
     out \<leftarrow> db_step E;
     rows \<leftarrow> gets (d_rows D);
     if out = DbExecFails then ret 0 else ret (length (filter Where rows))
   }"

definition DeleteRecordsFromCache :: "('t, 'r) db \<Rightarrow> string \<Rightarrow> string \<Rightarrow> bool sec" where
  "DeleteRecordsFromCache D FieldName Value = do {
     cache_delete D FieldName Value;
     ret True
   }"

subsection \<open>Text of queries\<close>

text \<open>\<^verbatim>\<open>Escape\<close> doubles the quotes of a value that goes between quotes in a query.\<close>

definition Escape :: "string \<Rightarrow> string" where
  "Escape S = concat (map (\<lambda>i. if i = CHR 0x27 then [CHR 0x27, CHR 0x27] else [i]) S)"

text \<open>
  Reading a quoted SQL literal whose opening quote is already read: the value and the rest of the
  query. This is the reader of the database, used to say what \<open>Escape\<close> is for.
\<close>

fun sql_literal :: "string \<Rightarrow> (string \<times> string) option" where
  "sql_literal [] = None"
| "sql_literal [c] = (if c = CHR 0x27 then Some ([], []) else None)"
| "sql_literal (c # d # cs) =
     (if c \<noteq> CHR 0x27 then map_option (\<lambda>(v, r). (c # v, r)) (sql_literal (d # cs))
      else if d = CHR 0x27 then map_option (\<lambda>(v, r). (CHR 0x27 # v, r)) (sql_literal cs)
      else Some ([], d # cs))"

subsection \<open>Laws of a table\<close>

definition keys_distinct :: "('t, 'r) db \<Rightarrow> world \<Rightarrow> bool" where
  "keys_distinct D w \<longleftrightarrow> distinct (map (d_key D) (d_rows D w))"

text \<open>
  What the storage classes rely on: rows are written where they are read and survive the dropping
  of caches, the cache operations only touch caches, and (when the library behaves, \<open>lib\<close>) a row
  gives back the record it was made from.
\<close>

locale orm_table =
  fixes D :: "('t, 'r) db" and lib :: bool
  assumes rows_upd: "d_rows D (d_upd D f w) = f (d_rows D w)"
    and rows_persist: "d_rows D (persist w) = d_rows D w"
    and upd_persist: "persist (d_upd D f w) = d_upd D f (persist w)"
    and create_ro: "reads_only (cache_create D r)"
    and get_ro: "reads_only (cache_get D F V)"
    and update_ro: "reads_only (cache_update D r)"
    and delete_ro: "reads_only (cache_delete D F V)"
    and reads_row: "lib \<Longrightarrow> d_from D (d_to D r) = Some r"
begin

lemma rows_eq: "persist w' = persist w \<Longrightarrow> d_rows D w' = d_rows D w"
  by (metis rows_persist)

lemma rows_tick: "d_rows D (w\<lparr>w_tick := n\<rparr>) = d_rows D w"
  by (rule rows_eq) simp

lemma SelectRecord_ro: "reads_only (SelectRecord E D F V)"
  unfolding SelectRecord_def by (intro ro update_ro)

lemma GetRecord_ro: "reads_only (GetRecord E D F V)"
  unfolding GetRecord_def by (intro ro get_ro SelectRecord_ro)

lemma GetRecords_ro: "reads_only (GetRecords E D Off n W)"
  unfolding GetRecords_def by (intro ro)

lemma Exists_ro: "reads_only (Exists E D F V)"
  unfolding Exists_def by (intro ro GetRecord_ro)

lemma DBCount_ro: "reads_only (DBCount E D W)"
  unfolding DBCount_def by (intro ro)

lemma CreateRecord_persist:
  "wp (CreateRecord E D r) (\<lambda>ok w'.
     persist w' = (if ok then d_upd D (\<lambda>rs. rs @ [d_to D r]) (persist w) else persist w)
     \<and> (ok \<longrightarrow> (\<forall>row \<in> set (d_rows D w). d_key D row \<noteq> d_key D (d_to D r)))) w"
  unfolding CreateRecord_def db_step_def
  by (auto simp: Let_def rows_tick list_ex_iff upd_persist intro!: wp_mono [OF reads_onlyD [OF create_ro]])

lemma UpdateRecord_persist:
  "wp (UpdateRecord E D F V r) (\<lambda>ok w'.
     persist w' = (if ok then d_upd D (updated_rows D F V r) (persist w) else persist w)
     \<and> (ok \<longrightarrow> distinct (map (d_key D) (updated_rows D F V r (d_rows D w))))) w"
  unfolding UpdateRecord_def db_step_def
  by (auto simp: rows_tick upd_persist intro!: wp_mono [OF reads_onlyD [OF update_ro]])

lemma DeleteRecord_persist:
  "wp (DeleteRecord E D F V) (\<lambda>ok w'. persist w' =
     (if ok then d_upd D (filter (\<lambda>row. d_field D F row \<noteq> V)) (persist w) else persist w)) w"
  unfolding DeleteRecord_def db_step_def
  by (auto simp: upd_persist intro!: wp_mono [OF reads_onlyD [OF delete_ro]])

lemma DeleteRecords_persist:
  "wp (DeleteRecords E D W) (\<lambda>ok w'. persist w' =
     (if ok then d_upd D (filter (\<lambda>row. \<not> W row)) (persist w) else persist w)) w"
  unfolding DeleteRecords_def db_step_def by (auto simp: upd_persist)

text \<open>The same, seen on the rows of the table.\<close>

lemma rows_of_persist:
  "persist w' = d_upd D f (persist w) \<Longrightarrow> d_rows D w' = f (d_rows D w)"
  by (metis rows_persist rows_upd)

lemma CreateRecord_rows:
  "wp (CreateRecord E D r) (\<lambda>ok w'.
     d_rows D w' = (if ok then d_rows D w @ [d_to D r] else d_rows D w)
     \<and> (ok \<longrightarrow> (\<forall>row \<in> set (d_rows D w). d_key D row \<noteq> d_key D (d_to D r)))) w"
  by (rule wp_mono [OF CreateRecord_persist]) (auto dest: rows_of_persist rows_eq split: if_splits)

lemma UpdateRecord_rows:
  "wp (UpdateRecord E D F V r) (\<lambda>ok w'.
     d_rows D w' = (if ok then updated_rows D F V r (d_rows D w) else d_rows D w)
     \<and> (ok \<longrightarrow> distinct (map (d_key D) (updated_rows D F V r (d_rows D w))))) w"
  by (rule wp_mono [OF UpdateRecord_persist]) (auto dest: rows_of_persist rows_eq split: if_splits)

lemma DeleteRecord_rows:
  "wp (DeleteRecord E D F V) (\<lambda>ok w'. d_rows D w' =
     (if ok then filter (\<lambda>row. d_field D F row \<noteq> V) (d_rows D w) else d_rows D w)) w"
  by (rule wp_mono [OF DeleteRecord_persist]) (auto dest: rows_of_persist rows_eq split: if_splits)

lemma DeleteRecords_rows:
  "wp (DeleteRecords E D W) (\<lambda>ok w'. d_rows D w' =
     (if ok then filter (\<lambda>row. \<not> W row) (d_rows D w) else d_rows D w)) w"
  by (rule wp_mono [OF DeleteRecords_persist]) (auto dest: rows_of_persist rows_eq split: if_splits)

text \<open>The primary key stays unique under every operation, whatever the database answers.\<close>

lemma keys_CreateRecord: "keys_distinct D w \<Longrightarrow> wp (CreateRecord E D r) (\<lambda>_. keys_distinct D) w"
  by (rule wp_mono [OF CreateRecord_rows]) (auto simp: keys_distinct_def split: if_splits)

lemma keys_UpdateRecord: "keys_distinct D w \<Longrightarrow> wp (UpdateRecord E D F V r) (\<lambda>_. keys_distinct D) w"
  by (rule wp_mono [OF UpdateRecord_rows]) (auto simp: keys_distinct_def split: if_splits)

lemma keys_DeleteRecord: "keys_distinct D w \<Longrightarrow> wp (DeleteRecord E D F V) (\<lambda>_. keys_distinct D) w"
  by (rule wp_mono [OF DeleteRecord_rows])
    (auto simp: keys_distinct_def distinct_map_filter split: if_splits)

lemma keys_DeleteRecords: "keys_distinct D w \<Longrightarrow> wp (DeleteRecords E D W) (\<lambda>_. keys_distinct D) w"
  by (rule wp_mono [OF DeleteRecords_rows])
    (auto simp: keys_distinct_def distinct_map_filter split: if_splits)

end

text \<open>
  A value quoted with \<open>Escape\<close> cannot leave its literal: the database reads back exactly
  the value and continues with the text the program put after the closing quote, whatever
  characters the value has.
\<close>

theorem escape_keeps_literal:
  assumes "rest = [] \<or> hd rest \<noteq> CHR 0x27"
  shows "sql_literal (Escape S @ CHR 0x27 # rest) = Some (S, rest)"
  using assms
proof (induction S)
  case Nil
  then show ?case by (cases rest) (simp_all add: Escape_def)
next
  case (Cons c S)
  then show ?case
    by (cases "Escape S @ CHR 0x27 # rest") (auto simp: Escape_def)
qed

theorem escape_keeps_literal_witness:
  "sql_literal (Escape [CHR ''O'', CHR 0x27, CHR '';''] @ CHR 0x27 # '' limit 1'')
     = Some ([CHR ''O'', CHR 0x27, CHR '';''], '' limit 1'')"
  by (rule escape_keeps_literal) simp

end
