(* ===== verification/Token_Db.thy ===== *)
theory Token_Db
  imports Orm "HOL-Library.AList"
begin

text \<open>
  The token tables and their caches, \<^verbatim>\<open>src/storage/orm_tokens.cpp\<close>: one table per realm, a cache
  keyed by the access token in front of it. Dropping a token from the cache announces it to the
  other services.
\<close>

text \<open>\<^verbatim>\<open>AuthService::RemoveTokenSystemWide\<close>.\<close>

definition RemoveTokenSystemWide :: "env \<Rightarrow> string \<Rightarrow> unit sec" where
  "RemoveTokenSystemWide E token =
     (if e_kafka E then modify (\<lambda>w. w\<lparr>w_removedTokens := w_removedTokens w @ [token]\<rparr>) else ret ())"

subsection \<open>The cache\<close>

definition TokenCache_UpdateCache :: "realm_id \<Rightarrow> Token \<Rightarrow> unit sec" where
  "TokenCache_UpdateCache Rm R =
     modify (upd_realm Rm (r_tokenCache_update (AList.update (t_token R) R)))"

definition TokenCache_Create :: "realm_id \<Rightarrow> Token \<Rightarrow> unit sec" where
  "TokenCache_Create Rm R = ret ()"

definition TokenCache_remove :: "realm_id \<Rightarrow> string \<Rightarrow> unit sec" where
  "TokenCache_remove Rm Key = modify (upd_realm Rm (r_tokenCache_update (AList.delete Key)))"

definition TokenCache_GetFromCache :: "env \<Rightarrow> realm_id \<Rightarrow> string \<Rightarrow> string \<Rightarrow> Token option sec" where
  "TokenCache_GetFromCache E Rm FieldName Value =
     (if FieldName = ''token'' then do {
        t \<leftarrow> step;
        if e_evict E t Value then do { TokenCache_remove Rm Value; ret None }
        else gets (\<lambda>w. map_of (r_tokenCache (realm_of Rm w)) Value)
      }
      else ret None)"

definition TokenCache_Delete :: "env \<Rightarrow> realm_id \<Rightarrow> string \<Rightarrow> string \<Rightarrow> unit sec" where
  "TokenCache_Delete E Rm FieldName Value =
     (if FieldName = ''token'' then do {
        RemoveTokenSystemWide E Value;
        TokenCache_remove Rm Value
      }
      else if FieldName = ''userName'' then do {
        cache \<leftarrow> gets (\<lambda>w. r_tokenCache (realm_of Rm w));
        let TokenToRemove = map fst (filter (\<lambda>(Key, TokenRecord). t_userName TokenRecord = Value) cache);
        foreach TokenToRemove (\<lambda>i. do { RemoveTokenSystemWide E i; TokenCache_remove Rm i })
      }
      else ret ())"

definition TokenCache :: "env \<Rightarrow> realm_id \<Rightarrow> Token dbcache" where
  "TokenCache E Rm =
     \<lparr>c_create = TokenCache_Create Rm, c_get = TokenCache_GetFromCache E Rm,
      c_update = TokenCache_UpdateCache Rm, c_delete = TokenCache_Delete E Rm\<rparr>"

subsection \<open>The table\<close>

definition TokenField :: "string \<Rightarrow> TokenRecordTuple \<Rightarrow> string" where
  "TokenField F T =
     (if F = ''token'' then tr_token T
      else if F = ''refreshToken'' then tr_refreshToken T
      else if F = ''tokenType'' then tr_tokenType T
      else if F = ''userName'' then tr_userName T
      else [])"

definition TokenDB :: "env \<Rightarrow> realm_id \<Rightarrow> (TokenRecordTuple, Token) db" where
  "TokenDB E Rm =
     \<lparr>d_rows = (\<lambda>w. r_tokens (realm_of Rm w)),
      d_upd = (\<lambda>f. upd_realm Rm (r_tokens_update f)),
      d_key = tr_token, d_field = TokenField,
      d_to = Token_to_tuple (e_poco E), d_from = Token_from_tuple (e_poco E),
      d_cache = Some (TokenCache E Rm)\<rparr>"

definition AddToken ::
  "env \<Rightarrow> realm_id \<Rightarrow> string \<Rightarrow> string \<Rightarrow> string \<Rightarrow> string \<Rightarrow> u64 \<Rightarrow> u64 \<Rightarrow> bool sec" where
  "AddToken E Rm UserID Token RefreshToken TokenType Expires TimeOut = do {
     now \<leftarrow> Now E;
     CreateRecord E (TokenDB E Rm)
       \<lparr>t_token = Token, t_refreshToken = RefreshToken, t_tokenType = ''Bearer'',
        t_userName = UserID, t_created = now, t_expires = Expires, t_idleTimeout = TimeOut,
        t_revocationDate = 0, t_lastRefresh = 0\<rparr>
   }"

text \<open>\<^verbatim>\<open>GetToken\<close> fills a web token and returns the user id and the revocation date.\<close>

definition GetToken ::
  "env \<Rightarrow> realm_id \<Rightarrow> string \<Rightarrow> WebToken \<Rightarrow> (WebToken \<times> string \<times> u64) option sec" where
  "GetToken E Rm Token WT = do {
     rec \<leftarrow> GetRecord E (TokenDB E Rm) ''token'' Token;
     case rec of
       None \<Rightarrow> ret None
     | Some T \<Rightarrow> ret (Some
         (WT\<lparr>wt_access_token := t_token T, wt_refresh_token := t_refreshToken T,
             wt_token_type := t_tokenType T, wt_username := t_userName T,
             wt_created := t_created T, wt_expires_in := t_expires T,
             wt_idle_timeout := t_idleTimeout T, wt_lastRefresh := t_lastRefresh T\<rparr>,
          t_userName T, t_revocationDate T))
   }"

text \<open>The branch of \<^verbatim>\<open>RefreshToken\<close> that has found the record.\<close>

definition RefreshFound ::
  "env \<Rightarrow> realm_id \<Rightarrow> string \<Rightarrow> string \<Rightarrow> string \<Rightarrow> u64 \<Rightarrow> Token \<Rightarrow> bool sec" where
  "RefreshFound E Rm OldToken NewToken NewRefreshToken LastRefresh T = do {
     now \<leftarrow> Now E;
     let T = T\<lparr>t_token := NewToken, t_refreshToken := NewRefreshToken,
               t_lastRefresh := LastRefresh, t_created := now\<rparr>;
     UpdateRecord E (TokenDB E Rm) ''token'' OldToken T;
     TokenCache_Delete E Rm ''token'' OldToken;
     TokenCache_UpdateCache Rm T;
     ret True
   }"

definition RefreshToken ::
  "env \<Rightarrow> realm_id \<Rightarrow> string \<Rightarrow> string \<Rightarrow> string \<Rightarrow> u64 \<Rightarrow> bool sec" where
  "RefreshToken E Rm OldToken NewToken NewRefreshToken LastRefresh = do {
     rec \<leftarrow> GetRecord E (TokenDB E Rm) ''token'' OldToken;
     case rec of
       None \<Rightarrow> ret False
     | Some T \<Rightarrow> RefreshFound E Rm OldToken NewToken NewRefreshToken LastRefresh T
   }"

definition IsTokenRevoked :: "env \<Rightarrow> realm_id \<Rightarrow> string \<Rightarrow> bool sec" where
  "IsTokenRevoked E Rm Token = do {
     rec \<leftarrow> GetRecord E (TokenDB E Rm) ''token'' Token;
     ret (rec = None)
   }"

definition RevokeToken :: "env \<Rightarrow> realm_id \<Rightarrow> string \<Rightarrow> bool sec" where
  "RevokeToken E Rm Token = DeleteRecord E (TokenDB E Rm) ''token'' Token"

definition CleanExpiredTokens :: "env \<Rightarrow> realm_id \<Rightarrow> bool sec" where
  "CleanExpiredTokens E Rm = do {
     now \<leftarrow> Now E;
     DeleteRecords E (TokenDB E Rm) (\<lambda>T. unat (tr_created T) + unat (tr_expires T) \<le> unat now);
     ret True
   }"

definition RevokeAllTokens :: "env \<Rightarrow> realm_id \<Rightarrow> string \<Rightarrow> bool sec" where
  "RevokeAllTokens E Rm UserId = do {
     DeleteRecords E (TokenDB E Rm) (\<lambda>T. tr_userName T = UserId);
     TokenCache_Delete E Rm ''userName'' UserId;
     ret True
   }"

subsection \<open>What the cache operations do\<close>

lemma TokenDB_sel [simp]:
  "d_rows (TokenDB E Rm) w = r_tokens (realm_of Rm w)"
  "d_upd (TokenDB E Rm) f = upd_realm Rm (r_tokens_update f)"
  "d_key (TokenDB E Rm) = tr_token" "d_field (TokenDB E Rm) = TokenField"
  "d_to (TokenDB E Rm) = Token_to_tuple (e_poco E)"
  "d_from (TokenDB E Rm) = Token_from_tuple (e_poco E)"
  by (simp_all add: TokenDB_def)

lemma TokenDB_cache [simp]:
  "cache_create (TokenDB E Rm) R = ret ()"
  "cache_get (TokenDB E Rm) F V = TokenCache_GetFromCache E Rm F V"
  "cache_update (TokenDB E Rm) R = TokenCache_UpdateCache Rm R"
  "cache_delete (TokenDB E Rm) F V = TokenCache_Delete E Rm F V"
  by (simp_all add: TokenDB_def TokenCache_def cache_create_def cache_get_def cache_update_def
      cache_delete_def TokenCache_Create_def)

lemma TokenField_sel [simp]:
  "TokenField ''token'' T = tr_token T" "TokenField ''userName'' T = tr_userName T"
  by (simp_all add: TokenField_def)

lemma Token_tuple_sel [simp]:
  "tr_token (Token_to_tuple P t) = t_token t" "tr_userName (Token_to_tuple P t) = t_userName t"
  by (simp_all add: Token_to_tuple_def)

text \<open>Token rows hold no JSON, so they convert whatever the library does.\<close>

lemma Token_from_tuple_ex: "\<exists>t. Token_from_tuple P T = Some t \<and> Token_to_tuple P t = T"
  by (simp add: Token_from_tuple_def Token_to_tuple_def)

lemma Token_from_to [simp]: "Token_from_tuple P (Token_to_tuple P t) = Some t"
  by (simp add: Token_from_tuple_def Token_to_tuple_def)

lemma realm_removedTokens [simp]: "realm_of Rm (w\<lparr>w_removedTokens := r\<rparr>) = realm_of Rm w"
  by (cases Rm) simp_all

lemma wp_RemoveTokenSystemWide [simp]:
  "wp (RemoveTokenSystemWide E tok) Q w =
     (if e_kafka E then Q () (w\<lparr>w_removedTokens := w_removedTokens w @ [tok]\<rparr>) else Q () w)"
  by (simp add: RemoveTokenSystemWide_def)

lemma wp_TokenCache_basic [simp]:
  "wp (TokenCache_UpdateCache Rm t) Q w =
     Q () (upd_realm Rm (r_tokenCache_update (AList.update (t_token t) t)) w)"
  "wp (TokenCache_remove Rm k) Q w =
     Q () (upd_realm Rm (r_tokenCache_update (AList.delete k)) w)"
  by (simp_all add: TokenCache_UpdateCache_def TokenCache_remove_def)

lemma token_cache_ro [ro]:
  "reads_only (RemoveTokenSystemWide E tok)" "reads_only (TokenCache_UpdateCache Rm t)"
  "reads_only (TokenCache_remove Rm k)"
  by (simp_all add: reads_only_def)

lemma TokenCache_ro [ro]:
  "reads_only (TokenCache_GetFromCache E Rm F V)" "reads_only (TokenCache_Delete E Rm F V)"
  unfolding TokenCache_GetFromCache_def TokenCache_Delete_def by (intro ro)+

interpretation token_table: orm_table "TokenDB E Rm" True for E Rm
  by unfold_locales (simp_all add: ro)

lemma TokenCache_removeAll:
  "wp (foreach ks (\<lambda>i. do { RemoveTokenSystemWide E i; TokenCache_remove Rm i }))
     (\<lambda>_ w'. r_tokenCache (realm_of Rm w') =
         filter (\<lambda>(k, _). k \<notin> set ks) (r_tokenCache (realm_of Rm w))
       \<and> r_tokens (realm_of Rm w') = r_tokens (realm_of Rm w)) w"
proof (induction ks arbitrary: w)
  case (Cons k ks)
  have "(\<lambda>x. fst x \<notin> set ks \<and> k \<noteq> fst x) = (\<lambda>a. fst a \<noteq> k \<and> fst a \<notin> set ks)"
    for k :: string and ks by auto
  then show ?case
    by (auto intro!: wp_mono [OF Cons.IH] simp: AList.delete_eq case_prod_unfold conj_commute
        eq_commute)
qed (simp add: case_prod_unfold)

lemma set_update_subset: "set (AList.update k v al) \<subseteq> insert (k, v) (set al)"
  by (induction al) auto

subsection \<open>The cache agrees with the table\<close>

definition token_coherent :: "env \<Rightarrow> realm_id \<Rightarrow> world \<Rightarrow> bool" where
  "token_coherent E Rm w \<longleftrightarrow> keys_distinct (TokenDB E Rm) w
     \<and> (\<forall>(k, t) \<in> set (r_tokenCache (realm_of Rm w)).
          t_token t = k \<and> Token_to_tuple (e_poco E) t \<in> set (r_tokens (realm_of Rm w)))"

text \<open>The abstract store: a token is what its row says.\<close>

definition stored_token :: "env \<Rightarrow> realm_id \<Rightarrow> world \<Rightarrow> string \<Rightarrow> Token option" where
  "stored_token E Rm w tok =
     (case List.find (\<lambda>T. tr_token T = tok) (r_tokens (realm_of Rm w)) of
        None \<Rightarrow> None
      | Some T \<Rightarrow> Token_from_tuple (e_poco E) T)"

lemma find_distinct_key:
  "distinct (map f xs) \<Longrightarrow> x \<in> set xs \<Longrightarrow> List.find (\<lambda>y. f y = f x) xs = Some x"
  by (induction xs) auto

lemma stored_token_row:
  assumes "keys_distinct (TokenDB E Rm) w"
    and "Token_to_tuple (e_poco E) t \<in> set (r_tokens (realm_of Rm w))"
  shows "stored_token E Rm w (t_token t) = Some t"
  using find_distinct_key [of tr_token "r_tokens (realm_of Rm w)" "Token_to_tuple (e_poco E) t"] assms
  by (simp add: stored_token_def keys_distinct_def)

lemma coherent_cached:
  assumes "token_coherent E Rm w" "map_of (r_tokenCache (realm_of Rm w)) tok = Some t"
  shows "stored_token E Rm w tok = Some t" and "t_token t = tok"
  using assms stored_token_row [of E Rm w t]
  by (auto simp: token_coherent_def dest!: map_of_SomeD)

lemma coherent_tick [simp]: "token_coherent E Rm (w\<lparr>w_tick := n\<rparr>) = token_coherent E Rm w"
  by (simp add: token_coherent_def keys_distinct_def)

lemma coherent_cache_shrinks:
  assumes "token_coherent E Rm w"
    and "set (r_tokenCache (realm_of Rm w')) \<subseteq> set (r_tokenCache (realm_of Rm w))"
    and "r_tokens (realm_of Rm w') = r_tokens (realm_of Rm w)"
  shows "token_coherent E Rm w'"
  using assms by (auto simp: token_coherent_def keys_distinct_def)

lemma coherent_cache_stored:
  assumes "token_coherent E Rm w" "Token_to_tuple (e_poco E) t \<in> set (r_tokens (realm_of Rm w))"
  shows "token_coherent E Rm (upd_realm Rm (r_tokenCache_update (AList.update (t_token t) t)) w)"
  using assms set_update_subset [of "t_token t" t "r_tokenCache (realm_of Rm w)"]
  by (fastforce simp: token_coherent_def keys_distinct_def)

lemma find_mem: "List.find P xs = Some x \<Longrightarrow> x \<in> set xs \<and> P x"
  by (induction xs) (auto split: if_splits)

lemma stored_token_cong:
  "r_tokens (realm_of Rm w') = r_tokens (realm_of Rm w) \<Longrightarrow>
   stored_token E Rm w' tok = stored_token E Rm w tok"
  by (simp add: stored_token_def)

text \<open>The part of a lookup after a cache miss.\<close>

lemma token_select:
  assumes "token_coherent E Rm w" and "List.find (\<lambda>T. tr_token T = tok) (r_tokens (realm_of Rm w)) = Some T"
  obtains t where "Token_from_tuple (e_poco E) T = Some t" "stored_token E Rm w tok = Some t"
    "token_coherent E Rm (upd_realm Rm (r_tokenCache_update (AList.update (t_token t) t)) w)"
proof -
  obtain t where t: "Token_from_tuple (e_poco E) T = Some t" "Token_to_tuple (e_poco E) t = T"
    using Token_from_tuple_ex by blast
  have "T \<in> set (r_tokens (realm_of Rm w))" using find_mem [OF assms(2)] by simp
  then have "token_coherent E Rm (upd_realm Rm (r_tokenCache_update (AList.update (t_token t) t)) w)"
    using coherent_cache_stored [OF assms(1)] t(2) by simp
  with t assms(2) show ?thesis by (intro that) (simp_all add: stored_token_def)
qed

lemma token_SelectRecord:
  assumes "token_coherent E Rm w"
  shows "wp (SelectRecord E (TokenDB E Rm) ''token'' tok) (\<lambda>res w'.
      token_coherent E Rm w' \<and> persist w' = persist w
      \<and> (res = stored_token E Rm w tok \<or> res = None \<and> e_db E (w_tick w) = DbExecFails)) w"
proof (cases "List.find (\<lambda>T. tr_token T = tok) (r_tokens (realm_of Rm w))")
  case None
  with assms show ?thesis by (simp add: SelectRecord_def db_step_def stored_token_def)
next
  case (Some T)
  with assms obtain t where "Token_from_tuple (e_poco E) T = Some t" "stored_token E Rm w tok = Some t"
      "token_coherent E Rm (upd_realm Rm (r_tokenCache_update (AList.update (t_token t) t)) w)"
    by (rule token_select)
  with assms Some show ?thesis by (simp add: SelectRecord_def db_step_def)
qed

lemma token_lookup:
  assumes "token_coherent E Rm w"
  shows "wp (GetRecord E (TokenDB E Rm) ''token'' tok) (\<lambda>res w'.
      token_coherent E Rm w' \<and> persist w' = persist w
      \<and> (res = stored_token E Rm w tok
         \<or> res = None \<and> e_db E (Suc (w_tick w)) = DbExecFails)) w"
proof -
  have select: "wp (SelectRecord E (TokenDB E Rm) ''token'' tok) (\<lambda>res w'.
      token_coherent E Rm w' \<and> persist w' = persist w
      \<and> (res = stored_token E Rm w tok \<or> res = None \<and> e_db E (Suc (w_tick w)) = DbExecFails)) w0"
    if "token_coherent E Rm w0" "persist w0 = persist w" "w_tick w0 = Suc (w_tick w)" for w0
    using that stored_token_cong [OF persist_eqD(2) [OF that(2)]]
    by (intro wp_mono [OF token_SelectRecord]) auto
  have evicted: "token_coherent E Rm (upd_realm Rm (r_tokenCache_update (AList.delete tok)) w)"
    using assms by (intro coherent_cache_shrinks [OF assms]) (auto simp: AList.delete_eq)
  show ?thesis
  proof (cases "map_of (r_tokenCache (realm_of Rm w)) tok")
    case None
    then show ?thesis
      unfolding GetRecord_def TokenDB_cache TokenCache_GetFromCache_def
      using assms evicted by (simp add: select)
  next
    case (Some t)
    then show ?thesis
      unfolding GetRecord_def TokenDB_cache TokenCache_GetFromCache_def
      using assms evicted coherent_cached [OF assms Some]
      by (simp add: select [unfolded coherent_cached(1) [OF assms Some]])
  qed
qed

text \<open>
  C18. In front of a coherent cache a token lookup answers what the table stores, whether the cache
  hits, misses or has evicted the entry; only a failing database makes it answer nothing. The
  lookup changes no table and leaves the cache coherent.
\<close>

theorem token_lookup_refines:
  assumes "token_coherent E Rm w"
  shows "wp (GetToken E Rm tok WT) (\<lambda>res w'.
      token_coherent E Rm w' \<and> persist w' = persist w
      \<and> (map_option (\<lambda>(wt, uid, rev). (wt_refresh_token wt, uid, rev)) res
           = map_option (\<lambda>t. (t_refreshToken t, t_userName t, t_revocationDate t)) (stored_token E Rm w tok)
         \<or> res = None \<and> e_db E (Suc (w_tick w)) = DbExecFails)) w"
  unfolding GetToken_def
  by (auto intro!: wp_mono [OF token_lookup [OF assms]] split: option.splits)

subsection \<open>Revoking tokens\<close>

definition token_gone :: "realm_id \<Rightarrow> string \<Rightarrow> world \<Rightarrow> bool" where
  "token_gone Rm tok w \<longleftrightarrow> map_of (r_tokenCache (realm_of Rm w)) tok = None
     \<and> (\<forall>T \<in> set (r_tokens (realm_of Rm w)). tr_token T \<noteq> tok)"

lemma find_none: "(\<And>x. x \<in> set xs \<Longrightarrow> \<not> P x) \<Longrightarrow> List.find P xs = None"
  by (induction xs) auto

lemma gone_lookup:
  "token_gone Rm tok w \<Longrightarrow> wp (GetRecord E (TokenDB E Rm) ''token'' tok) (\<lambda>res _. res = None) w"
  unfolding GetRecord_def SelectRecord_def db_step_def TokenCache_GetFromCache_def TokenDB_cache
  by (auto simp: token_gone_def find_none)

lemma gone_GetToken: "token_gone Rm tok w \<Longrightarrow> wp (GetToken E Rm tok WT) (\<lambda>res _. res = None) w"
  unfolding GetToken_def by (auto intro!: wp_mono [OF gone_lookup])

lemma RevokeToken_gone: "wp (RevokeToken E Rm tok) (\<lambda>ok w'. ok \<longrightarrow> token_gone Rm tok w') w"
  unfolding RevokeToken_def DeleteRecord_def db_step_def TokenDB_cache TokenCache_Delete_def
  by (auto simp: token_gone_def AList.delete_conv')

lemma coherent_RevokeToken: "token_coherent E Rm w \<Longrightarrow> wp (RevokeToken E Rm tok) (\<lambda>_. token_coherent E Rm) w"
  unfolding RevokeToken_def DeleteRecord_def db_step_def TokenDB_cache TokenCache_Delete_def
  by (auto simp: token_coherent_def keys_distinct_def AList.delete_eq distinct_map_filter)

text \<open>
  C5. A token that was revoked, as at logout, is dead: when the deletion reports success, no later
  lookup finds it, neither in the cache nor in the table, whatever the cache held before and
  whatever the database answers to the lookup.
\<close>

theorem revoked_token_is_dead:
  "wp (do { ok \<leftarrow> RevokeToken E Rm tok; res \<leftarrow> GetToken E Rm tok WT; ret (ok, res) })
     (\<lambda>(ok, res) w'. ok \<longrightarrow> res = None) w"
proof -
  have "wp (GetToken E Rm tok WT) (\<lambda>res _. ok \<longrightarrow> res = None) w'"
    if "ok \<longrightarrow> token_gone Rm tok w'" for ok w'
    using that gone_GetToken by (cases ok) (auto simp: wp_def split: prod.splits)
  then show ?thesis by (auto intro!: wp_mono [OF RevokeToken_gone])
qed

text \<open>Dropping all tokens of a user.\<close>

lemma TokenCache_Delete_user:
  "wp (TokenCache_Delete E Rm ''userName'' uid) (\<lambda>_ w'.
     set (r_tokenCache (realm_of Rm w')) \<subseteq>
       {(k, t) \<in> set (r_tokenCache (realm_of Rm w)). t_userName t \<noteq> uid}
     \<and> r_tokens (realm_of Rm w') = r_tokens (realm_of Rm w) \<and> persist w' = persist w) w"
proof -
  have "reads_only (TokenCache_Delete E Rm ''userName'' uid)" by (rule TokenCache_ro)
  note frame = reads_onlyD [OF this, of w]
  have "wp (TokenCache_Delete E Rm ''userName'' uid) (\<lambda>_ w'.
     set (r_tokenCache (realm_of Rm w')) \<subseteq>
       {(k, t) \<in> set (r_tokenCache (realm_of Rm w)). t_userName t \<noteq> uid}
     \<and> r_tokens (realm_of Rm w') = r_tokens (realm_of Rm w)) w"
    unfolding TokenCache_Delete_def
    by (auto simp: Let_def intro!: wp_mono [OF TokenCache_removeAll])
      (metis (mono_tags, lifting) case_prodI fst_conv image_eqI mem_Collect_eq)
  from wp_conj [OF this frame] show ?thesis by (rule wp_mono) simp
qed

definition user_tokens_gone :: "realm_id \<Rightarrow> string \<Rightarrow> world \<Rightarrow> bool" where
  "user_tokens_gone Rm uid w \<longleftrightarrow>
     (\<forall>(k, t) \<in> set (r_tokenCache (realm_of Rm w)). t_userName t \<noteq> uid)
     \<and> (\<forall>T \<in> set (r_tokens (realm_of Rm w)). tr_userName T \<noteq> uid)"

lemma RevokeAllTokens_gone:
  assumes "e_db E (w_tick w) = DbOk"
  shows "wp (RevokeAllTokens E Rm uid) (\<lambda>_ w'. user_tokens_gone Rm uid w') w"
  unfolding RevokeAllTokens_def DeleteRecords_def db_step_def
  using assms by (auto intro!: wp_mono [OF TokenCache_Delete_user] simp: user_tokens_gone_def)

lemma gone_user_lookup:
  "user_tokens_gone Rm uid w \<Longrightarrow>
   wp (GetRecord E (TokenDB E Rm) ''token'' tok) (\<lambda>res _. \<forall>t. res = Some t \<longrightarrow> t_userName t \<noteq> uid) w"
  unfolding GetRecord_def SelectRecord_def db_step_def TokenCache_GetFromCache_def TokenDB_cache
  by (auto simp: user_tokens_gone_def Token_from_tuple_def split: option.splits
      dest!: find_mem map_of_SomeD)

text \<open>
  C6. Revoking all tokens of a user, with a database that carries out the deletion, ends every
  session: no token, cached or stored, is afterwards found for that user.
\<close>

theorem all_tokens_revoked:
  assumes "e_db E (w_tick w) = DbOk"
  shows "wp (do { RevokeAllTokens E Rm uid; GetToken E Rm tok WT })
     (\<lambda>res w'. \<forall>wt u rev. res = Some (wt, u, rev) \<longrightarrow> u \<noteq> uid) w"
  unfolding GetToken_def using assms
  by (auto intro!: wp_mono [OF RevokeAllTokens_gone] wp_mono [OF gone_user_lookup]
      split: option.splits)

subsection \<open>Coherence is kept\<close>

lemma coherent_rows_grow:
  assumes "token_coherent E Rm w" "\<forall>T \<in> set (r_tokens (realm_of Rm w)). tr_token T \<noteq> tr_token N"
  shows "token_coherent E Rm (upd_realm Rm (r_tokens_update (\<lambda>rs. rs @ [N])) w)"
  using assms by (auto simp: token_coherent_def keys_distinct_def)

lemma coherent_AddToken:
  "token_coherent E Rm w \<Longrightarrow> wp (AddToken E Rm uid tok rtok ty ex tmo) (\<lambda>_. token_coherent E Rm) w"
  unfolding AddToken_def CreateRecord_def db_step_def Now_def
  by (auto simp: Let_def list_ex_iff intro!: coherent_rows_grow)

lemma coherent_RevokeAllTokens:
  assumes "token_coherent E Rm w"
  shows "wp (RevokeAllTokens E Rm uid) (\<lambda>_. token_coherent E Rm) w"
  unfolding RevokeAllTokens_def DeleteRecords_def db_step_def
  using assms
  by (auto intro!: wp_mono [OF TokenCache_Delete_user]
      simp: token_coherent_def keys_distinct_def distinct_map_filter) blast+

text \<open>A lookup against a healthy database, and the step of a refresh.\<close>

definition db_healthy :: "env \<Rightarrow> bool" where
  "db_healthy E \<longleftrightarrow> (\<forall>n. e_db E n = DbOk)"

definition refreshed :: "Token \<Rightarrow> string \<Rightarrow> string \<Rightarrow> u64 \<Rightarrow> u64 \<Rightarrow> Token" where
  "refreshed t new newr lst now =
     t\<lparr>t_token := new, t_refreshToken := newr, t_lastRefresh := lst, t_created := now\<rparr>"

lemma token_lookup_healthy:
  assumes "token_coherent E Rm w" "db_healthy E"
  shows "wp (GetRecord E (TokenDB E Rm) ''token'' tok) (\<lambda>res w'.
      token_coherent E Rm w' \<and> persist w' = persist w \<and> res = stored_token E Rm w tok) w"
  using assms by (auto intro!: wp_mono [OF token_lookup] simp: db_healthy_def)

lemma refreshed_sel [simp]:
  "t_token (refreshed t new newr lst now) = new"
  "t_userName (refreshed t new newr lst now) = t_userName t"
  by (simp_all add: refreshed_def)

text \<open>Replacing the row with a given key, in a list with distinct keys.\<close>

lemma replace_key_distinct:
  "distinct (map f xs) \<Longrightarrow> (\<forall>x \<in> set xs. f x \<noteq> f n) \<Longrightarrow>
   distinct (map f (map (\<lambda>x. if f x = k then n else x) xs))"
  by (induction xs) (auto simp: image_iff)

lemma replace_key_find_new:
  "x \<in> set xs \<Longrightarrow> f x = k \<Longrightarrow> (\<forall>x \<in> set xs. f x \<noteq> f n) \<Longrightarrow>
   List.find (\<lambda>y. f y = f n) (map (\<lambda>x. if f x = k then n else x) xs) = Some n"
  by (induction xs) auto

lemma replace_key_find_other:
  "j \<noteq> k \<Longrightarrow> j \<noteq> f n \<Longrightarrow>
   List.find (\<lambda>y. f y = j) (map (\<lambda>x. if f x = k then n else x) xs) = List.find (\<lambda>y. f y = j) xs"
  by (induction xs) auto

lemma stored_token_mem:
  assumes "stored_token E Rm w tok = Some t"
  shows "Token_to_tuple (e_poco E) t \<in> set (r_tokens (realm_of Rm w))" "t_token t = tok"
proof -
  obtain T where T: "List.find (\<lambda>T. tr_token T = tok) (r_tokens (realm_of Rm w)) = Some T"
      "Token_from_tuple (e_poco E) T = Some t"
    using assms by (auto simp: stored_token_def split: option.splits)
  then have "Token_to_tuple (e_poco E) t = T" by (auto simp: Token_from_tuple_def Token_to_tuple_def)
  with find_mem [OF T(1)] show "Token_to_tuple (e_poco E) t \<in> set (r_tokens (realm_of Rm w))"
    and "t_token t = tok" by auto
qed

lemma coherent_replace:
  assumes coh: "token_coherent E Rm w" and old: "stored_token E Rm w old = Some t"
    and fresh: "\<forall>T \<in> set (r_tokens (realm_of Rm w)). tr_token T \<noteq> t_token n"
    and rows: "r_tokens (realm_of Rm w') =
      map (\<lambda>T. if tr_token T = old then Token_to_tuple (e_poco E) n else T) (r_tokens (realm_of Rm w))"
    and cache: "set (r_tokenCache (realm_of Rm w')) \<subseteq>
      insert (t_token n, n) {(k, c) \<in> set (r_tokenCache (realm_of Rm w)). k \<noteq> old}"
  shows "token_coherent E Rm w'" and "stored_token E Rm w' (t_token n) = Some n"
    and "\<And>tok. tok \<noteq> old \<Longrightarrow> tok \<noteq> t_token n \<Longrightarrow> stored_token E Rm w' tok = stored_token E Rm w tok"
proof -
  let ?n = "Token_to_tuple (e_poco E) n"
  have keys: "distinct (map tr_token (r_tokens (realm_of Rm w)))"
    using coh by (simp add: token_coherent_def keys_distinct_def)
  have fresh': "\<forall>T \<in> set (r_tokens (realm_of Rm w)). tr_token T \<noteq> tr_token ?n" using fresh by simp
  have keys': "distinct (map tr_token (r_tokens (realm_of Rm w')))"
    unfolding rows by (rule replace_key_distinct [OF keys fresh'])
  have mem: "Token_to_tuple (e_poco E) t \<in> set (r_tokens (realm_of Rm w))" "t_token t = old"
    using stored_token_mem [OF old] by simp_all
  then have n_mem: "?n \<in> set (r_tokens (realm_of Rm w'))"
    unfolding rows by (force simp: image_iff)
  have "t_token c = k \<and> Token_to_tuple (e_poco E) c \<in> set (r_tokens (realm_of Rm w'))"
    if "(k, c) \<in> set (r_tokenCache (realm_of Rm w))" "k \<noteq> old" for k c
    using coh that unfolding rows by (force simp: token_coherent_def image_iff)
  then show "token_coherent E Rm w'"
    using keys' n_mem cache by (fastforce simp: token_coherent_def keys_distinct_def)
  show "stored_token E Rm w' (t_token n) = Some n"
    using replace_key_find_new [OF mem(1) _ fresh', of old] mem(2)
    by (simp add: stored_token_def rows)
  show "stored_token E Rm w' tok = stored_token E Rm w tok" if "tok \<noteq> old" "tok \<noteq> t_token n" for tok
    using replace_key_find_other [of tok old tr_token ?n "r_tokens (realm_of Rm w)"] that
    by (simp add: stored_token_def rows)
qed

text \<open>What a refresh does once the row of the old token was found.\<close>

lemma RefreshFound_spec:
  assumes coh: "token_coherent E Rm w" and ok: "db_healthy E"
    and old: "stored_token E Rm w old = Some t"
    and fresh: "\<forall>T \<in> set (r_tokens (realm_of Rm w)). tr_token T \<noteq> new" and ne: "new \<noteq> old"
  shows "wp (RefreshFound E Rm old new newr lst t) (\<lambda>res w'. res \<and> token_coherent E Rm w' \<and> token_gone Rm old w'
      \<and> stored_token E Rm w' new = Some (refreshed t new newr lst (e_clock E (w_tick w)))
      \<and> (\<forall>tok. tok \<noteq> old \<longrightarrow> tok \<noteq> new \<longrightarrow> stored_token E Rm w' tok = stored_token E Rm w tok)) w"
proof -
  define n where "n = refreshed t new newr lst (e_clock E (w_tick w))"
  have n: "t_token n = new" "t\<lparr>t_token := new, t_refreshToken := newr, t_lastRefresh := lst,
      t_created := e_clock E (w_tick w)\<rparr> = n"
    by (simp_all add: n_def refreshed_def)
  have keys: "distinct (map tr_token (r_tokens (realm_of Rm w)))"
    using coh by (simp add: token_coherent_def keys_distinct_def)
  have keys': "distinct (map tr_token (updated_rows (TokenDB E Rm) ''token'' old n (r_tokens (realm_of Rm w))))"
    unfolding updated_rows_def TokenDB_sel TokenField_sel
    by (rule replace_key_distinct [OF keys]) (use fresh n(1) in simp)
  have post: "token_coherent E Rm w' \<and> token_gone Rm old w' \<and> stored_token E Rm w' new = Some n
      \<and> (\<forall>tok. tok \<noteq> old \<longrightarrow> tok \<noteq> new \<longrightarrow> stored_token E Rm w' tok = stored_token E Rm w tok)"
    if rows: "r_tokens (realm_of Rm w') = updated_rows (TokenDB E Rm) ''token'' old n (r_tokens (realm_of Rm w))"
      and cache: "r_tokenCache (realm_of Rm w') =
        AList.update new n (AList.delete old (AList.update new n (r_tokenCache (realm_of Rm w))))" for w'
  proof -
    have rows': "r_tokens (realm_of Rm w') =
      map (\<lambda>T. if tr_token T = old then Token_to_tuple (e_poco E) n else T) (r_tokens (realm_of Rm w))"
      using rows by (simp add: updated_rows_def)
    have "set (r_tokenCache (realm_of Rm w')) \<subseteq>
        insert (t_token n, n) {(k, c) \<in> set (r_tokenCache (realm_of Rm w)). k \<noteq> old}"
      using set_update_subset [of new n "AList.delete old (AList.update new n (r_tokenCache (realm_of Rm w)))"]
        set_update_subset [of new n "r_tokenCache (realm_of Rm w)"] n(1)
      by (auto simp: cache AList.delete_eq)
    note rep = coherent_replace [OF coh old _ rows' this, unfolded n(1), OF fresh]
    have "token_gone Rm old w'"
      using ne n(1) by (auto simp: token_gone_def rows' cache AList.update_conv' AList.delete_conv')
    with rep show ?thesis by blast
  qed
  show ?thesis
    unfolding n_def [symmetric]
  proof (rule wp_mono [where Q = "\<lambda>res w'. res
      \<and> r_tokens (realm_of Rm w') = updated_rows (TokenDB E Rm) ''token'' old n (r_tokens (realm_of Rm w))
      \<and> r_tokenCache (realm_of Rm w') =
        AList.update new n (AList.delete old (AList.update new n (r_tokenCache (realm_of Rm w))))"])
    show "wp (RefreshFound E Rm old new newr lst t) (\<lambda>res w'. res
      \<and> r_tokens (realm_of Rm w') = updated_rows (TokenDB E Rm) ''token'' old n (r_tokens (realm_of Rm w))
      \<and> r_tokenCache (realm_of Rm w') =
        AList.update new n (AList.delete old (AList.update new n (r_tokenCache (realm_of Rm w))))) w"
      unfolding RefreshFound_def UpdateRecord_def Now_def db_step_def TokenDB_cache TokenCache_Delete_def
      using ok keys' n(1) by (simp add: Let_def n(2) db_healthy_def)
  qed (use post in blast)
qed

lemma RefreshToken_spec:
  assumes "token_coherent E Rm w" "db_healthy E" "stored_token E Rm w old = Some t"
    and "\<forall>T \<in> set (r_tokens (realm_of Rm w)). tr_token T \<noteq> new" "new \<noteq> old"
  shows "wp (RefreshToken E Rm old new newr lst) (\<lambda>res w'. res
      \<and> token_coherent E Rm w' \<and> token_gone Rm old w'
      \<and> (\<exists>now. stored_token E Rm w' new = Some (refreshed t new newr lst now))
      \<and> (\<forall>tok. tok \<noteq> old \<longrightarrow> tok \<noteq> new \<longrightarrow> stored_token E Rm w' tok = stored_token E Rm w tok)) w"
  unfolding RefreshToken_def wp_bind
proof (rule wp_mono [OF token_lookup_healthy [OF assms(1,2)]], elim conjE)
  fix res w1
  assume w1: "token_coherent E Rm w1" "persist w1 = persist w" and res: "res = stored_token E Rm w old"
  have rows: "r_tokens (realm_of Rm w1) = r_tokens (realm_of Rm w)" by (rule persist_eqD(2) [OF w1(2)])
  then have st: "stored_token E Rm w1 = stored_token E Rm w" by (auto intro: ext stored_token_cong)
  have "stored_token E Rm w1 old = Some t" "\<forall>T \<in> set (r_tokens (realm_of Rm w1)). tr_token T \<noteq> new"
    using assms rows st by simp_all
  from RefreshFound_spec [OF w1(1) assms(2) this assms(5), where newr = newr and lst = lst]
  show "wp (case res of None \<Rightarrow> ret False | Some T \<Rightarrow> RefreshFound E Rm old new newr lst T) (\<lambda>res w'. res
      \<and> token_coherent E Rm w' \<and> token_gone Rm old w'
      \<and> (\<exists>now. stored_token E Rm w' new = Some (refreshed t new newr lst now))
      \<and> (\<forall>tok. tok \<noteq> old \<longrightarrow> tok \<noteq> new \<longrightarrow> stored_token E Rm w' tok = stored_token E Rm w tok)) w1"
    unfolding res assms(3) option.case(2) by (rule wp_mono) (use st in auto)
qed

subsection \<open>Concrete states\<close>

definition sample_token :: Token where
  "sample_token = Token_init\<lparr>t_token := ''tok'', t_refreshToken := ''ref'', t_userName := ''u1'',
     t_created := 900, t_expires := 50\<rparr>"

text \<open>One stored token, also cached.\<close>

definition token_world :: world where
  "token_world = upd_realm Users (\<lambda>r. r\<lparr>r_tokens := [Token_to_tuple poco_inst sample_token],
     r_tokenCache := [(''tok'', sample_token)]\<rparr>) world_empty"

lemma token_world_coherent: "token_coherent env_inst Users token_world"
  by (simp add: token_coherent_def token_world_def keys_distinct_def sample_token_def env_inst_def)

theorem token_lookup_refines_witness:
  "wp (GetToken env_inst Users ''tok'' WebToken_init) (\<lambda>res w'.
      token_coherent env_inst Users w' \<and> persist w' = persist token_world
      \<and> (map_option (\<lambda>(wt, uid, rev). (wt_refresh_token wt, uid, rev)) res
           = map_option (\<lambda>t. (t_refreshToken t, t_userName t, t_revocationDate t))
               (stored_token env_inst Users token_world ''tok'')
         \<or> res = None \<and> e_db env_inst (Suc (w_tick token_world)) = DbExecFails)) token_world"
  by (rule token_lookup_refines [OF token_world_coherent])

theorem revoked_token_is_dead_witness:
  "wp (do { ok \<leftarrow> RevokeToken env_inst Users ''tok''; res \<leftarrow> GetToken env_inst Users ''tok'' WebToken_init; ret (ok, res) })
     (\<lambda>(ok, res) w'. ok \<longrightarrow> res = None) token_world"
  by (rule revoked_token_is_dead)

theorem all_tokens_revoked_witness:
  "wp (do { RevokeAllTokens env_inst Users ''u1''; GetToken env_inst Users ''tok'' WebToken_init })
     (\<lambda>res w'. \<forall>wt u rev. res = Some (wt, u, rev) \<longrightarrow> u \<noteq> ''u1'') token_world"
  by (rule all_tokens_revoked) (simp add: env_inst_def)

text \<open>
  The clean-up of expired tokens deletes rows but not cached copies: a token whose life time is
  over is still found after the clean-up when it is in the cache.
\<close>

theorem cleanup_leaves_cached_token:
  "wp (do { CleanExpiredTokens env_inst Users; GetToken env_inst Users ''tok'' WebToken_init })
     (\<lambda>res w'. r_tokens (realm_of Users w') = [] \<and> (\<exists>wt. res = Some (wt, ''u1'', 0))) token_world"
  unfolding CleanExpiredTokens_def DeleteRecords_def GetToken_def GetRecord_def TokenDB_cache
    TokenCache_GetFromCache_def Now_def db_step_def token_world_def
  by (simp add: env_inst_def sample_token_def Token_to_tuple_def Token_init_def world_empty_def)

end
