(* ===== verification/User_Db.thy ===== *)
theory User_Db
  imports Token_Db
begin

text \<open>
  The user tables and their caches, \<^verbatim>\<open>src/storage/orm_users.cpp\<close>: one table per realm, a cache by
  identifier and an index from e-mail address to identifier. Caching a user record drops the
  user's tokens from the token cache.
\<close>

subsection \<open>The cache\<close>

definition byId_get :: "env \<Rightarrow> realm_id \<Rightarrow> string \<Rightarrow> UserInfo option sec" where
  "byId_get E Rm Key = do {
     t \<leftarrow> step;
     if e_evict E t Key then do { modify (upd_realm Rm (r_byId_update (\<lambda>m. m(Key := None)))); ret None }
     else gets (\<lambda>w. r_byId (realm_of Rm w) Key)
   }"

definition byEmail_get :: "env \<Rightarrow> realm_id \<Rightarrow> string \<Rightarrow> string option sec" where
  "byEmail_get E Rm Key = do {
     t \<leftarrow> step;
     if e_evict E t Key then do { modify (upd_realm Rm (r_byEmail_update (\<lambda>m. m(Key := None)))); ret None }
     else gets (\<lambda>w. r_byEmail (realm_of Rm w) Key)
   }"

definition byId_remove :: "realm_id \<Rightarrow> string \<Rightarrow> unit sec" where
  "byId_remove Rm Key = modify (upd_realm Rm (r_byId_update (\<lambda>m. m(Key := None))))"

definition byEmail_remove :: "realm_id \<Rightarrow> string \<Rightarrow> unit sec" where
  "byEmail_remove Rm Key = modify (upd_realm Rm (r_byEmail_update (\<lambda>m. m(Key := None))))"

definition UserCache_UpdateCache :: "env \<Rightarrow> realm_id \<Rightarrow> UserInfo \<Rightarrow> unit sec" where
  "UserCache_UpdateCache E Rm R = do {
     modify (upd_realm Rm (r_byId_update (\<lambda>m. m(u_id R \<mapsto> R))));
     modify (upd_realm Rm (r_byEmail_update (\<lambda>m. m(u_email R \<mapsto> u_id R))));
     DeleteRecordsFromCache (TokenDB E Rm) ''userName'' (u_id R);
     ret ()
   }"

definition UserCache_Create :: "realm_id \<Rightarrow> UserInfo \<Rightarrow> unit sec" where
  "UserCache_Create Rm R = ret ()"

definition UserCache_GetFromCache :: "env \<Rightarrow> realm_id \<Rightarrow> string \<Rightarrow> string \<Rightarrow> UserInfo option sec" where
  "UserCache_GetFromCache E Rm FieldName Value =
     (if FieldName = ''id'' then byId_get E Rm Value
      else if FieldName = ''email'' then do {
        Entry \<leftarrow> byEmail_get E Rm Value;
        case Entry of
          None \<Rightarrow> ret None
        | Some UId \<Rightarrow> byId_get E Rm UId
      }
      else ret None)"

definition UserCache_Delete :: "env \<Rightarrow> realm_id \<Rightarrow> string \<Rightarrow> string \<Rightarrow> unit sec" where
  "UserCache_Delete E Rm FieldName Value =
     (if FieldName = ''id'' then do {
        Entry \<leftarrow> byId_get E Rm Value;
        (case Entry of None \<Rightarrow> ret () | Some R \<Rightarrow> byEmail_remove Rm (u_email R));
        byId_remove Rm Value
      }
      else if FieldName = ''email'' then do {
        Entry \<leftarrow> byEmail_get E Rm Value;
        case Entry of
          None \<Rightarrow> ret ()
        | Some UId \<Rightarrow> do { byId_remove Rm UId; byEmail_remove Rm Value }
      }
      else ret ())"

definition UserCache :: "env \<Rightarrow> realm_id \<Rightarrow> UserInfo dbcache" where
  "UserCache E Rm =
     \<lparr>c_create = UserCache_Create Rm, c_get = UserCache_GetFromCache E Rm,
      c_update = UserCache_UpdateCache E Rm, c_delete = UserCache_Delete E Rm\<rparr>"

subsection \<open>The table\<close>

definition UserField :: "string \<Rightarrow> UserInfoRecordTuple \<Rightarrow> string" where
  "UserField F T =
     (if F = ''id'' then ur_id T
      else if F = ''email'' then ur_email T
      else if F = ''name'' then ur_name T
      else if F = ''owner'' then ur_owner T
      else if F = ''createdBy'' then ur_createdBy T
      else [])"

definition UserDB :: "env \<Rightarrow> realm_id \<Rightarrow> (UserInfoRecordTuple, UserInfo) db" where
  "UserDB E Rm =
     \<lparr>d_rows = (\<lambda>w. r_users (realm_of Rm w)),
      d_upd = (\<lambda>f. upd_realm Rm (r_users_update f)),
      d_key = ur_id, d_field = UserField,
      d_to = UserInfo_to_tuple (e_poco E), d_from = UserInfo_from_tuple (e_poco E),
      d_cache = Some (UserCache E Rm)\<rparr>"

text \<open>The dates of a new user.\<close>

definition NewUserDates :: "env \<Rightarrow> UserInfo \<Rightarrow> bool \<Rightarrow> UserInfo sec" where
  "NewUserDates E NewUser PasswordHashedAlready =
     (if \<not> PasswordHashedAlready then do {
        uuid \<leftarrow> CreateUUID E;
        now \<leftarrow> Now E;
        ret (NewUser\<lparr>u_id := uuid, u_creationDate := now, u_modified := now\<rparr>)
      }
      else if u_creationDate NewUser = 0 \<and> u_modified NewUser = 0 then do {
        now \<leftarrow> Now E;
        ret (NewUser\<lparr>u_creationDate := now, u_modified := now\<rparr>)
      }
      else if u_creationDate NewUser = 0 then ret (NewUser\<lparr>u_creationDate := u_modified NewUser\<rparr>)
      else if u_modified NewUser = 0 then ret (NewUser\<lparr>u_modified := u_creationDate NewUser\<rparr>)
      else ret NewUser)"

text \<open>The password of a new user; without one the account waits for its e-mail verification.\<close>

definition NewUserPassword :: "env \<Rightarrow> UserInfo \<Rightarrow> bool \<Rightarrow> UserInfo sec" where
  "NewUserPassword E NewUser PasswordHashedAlready =
     (if u_currentPassword NewUser = [] then ret NewUser
      else if \<not> PasswordHashedAlready then do {
        hash \<leftarrow> ComputeNewPasswordHash E (u_email NewUser) (u_currentPassword NewUser);
        now \<leftarrow> Now E;
        ret (NewUser\<lparr>u_currentPassword := hash, u_lastPasswords := [hash],
                     u_lastPasswordChange := now, u_validated := True\<rparr>)
      }
      else ret NewUser)"

definition CreateUser :: "env \<Rightarrow> realm_id \<Rightarrow> UserInfo \<Rightarrow> bool \<Rightarrow> (bool \<times> UserInfo) sec" where
  "CreateUser E Rm NewUser PasswordHashedAlready = do {
     let NewUser = NewUser\<lparr>u_email := str_toLower (e_poco E) (u_email NewUser)\<rparr>;
     found \<leftarrow> Exists E (UserDB E Rm) ''email'' (u_email NewUser);
     if found then ret (False, NewUser)
     else do {
       sess \<leftarrow> db_step E;
       if sess = DbExecFails then ret (False, NewUser)
       else do {
         NewUser \<leftarrow> NewUserDates E NewUser PasswordHashedAlready;
         NewUser \<leftarrow> NewUserPassword E NewUser PasswordHashedAlready;
         ok \<leftarrow> CreateRecord E (UserDB E Rm) NewUser;
         ret (ok, NewUser)
       }
     }
   }"

definition GetUserByEmail :: "env \<Rightarrow> realm_id \<Rightarrow> string \<Rightarrow> UserInfo option sec" where
  "GetUserByEmail E Rm email = GetRecord E (UserDB E Rm) ''email'' email"

definition GetUserById :: "env \<Rightarrow> realm_id \<Rightarrow> string \<Rightarrow> UserInfo option sec" where
  "GetUserById E Rm UId = GetRecord E (UserDB E Rm) ''id'' UId"

definition GetUsers ::
  "env \<Rightarrow> realm_id \<Rightarrow> nat \<Rightarrow> nat \<Rightarrow> (UserInfoRecordTuple \<Rightarrow> bool) \<Rightarrow> (UserInfo list \<times> bool) sec" where
  "GetUsers E Rm Offset HowMany Where = GetRecords E (UserDB E Rm) Offset HowMany Where"

definition UserDB_SetAvatar :: "env \<Rightarrow> realm_id \<Rightarrow> string \<Rightarrow> string \<Rightarrow> bool sec" where
  "UserDB_SetAvatar E Rm UId Value = do {
     rec \<leftarrow> GetRecord E (UserDB E Rm) ''id'' UId;
     case rec of
       None \<Rightarrow> ret False
     | Some User \<Rightarrow>
         if Value = [] then UpdateRecord E (UserDB E Rm) ''id'' UId (User\<lparr>u_avatar := ''0''\<rparr>)
         else do {
           now \<leftarrow> Now E;
           UpdateRecord E (UserDB E Rm) ''id'' UId (User\<lparr>u_avatar := to_dec (unat now)\<rparr>)
         }
   }"

definition UpdateUserInfo :: "env \<Rightarrow> realm_id \<Rightarrow> string \<Rightarrow> UserInfo \<Rightarrow> bool sec" where
  "UpdateUserInfo E Rm UId UInfo = UpdateRecord E (UserDB E Rm) ''id'' UId UInfo"

definition DeleteUser :: "env \<Rightarrow> realm_id \<Rightarrow> string \<Rightarrow> bool sec" where
  "DeleteUser E Rm UId = DeleteRecord E (UserDB E Rm) ''id'' UId"

definition DeleteUsers :: "env \<Rightarrow> realm_id \<Rightarrow> string \<Rightarrow> bool sec" where
  "DeleteUsers E Rm owner = DeleteRecords E (UserDB E Rm) (\<lambda>T. ur_owner T = owner)"

text \<open>\<^verbatim>\<open>SetLastLogin\<close> writes the column directly and does not touch the cache.\<close>

definition SetLastLogin :: "env \<Rightarrow> realm_id \<Rightarrow> string \<Rightarrow> bool sec" where
  "SetLastLogin E Rm UId = do {
     now \<leftarrow> Now E;
     out \<leftarrow> db_step E;
     if out = DbExecFails then ret False
     else do {
       modify (d_upd (UserDB E Rm) (map (\<lambda>T. if ur_id T = UId then T\<lparr>ur_lastLogin := now\<rparr> else T)));
       ret True
     }
   }"

subsection \<open>Laws of the table\<close>

lemma UserDB_sel [simp]:
  "d_rows (UserDB E Rm) w = r_users (realm_of Rm w)"
  "d_upd (UserDB E Rm) f = upd_realm Rm (r_users_update f)"
  "d_key (UserDB E Rm) = ur_id" "d_field (UserDB E Rm) = UserField"
  "d_to (UserDB E Rm) = UserInfo_to_tuple (e_poco E)"
  "d_from (UserDB E Rm) = UserInfo_from_tuple (e_poco E)"
  by (simp_all add: UserDB_def)

lemma UserDB_cache [simp]:
  "cache_create (UserDB E Rm) R = ret ()"
  "cache_get (UserDB E Rm) F V = UserCache_GetFromCache E Rm F V"
  "cache_update (UserDB E Rm) R = UserCache_UpdateCache E Rm R"
  "cache_delete (UserDB E Rm) F V = UserCache_Delete E Rm F V"
  by (simp_all add: UserDB_def UserCache_def cache_create_def cache_get_def cache_update_def
      cache_delete_def UserCache_Create_def)

lemma UserField_sel [simp]:
  "UserField ''id'' T = ur_id T" "UserField ''email'' T = ur_email T" "UserField ''owner'' T = ur_owner T"
  by (simp_all add: UserField_def)

lemma User_tuple_sel [simp]:
  "ur_id (UserInfo_to_tuple P u) = u_id u" "ur_email (UserInfo_to_tuple P u) = u_email u"
  "ur_owner (UserInfo_to_tuple P u) = u_owner u"
  by (simp_all add: UserInfo_to_tuple_def)

lemma User_from_sel:
  "UserInfo_from_tuple P T = Some u \<Longrightarrow> u_id u = ur_id T \<and> u_email u = ur_email T
     \<and> u_suspended u = ur_suspended T \<and> u_currentPassword u = ur_currentPassword T
     \<and> u_waitingForEmailCheck u = ur_waitingForEmailCheck T"
  by (auto simp: UserInfo_from_tuple_def)

lemma TokenDB_fromCache_ro [ro]: "reads_only (DeleteRecordsFromCache (TokenDB E Rm) F V)"
  unfolding DeleteRecordsFromCache_def TokenDB_cache by (intro ro)

lemma user_cache_ro [ro]:
  "reads_only (byId_get E Rm k)" "reads_only (byEmail_get E Rm k)"
  "reads_only (byId_remove Rm k)" "reads_only (byEmail_remove Rm k)"
  by (simp_all add: reads_only_def byId_get_def byEmail_get_def byId_remove_def byEmail_remove_def)

lemma UserCache_UpdateCache_ro [ro]: "reads_only (UserCache_UpdateCache E Rm R)"
proof -
  have "reads_only (modify (upd_realm Rm (r_byId_update f)))" for f by (simp add: reads_only_def)
  moreover have "reads_only (modify (upd_realm Rm (r_byEmail_update f)))" for f
    by (simp add: reads_only_def)
  ultimately show ?thesis unfolding UserCache_UpdateCache_def by (intro ro)
qed

lemma UserCache_ro [ro]:
  "reads_only (UserCache_GetFromCache E Rm F V)" "reads_only (UserCache_Delete E Rm F V)"
  unfolding UserCache_GetFromCache_def UserCache_Delete_def by (intro ro)+

interpretation user_table: orm_table "UserDB E Rm" "poco_ok (e_poco E)" for E Rm
  by unfold_locales (simp_all add: ro UserInfo_tuple_roundtrip)

lemma user_lookup_ro [ro]: "reads_only (GetUserByEmail E Rm e)" "reads_only (GetUserById E Rm i)"
    "reads_only (GetUsers E Rm off n W)"
  by (simp_all add: GetUserByEmail_def GetUserById_def GetUsers_def user_table.GetRecord_ro
      user_table.GetRecords_ro)

end
