(* ===== verification/Plain_Dbs.thy ===== *)
theory Plain_Dbs
  imports User_Db
begin

text \<open>
  The tables without a cache: logins, action links, API keys, preferences and avatars
  (\<^verbatim>\<open>src/storage/orm_logins.cpp\<close>, \<^verbatim>\<open>orm_actionLinks.cpp\<close>, \<^verbatim>\<open>orm_apikeys.cpp\<close>, \<^verbatim>\<open>orm_preferences.cpp\<close>,
  \<^verbatim>\<open>orm_avatar.cpp\<close>), and the periodic clean-up of \<^verbatim>\<open>src/StorageService.cpp\<close>.
\<close>

subsection \<open>Tables without a cache\<close>

lemma find_key_append:
  "\<forall>row \<in> set rs. f row \<noteq> f x \<Longrightarrow> List.find (\<lambda>row. f row = f x) (rs @ [x]) = Some x"
  by (induction rs) auto

lemma find_key_replaced:
  "T \<in> set rs \<Longrightarrow> f T = f x \<Longrightarrow>
   List.find (\<lambda>row. f row = f x) (map (\<lambda>row. if f row = f x then x else row) rs) = Some x"
  by (induction rs) auto

locale orm_plain = orm_table +
  assumes no_cache: "d_cache D = None"
begin

lemma wp_GetRecord_plain:
  "wp (GetRecord E D F V) Q w =
     Q (if e_db E (w_tick w) = DbExecFails then None
        else case List.find (\<lambda>row. d_field D F row = V) (d_rows D w) of
          None \<Rightarrow> None | Some RT \<Rightarrow> d_from D RT) (w\<lparr>w_tick := Suc (w_tick w)\<rparr>)"
  unfolding GetRecord_def SelectRecord_def cache_get_def cache_update_def db_step_def
  by (simp add: no_cache rows_tick split: option.splits)

lemma wp_UpdateRecord_plain:
  "wp (UpdateRecord E D F V r) Q w =
     (let w1 = w\<lparr>w_tick := Suc (w_tick w)\<rparr>
      in if e_db E (w_tick w) = DbOk \<and> distinct (map (d_key D) (updated_rows D F V r (d_rows D w)))
         then Q True (d_upd D (updated_rows D F V r) w1) else Q False w1)"
  unfolding UpdateRecord_def cache_update_def db_step_def
  by (cases "e_db E (w_tick w)") (simp_all add: no_cache rows_tick)

lemma wp_CreateRecord_plain:
  "wp (CreateRecord E D r) Q w =
     (let w1 = w\<lparr>w_tick := Suc (w_tick w)\<rparr>
      in if e_db E (w_tick w) = DbExecFails \<or> (\<exists>row \<in> set (d_rows D w). d_key D row = d_key D (d_to D r))
         then Q False w1 else Q True (d_upd D (\<lambda>rs. rs @ [d_to D r]) w1))"
  unfolding CreateRecord_def cache_create_def db_step_def
  by (simp add: no_cache rows_tick Let_def list_ex_iff)

text \<open>
  Updating the row of a key when there is one and inserting it otherwise, as \<^verbatim>\<open>ReplaceRecord\<close> and
  \<^verbatim>\<open>SetAvatar\<close> do, makes the record what a lookup of the key returns.
\<close>

lemma put_then_get:
  assumes lib: lib and key: "\<And>row. d_field D F row = d_key D row" and db: "db_healthy E"
    and rows: "keys_distinct D w" "\<forall>row \<in> set (d_rows D w). d_from D row \<noteq> None"
    and k_def: "k = d_key D (d_to D r)"
  shows "wp (do {
      found \<leftarrow> Exists E D F k;
      ok \<leftarrow> (if found then UpdateRecord E D F k r else CreateRecord E D r);
      rec \<leftarrow> GetRecord E D F k;
      ret (ok, rec)
    }) (\<lambda>(ok, rec) w'. ok \<and> rec = Some r \<and> keys_distinct D w') w"
proof (cases "List.find (\<lambda>row. d_key D row = k) (d_rows D w)")
  case None
  then have fresh: "\<forall>row \<in> set (d_rows D w). d_key D row \<noteq> k" by (auto simp: find_None_iff)
  have "List.find (\<lambda>row. d_key D row = k) (d_rows D w @ [d_to D r]) = Some (d_to D r)"
    using find_key_append [of "d_rows D w" "d_key D" "d_to D r"] fresh by (simp add: k_def)
  with None fresh show ?thesis
    using db lib rows
    by (auto simp: Exists_def wp_GetRecord_plain wp_CreateRecord_plain Let_def key k_def rows_upd
        rows_tick reads_row db_healthy_def keys_distinct_def)
next
  case (Some T)
  then have T: "T \<in> set (d_rows D w)" "d_key D T = k" using find_mem by force+
  have "List.find (\<lambda>row. d_key D row = k) (updated_rows D F k r (d_rows D w)) = Some (d_to D r)"
    using T find_key_replaced [of T _ "d_key D" "d_to D r"] by (simp add: updated_rows_def key k_def)
  moreover have "map (d_key D) (updated_rows D F k r (d_rows D w)) = map (d_key D) (d_rows D w)"
    by (auto simp: updated_rows_def key k_def)
  ultimately show ?thesis
    using Some T db lib rows
    by (auto simp: Exists_def wp_GetRecord_plain wp_UpdateRecord_plain Let_def key rows_upd
        rows_tick reads_row db_healthy_def keys_distinct_def split: option.splits)
qed

end

subsection \<open>Logins\<close>

definition LoginDB :: "env \<Rightarrow> realm_id \<Rightarrow> (LoginInfoRecordTuple, LoginRecordInfo) db" where
  "LoginDB E Rm =
     \<lparr>d_rows = (\<lambda>w. r_logins (realm_of Rm w)),
      d_upd = (\<lambda>f. upd_realm Rm (r_logins_update f)),
      d_key = lrr_sessionId,
      d_field = (\<lambda>F T. if F = ''session'' then lrr_sessionId T
                       else if F = ''userId'' then lrr_userId T
                       else if F = ''email'' then lrr_email T else []),
      d_to = LoginRecordInfo_to_tuple (e_poco E), d_from = LoginRecordInfo_from_tuple (e_poco E),
      d_cache = None\<rparr>"

definition MakeSessionId :: "env \<Rightarrow> string \<Rightarrow> string" where
  "MakeSessionId E token = e_sha2Hex E token"

definition AddLogin :: "env \<Rightarrow> realm_id \<Rightarrow> string \<Rightarrow> string \<Rightarrow> string \<Rightarrow> unit sec" where
  "AddLogin E Rm userId email token = do {
     now \<leftarrow> Now E;
     CreateRecord E (LoginDB E Rm)
       \<lparr>lr_sessionId = MakeSessionId E token, lr_userId = userId, lr_email = email,
        lr_login = now, lr_logout = 0\<rparr>;
     ret ()
   }"

definition AddLogout :: "env \<Rightarrow> realm_id \<Rightarrow> string \<Rightarrow> unit sec" where
  "AddLogout E Rm token = do {
     let Session = MakeSessionId E token;
     rec \<leftarrow> GetRecord E (LoginDB E Rm) ''session'' Session;
     case rec of
       None \<Rightarrow> ret ()
     | Some R \<Rightarrow> do {
         now \<leftarrow> Now E;
         UpdateRecord E (LoginDB E Rm) ''session'' Session (R\<lparr>lr_logout := now\<rparr>);
         ret ()
       }
   }"

subsection \<open>Action links\<close>

definition ActionLinkDB :: "env \<Rightarrow> (ActionLinkRecordTuple, ActionLink) db" where
  "ActionLinkDB E =
     \<lparr>d_rows = w_links, d_upd = (\<lambda>f w. w\<lparr>w_links := f (w_links w)\<rparr>),
      d_key = alr_id,
      d_field = (\<lambda>F T. if F = ''id'' then alr_id T else if F = ''userId'' then alr_userId T else []),
      d_to = ActionLink_to_tuple (e_poco E), d_from = ActionLink_from_tuple (e_poco E),
      d_cache = None\<rparr>"

definition CreateAction :: "env \<Rightarrow> ActionLink \<Rightarrow> bool sec" where
  "CreateAction E A = CreateRecord E (ActionLinkDB E) A"

definition GetActions :: "env \<Rightarrow> nat \<Rightarrow> (ActionLink list \<times> bool) sec" where
  "GetActions E HowMany = GetRecords E (ActionLinkDB E) 0 HowMany (\<lambda>T. alr_sent T = 0)"

definition GetActionLink :: "env \<Rightarrow> string \<Rightarrow> ActionLink option sec" where
  "GetActionLink E ActionId = GetRecord E (ActionLinkDB E) ''id'' ActionId"

definition SentAction :: "env \<Rightarrow> string \<Rightarrow> bool sec" where
  "SentAction E ActionId = do {
     rec \<leftarrow> GetRecord E (ActionLinkDB E) ''id'' ActionId;
     case rec of
       None \<Rightarrow> ret False
     | Some A \<Rightarrow> do {
         now \<leftarrow> Now E;
         UpdateRecord E (ActionLinkDB E) ''id'' ActionId (A\<lparr>al_sent := now\<rparr>)
       }
   }"

definition DeleteAction :: "env \<Rightarrow> string \<Rightarrow> bool sec" where
  "DeleteAction E ActionId = DeleteRecord E (ActionLinkDB E) ''id'' ActionId"

definition CompleteAction :: "env \<Rightarrow> string \<Rightarrow> bool sec" where
  "CompleteAction E ActionId = do {
     rec \<leftarrow> GetRecord E (ActionLinkDB E) ''id'' ActionId;
     case rec of
       None \<Rightarrow> ret False
     | Some A \<Rightarrow> do {
         now \<leftarrow> Now E;
         UpdateRecord E (ActionLinkDB E) ''id'' ActionId (A\<lparr>al_completed := now\<rparr>)
       }
   }"

definition CancelAction :: "env \<Rightarrow> string \<Rightarrow> bool sec" where
  "CancelAction E ActionId = do {
     rec \<leftarrow> GetRecord E (ActionLinkDB E) ''id'' ActionId;
     case rec of
       None \<Rightarrow> ret False
     | Some A \<Rightarrow> do {
         now \<leftarrow> Now E;
         UpdateRecord E (ActionLinkDB E) ''id'' ActionId (A\<lparr>al_canceled := now\<rparr>)
       }
   }"

definition CleanOldActionLinks :: "env \<Rightarrow> unit sec" where
  "CleanOldActionLinks E = do {
     now \<leftarrow> Now E;
     let CutOff = now - 30 * 24 * 60 * 60;
     DeleteRecords E (ActionLinkDB E) (\<lambda>T. alr_created T \<le> CutOff);
     ret ()
   }"

subsection \<open>API keys\<close>

definition ApiKeyDB :: "env \<Rightarrow> (ApiKeyRecordTuple, ApiKeyEntry) db" where
  "ApiKeyDB E =
     \<lparr>d_rows = w_apikeys, d_upd = (\<lambda>f w. w\<lparr>w_apikeys := f (w_apikeys w)\<rparr>),
      d_key = akr_id,
      d_field = (\<lambda>F T. if F = ''id'' then akr_id T else if F = ''userUuid'' then akr_userUuid T
                       else if F = ''name'' then akr_name T
                       else if F = ''apiKey'' then akr_apiKey T else []),
      d_to = ApiKeyEntry_to_tuple (e_poco E), d_from = ApiKeyEntry_from_tuple (e_poco E),
      d_cache = None\<rparr>"

text \<open>The keys of a user are announced as removed; the rows stay.\<close>

definition RemoveAllApiKeys :: "env \<Rightarrow> string \<Rightarrow> bool sec" where
  "RemoveAllApiKeys E user_uuid = do {
     res \<leftarrow> GetRecords E (ApiKeyDB E) 0 500 (\<lambda>T. akr_userUuid T = user_uuid);
     (if snd res then foreach (fst res) (\<lambda>key. RemoveTokenSystemWide E (ak_apiKey key)) else ret ());
     ret True
   }"

definition RemoveExpiredAPIKeys :: "env \<Rightarrow> bool sec" where
  "RemoveExpiredAPIKeys E = do {
     now \<leftarrow> Now E;
     DeleteRecords E (ApiKeyDB E) (\<lambda>T. akr_expiresOn T \<le> now);
     ret True
   }"

subsection \<open>Preferences\<close>

definition PreferencesDB :: "env \<Rightarrow> realm_id \<Rightarrow> (PreferencesRecordTuple, Preferences) db" where
  "PreferencesDB E Rm =
     \<lparr>d_rows = (\<lambda>w. r_prefs (realm_of Rm w)), d_upd = (\<lambda>f. upd_realm Rm (r_prefs_update f)),
      d_key = prr_id, d_field = (\<lambda>F T. if F = ''id'' then prr_id T else []),
      d_to = Preferences_to_tuple (e_poco E), d_from = Preferences_from_tuple (e_poco E),
      d_cache = None\<rparr>"

definition GetPreferences :: "env \<Rightarrow> realm_id \<Rightarrow> string \<Rightarrow> Preferences option sec" where
  "GetPreferences E Rm UId = GetRecord E (PreferencesDB E Rm) ''id'' UId"

definition SetPreferences :: "env \<Rightarrow> realm_id \<Rightarrow> Preferences \<Rightarrow> bool sec" where
  "SetPreferences E Rm P = ReplaceRecord E (PreferencesDB E Rm) ''id'' (pr_id P) P"

definition DeletePreferences :: "env \<Rightarrow> realm_id \<Rightarrow> string \<Rightarrow> bool sec" where
  "DeletePreferences E Rm UId = DeleteRecord E (PreferencesDB E Rm) ''id'' UId"

subsection \<open>Avatars\<close>

definition AvatarDB :: "env \<Rightarrow> realm_id \<Rightarrow> (AvatarRecordTuple, Avatar) db" where
  "AvatarDB E Rm =
     \<lparr>d_rows = (\<lambda>w. r_avatars (realm_of Rm w)), d_upd = (\<lambda>f. upd_realm Rm (r_avatars_update f)),
      d_key = avr_id,
      d_field = (\<lambda>F T. if F = ''id'' then avr_id T else if F = ''type'' then avr_type T
                       else if F = ''name'' then avr_name T else []),
      d_to = Avatar_to_tuple (e_poco E), d_from = Avatar_from_tuple (e_poco E),
      d_cache = None\<rparr>"

definition SetAvatar :: "env \<Rightarrow> realm_id \<Rightarrow> string \<Rightarrow> string \<Rightarrow> string \<Rightarrow> string \<Rightarrow> bool sec" where
  "SetAvatar E Rm UId AvatarContent Type Name = do {
     now \<leftarrow> Now E;
     let A = \<lparr>av_id = UId, av_type = Type, av_created = now, av_name = Name, av_avatar = AvatarContent\<rparr>;
     found \<leftarrow> Exists E (AvatarDB E Rm) ''id'' UId;
     if found then UpdateRecord E (AvatarDB E Rm) ''id'' UId A
     else CreateRecord E (AvatarDB E Rm) A
   }"

text \<open>\<^verbatim>\<open>GetAvatar\<close> gives the content, its type and its name.\<close>

definition GetAvatar :: "env \<Rightarrow> realm_id \<Rightarrow> string \<Rightarrow> (string \<times> string \<times> string) option sec" where
  "GetAvatar E Rm UId = do {
     rec \<leftarrow> GetRecord E (AvatarDB E Rm) ''id'' UId;
     ret (map_option (\<lambda>A. (av_avatar A, av_type A, av_name A)) rec)
   }"

definition DeleteAvatar :: "env \<Rightarrow> realm_id \<Rightarrow> string \<Rightarrow> bool sec" where
  "DeleteAvatar E Rm UId = DeleteRecord E (AvatarDB E Rm) ''id'' UId"

subsection \<open>The periodic clean-up\<close>

definition Archiver_onTimer :: "env \<Rightarrow> unit sec" where
  "Archiver_onTimer E = do {
     CleanExpiredTokens E Subs;
     CleanExpiredTokens E Users;
     CleanOldActionLinks E;
     CleanOldActionLinks E
   }"

subsection \<open>Laws\<close>

lemma plain_sel [simp]:
  "d_rows (LoginDB E Rm) w = r_logins (realm_of Rm w)" "d_rows (ActionLinkDB E) w = w_links w"
  "d_rows (ApiKeyDB E) w = w_apikeys w" "d_rows (PreferencesDB E Rm) w = r_prefs (realm_of Rm w)"
  "d_rows (AvatarDB E Rm) w = r_avatars (realm_of Rm w)"
  "d_key (LoginDB E Rm) = lrr_sessionId" "d_key (ActionLinkDB E) = alr_id"
  "d_key (ApiKeyDB E) = akr_id" "d_key (PreferencesDB E Rm) = prr_id" "d_key (AvatarDB E Rm) = avr_id"
  "d_field (LoginDB E Rm) ''session'' T1 = lrr_sessionId T1" "d_field (ActionLinkDB E) ''id'' T2 = alr_id T2"
  "d_field (ApiKeyDB E) ''id'' T3 = akr_id T3" "d_field (ApiKeyDB E) ''apiKey'' T3 = akr_apiKey T3"
  "d_field (PreferencesDB E Rm) ''id'' T4 = prr_id T4" "d_field (AvatarDB E Rm) ''id'' T5 = avr_id T5"
  by (simp_all add: LoginDB_def ActionLinkDB_def ApiKeyDB_def PreferencesDB_def AvatarDB_def)

lemma plain_upd [simp]:
  "d_upd (LoginDB E Rm) f1 w = upd_realm Rm (r_logins_update f1) w"
  "d_upd (ActionLinkDB E) f2 w = w\<lparr>w_links := f2 (w_links w)\<rparr>"
  "d_upd (ApiKeyDB E) f3 w = w\<lparr>w_apikeys := f3 (w_apikeys w)\<rparr>"
  "d_upd (PreferencesDB E Rm) f4 w = upd_realm Rm (r_prefs_update f4) w"
  "d_upd (AvatarDB E Rm) f5 w = upd_realm Rm (r_avatars_update f5) w"
  by (simp_all add: LoginDB_def ActionLinkDB_def ApiKeyDB_def PreferencesDB_def AvatarDB_def)

lemma plain_convert [simp]:
  "d_to (LoginDB E Rm) = LoginRecordInfo_to_tuple (e_poco E)" "d_from (LoginDB E Rm) = LoginRecordInfo_from_tuple (e_poco E)"
  "d_to (ActionLinkDB E) = ActionLink_to_tuple (e_poco E)" "d_from (ActionLinkDB E) = ActionLink_from_tuple (e_poco E)"
  "d_to (ApiKeyDB E) = ApiKeyEntry_to_tuple (e_poco E)" "d_from (ApiKeyDB E) = ApiKeyEntry_from_tuple (e_poco E)"
  "d_to (PreferencesDB E Rm) = Preferences_to_tuple (e_poco E)" "d_from (PreferencesDB E Rm) = Preferences_from_tuple (e_poco E)"
  "d_to (AvatarDB E Rm) = Avatar_to_tuple (e_poco E)" "d_from (AvatarDB E Rm) = Avatar_from_tuple (e_poco E)"
  by (simp_all add: LoginDB_def ActionLinkDB_def ApiKeyDB_def PreferencesDB_def AvatarDB_def)

lemma plain_no_cache [simp]:
  "d_cache (LoginDB E Rm) = None" "d_cache (ActionLinkDB E) = None" "d_cache (ApiKeyDB E) = None"
  "d_cache (PreferencesDB E Rm) = None" "d_cache (AvatarDB E Rm) = None"
  by (simp_all add: LoginDB_def ActionLinkDB_def ApiKeyDB_def PreferencesDB_def AvatarDB_def)

lemma no_cache_ro [ro]:
  assumes "d_cache D = None"
  shows "reads_only (cache_create D r)" "reads_only (cache_get D F V)"
    "reads_only (cache_update D r)" "reads_only (cache_delete D F V)"
  using assms by (simp_all add: cache_create_def cache_get_def cache_update_def cache_delete_def ro)

lemmas plain_laws = ro LoginRecordInfo_tuple_roundtrip ActionLink_tuple_roundtrip
  ApiKeyEntry_tuple_roundtrip Preferences_tuple_roundtrip Avatar_tuple_roundtrip

interpretation login_table: orm_plain "LoginDB E Rm" "poco_ok (e_poco E)" for E Rm
  by unfold_locales (simp_all add: plain_laws)

interpretation link_table: orm_plain "ActionLinkDB E" "poco_ok (e_poco E)" for E
  by unfold_locales (simp_all add: plain_laws)

interpretation apikey_table: orm_plain "ApiKeyDB E" "poco_ok (e_poco E)" for E
  by unfold_locales (simp_all add: plain_laws)

interpretation prefs_table: orm_plain "PreferencesDB E Rm" "poco_ok (e_poco E)" for E Rm
  by unfold_locales (simp_all add: plain_laws)

interpretation avatar_table: orm_plain "AvatarDB E Rm" "poco_ok (e_poco E)" for E Rm
  by unfold_locales (simp_all add: plain_laws)

lemma prefs_convert: "\<exists>P. Preferences_from_tuple X T = Some P"
  by (simp add: Preferences_from_tuple_def)

lemma avatar_convert: "\<exists>A. Avatar_from_tuple X T = Some A"
  by (simp add: Avatar_from_tuple_def)

lemma prr_id_tuple [simp]: "prr_id (Preferences_to_tuple X P) = pr_id P"
  by (simp add: Preferences_to_tuple_def)

text \<open>
  Preferences written for a user are what the next read returns, whether the user had
  preferences before or not, and the table keeps one row per user.
\<close>

theorem preferences_set_get:
  assumes "poco_ok (e_poco E)" "db_healthy E" "keys_distinct (PreferencesDB E Rm) w"
  shows "wp (do { ok \<leftarrow> SetPreferences E Rm P; rec \<leftarrow> GetPreferences E Rm (pr_id P); ret (ok, rec) })
    (\<lambda>(ok, rec) w'. ok \<and> rec = Some P \<and> keys_distinct (PreferencesDB E Rm) w') w"
  using prefs_table.put_then_get [where E = E and Rm = Rm and r = P and F = "''id''", OF assms(1) _ assms(2,3)] prefs_convert
  by (simp add: SetPreferences_def GetPreferences_def ReplaceRecord_def)

text \<open>
  The periodic clean-up removes exactly the expired tokens of both realms and the action
  links older than thirty days when the database works; it never removes an API key, expired or
  not.
\<close>

theorem archiver_cleans:
  assumes "db_healthy E"
  shows "wp (Archiver_onTimer E) (\<lambda>_ w'.
      r_tokens (w_sub w') = filter (\<lambda>T. unat (e_clock E (w_tick w)) < unat (tr_created T) + unat (tr_expires T))
        (r_tokens (w_sub w))
      \<and> r_tokens (w_usr w') = filter (\<lambda>T. unat (e_clock E (w_tick w + 2)) < unat (tr_created T) + unat (tr_expires T))
        (r_tokens (w_usr w))
      \<and> set (w_links w') = {T \<in> set (w_links w). e_clock E (w_tick w + 4) - 2592000 < alr_created T
          \<and> e_clock E (w_tick w + 6) - 2592000 < alr_created T}
      \<and> w_apikeys w' = w_apikeys w) w"
  using assms
  unfolding Archiver_onTimer_def CleanExpiredTokens_def CleanOldActionLinks_def DeleteRecords_def
    db_step_def Now_def
  by (auto simp: db_healthy_def not_le eval_nat_numeral)

text \<open>
  Removing all API keys of a user only announces them: every row of the key table stays.
\<close>

theorem remove_all_api_keys_keeps_rows:
  "wp (RemoveAllApiKeys E uid) (\<lambda>ok w'. ok \<and> persist w' = persist w) w"
proof -
  have "reads_only (RemoveAllApiKeys E uid)"
    unfolding RemoveAllApiKeys_def by (intro ro apikey_table.GetRecords_ro)
  from reads_onlyD [OF this] have "wp (RemoveAllApiKeys E uid) (\<lambda>_ w'. persist w' = persist w) w" .
  moreover have "wp (RemoveAllApiKeys E uid) (\<lambda>ok w'. ok) w"
    by (simp add: RemoveAllApiKeys_def wp_def split: prod.splits)
  ultimately show ?thesis by (rule wp_mono [OF wp_conj]) simp
qed

lemma env_inst_healthy [simp]: "db_healthy env_inst"
  by (simp add: db_healthy_def env_inst_def)

theorem preferences_set_get_witness:
  "wp (do {
      ok \<leftarrow> SetPreferences env_inst Users (Preferences_init\<lparr>pr_id := ''u1'', pr_data := [(''lang'', ''en'')]\<rparr>);
      rec \<leftarrow> GetPreferences env_inst Users
        (pr_id (Preferences_init\<lparr>pr_id := ''u1'', pr_data := [(''lang'', ''en'')]\<rparr>));
      ret (ok, rec) })
    (\<lambda>(ok, rec) w'. ok \<and> rec = Some (Preferences_init\<lparr>pr_id := ''u1'', pr_data := [(''lang'', ''en'')]\<rparr>)
       \<and> keys_distinct (PreferencesDB env_inst Users) w') world_empty"
  by (rule preferences_set_get) (simp_all add: keys_distinct_def world_empty_def realm_empty_def)

theorem archiver_cleans_witness:
  "wp (Archiver_onTimer env_inst) (\<lambda>_ w'.
      r_tokens (w_sub w') = filter (\<lambda>T. unat (e_clock env_inst (w_tick token_world)) < unat (tr_created T) + unat (tr_expires T))
        (r_tokens (w_sub token_world))
      \<and> r_tokens (w_usr w') = filter (\<lambda>T. unat (e_clock env_inst (w_tick token_world + 2)) < unat (tr_created T) + unat (tr_expires T))
        (r_tokens (w_usr token_world))
      \<and> set (w_links w') = {T \<in> set (w_links token_world). e_clock env_inst (w_tick token_world + 4) - 2592000 < alr_created T
          \<and> e_clock env_inst (w_tick token_world + 6) - 2592000 < alr_created T}
      \<and> w_apikeys w' = w_apikeys token_world) token_world"
  by (rule archiver_cleans) simp

end
