(* ===== verification/User_Store.thy ===== *)
theory User_Store
  imports Plain_Dbs
begin

text \<open>
  What the user store promises: the cache agrees with the table, lookups answer what the table
  stores, identifiers and e-mail addresses stay unique. \<^verbatim>\<open>SetLastLogin\<close> writes the table behind the
  cache, so agreement is up to the time of the last login.
\<close>

subsection \<open>Agreement of cache and table\<close>

definition same_user :: "UserInfo \<Rightarrow> UserInfo \<Rightarrow> bool" where
  "same_user u v \<longleftrightarrow> u\<lparr>u_lastLogin := 0\<rparr> = v\<lparr>u_lastLogin := 0\<rparr>"

definition users_readable :: "env \<Rightarrow> realm_id \<Rightarrow> world \<Rightarrow> bool" where
  "users_readable E Rm w \<longleftrightarrow> (\<forall>T \<in> set (r_users (realm_of Rm w)). UserInfo_from_tuple (e_poco E) T \<noteq> None)"

definition emails_distinct :: "realm_id \<Rightarrow> world \<Rightarrow> bool" where
  "emails_distinct Rm w \<longleftrightarrow> distinct (map ur_email (r_users (realm_of Rm w)))"

definition table_ok :: "env \<Rightarrow> realm_id \<Rightarrow> world \<Rightarrow> bool" where
  "table_ok E Rm w \<longleftrightarrow> keys_distinct (UserDB E Rm) w \<and> emails_distinct Rm w \<and> users_readable E Rm w"

definition cached_ok :: "env \<Rightarrow> realm_id \<Rightarrow> world \<Rightarrow> string \<Rightarrow> UserInfo \<Rightarrow> bool" where
  "cached_ok E Rm w k u \<longleftrightarrow> u_id u = k \<and>
     (\<exists>T \<in> set (r_users (realm_of Rm w)). \<exists>v. UserInfo_from_tuple (e_poco E) T = Some v \<and> same_user u v)"

definition user_coherent :: "env \<Rightarrow> realm_id \<Rightarrow> world \<Rightarrow> bool" where
  "user_coherent E Rm w \<longleftrightarrow> table_ok E Rm w
     \<and> (\<forall>k u. r_byId (realm_of Rm w) k = Some u \<longrightarrow> cached_ok E Rm w k u)
     \<and> (\<forall>e i. r_byEmail (realm_of Rm w) e = Some i \<longrightarrow>
          (\<forall>T \<in> set (r_users (realm_of Rm w)). ur_id T = i \<longrightarrow> ur_email T = e))"

text \<open>The abstract store: a user is what the row with that identifier, or that address, says.\<close>

definition stored_user :: "env \<Rightarrow> realm_id \<Rightarrow> world \<Rightarrow> string \<Rightarrow> UserInfo option" where
  "stored_user E Rm w i =
     (case List.find (\<lambda>T. ur_id T = i) (r_users (realm_of Rm w)) of
        None \<Rightarrow> None | Some T \<Rightarrow> UserInfo_from_tuple (e_poco E) T)"

definition stored_email :: "env \<Rightarrow> realm_id \<Rightarrow> world \<Rightarrow> string \<Rightarrow> UserInfo option" where
  "stored_email E Rm w e =
     (case List.find (\<lambda>T. ur_email T = e) (r_users (realm_of Rm w)) of
        None \<Rightarrow> None | Some T \<Rightarrow> UserInfo_from_tuple (e_poco E) T)"

lemma same_user_refl [simp]: "same_user u u"
  by (simp add: same_user_def)

lemma rel_same_refl [simp]: "rel_option same_user x x"
  by (cases x) simp_all

lemma same_user_sel:
  assumes "same_user u v"
  shows "u_id u = u_id v" "u_email u = u_email v" "u_suspended u = u_suspended v"
    "u_currentPassword u = u_currentPassword v" "u_waitingForEmailCheck u = u_waitingForEmailCheck v"
    "u_changePassword u = u_changePassword v" "u_userRole u = u_userRole v"
    "u_lastPasswords u = u_lastPasswords v"
  using assms [unfolded same_user_def, THEN arg_cong, of u_id] assms [unfolded same_user_def, THEN arg_cong, of u_email]
    assms [unfolded same_user_def, THEN arg_cong, of u_suspended]
    assms [unfolded same_user_def, THEN arg_cong, of u_currentPassword]
    assms [unfolded same_user_def, THEN arg_cong, of u_waitingForEmailCheck]
    assms [unfolded same_user_def, THEN arg_cong, of u_changePassword]
    assms [unfolded same_user_def, THEN arg_cong, of u_userRole]
    assms [unfolded same_user_def, THEN arg_cong, of u_lastPasswords]
  by simp_all

lemma same_user_sym: "same_user u v \<Longrightarrow> same_user v u"
  by (simp add: same_user_def)

lemma same_user_trans: "same_user u v \<Longrightarrow> same_user v x \<Longrightarrow> same_user u x"
  by (simp add: same_user_def)

lemma stored_by_id:
  assumes "table_ok E Rm w" "T \<in> set (r_users (realm_of Rm w))" "UserInfo_from_tuple (e_poco E) T = Some v"
  shows "stored_user E Rm w (u_id v) = Some v"
  using find_distinct_key [of ur_id "r_users (realm_of Rm w)" T] assms User_from_sel [OF assms(3)]
  by (simp add: table_ok_def keys_distinct_def stored_user_def)

lemma stored_by_email:
  assumes "table_ok E Rm w" "T \<in> set (r_users (realm_of Rm w))" "UserInfo_from_tuple (e_poco E) T = Some v"
  shows "stored_email E Rm w (u_email v) = Some v"
  using find_distinct_key [of ur_email "r_users (realm_of Rm w)" T] assms User_from_sel [OF assms(3)]
  by (simp add: table_ok_def emails_distinct_def stored_email_def)

lemma coherent_cachedE:
  assumes "user_coherent E Rm w" "r_byId (realm_of Rm w) k = Some u"
  obtains T v where "T \<in> set (r_users (realm_of Rm w))" "UserInfo_from_tuple (e_poco E) T = Some v"
    "same_user u v" "u_id u = k"
proof -
  have "cached_ok E Rm w k u" using assms by (simp add: user_coherent_def)
  then show ?thesis using that by (auto simp: cached_ok_def)
qed

lemma stored_userE:
  assumes "stored_user E Rm w i = Some v"
  obtains T where "T \<in> set (r_users (realm_of Rm w))" "ur_id T = i" "UserInfo_from_tuple (e_poco E) T = Some v"
proof (cases "List.find (\<lambda>T. ur_id T = i) (r_users (realm_of Rm w))")
  case (Some T)
  then show ?thesis using that [of T] find_mem [OF Some] assms by (simp add: stored_user_def)
qed (use assms in \<open>simp add: stored_user_def\<close>)

lemma cached_is_stored:
  assumes "user_coherent E Rm w" "r_byId (realm_of Rm w) k = Some u"
  shows "rel_option same_user (Some u) (stored_user E Rm w k)"
    and "rel_option same_user (Some u) (stored_email E Rm w (u_email u))" and "u_id u = k"
proof -
  obtain T v where T: "T \<in> set (r_users (realm_of Rm w))" "UserInfo_from_tuple (e_poco E) T = Some v"
    and u: "same_user u v" "u_id u = k"
    using assms by (rule coherent_cachedE)
  have ok: "table_ok E Rm w" using assms by (simp add: user_coherent_def)
  show "rel_option same_user (Some u) (stored_user E Rm w k)"
    using stored_by_id [OF ok T] u same_user_sel(1) [OF u(1)] by simp
  show "rel_option same_user (Some u) (stored_email E Rm w (u_email u))"
    using stored_by_email [OF ok T] u same_user_sel(2) [OF u(1)] by simp
  show "u_id u = k" by (rule u(2))
qed

subsection \<open>Cache operations\<close>

text \<open>Changes of the user cache of one realm, seen as a new pair of maps.\<close>

definition set_ucache :: "realm_id \<Rightarrow> (string \<rightharpoonup> UserInfo) \<Rightarrow> (string \<rightharpoonup> string) \<Rightarrow> world \<Rightarrow> world" where
  "set_ucache Rm ids mails = upd_realm Rm (\<lambda>r. r\<lparr>r_byId := ids, r_byEmail := mails\<rparr>)"

lemma set_ucache_sel [simp]:
  "r_users (realm_of Rm' (set_ucache Rm ids mails w)) = r_users (realm_of Rm' w)"
  "r_byId (realm_of Rm (set_ucache Rm ids mails w)) = ids"
  "r_byEmail (realm_of Rm (set_ucache Rm ids mails w)) = mails"
  by (cases Rm; cases Rm'; simp add: set_ucache_def)+

definition users_frame :: "realm_id \<Rightarrow> world \<Rightarrow> world \<Rightarrow> bool" where
  "users_frame Rm w w' \<longleftrightarrow> r_users (realm_of Rm w') = r_users (realm_of Rm w)
     \<and> r_byId (realm_of Rm w') = r_byId (realm_of Rm w) \<and> r_byEmail (realm_of Rm w') = r_byEmail (realm_of Rm w)"

lemma users_frame_refl [simp]: "users_frame Rm w w"
  by (simp add: users_frame_def)

lemma users_frame_trans: "users_frame Rm w w' \<Longrightarrow> users_frame Rm w' w'' \<Longrightarrow> users_frame Rm w w''"
  by (simp add: users_frame_def)

lemma coherent_frame: "users_frame Rm w w' \<Longrightarrow> user_coherent E Rm w' = user_coherent E Rm w"
  by (simp add: users_frame_def user_coherent_def table_ok_def keys_distinct_def emails_distinct_def
      users_readable_def cached_ok_def)

lemma stored_frame:
  assumes "r_users (realm_of Rm w') = r_users (realm_of Rm w)"
  shows "stored_user E Rm w' = stored_user E Rm w" "stored_email E Rm w' = stored_email E Rm w"
  using assms by (simp_all add: stored_user_def stored_email_def fun_eq_iff)

lemma users_frame_token [simp]:
  "users_frame Rm (upd_realm R (r_tokenCache_update f) w) w' = users_frame Rm w w'"
  "users_frame Rm w' (upd_realm R (r_tokenCache_update f) w) = users_frame Rm w' w"
  by (cases R; cases Rm; simp add: users_frame_def)+

lemma users_frame_removed [simp]:
  "users_frame Rm (w\<lparr>w_removedTokens := r\<rparr>) w' = users_frame Rm w w'"
  "users_frame Rm w' (w\<lparr>w_removedTokens := r\<rparr>) = users_frame Rm w' w"
  "users_frame Rm (w\<lparr>w_tick := n\<rparr>) w' = users_frame Rm w w'"
  "users_frame Rm w' (w\<lparr>w_tick := n\<rparr>) = users_frame Rm w' w"
  by (simp_all add: users_frame_def)

lemma token_cache_frame [pres]:
  "preserves (users_frame Rm w0) (RemoveTokenSystemWide E i)" "preserves (users_frame Rm w0) (TokenCache_remove R i)"
  by (simp_all add: preserves_def)

lemma TokenCache_Delete_frame: "wp (TokenCache_Delete E R F V) (\<lambda>_. users_frame Rm w) w"
proof -
  have "preserves (users_frame Rm w) (TokenCache_Delete E R F V)"
    unfolding TokenCache_Delete_def by (intro pres)
  then show ?thesis by (simp add: preserves_def)
qed

lemma UserCache_UpdateCache_wp:
  "wp (UserCache_UpdateCache E Rm R) (\<lambda>_ w'.
     users_frame Rm (set_ucache Rm ((r_byId (realm_of Rm w))(u_id R \<mapsto> R))
       ((r_byEmail (realm_of Rm w))(u_email R \<mapsto> u_id R)) w) w'
     \<and> persist w' = persist w \<and> (token_coherent E Rm w \<longrightarrow> token_coherent E Rm w')) w"
proof -
  let ?w = "upd_realm Rm (r_byEmail_update (\<lambda>m. m(u_email R \<mapsto> u_id R)))
     (upd_realm Rm (r_byId_update (\<lambda>m. m(u_id R \<mapsto> R))) w)"
  have tok: "r_tokens (realm_of Rm ?w) = r_tokens (realm_of Rm w)"
    "r_tokenCache (realm_of Rm ?w) = r_tokenCache (realm_of Rm w)" by simp_all
  have "wp (TokenCache_Delete E Rm ''userName'' (u_id R)) (\<lambda>_ w'. users_frame Rm ?w w'
      \<and> set (r_tokenCache (realm_of Rm w')) \<subseteq> set (r_tokenCache (realm_of Rm w))
      \<and> r_tokens (realm_of Rm w') = r_tokens (realm_of Rm w) \<and> persist w' = persist w) ?w"
    by (rule wp_mono [OF wp_conj [OF TokenCache_Delete_frame [of E Rm _ _ Rm ?w] TokenCache_Delete_user]])
      (auto simp: tok)
  then show ?thesis
    unfolding UserCache_UpdateCache_def DeleteRecordsFromCache_def TokenDB_cache
    by (auto elim!: wp_mono simp: users_frame_def intro: coherent_cache_shrinks)
qed

lemma coherent_email:
  assumes "user_coherent E Rm w" "r_byEmail (realm_of Rm w) e = Some i" "r_byId (realm_of Rm w) i = Some u"
  shows "u_email u = e"
proof -
  obtain T v where T: "T \<in> set (r_users (realm_of Rm w))" "UserInfo_from_tuple (e_poco E) T = Some v"
    and u: "same_user u v" "u_id u = i"
    using assms(1,3) by (rule coherent_cachedE)
  have "ur_id T = i" using User_from_sel [OF T(2)] u same_user_sel(1) [OF u(1)] by simp
  then have "ur_email T = e" using assms(1,2) T(1) by (auto simp: user_coherent_def)
  then show ?thesis using User_from_sel [OF T(2)] same_user_sel(2) [OF u(1)] by simp
qed

lemma coherent_shrink:
  assumes "user_coherent E Rm w" "ids \<subseteq>\<^sub>m r_byId (realm_of Rm w)" "mails \<subseteq>\<^sub>m r_byEmail (realm_of Rm w)"
    and "r_users (realm_of Rm w') = r_users (realm_of Rm w)"
    and "r_byId (realm_of Rm w') = ids" "r_byEmail (realm_of Rm w') = mails"
  shows "user_coherent E Rm w'"
  using assms
  by (auto simp: user_coherent_def table_ok_def keys_distinct_def emails_distinct_def
      users_readable_def cached_ok_def map_le_def dom_def)

lemma coherent_cache_row:
  assumes "user_coherent E Rm w" "T \<in> set (r_users (realm_of Rm w))"
    and "UserInfo_from_tuple (e_poco E) T = Some v"
  shows "user_coherent E Rm (set_ucache Rm ((r_byId (realm_of Rm w))(u_id v \<mapsto> v))
    ((r_byEmail (realm_of Rm w))(u_email v \<mapsto> u_id v)) w)"
proof -
  have "ur_email T' = u_email v" if "T' \<in> set (r_users (realm_of Rm w))" "ur_id T' = u_id v" for T'
    using that assms User_from_sel [OF assms(3)]
    by (auto simp: user_coherent_def table_ok_def keys_distinct_def distinct_map inj_on_def)
  moreover have "\<exists>T \<in> set (r_users (realm_of Rm w)). \<exists>x. UserInfo_from_tuple (e_poco E) T = Some x \<and> same_user v x"
    using assms same_user_refl by blast
  ultimately show ?thesis
    using assms by (auto simp: user_coherent_def table_ok_def keys_distinct_def emails_distinct_def
      users_readable_def cached_ok_def)
qed

lemma user_coherent_tick [simp]: "user_coherent E Rm (w\<lparr>w_tick := n\<rparr>) = user_coherent E Rm w"
  by (rule coherent_frame) simp

subsection \<open>Lookups\<close>

definition keeps :: "env \<Rightarrow> realm_id \<Rightarrow> world \<Rightarrow> world \<Rightarrow> bool" where
  "keeps E Rm w w' \<longleftrightarrow> user_coherent E Rm w' \<and> persist w' = persist w
     \<and> (token_coherent E Rm w \<longrightarrow> token_coherent E Rm w')"

text \<open>A step that only forgets cache entries.\<close>

definition forgets :: "env \<Rightarrow> realm_id \<Rightarrow> world \<Rightarrow> world \<Rightarrow> bool" where
  "forgets E Rm w w' \<longleftrightarrow> r_users (realm_of Rm w') = r_users (realm_of Rm w) \<and> persist w' = persist w
     \<and> r_byId (realm_of Rm w') \<subseteq>\<^sub>m r_byId (realm_of Rm w) \<and> r_byEmail (realm_of Rm w') \<subseteq>\<^sub>m r_byEmail (realm_of Rm w)
     \<and> r_tokens (realm_of Rm w') = r_tokens (realm_of Rm w) \<and> r_tokenCache (realm_of Rm w') = r_tokenCache (realm_of Rm w)"

lemma forgets_keeps: "user_coherent E Rm w \<Longrightarrow> forgets E Rm w w' \<Longrightarrow> keeps E Rm w w'"
  unfolding forgets_def keeps_def
  by (auto intro: coherent_shrink coherent_cache_shrinks)

lemma forgets_trans: "forgets E Rm w w' \<Longrightarrow> forgets E Rm w' w'' \<Longrightarrow> forgets E Rm w w''"
  unfolding forgets_def by (auto intro: map_le_trans)

lemma user_select:
  assumes "user_coherent E Rm w" "db_healthy E"
  shows "wp (SelectRecord E (UserDB E Rm) F V) (\<lambda>res w'. keeps E Rm w w' \<and> (res = None \<longrightarrow> forgets E Rm w w')
     \<and> res = (case List.find (\<lambda>T. UserField F T = V) (r_users (realm_of Rm w)) of
         None \<Rightarrow> None | Some T \<Rightarrow> UserInfo_from_tuple (e_poco E) T)) w"
proof (cases "List.find (\<lambda>T. UserField F T = V) (r_users (realm_of Rm w))")
  case None
  with assms show ?thesis
    by (simp add: SelectRecord_def db_step_def db_healthy_def keeps_def forgets_def)
next
  case (Some T)
  then have T: "T \<in> set (r_users (realm_of Rm w))" using find_mem by fast
  then obtain v where v: "UserInfo_from_tuple (e_poco E) T = Some v"
    using assms by (auto simp: user_coherent_def table_ok_def users_readable_def)
  have "keeps E Rm w w'"
    if "users_frame Rm (set_ucache Rm ((r_byId (realm_of Rm w))(u_id v \<mapsto> v))
       ((r_byEmail (realm_of Rm w))(u_email v \<mapsto> u_id v)) (w\<lparr>w_tick := Suc (w_tick w)\<rparr>)) w'"
      "persist w' = persist w" "token_coherent E Rm w \<longrightarrow> token_coherent E Rm w'" for w'
    using that coherent_cache_row [of E Rm "w\<lparr>w_tick := Suc (w_tick w)\<rparr>" T v] assms(1) T v
      coherent_frame [OF that(1)] by (simp add: keeps_def)
  with Some v assms(2) show ?thesis
    by (auto simp: SelectRecord_def db_step_def db_healthy_def intro!: wp_mono [OF UserCache_UpdateCache_wp])
qed

lemma keeps_via:
  assumes "r_users (realm_of Rm w0) = r_users (realm_of Rm w)" "persist w0 = persist w"
    "token_coherent E Rm w \<longrightarrow> token_coherent E Rm w0" "keeps E Rm w0 w'"
  shows "keeps E Rm w w'"
  using assms by (auto simp: keeps_def)

lemma byId_get_wp:
  "wp (byId_get E Rm k) (\<lambda>res w'. forgets E Rm w w' \<and> (res = None \<or> res = r_byId (realm_of Rm w) k)) w"
  unfolding byId_get_def by (auto simp: forgets_def map_le_def)

lemma byEmail_get_wp:
  "wp (byEmail_get E Rm k) (\<lambda>res w'. forgets E Rm w w' \<and> (res = None \<or> res = r_byEmail (realm_of Rm w) k)) w"
  unfolding byEmail_get_def by (auto simp: forgets_def map_le_def)

lemma user_cache_hit:
  assumes "user_coherent E Rm w"
  shows "wp (UserCache_GetFromCache E Rm ''id'' k) (\<lambda>res w'. forgets E Rm w w'
      \<and> (res \<noteq> None \<longrightarrow> rel_option same_user res (stored_user E Rm w k))) w"
    and "wp (UserCache_GetFromCache E Rm ''email'' k) (\<lambda>res w'. forgets E Rm w w'
      \<and> (res \<noteq> None \<longrightarrow> rel_option same_user res (stored_email E Rm w k))) w"
proof -
  show "wp (UserCache_GetFromCache E Rm ''id'' k) (\<lambda>res w'. forgets E Rm w w'
      \<and> (res \<noteq> None \<longrightarrow> rel_option same_user res (stored_user E Rm w k))) w"
    unfolding UserCache_GetFromCache_def
    using cached_is_stored(1) [OF assms] by (auto intro!: wp_mono [OF byId_get_wp])
  have hit: "rel_option same_user (Some u) (stored_email E Rm w k)"
    if "r_byEmail (realm_of Rm w) k = Some i" "forgets E Rm w w1" "r_byId (realm_of Rm w1) i = Some u" for i u w1
  proof -
    have u: "r_byId (realm_of Rm w) i = Some u"
      using that by (auto simp: forgets_def map_le_def dom_def)
    then show ?thesis using cached_is_stored(2) [OF assms u] coherent_email [OF assms that(1) u] by simp
  qed
  show "wp (UserCache_GetFromCache E Rm ''email'' k) (\<lambda>res w'. forgets E Rm w w'
      \<and> (res \<noteq> None \<longrightarrow> rel_option same_user res (stored_email E Rm w k))) w"
    unfolding UserCache_GetFromCache_def
    by (auto intro!: wp_mono [OF byEmail_get_wp] wp_mono [OF byId_get_wp] split: option.splits)
      (blast intro: forgets_trans hit)+
qed

lemma user_lookup_gen:
  assumes coh: "user_coherent E Rm w" and db: "db_healthy E"
    and hit: "wp (UserCache_GetFromCache E Rm F k) (\<lambda>res w'. forgets E Rm w w'
      \<and> (res \<noteq> None \<longrightarrow> rel_option same_user res st)) w"
    and st: "st = (case List.find (\<lambda>T. UserField F T = k) (r_users (realm_of Rm w)) of
         None \<Rightarrow> None | Some T \<Rightarrow> UserInfo_from_tuple (e_poco E) T)"
  shows "wp (GetRecord E (UserDB E Rm) F k) (\<lambda>res w'. keeps E Rm w w' \<and> rel_option same_user res st
      \<and> (res = None \<longrightarrow> forgets E Rm w w')) w"
proof -
  have sel: "wp (SelectRecord E (UserDB E Rm) F k) (\<lambda>res w'. keeps E Rm w w' \<and> rel_option same_user res st
      \<and> (res = None \<longrightarrow> forgets E Rm w w')) w1"
    if "forgets E Rm w w1" for w1
  proof -
    have k1: "keeps E Rm w w1" by (rule forgets_keeps [OF coh that])
    then have "user_coherent E Rm w1" by (simp add: keeps_def)
    from user_select [OF this db, of F k] show ?thesis
    proof (rule wp_mono)
      fix res w'
      have rows: "r_users (realm_of Rm w1) = r_users (realm_of Rm w)" using that by (simp add: forgets_def)
      assume "keeps E Rm w1 w' \<and> (res = None \<longrightarrow> forgets E Rm w1 w')
         \<and> res = (case List.find (\<lambda>T. UserField F T = k) (r_users (realm_of Rm w1)) of
             None \<Rightarrow> None | Some T \<Rightarrow> UserInfo_from_tuple (e_poco E) T)"
      then show "keeps E Rm w w' \<and> rel_option same_user res st \<and> (res = None \<longrightarrow> forgets E Rm w w')"
        using k1 st forgets_trans [OF that] by (auto simp: rows keeps_def)
    qed
  qed
  show ?thesis
    unfolding GetRecord_def UserDB_cache
    by (auto intro!: wp_mono [OF hit] sel intro: forgets_keeps [OF coh] split: option.splits)
qed

lemma user_lookup_id:
  assumes "user_coherent E Rm w" "db_healthy E"
  shows "wp (GetUserById E Rm i) (\<lambda>res w'. keeps E Rm w w' \<and> rel_option same_user res (stored_user E Rm w i)) w"
  unfolding GetUserById_def
  by (rule wp_mono [OF user_lookup_gen [OF assms user_cache_hit(1) [OF assms(1)]]]) (simp_all add: stored_user_def)

lemma user_lookup_email:
  assumes "user_coherent E Rm w" "db_healthy E"
  shows "wp (GetUserByEmail E Rm e) (\<lambda>res w'. keeps E Rm w w' \<and> rel_option same_user res (stored_email E Rm w e)) w"
  unfolding GetUserByEmail_def
  by (rule wp_mono [OF user_lookup_gen [OF assms user_cache_hit(2) [OF assms(1)]]]) (simp_all add: stored_email_def)

text \<open>
  In front of a coherent user cache a lookup by identifier or by e-mail address answers what
  the table stores, up to the time of the last login, through hits, misses and evictions; it
  changes no table and keeps the cache coherent.
\<close>

theorem user_lookup_refines:
  assumes "user_coherent E Rm w" "db_healthy E"
  shows "wp (GetUserById E Rm i) (\<lambda>res w'. user_coherent E Rm w' \<and> persist w' = persist w
      \<and> rel_option same_user res (stored_user E Rm w i)) w
    \<and> wp (GetUserByEmail E Rm e) (\<lambda>res w'. user_coherent E Rm w' \<and> persist w' = persist w
      \<and> rel_option same_user res (stored_email E Rm w e)) w"
  using wp_mono [OF user_lookup_id [OF assms]] wp_mono [OF user_lookup_email [OF assms]]
  by (auto simp: keeps_def)

subsection \<open>Creating users\<close>

text \<open>The step counter never goes back.\<close>

definition since :: "nat \<Rightarrow> world \<Rightarrow> bool" where
  "since n w \<longleftrightarrow> n \<le> w_tick w"

lemma since_tick [simp]: "since n (w\<lparr>w_tick := Suc (w_tick w)\<rparr>) = (n \<le> Suc (w_tick w))"
  by (simp add: since_def)

lemma since_step [pres]: "preserves (since n) step"
  by (simp add: preserves_def since_def)

lemma since_env [pres]: "preserves (since n) (db_step E)" "preserves (since n) (Now E)" "preserves (since n) (CreateUUID E)"
  unfolding db_step_def Now_def CreateUUID_def by (intro pres)+

lemma since_modify [pres]:
  "preserves (since n) (modify (upd_realm Rm f))" "preserves (since n) (RemoveTokenSystemWide E i)"
  "preserves (since n) (TokenCache_remove Rm i)" "preserves (since n) (byId_remove Rm k)"
  "preserves (since n) (byEmail_remove Rm k)"
  by (simp_all add: preserves_def since_def byId_remove_def byEmail_remove_def)

lemma since_cache [pres]:
  "preserves (since n) (TokenCache_Delete E Rm F V)" "preserves (since n) (byId_get E Rm k)"
  "preserves (since n) (byEmail_get E Rm k)"
  unfolding TokenCache_Delete_def byId_get_def byEmail_get_def by (intro pres)+

lemma since_user_cache [pres]:
  "preserves (since n) (UserCache_UpdateCache E Rm R)" "preserves (since n) (UserCache_GetFromCache E Rm F V)"
  unfolding UserCache_UpdateCache_def DeleteRecordsFromCache_def TokenDB_cache UserCache_GetFromCache_def
  by (intro pres)+

lemma since_user_get [pres]: "preserves (since n) (GetRecord E (UserDB E Rm) F V)"
  unfolding GetRecord_def SelectRecord_def UserDB_cache by (intro pres)

lemma coherent_add_row:
  assumes "user_coherent E Rm w" "poco_ok (e_poco E)"
    and "\<forall>T \<in> set (r_users (realm_of Rm w)). ur_id T \<noteq> u_id u \<and> ur_email T \<noteq> u_email u"
    and "\<forall>e. r_byEmail (realm_of Rm w) e = Some (u_id u) \<longrightarrow> e = u_email u"
  shows "user_coherent E Rm (upd_realm Rm (r_users_update (\<lambda>rs. rs @ [UserInfo_to_tuple (e_poco E) u])) w)"
  using assms
  by (auto simp: user_coherent_def table_ok_def keys_distinct_def emails_distinct_def
      users_readable_def cached_ok_def UserInfo_tuple_roundtrip)

text \<open>The record that is stored for a new user.\<close>

definition new_user :: "env \<Rightarrow> UserInfo \<Rightarrow> bool \<Rightarrow> nat \<Rightarrow> UserInfo \<Rightarrow> bool" where
  "new_user E u hashed n u' \<longleftrightarrow> u_email u' = u_email u
     \<and> (hashed \<longrightarrow> u_id u' = u_id u \<and> u_currentPassword u' = u_currentPassword u)
     \<and> (\<not> hashed \<longrightarrow> (\<exists>m \<ge> n. u_id u' = e_uuid E m))
     \<and> u_userRole u' = u_userRole u \<and> u_suspended u' = u_suspended u
     \<and> u_waitingForEmailCheck u' = u_waitingForEmailCheck u \<and> u_changePassword u' = u_changePassword u
     \<and> (u_currentPassword u = [] \<longrightarrow> u_currentPassword u' = [])
     \<and> (\<not> hashed \<and> u_currentPassword u \<noteq> [] \<longrightarrow> u_validated u' \<and> u_lastPasswords u' = [u_currentPassword u']
         \<and> (\<exists>m. u_currentPassword u' = salted_hash E m (u_currentPassword u) (hash_name E (u_email u))))"

lemma tick_self: "\<exists>m. w = w\<lparr>w_tick := m\<rparr>"
  by (rule exI [of _ "w_tick w"]) simp

lemma NewUser_wp:
  assumes "n \<le> w_tick w"
  shows "wp (do { u1 \<leftarrow> NewUserDates E u hashed; NewUserPassword E u1 hashed }) (\<lambda>u' w'.
     (\<exists>m. w' = w\<lparr>w_tick := m\<rparr>) \<and> new_user E u hashed n u') w"
  using assms unfolding NewUserDates_def NewUserPassword_def CreateUUID_def Now_def
  by (auto simp: new_user_def tick_self)

definition added_user :: "env \<Rightarrow> realm_id \<Rightarrow> world \<Rightarrow> bool \<Rightarrow> UserInfo \<Rightarrow> world \<Rightarrow> bool" where
  "added_user E Rm w ok u' w' \<longleftrightarrow> user_coherent E Rm w' \<and> (token_coherent E Rm w \<longrightarrow> token_coherent E Rm w')
     \<and> persist w' = (if ok then upd_realm Rm (r_users_update (\<lambda>rs. rs @ [UserInfo_to_tuple (e_poco E) u'])) (persist w)
                     else persist w)"

lemma InsertUser_wp:
  assumes coh: "user_coherent E Rm w" and lib: "poco_ok (e_poco E)"
    and mail: "stored_email E Rm w (u_email u) = None"
    and ids: "\<forall>e. r_byEmail (realm_of Rm w) e = Some (u_id u) \<longrightarrow> e = u_email u"
  shows "wp (CreateRecord E (UserDB E Rm) u) (\<lambda>ok w'. added_user E Rm w ok u w') w"
proof -
  have fresh: "\<forall>T \<in> set (r_users (realm_of Rm w)). ur_email T \<noteq> u_email u"
    using mail coh find_distinct_key [of ur_email "r_users (realm_of Rm w)"]
    by (auto simp: stored_email_def user_coherent_def table_ok_def users_readable_def emails_distinct_def
        split: option.splits) (metis find_mem option.distinct(1) option.inject)+
  have tok: "token_coherent E Rm (upd_realm Rm (r_users_update f) w) = token_coherent E Rm w" for f
    by (simp add: token_coherent_def keys_distinct_def)
  show ?thesis
    unfolding CreateRecord_def db_step_def
    using coh fresh lib ids
    by (auto simp: Let_def added_user_def list_ex_iff tok coherent_add_row)
qed

text \<open>The identifier of a new user is not the target of an old e-mail entry of the cache.\<close>

definition id_is_new :: "env \<Rightarrow> realm_id \<Rightarrow> world \<Rightarrow> UserInfo \<Rightarrow> bool \<Rightarrow> bool" where
  "id_is_new E Rm w u hashed \<longleftrightarrow>
     (if hashed then u_id u \<notin> ran (r_byEmail (realm_of Rm w))
      else \<forall>n \<ge> w_tick w. e_uuid E n \<notin> ran (r_byEmail (realm_of Rm w)))"

lemma id_is_new_mono:
  assumes "id_is_new E Rm w u hashed" "forgets E Rm w w1" "new_user E u hashed n u'" "w_tick w \<le> n"
  shows "r_byEmail (realm_of Rm w1) e \<noteq> Some (u_id u')"
proof
  assume "r_byEmail (realm_of Rm w1) e = Some (u_id u')"
  then have "u_id u' \<in> ran (r_byEmail (realm_of Rm w))"
    using assms(2) by (force simp: forgets_def map_le_def dom_def ran_def)
  then show False using assms by (auto simp: id_is_new_def new_user_def split: if_splits)
qed

definition lower_email :: "env \<Rightarrow> UserInfo \<Rightarrow> UserInfo" where
  "lower_email E u = u\<lparr>u_email := str_toLower (e_poco E) (u_email u)\<rparr>"

lemma CreateUser_wp:
  assumes coh: "user_coherent E Rm w" and lib: "poco_ok (e_poco E)" and db: "db_healthy E"
    and new: "id_is_new E Rm w u hashed"
  shows "wp (CreateUser E Rm u hashed) (\<lambda>(ok, u') w'. added_user E Rm w ok u' w'
     \<and> (ok \<longrightarrow> stored_email E Rm w (u_email u') = None \<and> new_user E (lower_email E u) hashed (w_tick w) u')) w"
proof -
  have lookup: "wp (GetRecord E (UserDB E Rm) ''email'' (u_email (lower_email E u))) (\<lambda>res w'. keeps E Rm w w'
      \<and> rel_option same_user res (stored_email E Rm w (u_email (lower_email E u)))
      \<and> (res = None \<longrightarrow> forgets E Rm w w') \<and> since (w_tick w) w') w"
    by (rule wp_mono [OF wp_conj [OF user_lookup_gen [OF coh db user_cache_hit(2) [OF coh]]
          preservesD [OF since_user_get [of "w_tick w"]]]])
      (auto simp: stored_email_def since_def)
  have new0: "id_is_new E Rm w (lower_email E u) hashed" using new by (simp add: id_is_new_def lower_email_def)
  have insert: "wp (CreateRecord E (UserDB E Rm) u') (\<lambda>ok w'. added_user E Rm w ok u' w'
        \<and> (ok \<longrightarrow> stored_email E Rm w (u_email u') = None \<and> new_user E (lower_email E u) hashed (w_tick w) u')) (w1\<lparr>w_tick := m\<rparr>)"
    if "forgets E Rm w w1" "stored_email E Rm w (u_email (lower_email E u)) = None"
      "new_user E (lower_email E u) hashed (w_tick w) u'" for w1 u' m
  proof -
    have k: "keeps E Rm w w1" by (rule forgets_keeps [OF coh that(1)])
    have mail: "u_email u' = u_email (lower_email E u)" using that(3) by (simp add: new_user_def)
    have "stored_email E Rm (w1\<lparr>w_tick := m\<rparr>) = stored_email E Rm w"
      using that(1) by (intro stored_frame) (simp add: forgets_def)
    then show ?thesis
      using that k mail id_is_new_mono [OF new0 that(1,3)] db
      by (intro wp_mono [OF InsertUser_wp [OF _ lib]]) (auto simp: keeps_def added_user_def)
  qed
  have tail: "wp (NewUserDates E (lower_email E u) hashed) (\<lambda>u1. wp (NewUserPassword E u1 hashed) (\<lambda>u'.
      wp (CreateRecord E (UserDB E Rm) u') (\<lambda>ok w'. added_user E Rm w ok u' w'
        \<and> (ok \<longrightarrow> stored_email E Rm w (u_email u') = None \<and> new_user E (lower_email E u) hashed (w_tick w) u'))))
      (w1\<lparr>w_tick := Suc (w_tick w1)\<rparr>)"
    if "forgets E Rm w w1" "stored_email E Rm w (u_email (lower_email E u)) = None" "since (w_tick w) w1" for w1
  proof -
    have "w_tick w \<le> w_tick (w1\<lparr>w_tick := Suc (w_tick w1)\<rparr>)" using that(3) by (simp add: since_def)
    note NewUser_wp [OF this, of E "lower_email E u" hashed]
    then have "wp (do { u1 \<leftarrow> NewUserDates E (lower_email E u) hashed; NewUserPassword E u1 hashed }) (\<lambda>u'.
      wp (CreateRecord E (UserDB E Rm) u') (\<lambda>ok w'. added_user E Rm w ok u' w'
        \<and> (ok \<longrightarrow> stored_email E Rm w (u_email u') = None \<and> new_user E (lower_email E u) hashed (w_tick w) u')))
      (w1\<lparr>w_tick := Suc (w_tick w1)\<rparr>)"
      by (rule wp_mono) (use insert [OF that(1,2)] in force)
    then show ?thesis by simp
  qed
  have "added_user E Rm w False u' w'" if "keeps E Rm w w'" for u' w'
    using that by (simp add: added_user_def keeps_def)
  then show ?thesis
    unfolding CreateUser_def Exists_def lower_email_def [symmetric]
    using db tail
    by (auto simp: Let_def db_step_def db_healthy_def lower_email_def [symmetric] option_rel_Some1
        intro!: wp_mono [OF lookup] tail)
qed

subsection \<open>Changing and deleting users\<close>

lemma map_key_same:
  assumes "\<forall>x \<in> set xs. f x = k \<longrightarrow> g x = g n" "f n = k"
  shows "map g (map (\<lambda>x. if f x = k then n else x) xs) = map g xs"
    and "map f (map (\<lambda>x. if f x = k then n else x) xs) = map f xs"
  using assms by (induction xs) auto

lemma same_id_email:
  assumes "table_ok E Rm w" "T \<in> set (r_users (realm_of Rm w))" "T' \<in> set (r_users (realm_of Rm w))" "ur_id T' = ur_id T"
  shows "ur_email T' = ur_email T"
  using assms by (auto simp: table_ok_def keys_distinct_def distinct_map inj_on_def)

definition put_user :: "env \<Rightarrow> realm_id \<Rightarrow> UserInfo \<Rightarrow> UserInfoRecordTuple list \<Rightarrow> UserInfoRecordTuple list" where
  "put_user E Rm u rows = map (\<lambda>T. if ur_id T = u_id u then UserInfo_to_tuple (e_poco E) u else T) rows"

lemma put_user_ok:
  assumes "table_ok E Rm w" "poco_ok (e_poco E)"
    and "T \<in> set (r_users (realm_of Rm w))" "ur_id T = u_id u" "ur_email T = u_email u"
    and "r_users (realm_of Rm w') = put_user E Rm u (r_users (realm_of Rm w))"
  shows "table_ok E Rm w'"
proof -
  have mails: "\<forall>x \<in> set (r_users (realm_of Rm w)). ur_id x = u_id u \<longrightarrow> ur_email x = ur_email (UserInfo_to_tuple (e_poco E) u)"
    using same_id_email [OF assms(1,3)] assms(4,5) by simp
  have same: "map ur_id (put_user E Rm u (r_users (realm_of Rm w))) = map ur_id (r_users (realm_of Rm w))"
    "map ur_email (put_user E Rm u (r_users (realm_of Rm w))) = map ur_email (r_users (realm_of Rm w))"
    unfolding put_user_def using map_key_same [where g = ur_email and f = ur_id, OF mails] by simp_all
  have "\<forall>T \<in> set (put_user E Rm u (r_users (realm_of Rm w))). UserInfo_from_tuple (e_poco E) T \<noteq> None"
    using assms(1) by (auto simp: put_user_def table_ok_def users_readable_def UserInfo_tuple_roundtrip [OF assms(2)])
  then show ?thesis
    using assms(1) same unfolding table_ok_def keys_distinct_def emails_distinct_def users_readable_def
    by (simp add: assms(6) del: map_map)
qed

lemma coherent_put_user:
  assumes coh: "user_coherent E Rm w" and lib: "poco_ok (e_poco E)"
    and T: "T \<in> set (r_users (realm_of Rm w))" "ur_id T = u_id u" "ur_email T = u_email u"
    and rows: "r_users (realm_of Rm w') = put_user E Rm u (r_users (realm_of Rm w))"
    and cache: "r_byId (realm_of Rm w') = (r_byId (realm_of Rm w))(u_id u \<mapsto> u)"
      "r_byEmail (realm_of Rm w') = (r_byEmail (realm_of Rm w))(u_email u \<mapsto> u_id u)"
  shows "user_coherent E Rm w'"
proof -
  have ok: "table_ok E Rm w" using coh by (simp add: user_coherent_def)
  have new: "UserInfo_to_tuple (e_poco E) u \<in> set (r_users (realm_of Rm w'))"
    using T by (force simp: rows put_user_def)
  have "cached_ok E Rm w' k v" if "r_byId (realm_of Rm w') k = Some v" for k v
  proof (cases "k = u_id u")
    case True
    then show ?thesis using that cache new UserInfo_tuple_roundtrip [OF lib] by (force simp: cached_ok_def)
  next
    case False
    then have "cached_ok E Rm w k v" using that cache coh by (simp add: user_coherent_def)
    then obtain T' x where T': "T' \<in> set (r_users (realm_of Rm w))" "UserInfo_from_tuple (e_poco E) T' = Some x"
      "same_user v x" "u_id v = k" by (auto simp: cached_ok_def)
    then have "ur_id T' \<noteq> u_id u" using False User_from_sel same_user_sel(1) by force
    with T'(1) have "T' \<in> set (r_users (realm_of Rm w'))" by (force simp: rows put_user_def)
    with T' show ?thesis by (auto simp: cached_ok_def)
  qed
  moreover have "ur_email T' = e"
    if mail: "r_byEmail (realm_of Rm w') e = Some (ur_id T')" and mem: "T' \<in> set (r_users (realm_of Rm w'))" for e T'
  proof -
    consider "T' = UserInfo_to_tuple (e_poco E) u" | "T' \<in> set (r_users (realm_of Rm w))" "ur_id T' \<noteq> u_id u"
      using mem by (auto simp: rows put_user_def)
    then show ?thesis
    proof cases
      case 1
      show ?thesis
      proof (cases "e = u_email u")
        case False
        then have "r_byEmail (realm_of Rm w) e = Some (u_id u)" using mail 1 cache by simp
        with coh T(1,2) have "ur_email T = e" by (simp add: user_coherent_def)
        with T(3) False show ?thesis by simp
      qed (simp add: 1)
    next
      case 2
      then have "r_byEmail (realm_of Rm w) e = Some (ur_id T')" using mail cache by (auto split: if_splits)
      with coh 2(1) show ?thesis by (simp add: user_coherent_def)
    qed
  qed
  ultimately show ?thesis
    using put_user_ok [OF ok lib T rows] by (auto simp: user_coherent_def)
qed

lemma coherent_delete:
  assumes coh: "user_coherent E Rm w"
    and "r_users (realm_of Rm w') = filter (\<lambda>T. ur_id T \<noteq> i) (r_users (realm_of Rm w))"
    and cache: "r_byId (realm_of Rm w') \<subseteq>\<^sub>m r_byId (realm_of Rm w)" "r_byId (realm_of Rm w') i = None"
      "r_byEmail (realm_of Rm w') \<subseteq>\<^sub>m r_byEmail (realm_of Rm w)"
  shows "user_coherent E Rm w'"
proof -
  have "cached_ok E Rm w' k v" if "r_byId (realm_of Rm w') k = Some v" for k v
  proof -
    have "r_byId (realm_of Rm w) k = Some v" using that cache(1) by (auto simp: map_le_def dom_def)
    then obtain T x where T: "T \<in> set (r_users (realm_of Rm w))" "UserInfo_from_tuple (e_poco E) T = Some x"
      "same_user v x" "u_id v = k" by (rule coherent_cachedE [OF coh])
    have "ur_id T \<noteq> i" using that cache(2) T(4) User_from_sel [OF T(2)] same_user_sel(1) [OF T(3)] by auto
    with T show ?thesis by (auto simp: cached_ok_def assms(2))
  qed
  then show ?thesis
    using assms by (auto simp: user_coherent_def table_ok_def keys_distinct_def emails_distinct_def
        users_readable_def distinct_map_filter map_le_def dom_def)
qed

lemma UpdateUserInfo_wp:
  assumes coh: "user_coherent E Rm w" and lib: "poco_ok (e_poco E)" and db: "db_healthy E"
    and row: "stored_user E Rm w (u_id u) = Some v" "u_email v = u_email u"
  shows "wp (UpdateUserInfo E Rm (u_id u) u) (\<lambda>ok w'. ok \<and> user_coherent E Rm w'
    \<and> (token_coherent E Rm w \<longrightarrow> token_coherent E Rm w')
    \<and> persist w' = upd_realm Rm (r_users_update (put_user E Rm u)) (persist w)) w"
proof -
  obtain T where T: "T \<in> set (r_users (realm_of Rm w))" "ur_id T = u_id u" "UserInfo_from_tuple (e_poco E) T = Some v"
    using row(1) by (rule stored_userE)
  have mail: "ur_email T = u_email u" using User_from_sel [OF T(3)] row(2) by simp
  have upd: "updated_rows (UserDB E Rm) ''id'' (u_id u) u = put_user E Rm u"
    by (rule ext) (simp add: updated_rows_def put_user_def)
  have ok: "table_ok E Rm w" using coh by (simp add: user_coherent_def)
  have "table_ok E Rm (upd_realm Rm (r_users_update (put_user E Rm u)) w)"
    by (rule put_user_ok [OF ok lib T(1,2) mail]) simp
  then have dist: "distinct (map ur_id (put_user E Rm u (r_users (realm_of Rm w))))"
    by (simp add: table_ok_def keys_distinct_def)
  have tok: "token_coherent E Rm (upd_realm Rm (r_users_update f) w') = token_coherent E Rm w'" for f w'
    by (simp add: token_coherent_def keys_distinct_def)
  have fin: "user_coherent E Rm (upd_realm Rm (r_users_update (put_user E Rm u)) w')"
    if "users_frame Rm (set_ucache Rm ((r_byId (realm_of Rm w))(u_id u \<mapsto> u))
       ((r_byEmail (realm_of Rm w))(u_email u \<mapsto> u_id u)) (w\<lparr>w_tick := Suc (w_tick w)\<rparr>)) w'" for w'
    using that by (intro coherent_put_user [OF coh lib T(1,2) mail]) (simp_all add: users_frame_def)
  show ?thesis
    unfolding UpdateUserInfo_def UpdateRecord_def db_step_def
    using db dist
    by (simp add: db_healthy_def upd) (rule wp_mono [OF UserCache_UpdateCache_wp], simp add: fin tok)
qed

lemma DeleteUser_wp:
  assumes coh: "user_coherent E Rm w" and db: "db_healthy E"
  shows "wp (DeleteUser E Rm i) (\<lambda>ok w'. ok \<and> user_coherent E Rm w'
    \<and> (token_coherent E Rm w \<longrightarrow> token_coherent E Rm w')
    \<and> persist w' = upd_realm Rm (r_users_update (filter (\<lambda>T. ur_id T \<noteq> i))) (persist w)) w"
proof -
  have fin: "user_coherent E Rm (upd_realm Rm (r_users_update (filter (\<lambda>T. ur_id T \<noteq> i))) w')"
    if "r_users (realm_of Rm w') = r_users (realm_of Rm w)" "r_byId (realm_of Rm w') i = None"
      "r_byId (realm_of Rm w') \<subseteq>\<^sub>m r_byId (realm_of Rm w)" "r_byEmail (realm_of Rm w') \<subseteq>\<^sub>m r_byEmail (realm_of Rm w)" for w'
    using that by (intro coherent_delete [OF coh]) simp_all
  have tok: "token_coherent E Rm (upd_realm Rm (r_users_update f) w') = token_coherent E Rm w'" for f w'
    by (simp add: token_coherent_def keys_distinct_def)
  have del: "wp (UserCache_Delete E Rm ''id'' i) (\<lambda>_ w'. forgets E Rm w w' \<and> r_byId (realm_of Rm w') i = None) (w\<lparr>w_tick := n\<rparr>)" for n
    unfolding UserCache_Delete_def byId_remove_def byEmail_remove_def
    by (auto intro!: wp_mono [OF byId_get_wp] simp: forgets_def map_le_def split: option.splits)
  show ?thesis
    unfolding DeleteUser_def DeleteRecord_def db_step_def
    using db
    by (auto simp: db_healthy_def tok intro!: wp_mono [OF del] fin)
     (auto simp: forgets_def intro: coherent_cache_shrinks)
qed

lemma User_from_lastLogin:
  "UserInfo_from_tuple P (T\<lparr>ur_lastLogin := n\<rparr>)
     = map_option (\<lambda>u. u\<lparr>u_lastLogin := n\<rparr>) (UserInfo_from_tuple P T)"
  by (simp add: UserInfo_from_tuple_def option.map_comp comp_def split: option.splits)

definition stamp_login :: "string \<Rightarrow> u64 \<Rightarrow> UserInfoRecordTuple list \<Rightarrow> UserInfoRecordTuple list" where
  "stamp_login i now = map (\<lambda>T. if ur_id T = i then T\<lparr>ur_lastLogin := now\<rparr> else T)"

lemma stamp_login_sel: "map ur_id (stamp_login i n rs) = map ur_id rs" "map ur_email (stamp_login i n rs) = map ur_email rs"
  by (auto simp: stamp_login_def)

lemma coherent_stamp:
  assumes coh: "user_coherent E Rm w"
  shows "user_coherent E Rm (upd_realm Rm (r_users_update (stamp_login i n)) w)" (is "user_coherent _ _ ?w")
proof -
  let ?s = "\<lambda>T. if ur_id T = i then T\<lparr>ur_lastLogin := n\<rparr> else T"
  have rows: "r_users (realm_of Rm ?w) = map ?s (r_users (realm_of Rm w))" by (simp add: stamp_login_def)
  have conv: "\<exists>x. UserInfo_from_tuple (e_poco E) (?s T) = Some x \<and> same_user v x"
    if "UserInfo_from_tuple (e_poco E) T = Some v" for T v
    using that by (simp add: User_from_lastLogin same_user_def)
  have ok: "table_ok E Rm w" using coh by (simp add: user_coherent_def)
  have "users_readable E Rm ?w"
    using ok conv unfolding users_readable_def table_ok_def rows by fastforce
  then have "table_ok E Rm ?w"
    using ok stamp_login_sel by (simp add: table_ok_def keys_distinct_def emails_distinct_def)
  moreover have "cached_ok E Rm ?w k u" if id: "r_byId (realm_of Rm ?w) k = Some u" for k u
  proof -
    obtain T v where T: "T \<in> set (r_users (realm_of Rm w))" "UserInfo_from_tuple (e_poco E) T = Some v" "same_user u v" "u_id u = k"
      using id by (auto elim: coherent_cachedE [OF coh])
    obtain x where x: "UserInfo_from_tuple (e_poco E) (?s T) = Some x" "same_user v x" using conv [OF T(2)] by blast
    have "?s T \<in> set (r_users (realm_of Rm ?w))" unfolding rows set_map by (rule imageI [OF T(1)])
    with x T(4) same_user_trans [OF T(3) x(2)] show ?thesis unfolding cached_ok_def by blast
  qed
  moreover have "ur_email T = e" if "r_byEmail (realm_of Rm ?w) e = Some (ur_id T)" "T \<in> set (r_users (realm_of Rm ?w))" for e T
    using that coh by (auto simp: stamp_login_def user_coherent_def split: if_splits)
  ultimately show ?thesis by (auto simp: user_coherent_def)
qed

lemma SetLastLogin_wp:
  assumes "user_coherent E Rm w" "db_healthy E"
  shows "wp (SetLastLogin E Rm i) (\<lambda>ok w'. ok \<and> user_coherent E Rm w'
    \<and> (token_coherent E Rm w \<longrightarrow> token_coherent E Rm w')
    \<and> persist w' = upd_realm Rm (r_users_update (stamp_login i (e_clock E (w_tick w)))) (persist w)) w"
proof -
  have "token_coherent E Rm (upd_realm Rm (r_users_update f) w') = token_coherent E Rm w'" for f w'
    by (simp add: token_coherent_def keys_distinct_def)
  then show ?thesis
    using assms coherent_stamp [OF assms(1)]
    by (simp add: SetLastLogin_def Now_def db_step_def db_healthy_def stamp_login_def)
qed

subsection \<open>Reachable user stores\<close>

text \<open>
  The states of one realm's user store: empty caches and tables at first, then any sequence of
  creations, lookups, updates that keep the address, deletions and login stamps.
\<close>

inductive user_reach :: "env \<Rightarrow> realm_id \<Rightarrow> world \<Rightarrow> bool" for E Rm where
  start: "user_reach E Rm world_empty"
| create: "user_reach E Rm w \<Longrightarrow> id_is_new E Rm w u hashed \<Longrightarrow> run_state (CreateUser E Rm u hashed) w = (r, w') \<Longrightarrow>
    user_reach E Rm w'"
| find_id: "user_reach E Rm w \<Longrightarrow> run_state (GetUserById E Rm i) w = (r, w') \<Longrightarrow> user_reach E Rm w'"
| find_email: "user_reach E Rm w \<Longrightarrow> run_state (GetUserByEmail E Rm e) w = (r, w') \<Longrightarrow> user_reach E Rm w'"
| update: "user_reach E Rm w \<Longrightarrow> stored_user E Rm w (u_id u) = Some v \<Longrightarrow> u_email v = u_email u \<Longrightarrow>
    run_state (UpdateUserInfo E Rm (u_id u) u) w = (r, w') \<Longrightarrow> user_reach E Rm w'"
| delete: "user_reach E Rm w \<Longrightarrow> run_state (DeleteUser E Rm i) w = (r, w') \<Longrightarrow> user_reach E Rm w'"
| login: "user_reach E Rm w \<Longrightarrow> run_state (SetLastLogin E Rm i) w = (r, w') \<Longrightarrow> user_reach E Rm w'"

lemma coherent_empty: "user_coherent E Rm world_empty"
  by (cases Rm) (simp_all add: user_coherent_def table_ok_def keys_distinct_def emails_distinct_def
      users_readable_def world_empty_def realm_empty_def)

lemma reach_coherent:
  assumes "user_reach E Rm w" "poco_ok (e_poco E)" "db_healthy E"
  shows "user_coherent E Rm w"
  using assms(1)
proof induction
  case start
  show ?case by (rule coherent_empty)
next
  case (create w u hashed r w')
  show ?case
    using wp_runD [OF CreateUser_wp [OF create.IH assms(2,3) create.hyps(2)] create.hyps(3)]
    by (cases r) (simp add: added_user_def)
next
  case (find_id w i r w')
  show ?case using wp_runD [OF user_lookup_id [OF find_id.IH assms(3)] find_id.hyps(2)] by (simp add: keeps_def)
next
  case (find_email w e r w')
  show ?case using wp_runD [OF user_lookup_email [OF find_email.IH assms(3)] find_email.hyps(2)] by (simp add: keeps_def)
next
  case (update w u v r w')
  show ?case using wp_runD [OF UpdateUserInfo_wp [OF update.IH assms(2,3) update.hyps(2,3)] update.hyps(4)] by simp
next
  case (delete w i r w')
  show ?case using wp_runD [OF DeleteUser_wp [OF delete.IH assms(3)] delete.hyps(2)] by simp
next
  case (login w i r w')
  show ?case using wp_runD [OF SetLastLogin_wp [OF login.IH assms(3)] login.hyps(2)] by simp
qed


definition sample_user :: UserInfo where
  "sample_user = UserInfo_init\<lparr>u_email := ''A@b.c'', u_currentPassword := ''Secret1!''\<rparr>"

definition one_user_world :: world where
  "one_user_world = snd (run_state (CreateUser env_inst Users sample_user False) world_empty)"

lemma id_new_empty: "id_is_new E Users world_empty u hashed"
  by (simp add: id_is_new_def world_empty_def realm_empty_def)


text \<open>
  C16. Creating a user with a password either stores exactly one new row, whose address (in lower
  case) was free and whose hash validates the password for that address, or changes no table.
\<close>

theorem create_user_correct:
  assumes "user_coherent E Rm w" "poco_ok (e_poco E)" "db_healthy E" "sha2_ok E"
    and "id_is_new E Rm w u False" "u_currentPassword u \<noteq> []"
  shows "wp (CreateUser E Rm u False) (\<lambda>(ok, u') w'.
      (if ok then persist w' = upd_realm Rm (r_users_update (\<lambda>rs. rs @ [UserInfo_to_tuple (e_poco E) u'])) (persist w)
         \<and> u_email u' = str_toLower (e_poco E) (u_email u) \<and> stored_email E Rm w (u_email u') = None
         \<and> u_validated u' \<and> ValidatePasswordHash E (u_email u') (u_currentPassword u) (u_currentPassword u')
       else persist w' = persist w)
      \<and> user_coherent E Rm w') w"
proof -
  have valid: "ValidatePasswordHash E (str_toLower (e_poco E) (u_email u)) (u_currentPassword u) (u_currentPassword u')"
    if new: "new_user E (lower_email E u) False (w_tick w) u'" for u'
  proof -
    obtain m where "u_currentPassword u' = salted_hash E m (u_currentPassword u)
        (hash_name E (str_toLower (e_poco E) (u_email u)))"
      using new assms(6) by (auto simp: new_user_def lower_email_def)
    then show ?thesis using validates_salted_hash [OF assms(2,4)] by simp
  qed
  have sel: "u_validated u'" "u_email u' = str_toLower (e_poco E) (u_email u)"
    if "new_user E (lower_email E u) False (w_tick w) u'" for u'
    using that assms(6) by (simp_all add: new_user_def lower_email_def)
  show ?thesis
    by (rule wp_mono [OF CreateUser_wp [OF assms(1-3,5)]]) (auto simp: added_user_def valid sel)
qed

theorem create_user_correct_witness:
  "wp (CreateUser env_inst Users sample_user False) (\<lambda>(ok, u') w'.
      (if ok then persist w' = upd_realm Users (r_users_update (\<lambda>rs. rs @ [UserInfo_to_tuple (e_poco env_inst) u'])) (persist world_empty)
         \<and> u_email u' = str_toLower (e_poco env_inst) (u_email sample_user)
         \<and> stored_email env_inst Users world_empty (u_email u') = None \<and> u_validated u'
         \<and> ValidatePasswordHash env_inst (u_email u') (u_currentPassword sample_user) (u_currentPassword u')
       else persist w' = persist world_empty)
      \<and> user_coherent env_inst Users w') world_empty"
  by (rule create_user_correct) (simp_all add: coherent_empty id_new_empty sample_user_def)

theorem user_lookup_refines_witness:
  "wp (GetUserById env_inst Users ''u'') (\<lambda>res w'. user_coherent env_inst Users w' \<and> persist w' = persist world_empty
      \<and> rel_option same_user res (stored_user env_inst Users world_empty ''u'')) world_empty
    \<and> wp (GetUserByEmail env_inst Users ''e'') (\<lambda>res w'. user_coherent env_inst Users w' \<and> persist w' = persist world_empty
      \<and> rel_option same_user res (stored_email env_inst Users world_empty ''e'')) world_empty"
  by (rule user_lookup_refines) (simp_all add: coherent_empty)

end
