(* ===== verification/Messaging.thy ===== *)
theory Messaging
  imports User_Store
begin

text \<open>
  Message templates (\<^verbatim>\<open>src/MessagingTemplates.h\<close>) and the mailer (\<^verbatim>\<open>src/SMTPMailerService.cpp\<close>): messages
  are queued with their attributes; a background thread renders and sends them, retries failures
  and abandons messages that stay undeliverable. Dereferencing a missing attribute is undefined
  behaviour in C++: \<open>None\<close>.
\<close>

subsection \<open>Templates\<close>

datatype EMAIL_REASON =
    FORGOT_PASSWORD | EMAIL_VERIFICATION | SUB_SIGNUP_VERIFICATION | EMAIL_INVITATION
  | VERIFICATION_CODE | SUB_FORGOT_PASSWORD | SUB_EMAIL_VERIFICATION | SUB_VERIFICATION_CODE
  | CERTIFICATE_TRANSFER_NOTIFICATION | CERTIFICATE_TRANSFER_AUTHORIZATION
  | CERTIFICATE_DISPUTE_SUCCESS | CERTIFICATE_DISPUTE_REJECTED | CERTIFICATE_TRANSFER_CANCELED
  | CERTIFICATE_TRANSFER_ACCEPTED | CERTIFICATE_TRANSFER_REJECTED

fun EMAIL_REASON_value :: "EMAIL_REASON \<Rightarrow> nat" where
  "EMAIL_REASON_value FORGOT_PASSWORD = 0"
| "EMAIL_REASON_value EMAIL_VERIFICATION = 1"
| "EMAIL_REASON_value SUB_SIGNUP_VERIFICATION = 2"
| "EMAIL_REASON_value EMAIL_INVITATION = 3"
| "EMAIL_REASON_value VERIFICATION_CODE = 4"
| "EMAIL_REASON_value SUB_FORGOT_PASSWORD = 5"
| "EMAIL_REASON_value SUB_EMAIL_VERIFICATION = 6"
| "EMAIL_REASON_value SUB_VERIFICATION_CODE = 7"
| "EMAIL_REASON_value CERTIFICATE_TRANSFER_NOTIFICATION = 8"
| "EMAIL_REASON_value CERTIFICATE_TRANSFER_AUTHORIZATION = 9"
| "EMAIL_REASON_value CERTIFICATE_DISPUTE_SUCCESS = 10"
| "EMAIL_REASON_value CERTIFICATE_DISPUTE_REJECTED = 11"
| "EMAIL_REASON_value CERTIFICATE_TRANSFER_CANCELED = 12"
| "EMAIL_REASON_value CERTIFICATE_TRANSFER_ACCEPTED = 13"
| "EMAIL_REASON_value CERTIFICATE_TRANSFER_REJECTED = 14"

definition EmailTemplateNames :: "string list" where
  "EmailTemplateNames =
     [''password_reset'', ''email_verification'', ''sub_signup_verification'', ''email_invitation'',
      ''verification_code'', ''sub_password_reset'', ''sub_email_verification'',
      ''sub_verification_code'', ''certificate_transfer_notification'',
      ''certificate_transfer_authorization'', ''certificate_dispute_success'',
      ''certificate_dispute_rejected'', ''certificate_transfer_canceled'',
      ''certificate_transfer_accepted'', ''certificate_transfer_rejected'']"

definition AddOperator :: "string \<Rightarrow> string \<Rightarrow> string" where
  "AddOperator filename OperatorName =
     (if OperatorName = [] then ''/'' @ filename else ''/'' @ OperatorName @ ''/'' @ filename)"

definition TemplateName :: "EMAIL_REASON \<Rightarrow> string \<Rightarrow> string" where
  "TemplateName r OperatorName = AddOperator (EmailTemplateNames ! EMAIL_REASON_value r) OperatorName"

subsection \<open>Attributes\<close>

fun MessageAttributeToVar :: "MESSAGE_ATTRIBUTES \<Rightarrow> string" where
  "MessageAttributeToVar RECIPIENT_EMAIL = ''RECIPIENT_EMAIL''"
| "MessageAttributeToVar RECIPIENT_FIRST_NAME = ''RECIPIENT_FIRST_NAME''"
| "MessageAttributeToVar RECIPIENT_LAST_NAME = ''RECIPIENT_LAST_NAME''"
| "MessageAttributeToVar RECIPIENT_INITIALS = ''RECIPIENT_INITIALS''"
| "MessageAttributeToVar RECIPIENT_FULL_NAME = ''RECIPIENT_FULL_NAME''"
| "MessageAttributeToVar RECIPIENT_SALUTATION = ''RECIPIENT_SALUTATION''"
| "MessageAttributeToVar ACTION_LINK = ''ACTION_LINK''"
| "MessageAttributeToVar SUBJECT = ''SUBJECT''"
| "MessageAttributeToVar TEMPLATE_TXT = ''TEMPLATE_TXT''"
| "MessageAttributeToVar TEMPLATE_HTML = ''TEMPLATE_HTML''"
| "MessageAttributeToVar LOGO = ''LOGO''"
| "MessageAttributeToVar TEXT = ''TEXT''"
| "MessageAttributeToVar CHALLENGE_CODE = ''CHALLENGE_CODE''"
| "MessageAttributeToVar SENDER = ''SENDER''"
| "MessageAttributeToVar ACTION_LINK_HTML = ''SUB_SYSTEM_LOGIN''"
| "MessageAttributeToVar USER_HELPER_EMAIL = ''USER_HELPER_EMAIL''"
| "MessageAttributeToVar SUB_HELPER_EMAIL = ''SUB_HELPER_EMAIL''"
| "MessageAttributeToVar GLOBAL_USER_HELPER_EMAIL = ''GLOBAL_USER_HELPER_EMAIL''"
| "MessageAttributeToVar GLOBAL_SUB_HELPER_EMAIL = ''GLOBAL_SUB_HELPER_EMAIL''"
| "MessageAttributeToVar USER_HELPER_SITE = ''USER_HELPER_SITE''"
| "MessageAttributeToVar SUB_HELPER_SITE = ''SUB_USER_HELPER_SITE''"
| "MessageAttributeToVar USER_SYSTEM_LOGIN = ''USER_SYSTEM_LOGIN''"
| "MessageAttributeToVar SUB_SYSTEM_LOGIN = ''SUB_SYSTEM_LOGIN''"
| "MessageAttributeToVar USER_SIGNATURE = ''USER_SIGNATURE''"
| "MessageAttributeToVar SUB_SIGNATURE = ''SUB_USER_SIGNATURE''"
| "MessageAttributeToVar TRANSFER_REQUESTER = ''TRANSFER_REQUESTER''"
| "MessageAttributeToVar TRANSFER_ENTITY = ''TRANSFER_ENTITY''"
| "MessageAttributeToVar ORIGINAL_REDIRECTOR = ''ORIGINAL_REDIRECTOR''"
| "MessageAttributeToVar NEW_REDIRECTOR = ''NEW_REDIRECTOR''"
| "MessageAttributeToVar TRANSFER_REASON = ''TRANSFER_REASON''"
| "MessageAttributeToVar SERIAL_NUMBER = ''SERIAL_NUMBER''"
| "MessageAttributeToVar ORIGINAL_ENTITY_NAME = ''ORIGINAL_ENTITY_NAME''"
| "MessageAttributeToVar UUID = ''UUID''"

definition AddUserVars :: "env \<Rightarrow> MessageAttributes \<Rightarrow> MessageAttributes" where
  "AddUserVars E Attrs = Attrs
     (USER_HELPER_EMAIL \<mapsto> e_helperEmail E, USER_SYSTEM_LOGIN \<mapsto> e_systemLoginSite E,
      USER_HELPER_SITE \<mapsto> e_helperSite E, GLOBAL_USER_HELPER_EMAIL \<mapsto> e_globalHelperEmail E,
      USER_SIGNATURE \<mapsto> e_userSignature E)"

definition AddSubVars :: "env \<Rightarrow> MessageAttributes \<Rightarrow> MessageAttributes" where
  "AddSubVars E Attrs = Attrs
     (SUB_HELPER_EMAIL \<mapsto> e_subHelperEmail E, SUB_SYSTEM_LOGIN \<mapsto> e_subSystemLoginSite E,
      SUB_HELPER_SITE \<mapsto> e_subHelperSite E, GLOBAL_SUB_HELPER_EMAIL \<mapsto> e_globalSubHelperEmail E,
      SUB_SIGNATURE \<mapsto> e_subSignature E)"

subsection \<open>The mailer\<close>

definition SendMessage :: "env \<Rightarrow> string \<Rightarrow> string \<Rightarrow> MessageAttributes \<Rightarrow> bool \<Rightarrow> bool sec" where
  "SendMessage E Recipient Name Attrs Subscriber = do {
     now \<leftarrow> Now E;
     modify (\<lambda>w. w\<lparr>w_pendingMessages := w_pendingMessages w @
       [\<lparr>me_Posted = now, me_LastTry = 0, me_Sent = 0, me_TemplateName = Name, me_Attrs = Attrs,
         me_Subscriber = Subscriber\<rparr>]\<rparr>);
     ret True
   }"

datatype MessageSendStatus = msg_sent | msg_not_sent_but_resend | msg_not_sent_but_do_not_resend

text \<open>The attributes in the order of the map, that of the enumeration.\<close>

definition MESSAGE_ATTRIBUTES_order :: "MESSAGE_ATTRIBUTES list" where
  "MESSAGE_ATTRIBUTES_order =
     [RECIPIENT_EMAIL, RECIPIENT_FIRST_NAME, RECIPIENT_LAST_NAME, RECIPIENT_INITIALS,
      RECIPIENT_FULL_NAME, RECIPIENT_SALUTATION, ACTION_LINK, SUBJECT, TEMPLATE_TXT,
      TEMPLATE_HTML, LOGO, TEXT, CHALLENGE_CODE, SENDER, ACTION_LINK_HTML, USER_HELPER_EMAIL,
      SUB_HELPER_EMAIL, GLOBAL_USER_HELPER_EMAIL, GLOBAL_SUB_HELPER_EMAIL, USER_HELPER_SITE,
      SUB_HELPER_SITE, USER_SYSTEM_LOGIN, SUB_SYSTEM_LOGIN, USER_SIGNATURE, SUB_SIGNATURE,
      TRANSFER_REQUESTER, TRANSFER_ENTITY, ORIGINAL_REDIRECTOR, NEW_REDIRECTOR, TRANSFER_REASON,
      SERIAL_NUMBER, ORIGINAL_ENTITY_NAME, UUID]"

definition FillVariables :: "MessageAttributes \<Rightarrow> (string \<times> string) list" where
  "FillVariables Attrs = List.map_filter
     (\<lambda>Variable. map_option (\<lambda>Value. (MessageAttributeToVar Variable, Value)) (Attrs Variable))
     MESSAGE_ATTRIBUTES_order"

definition ReplaceVariables :: "env \<Rightarrow> string \<Rightarrow> (string \<times> string) list \<Rightarrow> string" where
  "ReplaceVariables E Content P =
     foldl (\<lambda>C (Variable, Value). e_replaceInPlace E C (''${'' @ Variable @ ''}'') Value) Content P"

text \<open>\<^verbatim>\<open>std::string::find\<close> of a character from a position.\<close>

definition find_from :: "char \<Rightarrow> nat \<Rightarrow> string \<Rightarrow> nat option" where
  "find_from c pos s = List.find (\<lambda>i. s ! i = c) [pos..<length s]"

definition LoadTemplate :: "env \<Rightarrow> string \<Rightarrow> string" where
  "LoadTemplate E Name =
     (let Content = e_loadFile E (e_templateDir E @ Name @ ''.html'')
      in if Content = [] then
           (case find_from CHR ''/'' 1 Name of
              None \<Rightarrow> Content
            | Some secondSlash \<Rightarrow> e_loadFile E (e_templateDir E @ drop secondSlash Name @ ''.html''))
         else Content)"

definition MailContent :: "env \<Rightarrow> MessageEvent \<Rightarrow> string" where
  "MailContent E Msg =
     (case me_Attrs Msg TEXT of
        Some Content \<Rightarrow> Content
      | None \<Rightarrow> ReplaceVariables E (LoadTemplate E (me_TemplateName Msg)) (FillVariables (me_Attrs Msg)))"

definition SendIt :: "env \<Rightarrow> MessageEvent \<Rightarrow> MessageSendStatus option sec" where
  "SendIt E Msg =
     (case (me_Attrs Msg RECIPIENT_EMAIL, me_Attrs Msg SUBJECT) of
        (Some Recipient, Some Subject) \<Rightarrow> do {
          let TheSender = (case me_Attrs Msg SENDER of Some S \<Rightarrow> S | None \<Rightarrow> e_smtpSender E);
          t \<leftarrow> step;
          case e_smtpSend E t of
            SmtpSent \<Rightarrow> do {
              modify (\<lambda>w. w\<lparr>w_delivered := w_delivered w @
                [\<lparr>mm_Sender = TheSender, mm_Recipient = Recipient, mm_Subject = Subject,
                  mm_Content = MailContent E Msg\<rparr>]\<rparr>);
              ret (Some msg_sent)
            }
          | SmtpRefused \<Rightarrow> ret (Some msg_not_sent_but_do_not_resend)
          | SmtpPocoFails \<Rightarrow> ret (Some msg_not_sent_but_resend)
          | SmtpStdFails \<Rightarrow> ret (Some msg_not_sent_but_do_not_resend)
        }
      | _ \<Rightarrow> ret None)"

text \<open>
  One pass of the sending thread over the queue while the service runs: the messages that stay
  queued.
\<close>

fun mailer_loop :: "env \<Rightarrow> MessageEvent list \<Rightarrow> MessageEvent list option sec" where
  "mailer_loop E [] = ret (Some [])"
| "mailer_loop E (i # Messages) =
     (case me_Attrs i RECIPIENT_EMAIL of
        None \<Rightarrow> ret None
      | Some Recipient \<Rightarrow> do {
          now \<leftarrow> Now E;
          if me_LastTry i = 0 \<or> e_mailRetry E < now - me_LastTry i then do {
            status \<leftarrow> SendIt E i;
            case status of
              None \<Rightarrow> ret None
            | Some msg_sent \<Rightarrow> mailer_loop E Messages
            | Some msg_not_sent_but_resend \<Rightarrow> do {
                rest \<leftarrow> mailer_loop E Messages;
                ret (map_option (\<lambda>ms. i\<lparr>me_LastTry := now\<rparr> # ms) rest)
              }
            | Some msg_not_sent_but_do_not_resend \<Rightarrow> mailer_loop E Messages
          }
          else if e_mailAbandon E < now - me_Posted i then mailer_loop E Messages
          else do {
            rest \<leftarrow> mailer_loop E Messages;
            ret (map_option (\<lambda>ms. i # ms) rest)
          }
        })"

definition mailer_run :: "env \<Rightarrow> bool sec" where
  "mailer_run E = do {
     modify (\<lambda>w. w\<lparr>w_messages := w_messages w @ w_pendingMessages w, w_pendingMessages := []\<rparr>);
     Messages \<leftarrow> gets w_messages;
     kept \<leftarrow> mailer_loop E Messages;
     case kept of
       None \<Rightarrow> ret False
     | Some ms \<Rightarrow> do { modify (\<lambda>w. w\<lparr>w_messages := ms\<rparr>); ret True }
   }"

subsection \<open>The queue\<close>

definition mail_ok :: "MessageEvent \<Rightarrow> bool" where
  "mail_ok m \<longleftrightarrow> me_Attrs m RECIPIENT_EMAIL \<noteq> None \<and> me_Attrs m SUBJECT \<noteq> None"

definition queue_ok :: "world \<Rightarrow> bool" where
  "queue_ok w \<longleftrightarrow> (\<forall>m \<in> set (w_messages w @ w_pendingMessages w). mail_ok m)"

text \<open>What a pass may do to the state: the clock moves and mails are delivered.\<close>

definition mails_only :: "world \<Rightarrow> world \<Rightarrow> bool" where
  "mails_only w w' \<longleftrightarrow> (\<exists>n d. w' = w\<lparr>w_tick := n, w_delivered := w_delivered w @ d\<rparr>)"

lemma mails_onlyI: "w' = w\<lparr>w_tick := n, w_delivered := w_delivered w @ d\<rparr> \<Longrightarrow> mails_only w w'"
  by (auto simp: mails_only_def)

lemma mails_only_refl [simp]: "mails_only w w"
  by (rule mails_onlyI [where n = "w_tick w" and d = "[]"]) simp

lemma mails_only_trans: "mails_only w w' \<Longrightarrow> mails_only w' w'' \<Longrightarrow> mails_only w w''"
  unfolding mails_only_def by force

lemma mails_only_step [simp]: "mails_only w (w\<lparr>w_tick := n\<rparr>)"
  by (rule mails_onlyI [where n = n and d = "[]"]) simp

lemma mails_only_sel:
  "mails_only w w' \<Longrightarrow> w_messages w' = w_messages w \<and> w_pendingMessages w' = w_pendingMessages w"
  by (auto simp: mails_only_def)

text \<open>The mail a message becomes.\<close>

definition mail_of :: "env \<Rightarrow> MessageEvent \<Rightarrow> MailMessage" where
  "mail_of E m = \<lparr>mm_Sender = (case me_Attrs m SENDER of Some S \<Rightarrow> S | None \<Rightarrow> e_smtpSender E),
     mm_Recipient = the (me_Attrs m RECIPIENT_EMAIL), mm_Subject = the (me_Attrs m SUBJECT),
     mm_Content = MailContent E m\<rparr>"

lemma SendIt_wp:
  assumes "mail_ok m"
  shows "wp (SendIt E m) Q w =
    (let w1 = w\<lparr>w_tick := Suc (w_tick w)\<rparr>
     in case e_smtpSend E (w_tick w) of
          SmtpSent \<Rightarrow> Q (Some msg_sent) (w1\<lparr>w_delivered := w_delivered w @ [mail_of E m]\<rparr>)
        | SmtpRefused \<Rightarrow> Q (Some msg_not_sent_but_do_not_resend) w1
        | SmtpPocoFails \<Rightarrow> Q (Some msg_not_sent_but_resend) w1
        | SmtpStdFails \<Rightarrow> Q (Some msg_not_sent_but_do_not_resend) w1)"
  using assms by (auto simp: SendIt_def mail_ok_def mail_of_def Let_def split: option.splits smtp_outcome.splits)

definition pass_ok :: "MessageEvent list \<Rightarrow> world \<Rightarrow> MessageEvent list option \<Rightarrow> world \<Rightarrow> bool" where
  "pass_ok ms w res w' \<longleftrightarrow> mails_only w w' \<and> (\<exists>kept. res = Some kept \<and> (\<forall>m \<in> set kept. mail_ok m)
     \<and> (\<forall>m \<in> set kept. \<exists>m' \<in> set ms. m\<lparr>me_LastTry := 0\<rparr> = m'\<lparr>me_LastTry := 0\<rparr>)
     \<and> length kept + length (w_delivered w') \<le> length ms + length (w_delivered w))"

lemma pass_drop: "pass_ok ms (w\<lparr>w_tick := n\<rparr>) res w' \<Longrightarrow> pass_ok (m # ms) w res w'"
  unfolding pass_ok_def by (auto intro: mails_only_trans [OF mails_only_step])

lemma pass_sent:
  "pass_ok ms (w\<lparr>w_tick := n, w_delivered := w_delivered w @ [d]\<rparr>) res w' \<Longrightarrow> pass_ok (m # ms) w res w'"
  unfolding pass_ok_def by (auto intro: mails_only_trans [OF mails_onlyI])

lemma pass_keep:
  "pass_ok ms (w\<lparr>w_tick := n\<rparr>) res w' \<Longrightarrow> mail_ok m' \<Longrightarrow> m'\<lparr>me_LastTry := 0\<rparr> = m\<lparr>me_LastTry := 0\<rparr> \<Longrightarrow>
   pass_ok (m # ms) w (map_option (\<lambda>ms. m' # ms) res) w'"
  unfolding pass_ok_def by (auto intro: mails_only_trans [OF mails_only_step])

lemma mailer_loop_wp:
  assumes "\<forall>m \<in> set ms. mail_ok m"
  shows "wp (mailer_loop E ms) (pass_ok ms w) w"
  using assms
proof (induction ms arbitrary: w)
  case (Cons m ms)
  then have m: "mail_ok m" and ms: "\<forall>m \<in> set ms. mail_ok m" by simp_all
  then obtain r where r: "me_Attrs m RECIPIENT_EMAIL = Some r" by (auto simp: mail_ok_def)
  have upd: "mail_ok (m\<lparr>me_LastTry := n\<rparr>)" for n using m by (simp add: mail_ok_def)
  show ?case
    by (auto simp: r Now_def SendIt_wp [OF m] Let_def split: smtp_outcome.splits
        intro!: wp_mono [OF Cons.IH [OF ms]] elim: pass_drop pass_sent intro: pass_keep m upd)
qed (simp add: pass_ok_def)

text \<open>
  A pass of the mailer over a queue whose messages all have a recipient and a subject never
  reads a missing attribute; afterwards every queued message is one that was queued before, up to
  the time of its last try, and no message is both kept and delivered or delivered twice: kept
  and delivered messages together are at most those that were queued.
\<close>

theorem mail_pass_safe:
  assumes "queue_ok w"
  shows "wp (mailer_run E) (\<lambda>ok w'. ok \<and> queue_ok w' \<and> w_pendingMessages w' = []
      \<and> (\<forall>m \<in> set (w_messages w'). \<exists>m' \<in> set (w_messages w @ w_pendingMessages w).
           m\<lparr>me_LastTry := 0\<rparr> = m'\<lparr>me_LastTry := 0\<rparr>)
      \<and> length (w_messages w') + length (w_delivered w')
          \<le> length (w_messages w @ w_pendingMessages w) + length (w_delivered w)) w"
proof -
  let ?q = "w_messages w @ w_pendingMessages w"
  have "\<forall>m \<in> set ?q. mail_ok m" using assms by (simp add: queue_ok_def)
  note loop = mailer_loop_wp [OF this]
  show ?thesis
    unfolding mailer_run_def
    by (auto intro!: wp_mono [OF loop] simp: pass_ok_def queue_ok_def dest!: mails_only_sel)
qed

lemma mailer_loop_delivers:
  assumes "\<forall>m \<in> set ms. mail_ok m \<and> me_LastTry m = 0" "\<forall>n. e_smtpSend E n = SmtpSent"
  shows "wp (mailer_loop E ms) (\<lambda>res w'. res = Some [] \<and> w_pendingMessages w' = w_pendingMessages w
     \<and> w_delivered w' = w_delivered w @ map (mail_of E) ms) w"
  using assms(1)
proof (induction ms arbitrary: w)
  case (Cons m ms)
  then have m: "mail_ok m" "me_LastTry m = 0" and ms: "\<forall>m \<in> set ms. mail_ok m \<and> me_LastTry m = 0" by simp_all
  then obtain r where r: "me_Attrs m RECIPIENT_EMAIL = Some r" by (auto simp: mail_ok_def)
  show ?case
    using m assms(2) by (auto simp: r Now_def SendIt_wp [OF m(1)] Let_def intro!: wp_mono [OF Cons.IH [OF ms]])
qed simp

text \<open>
  When the mail server accepts everything, one pass empties the queue and delivers each fresh
  message exactly once, in the order in which the messages were posted.
\<close>

theorem mail_delivered:
  assumes "queue_ok w" "\<forall>m \<in> set (w_messages w @ w_pendingMessages w). me_LastTry m = 0"
    and "\<forall>n. e_smtpSend E n = SmtpSent"
  shows "wp (mailer_run E) (\<lambda>ok w'. ok \<and> w_messages w' = [] \<and> w_pendingMessages w' = []
      \<and> w_delivered w' = w_delivered w @ map (mail_of E) (w_messages w @ w_pendingMessages w)) w"
proof -
  have "\<forall>m \<in> set (w_messages w @ w_pendingMessages w). mail_ok m \<and> me_LastTry m = 0"
    using assms(1,2) by (auto simp: queue_ok_def)
  note loop = mailer_loop_delivers [OF this assms(3)]
  show ?thesis
    unfolding mailer_run_def by (auto intro!: wp_mono [OF loop])
qed

definition sample_mail :: MessageEvent where
  "sample_mail = \<lparr>me_Posted = 1000, me_LastTry = 0, me_Sent = 0, me_TemplateName = ''/password_reset'',
     me_Attrs = [RECIPIENT_EMAIL \<mapsto> ''a@b.c'', SUBJECT \<mapsto> ''Password reset link''], me_Subscriber = False\<rparr>"

definition mail_world :: world where
  "mail_world = world_empty\<lparr>w_pendingMessages := [sample_mail]\<rparr>"

lemma mail_world_ok: "queue_ok mail_world"
  by (simp add: mail_world_def queue_ok_def mail_ok_def sample_mail_def world_empty_def)

theorem mail_pass_safe_witness:
  "wp (mailer_run env_inst) (\<lambda>ok w'. ok \<and> queue_ok w' \<and> w_pendingMessages w' = []
      \<and> (\<forall>m \<in> set (w_messages w'). \<exists>m' \<in> set (w_messages mail_world @ w_pendingMessages mail_world).
           m\<lparr>me_LastTry := 0\<rparr> = m'\<lparr>me_LastTry := 0\<rparr>)
      \<and> length (w_messages w') + length (w_delivered w')
          \<le> length (w_messages mail_world @ w_pendingMessages mail_world) + length (w_delivered mail_world)) mail_world"
  by (rule mail_pass_safe [OF mail_world_ok])

theorem mail_delivered_witness:
  "wp (mailer_run env_inst) (\<lambda>ok w'. ok \<and> w_messages w' = [] \<and> w_pendingMessages w' = []
      \<and> w_delivered w' = w_delivered mail_world @ map (mail_of env_inst) (w_messages mail_world @ w_pendingMessages mail_world)) mail_world"
  by (rule mail_delivered [OF mail_world_ok]) (simp_all add: mail_world_def sample_mail_def world_empty_def env_inst_def)

subsection \<open>Branded templates\<close>

lemma find_upt: "lo \<le> k \<Longrightarrow> k < hi \<Longrightarrow> P k \<Longrightarrow> (\<And>i. lo \<le> i \<Longrightarrow> i < k \<Longrightarrow> \<not> P i) \<Longrightarrow> List.find P [lo..<hi] = Some k"
proof (induction "k - lo" arbitrary: lo)
  case 0
  then show ?case by (simp add: upt_conv_Cons)
next
  case (Suc d)
  then show ?case by (simp add: upt_conv_Cons)
qed

lemma second_slash:
  assumes "CHR ''/'' \<notin> set Op"
  shows "find_from CHR ''/'' 1 (CHR ''/'' # Op @ CHR ''/'' # f) = Some (Suc (length Op))"
  unfolding find_from_def
proof (rule find_upt)
  fix i assume "1 \<le> i" "i < Suc (length Op)"
  then have "(CHR ''/'' # Op @ CHR ''/'' # f) ! i = Op ! (i - 1)" by (auto simp: nth_append nth_Cons split: nat.splits)
  moreover have "Op ! (i - 1) \<in> set Op" using \<open>1 \<le> i\<close> \<open>i < Suc (length Op)\<close> by (intro nth_mem) linarith
  ultimately show "(CHR ''/'' # Op @ CHR ''/'' # f) ! i \<noteq> CHR ''/''" using assms by metis
qed (simp_all add: nth_append)

text \<open>
  A message branded for an operator uses the operator's template when there is one and
  otherwise the default template of the same kind.
\<close>

theorem template_fallback:
  assumes "OperatorName \<noteq> []" "CHR ''/'' \<notin> set OperatorName"
  shows "LoadTemplate E (TemplateName r OperatorName) =
    (let branded = e_loadFile E (e_templateDir E @ TemplateName r OperatorName @ ''.html'')
     in if branded = [] then e_loadFile E (e_templateDir E @ TemplateName r [] @ ''.html'') else branded)"
  using assms second_slash [OF assms(2)]
  by (simp add: LoadTemplate_def TemplateName_def AddOperator_def Let_def)

theorem template_fallback_witness:
  "LoadTemplate env_inst (TemplateName SUB_SIGNUP_VERIFICATION ''acme'') =
    (let branded = e_loadFile env_inst (e_templateDir env_inst @ TemplateName SUB_SIGNUP_VERIFICATION ''acme'' @ ''.html'')
     in if branded = [] then e_loadFile env_inst (e_templateDir env_inst @ TemplateName SUB_SIGNUP_VERIFICATION [] @ ''.html'') else branded)"
  by (rule template_fallback) simp_all

end
