(* ===== verification/Auth_Service.thy ===== *)
theory Auth_Service
  imports Messaging
begin

text \<open>
  The authentication service, \<^verbatim>\<open>src/AuthService.cpp\<close>: logging in and out, issuing, checking and
  refreshing tokens, API keys, and the mails of the account procedures. The functions for users
  and for subscribers have the same text over the two halves of the storage; a realm selects the
  half. An exception that leaves a function is \<open>None\<close>.
\<close>

subsection \<open>Enumerations\<close>

datatype ACCESS_TYPE = USERNAME | SERVER | CUSTOM

definition IntToAccessType :: "int \<Rightarrow> ACCESS_TYPE" where
  "IntToAccessType C = (if C = 1 then USERNAME else if C = 2 then SERVER else if C = 3 then CUSTOM else USERNAME)"

fun AccessTypeToInt :: "ACCESS_TYPE \<Rightarrow> int" where
  "AccessTypeToInt USERNAME = 1"
| "AccessTypeToInt SERVER = 2"
| "AccessTypeToInt CUSTOM = 3"

datatype UNAUTHORIZED_REASON =
    SUCCESS | PASSWORD_CHANGE_REQUIRED | INVALID_CREDENTIALS | PASSWORD_ALREADY_USED
  | USERNAME_PENDING_VERIFICATION | PASSWORD_INVALID | INTERNAL_ERROR | ACCESS_DENIED
  | INVALID_TOKEN | EXPIRED_TOKEN | RATE_LIMIT_EXCEEDED | BAD_MFA_TRANSACTION | MFA_FAILURE
  | SECURITY_SERVICE_UNREACHABLE | CANNOT_REFRESH_TOKEN | ACCOUNT_SUSPENDED

subsection \<open>Credentials of a request\<close>

text \<open>
  The authorization header as the library reads it: scheme and token. Without one the constructor
  throws.
\<close>

type_synonym credentials = "(string \<times> string) option"

definition getBearerToken :: "credentials \<Rightarrow> string option" where
  "getBearerToken Auth =
     (case Auth of None \<Rightarrow> None | Some (scheme, token) \<Rightarrow> Some (if scheme = ''Bearer'' then token else []))"

subsection \<open>Tokens\<close>

definition GenerateTokenHMAC :: "env \<Rightarrow> string \<Rightarrow> ACCESS_TYPE \<Rightarrow> string sec" where
  "GenerateTokenHMAC E UserName Type = do {
     now \<leftarrow> Now E;
     t \<leftarrow> step;
     let Identity = UserName @ '':'' @ to_dec (unat now) @ '':'' @ to_dec (e_rand E t);
     ret (e_hmacHex E Identity)
   }"

definition issue_token :: "env \<Rightarrow> realm_id \<Rightarrow> string \<Rightarrow> UserInfoAndPolicy \<Rightarrow> UserInfoAndPolicy sec" where
  "issue_token E Rm UserName UInfo = do {
     let ACL = AclTemplate_init\<lparr>acl_PortalLogin := True, acl_Read := True, acl_ReadWrite := True,
                                acl_ReadWriteCreate := True, acl_Delete := True\<rparr>;
     let UserId = u_id (uip_userinfo UInfo);
     access \<leftarrow> GenerateTokenHMAC E UserId USERNAME;
     ident \<leftarrow> GenerateTokenHMAC E UserId USERNAME;
     refresh \<leftarrow> GenerateTokenHMAC E UserId CUSTOM;
     now \<leftarrow> Now E;
     let WT = (uip_webtoken UInfo)
       \<lparr>wt_acl_template := ACL, wt_expires_in := e_tokenAging E, wt_idle_timeout := 5 * 60,
        wt_token_type := ''Bearer'', wt_access_token := access, wt_id_token := ident,
        wt_refresh_token := refresh, wt_created := now, wt_username := UserName,
        wt_errorCode := 0, wt_userMustChangePassword := False\<rparr>;
     SetLastLogin E Rm UserId;
     AddToken E Rm UserId access refresh ''Bearer'' (e_tokenAging E) (5 * 60);
     AddLogin E Rm UserId (u_email (uip_userinfo UInfo)) access;
     ret (UInfo\<lparr>uip_webtoken := WT\<rparr>)
   }"

definition CreateToken :: "env \<Rightarrow> string \<Rightarrow> UserInfoAndPolicy \<Rightarrow> UserInfoAndPolicy sec" where
  "CreateToken E = issue_token E Users"

definition CreateSubToken :: "env \<Rightarrow> string \<Rightarrow> UserInfoAndPolicy \<Rightarrow> UserInfoAndPolicy sec" where
  "CreateSubToken E = issue_token E Subs"

text \<open>
  The answers of the checks: whether the token is good, the user and token found, and whether the
  token's life time is over.
\<close>

definition check_token ::
  "env \<Rightarrow> realm_id \<Rightarrow> string \<Rightarrow> UserInfoAndPolicy \<Rightarrow> (bool \<times> UserInfoAndPolicy \<times> bool) sec" where
  "check_token E Rm CallToken UInfo = do {
     res \<leftarrow> GetToken E Rm CallToken WebToken_init;
     case res of
       None \<Rightarrow> ret (False, UInfo, False)
     | Some (WT, UserId, RevocationDate) \<Rightarrow>
         if RevocationDate \<noteq> 0 then ret (False, UInfo, False)
         else do {
           now \<leftarrow> Now E;
           let Expired = (wt_created WT + wt_expires_in WT < now);
           user \<leftarrow> GetUserById E Rm UserId;
           case user of
             None \<Rightarrow> ret (False, UInfo, Expired)
           | Some ui \<Rightarrow> ret (True, UInfo\<lparr>uip_userinfo := ui, uip_webtoken := WT\<rparr>, Expired)
         }
   }"

definition IsAuthorized_token ::
  "env \<Rightarrow> string \<Rightarrow> UserInfoAndPolicy \<Rightarrow> (bool \<times> UserInfoAndPolicy \<times> bool) sec" where
  "IsAuthorized_token E SessionToken UInfo = check_token E Users SessionToken UInfo"

definition IsAuthorized ::
  "env \<Rightarrow> credentials \<Rightarrow> UserInfoAndPolicy \<Rightarrow> (bool \<times> UserInfoAndPolicy \<times> bool) sec" where
  "IsAuthorized E Auth UInfo =
     (case getBearerToken Auth of
        None \<Rightarrow> ret (False, UInfo, False)
      | Some CallToken \<Rightarrow>
          if CallToken = [] then ret (False, UInfo, False)
          else IsAuthorized_token E CallToken UInfo)"

definition IsSubAuthorized ::
  "env \<Rightarrow> credentials \<Rightarrow> UserInfoAndPolicy \<Rightarrow> (bool \<times> UserInfoAndPolicy \<times> bool) sec" where
  "IsSubAuthorized E Auth UInfo =
     (case getBearerToken Auth of
        None \<Rightarrow> ret (False, UInfo, False)
      | Some CallToken \<Rightarrow>
          if CallToken = [] then ret (False, UInfo, False)
          else check_token E Subs CallToken UInfo)"

definition IsValidToken ::
  "env \<Rightarrow> string \<Rightarrow> WebToken \<Rightarrow> UserInfo \<Rightarrow> (bool \<times> WebToken \<times> UserInfo \<times> bool) sec" where
  "IsValidToken E Token WT UI = do {
     (ok, i, Expired) \<leftarrow> check_token E Users Token (UserInfoAndPolicy_init\<lparr>uip_userinfo := UI, uip_webtoken := WT\<rparr>);
     ret (ok, uip_webtoken i, uip_userinfo i, Expired)
   }"

definition IsValidSubToken ::
  "env \<Rightarrow> string \<Rightarrow> WebToken \<Rightarrow> UserInfo \<Rightarrow> (bool \<times> WebToken \<times> UserInfo \<times> bool) sec" where
  "IsValidSubToken E Token WT UI = do {
     (ok, i, Expired) \<leftarrow> check_token E Subs Token (UserInfoAndPolicy_init\<lparr>uip_userinfo := UI, uip_webtoken := WT\<rparr>);
     ret (ok, uip_webtoken i, uip_userinfo i, Expired)
   }"

text \<open>An API key: validity, token, user, expired, expiry date, suspended.\<close>

definition IsValidApiKey ::
  "env \<Rightarrow> string \<Rightarrow> WebToken \<Rightarrow> UserInfo \<Rightarrow> bool \<Rightarrow> u64 \<Rightarrow> (bool \<times> WebToken \<times> UserInfo \<times> bool \<times> u64 \<times> bool) sec" where
  "IsValidApiKey E ApiKey WT0 UI0 Expired0 expiresOn0 = do {
     rec \<leftarrow> GetRecord E (ApiKeyDB E) ''apiKey'' ApiKey;
     case rec of
       None \<Rightarrow> ret (False, WT0, UI0, Expired0, expiresOn0, False)
     | Some ApiKeyEntry \<Rightarrow> do {
         now \<leftarrow> Now E;
         let expiresOn = ak_expiresOn ApiKeyEntry;
         let Expired = (expiresOn < now);
         if Expired then ret (False, WT0, UI0, True, expiresOn, False)
         else do {
           user \<leftarrow> GetUserById E Users (ak_userUuid ApiKeyEntry);
           case user of
             None \<Rightarrow> ret (False, WT0, UI0, False, expiresOn, False)
           | Some UserInfo \<Rightarrow>
               if u_suspended UserInfo then ret (False, WT0, UserInfo, False, expiresOn, True)
               else do {
                 now2 \<leftarrow> Now E;
                 UpdateRecord E (ApiKeyDB E) ''id'' (ak_id ApiKeyEntry) (ApiKeyEntry\<lparr>ak_lastUse := now2\<rparr>);
                 ret (True, WebToken_init, UserInfo, False, expiresOn, False)
               }
         }
       }
   }"

text \<open>
  Refreshing: the access token is replaced; the refresh token is replaced too while the last
  refresh is recent.
\<close>

definition refresh_session ::
  "env \<Rightarrow> realm_id \<Rightarrow> credentials \<Rightarrow> string \<Rightarrow> UserInfoAndPolicy \<Rightarrow> (bool \<times> UserInfoAndPolicy) sec" where
  "refresh_session E Rm Auth RToken UI =
     (case getBearerToken Auth of
        None \<Rightarrow> ret (False, UI)
      | Some CallToken \<Rightarrow>
          if CallToken = [] then ret (False, UI)
          else do {
            res \<leftarrow> GetToken E Rm CallToken (uip_webtoken UI);
            case res of
              None \<Rightarrow> ret (False, UI)
            | Some (WT, UserId, RevocationDate) \<Rightarrow>
                if wt_refresh_token WT = RToken then do {
                  now \<leftarrow> Now E;
                  NewToken \<leftarrow> GenerateTokenHMAC E (wt_access_token WT) CUSTOM;
                  rotated \<leftarrow> (if now - wt_lastRefresh WT < e_refreshLifeSpan E then do {
                      NewRefreshToken \<leftarrow> GenerateTokenHMAC E (wt_refresh_token WT) CUSTOM;
                      ret (NewRefreshToken, now)
                    }
                    else ret (RToken, wt_lastRefresh WT));
                  RefreshToken E Rm CallToken NewToken (fst rotated) (snd rotated);
                  ret (True, UI\<lparr>uip_webtoken := WT\<lparr>wt_access_token := NewToken,
                    wt_refresh_token := fst rotated, wt_lastRefresh := snd rotated\<rparr>\<rparr>)
                }
                else ret (False, UI\<lparr>uip_webtoken := WT\<rparr>)
          })"

definition RefreshUserToken :: "env \<Rightarrow> credentials \<Rightarrow> string \<Rightarrow> UserInfoAndPolicy \<Rightarrow> (bool \<times> UserInfoAndPolicy) sec" where
  "RefreshUserToken E = refresh_session E Users"

definition RefreshSubToken :: "env \<Rightarrow> credentials \<Rightarrow> string \<Rightarrow> UserInfoAndPolicy \<Rightarrow> (bool \<times> UserInfoAndPolicy) sec" where
  "RefreshSubToken E = refresh_session E Subs"

definition AuthService_RevokeToken :: "env \<Rightarrow> string \<Rightarrow> unit sec" where
  "AuthService_RevokeToken E Token = do { RevokeToken E Users Token; ret () }"

definition RevokeSubToken :: "env \<Rightarrow> string \<Rightarrow> unit sec" where
  "RevokeSubToken E Token = do { RevokeToken E Subs Token; ret () }"

definition DeleteUserFromCache :: "env \<Rightarrow> string \<Rightarrow> bool sec" where
  "DeleteUserFromCache E UId = DeleteRecordsFromCache (TokenDB E Users) ''userName'' UId"

definition DeleteSubUserFromCache :: "env \<Rightarrow> string \<Rightarrow> bool sec" where
  "DeleteSubUserFromCache E UId = DeleteRecordsFromCache (TokenDB E Subs) ''userName'' UId"

definition end_session :: "env \<Rightarrow> realm_id \<Rightarrow> string \<Rightarrow> unit sec" where
  "end_session E Rm Token = do {
     DeleteRecord E (TokenDB E Rm) ''token'' Token;
     AddLogout E Rm Token
   }"

definition Logout :: "env \<Rightarrow> string \<Rightarrow> unit sec" where
  "Logout E = end_session E Users"

definition SubLogout :: "env \<Rightarrow> string \<Rightarrow> unit sec" where
  "SubLogout E = end_session E Subs"

end
