(* ===== verification/Auth_Login.thy ===== *)
theory Auth_Login
  imports Auth_Service
begin

text \<open>
  Logging in with a password and the mails of the account procedures, from
  \<^verbatim>\<open>src/AuthService.cpp\<close>.
\<close>

subsection \<open>Logging in\<close>

definition SMS_method :: string where "SMS_method = ''sms''"
definition EMAIL_method :: string where "EMAIL_method = ''email''"
definition AUTHENTICATOR_method :: string where "AUTHENTICATOR_method = ''authenticator''"

definition MethodEnabled :: "env \<Rightarrow> string \<Rightarrow> bool" where
  "MethodEnabled E Method =
     (if Method = SMS_method then e_smsEnabled E
      else if Method = EMAIL_method then e_smtpEnabled E
      else Method = AUTHENTICATOR_method)"

definition RequiresMFA :: "env \<Rightarrow> UserInfoAndPolicy \<Rightarrow> bool" where
  "RequiresMFA E UInfo \<longleftrightarrow>
     mfa_enabled (ux_mfa (u_userTypeProprietaryInfo (uip_userinfo UInfo)))
     \<and> MethodEnabled E (mfa_method (ux_mfa (u_userTypeProprietaryInfo (uip_userinfo UInfo))))"

definition ValidatePassword :: "env \<Rightarrow> string \<Rightarrow> bool" where
  "ValidatePassword E Password = e_passwordOk E Password"

definition ValidateSubPassword :: "env \<Rightarrow> string \<Rightarrow> bool" where
  "ValidateSubPassword E Password = e_subPasswordOk E Password"

text \<open>The two realms' versions of the functions a login calls.\<close>

definition hash_validates :: "env \<Rightarrow> realm_id \<Rightarrow> string \<Rightarrow> string \<Rightarrow> string \<Rightarrow> bool" where
  "hash_validates E Rm = (case Rm of Users \<Rightarrow> ValidatePasswordHash E | Subs \<Rightarrow> ValidateSubPasswordHash E)"

definition password_acceptable :: "env \<Rightarrow> realm_id \<Rightarrow> string \<Rightarrow> bool" where
  "password_acceptable E Rm = (case Rm of Users \<Rightarrow> ValidatePassword E | Subs \<Rightarrow> ValidateSubPassword E)"

definition change_password :: "env \<Rightarrow> realm_id \<Rightarrow> string \<Rightarrow> UserInfo \<Rightarrow> (UserInfo \<times> bool) option sec" where
  "change_password E Rm = (case Rm of Users \<Rightarrow> SetPassword E | Subs \<Rightarrow> SetSubPassword E)"

text \<open>
  The end of a login: the token is made for the user, whose record may just have been given a new
  password.
\<close>

definition finish_login ::
  "env \<Rightarrow> realm_id \<Rightarrow> string \<Rightarrow> UserInfoAndPolicy \<Rightarrow> (UNAUTHORIZED_REASON \<times> UserInfoAndPolicy) option sec" where
  "finish_login E Rm UserName UInfo = do {
     now \<leftarrow> Now E;
     let UInfo = UInfo\<lparr>uip_userinfo := (uip_userinfo UInfo)\<lparr>u_lastLogin := now\<rparr>\<rparr>;
     SetLastLogin E Rm (u_id (uip_userinfo UInfo));
     UInfo \<leftarrow> (case Rm of Users \<Rightarrow> CreateToken E UserName UInfo | Subs \<Rightarrow> CreateSubToken E UserName UInfo);
     ret (Some (SUCCESS, UInfo))
   }"

text \<open>The branch of a login that installs a new password first.\<close>

definition login_change ::
  "env \<Rightarrow> realm_id \<Rightarrow> string \<Rightarrow> string \<Rightarrow> UserInfoAndPolicy \<Rightarrow> (UNAUTHORIZED_REASON \<times> UserInfoAndPolicy) option sec" where
  "login_change E Rm UserName NewPassword UInfo = do {
     changed \<leftarrow> change_password E Rm NewPassword (uip_userinfo UInfo);
     case changed of
       None \<Rightarrow> ret None
     | Some (ui, ok) \<Rightarrow>
         if \<not> ok then
           ret (Some (PASSWORD_ALREADY_USED,
             UInfo\<lparr>uip_userinfo := ui, uip_webtoken := (uip_webtoken UInfo)\<lparr>wt_errorCode := 1\<rparr>\<rparr>))
         else do {
           t1 \<leftarrow> Now E;
           t2 \<leftarrow> Now E;
           let ui = ui\<lparr>u_lastPasswordChange := t1, u_changePassword := False, u_modified := t2\<rparr>;
           UpdateUserInfo E Rm (u_id ui) ui;
           finish_login E Rm UserName (UInfo\<lparr>uip_userinfo := ui\<rparr>)
         }
   }"

definition login ::
  "env \<Rightarrow> realm_id \<Rightarrow> string \<Rightarrow> string \<Rightarrow> string \<Rightarrow> UserInfoAndPolicy \<Rightarrow>
   (UNAUTHORIZED_REASON \<times> UserInfoAndPolicy) option sec" where
  "login E Rm UserName Password NewPassword UInfo = do {
     let UserName = str_toLower (e_poco E) UserName;
     user \<leftarrow> GetUserByEmail E Rm UserName;
     case user of
       None \<Rightarrow> ret (Some (INVALID_CREDENTIALS, UInfo))
     | Some ui \<Rightarrow> do {
         let UInfo = UInfo\<lparr>uip_userinfo := ui\<rparr>;
         if u_suspended ui then ret (Some (ACCOUNT_SUSPENDED, UInfo))
         else if u_waitingForEmailCheck ui then ret (Some (USERNAME_PENDING_VERIFICATION, UInfo))
         else if \<not> hash_validates E Rm UserName Password (u_currentPassword ui)
         then ret (Some (INVALID_CREDENTIALS, UInfo))
         else if u_changePassword ui \<and> NewPassword = [] then
           ret (Some (PASSWORD_CHANGE_REQUIRED,
             UInfo\<lparr>uip_webtoken := (uip_webtoken UInfo)\<lparr>wt_userMustChangePassword := True\<rparr>\<rparr>))
         else if NewPassword \<noteq> [] \<and> \<not> password_acceptable E Rm NewPassword
         then ret (Some (PASSWORD_INVALID, UInfo))
         else if u_changePassword ui \<or> NewPassword \<noteq> []
         then login_change E Rm UserName NewPassword UInfo
         else finish_login E Rm UserName UInfo
       }
   }"

definition Authorize ::
  "env \<Rightarrow> string \<Rightarrow> string \<Rightarrow> string \<Rightarrow> UserInfoAndPolicy \<Rightarrow> (UNAUTHORIZED_REASON \<times> UserInfoAndPolicy) option sec" where
  "Authorize E = login E Users"

definition AuthorizeSub ::
  "env \<Rightarrow> string \<Rightarrow> string \<Rightarrow> string \<Rightarrow> UserInfoAndPolicy \<Rightarrow> (UNAUTHORIZED_REASON \<times> UserInfoAndPolicy) option sec" where
  "AuthorizeSub E = login E Subs"

subsection \<open>Mails\<close>

definition GetLogoAssetURI :: "env \<Rightarrow> string" where
  "GetLogoAssetURI E = e_publicEndPoint E @ ''/wwwassets/logo.png''"

definition GetSubLogoAssetURI :: "env \<Rightarrow> string" where
  "GetSubLogoAssetURI E = e_publicEndPoint E @ ''/wwwassets/sub_logo.png''"

definition SendEmailChallengeCode :: "env \<Rightarrow> UserInfoAndPolicy \<Rightarrow> string \<Rightarrow> bool sec" where
  "SendEmailChallengeCode E UInfo Challenge =
     (let ui = uip_userinfo UInfo;
          OperatorParts = str_tokens (e_poco E) CHR '':'' (u_signingUp ui);
          vars = (if u_userRole ui \<noteq> SUBSCRIBER then AddUserVars E else AddSubVars E)
      in if u_signingUp ui = [] \<or> length OperatorParts \<noteq> 2 then
           SendMessage E (u_email ui) (TemplateName VERIFICATION_CODE [])
             (vars [RECIPIENT_EMAIL \<mapsto> u_email ui, LOGO \<mapsto> GetLogoAssetURI E,
                    SUBJECT \<mapsto> ''Login validation code'', CHALLENGE_CODE \<mapsto> Challenge]) False
         else
           SendMessage E (u_email ui) (TemplateName SUB_VERIFICATION_CODE (OperatorParts ! 0))
             (vars [RECIPIENT_EMAIL \<mapsto> u_email ui, LOGO \<mapsto> GetSubLogoAssetURI E,
                    SUBJECT \<mapsto> ''Login validation code'', CHALLENGE_CODE \<mapsto> Challenge]) True)"

text \<open>The mail with a link of a given kind.\<close>

definition link_attributes :: "env \<Rightarrow> string \<Rightarrow> string \<Rightarrow> string \<Rightarrow> string \<Rightarrow> string \<Rightarrow> MessageAttributes" where
  "link_attributes E logo email subject action LinkId =
     [RECIPIENT_EMAIL \<mapsto> email, LOGO \<mapsto> logo, SUBJECT \<mapsto> subject,
      ACTION_LINK \<mapsto> e_publicAPIEndPoint E @ ''/actionLink?action='' @ action @ ''&id='' @ LinkId,
      ACTION_LINK_HTML \<mapsto> ''/api/v1/actionLink?action='' @ action @ ''&id='' @ LinkId]"

definition SendEmailToUser :: "env \<Rightarrow> string \<Rightarrow> string \<Rightarrow> EMAIL_REASON \<Rightarrow> bool sec" where
  "SendEmailToUser E LinkId Email Reason = do {
     user \<leftarrow> GetUserByEmail E Users Email;
     case user of
       None \<Rightarrow> ret False
     | Some UInfo \<Rightarrow> do {
         let mail = (\<lambda>subject action. do {
           SendMessage E (u_email UInfo) (TemplateName Reason [])
             (AddUserVars E (link_attributes E (GetLogoAssetURI E) (u_email UInfo) subject action LinkId)) False;
           ret () });
         (if Reason = FORGOT_PASSWORD then mail ''Password reset link'' ''password_reset''
          else if Reason = EMAIL_VERIFICATION then mail ''e-mail Address Verification'' ''email_verification''
          else if Reason = EMAIL_INVITATION then mail ''e-mail Invitation'' ''email_invitation''
          else ret ());
         ret True
       }
   }"

definition SendEmailToSubUser :: "env \<Rightarrow> string \<Rightarrow> string \<Rightarrow> EMAIL_REASON \<Rightarrow> string \<Rightarrow> bool sec" where
  "SendEmailToSubUser E LinkId Email Reason OperatorName = do {
     user \<leftarrow> GetUserByEmail E Subs Email;
     case user of
       None \<Rightarrow> ret False
     | Some UInfo \<Rightarrow> do {
         let mail = (\<lambda>subject action. do {
           SendMessage E (u_email UInfo) (TemplateName Reason OperatorName)
             (AddSubVars E (link_attributes E (GetSubLogoAssetURI E) (u_email UInfo) subject action LinkId)) True;
           ret () });
         (if Reason = SUB_FORGOT_PASSWORD then mail ''Password reset link'' ''sub_password_reset''
          else if Reason = SUB_EMAIL_VERIFICATION then
            mail ''e-mail Address Verification'' ''sub_email_verification''
          else if Reason = SUB_SIGNUP_VERIFICATION then
            mail ''Signup e-mail Address Verification'' ''signup_verification''
          else ret ());
         ret True
       }
   }"

subsection \<open>E-mail verification\<close>

definition start_verification :: "env \<Rightarrow> LinkActions \<Rightarrow> bool \<Rightarrow> UserInfo \<Rightarrow> (bool \<times> UserInfo) sec" where
  "start_verification E action userAction UInfo = do {
     uuid \<leftarrow> CreateUUID E;
     now \<leftarrow> Now E;
     CreateAction E (ActionLink_init\<lparr>al_action := LinkActionsValue action, al_userId := u_id UInfo,
       al_id := uuid, al_created := now, al_expires := now + 24 * 60 * 60, al_userAction := userAction\<rparr>);
     ret (True, UInfo\<lparr>u_waitingForEmailCheck := True, u_validated := False\<rparr>)
   }"

definition VerifyEmail :: "env \<Rightarrow> UserInfo \<Rightarrow> (bool \<times> UserInfo) sec" where
  "VerifyEmail E = start_verification E LA_VERIFY_EMAIL True"

definition VerifySubEmail :: "env \<Rightarrow> UserInfo \<Rightarrow> (bool \<times> UserInfo) sec" where
  "VerifySubEmail E = start_verification E LA_SUB_VERIFY_EMAIL False"

end
