(* ===== verification/Sessions.thy ===== *)
theory Sessions
  imports Auth_Login
begin

text \<open>
  Sessions as the clients of the service see them: what a token check answers, what a login, a
  refresh and a logout do to the sessions, for one realm with coherent caches and a database that
  answers.
\<close>

subsection \<open>Frames\<close>

definition coh :: "env \<Rightarrow> realm_id \<Rightarrow> world \<Rightarrow> bool" where
  "coh E Rm w \<longleftrightarrow> user_coherent E Rm w \<and> token_coherent E Rm w"

lemma users_frame_rows [simp]:
  "users_frame Rm w' (upd_realm R (r_tokens_update f) w) = users_frame Rm w' w"
  "users_frame Rm w' (upd_realm R (r_logins_update g) w) = users_frame Rm w' w"
  by (cases R; cases Rm; simp add: users_frame_def)+

lemma users_frame_env [pres]:
  "preserves (users_frame Rm w0) step" "preserves (users_frame Rm w0) (db_step E)" "preserves (users_frame Rm w0) (Now E)"
  by (simp_all add: preserves_def db_step_def Now_def)

lemma users_frame_token_ops [pres]:
  "preserves (users_frame Rm w0) (TokenCache_GetFromCache E R F V)"
  "preserves (users_frame Rm w0) (TokenCache_UpdateCache R t)"
  "preserves (users_frame Rm w0) (TokenCache_Delete E R F V)"
  "preserves (users_frame Rm w0) (modify (upd_realm R (r_tokens_update f)))"
  "preserves (users_frame Rm w0) (modify (upd_realm R (r_logins_update g)))"
  unfolding TokenCache_GetFromCache_def TokenCache_Delete_def
  by (intro pres | simp add: preserves_def)+

lemma TokenDB_upd_fun [simp]: "d_upd (TokenDB E Rm) f = upd_realm Rm (r_tokens_update f)"
  by (rule ext) simp

lemma LoginDB_upd_fun [simp]: "d_upd (LoginDB E Rm) f = upd_realm Rm (r_logins_update f)"
  by (rule ext) simp

lemma LoginDB_cache [simp]:
  "cache_create (LoginDB E Rm) r = ret ()" "cache_get (LoginDB E Rm) F V = ret None"
  "cache_update (LoginDB E Rm) r = ret ()" "cache_delete (LoginDB E Rm) F V = ret ()"
  by (simp_all add: cache_create_def cache_get_def cache_update_def cache_delete_def)

lemma users_frame_orm_token [pres]:
  "preserves (users_frame Rm w0) (GetRecord E (TokenDB E R) F V)"
  "preserves (users_frame Rm w0) (CreateRecord E (TokenDB E R) r)"
  "preserves (users_frame Rm w0) (UpdateRecord E (TokenDB E R) F V r)"
  "preserves (users_frame Rm w0) (DeleteRecord E (TokenDB E R) F V)"
  unfolding GetRecord_def SelectRecord_def CreateRecord_def UpdateRecord_def DeleteRecord_def
    TokenDB_cache TokenDB_upd_fun
  by (intro pres)+

lemma users_frame_login [pres]:
  "preserves (users_frame Rm w0) (AddLogin E R u e t)" "preserves (users_frame Rm w0) (AddLogout E R t)"
  unfolding AddLogin_def AddLogout_def GetRecord_def SelectRecord_def CreateRecord_def UpdateRecord_def
    LoginDB_cache LoginDB_upd_fun
  by (intro pres)+

lemma users_frame_tokens [pres]:
  "preserves (users_frame Rm w0) (GetToken E R t wt)" "preserves (users_frame Rm w0) (AddToken E R a b c d e f)"
  "preserves (users_frame Rm w0) (RefreshToken E R t n nr l)"
  unfolding GetToken_def AddToken_def RefreshToken_def RefreshFound_def by (intro pres)+

lemma frame_coherent:
  assumes "preserves (users_frame Rm w) m" "user_coherent E Rm w"
  shows "wp m (\<lambda>_ w'. user_coherent E Rm w' \<and> stored_user E Rm w' = stored_user E Rm w
      \<and> stored_email E Rm w' = stored_email E Rm w) w"
proof (rule wp_mono [OF preservesD [OF assms(1) users_frame_refl]])
  fix x w' assume fr: "users_frame Rm w w'"
  have "r_users (realm_of Rm w') = r_users (realm_of Rm w)" using fr by (simp add: users_frame_def)
  then show "user_coherent E Rm w' \<and> stored_user E Rm w' = stored_user E Rm w \<and> stored_email E Rm w' = stored_email E Rm w"
    using coherent_frame [OF fr] assms(2) stored_frame by blast
qed

subsection \<open>What a token check answers\<close>

text \<open>
  The abstract session: a token that is stored and not revoked stands for the stored user it
  names.
\<close>

definition session_of :: "env \<Rightarrow> realm_id \<Rightarrow> world \<Rightarrow> string \<Rightarrow> UserInfo option" where
  "session_of E Rm w tok =
     (case stored_token E Rm w tok of
        None \<Rightarrow> None
      | Some t \<Rightarrow> if t_revocationDate t \<noteq> 0 then None else stored_user E Rm w (t_userName t))"

lemma GetToken_wp:
  assumes "coh E Rm w" "db_healthy E"
  shows "wp (GetToken E Rm tok WT) (\<lambda>res w'. coh E Rm w' \<and> persist w' = persist w
    \<and> res = map_option (\<lambda>t. (WT\<lparr>wt_access_token := t_token t, wt_refresh_token := t_refreshToken t,
             wt_token_type := t_tokenType t, wt_username := t_userName t,
             wt_created := t_created t, wt_expires_in := t_expires t,
             wt_idle_timeout := t_idleTimeout t, wt_lastRefresh := t_lastRefresh t\<rparr>,
          t_userName t, t_revocationDate t)) (stored_token E Rm w tok)) w"
proof -
  have u: "wp (GetToken E Rm tok WT) (\<lambda>_. user_coherent E Rm) w"
    using assms(1) by (intro wp_mono [OF frame_coherent [where E = E]]) (auto intro: pres simp: coh_def)
  have t: "token_coherent E Rm w" using assms(1) by (simp add: coh_def)
  have "wp (GetToken E Rm tok WT) (\<lambda>res w'. token_coherent E Rm w' \<and> persist w' = persist w
    \<and> res = map_option (\<lambda>t. (WT\<lparr>wt_access_token := t_token t, wt_refresh_token := t_refreshToken t,
             wt_token_type := t_tokenType t, wt_username := t_userName t,
             wt_created := t_created t, wt_expires_in := t_expires t,
             wt_idle_timeout := t_idleTimeout t, wt_lastRefresh := t_lastRefresh t\<rparr>,
          t_userName t, t_revocationDate t)) (stored_token E Rm w tok)) w"
    unfolding GetToken_def
    by (auto intro!: wp_mono [OF token_lookup_healthy [OF t assms(2)]] split: option.splits)
  from wp_conj [OF this u] show ?thesis by (rule wp_mono) (simp add: coh_def)
qed

lemma persist_stored:
  assumes "persist w' = persist w"
  shows "stored_user E Rm w' = stored_user E Rm w" "stored_email E Rm w' = stored_email E Rm w"
    "stored_token E Rm w' = stored_token E Rm w" "session_of E Rm w' = session_of E Rm w"
proof -
  show u: "stored_user E Rm w' = stored_user E Rm w" "stored_email E Rm w' = stored_email E Rm w"
    by (rule stored_frame [OF persist_eqD(1) [OF assms]])+
  show t: "stored_token E Rm w' = stored_token E Rm w"
    by (rule ext, rule stored_token_cong [OF persist_eqD(2) [OF assms]])
  show "session_of E Rm w' = session_of E Rm w" by (rule ext) (simp add: session_of_def u t split: option.splits)
qed

lemma coh_tick [simp]: "coh E Rm (w\<lparr>w_tick := n\<rparr>) = coh E Rm w"
  by (simp add: coh_def)

lemma GetUserById_wp:
  assumes "coh E Rm w" "db_healthy E"
  shows "wp (GetUserById E Rm i) (\<lambda>res w'. coh E Rm w' \<and> persist w' = persist w
    \<and> rel_option same_user res (stored_user E Rm w i)) w"
  using assms by (intro wp_mono [OF user_lookup_id]) (auto simp: coh_def keeps_def)

lemma GetUserByEmail_wp:
  assumes "coh E Rm w" "db_healthy E"
  shows "wp (GetUserByEmail E Rm e) (\<lambda>res w'. coh E Rm w' \<and> persist w' = persist w
    \<and> rel_option same_user res (stored_email E Rm w e)) w"
  using assms by (intro wp_mono [OF user_lookup_email]) (auto simp: coh_def keeps_def)

text \<open>The answer of a check: the session's user, the token and whether its time is over.\<close>

definition check_post :: "env \<Rightarrow> realm_id \<Rightarrow> world \<Rightarrow> string \<Rightarrow> bool \<times> UserInfoAndPolicy \<times> bool \<Rightarrow> bool" where
  "check_post E Rm w tok res = (case res of (ok, ui, expired) \<Rightarrow>
     (case session_of E Rm w tok of
        None \<Rightarrow> \<not> ok
      | Some u \<Rightarrow> ok \<and> same_user (uip_userinfo ui) u \<and> wt_access_token (uip_webtoken ui) = tok
          \<and> (\<exists>t n. stored_token E Rm w tok = Some t \<and> expired = (t_created t + t_expires t < e_clock E n))))"

lemma check_token_wp:
  assumes c: "coh E Rm w" and db: "db_healthy E"
  shows "wp (check_token E Rm tok ui) (\<lambda>res w'. coh E Rm w' \<and> persist w' = persist w \<and> check_post E Rm w tok res) w"
proof (cases "stored_token E Rm w tok")
  case None
  then show ?thesis
    unfolding check_token_def
    by (auto intro!: wp_mono [OF GetToken_wp [OF c db]] simp: check_post_def session_of_def)
next
  case (Some t)
  have tok: "t_token t = tok" by (rule stored_token_mem(2) [OF Some])
  have user: "wp (GetUserById E Rm (t_userName t)) (\<lambda>res w'. coh E Rm w' \<and> persist w' = persist w
      \<and> rel_option same_user res (stored_user E Rm w (t_userName t))) (w1\<lparr>w_tick := n\<rparr>)"
    if "coh E Rm w1" "persist w1 = persist w" for w1 n
    using that db persist_stored(1) [OF that(2)] persist_stored(1) [OF persist_tick]
    by (intro wp_mono [OF GetUserById_wp]) auto
  show ?thesis
    unfolding check_token_def
    by (auto intro!: wp_mono [OF GetToken_wp [OF c db]] wp_mono [OF user]
        simp: Some tok Now_def Let_def check_post_def session_of_def option_rel_Some1 split: option.splits)
      (rule exI, rule refl)
qed

text \<open>
  C4. With coherent caches the token checks implement the abstract session table: a bearer token
  is accepted exactly when it is stored, not revoked and names a stored user, and then the answer
  carries that user and that token. The check changes no table and keeps the caches coherent.
\<close>

theorem is_authorized_refines:
  assumes "coh E Users w" "coh E Subs w" "db_healthy E"
  shows "wp (IsAuthorized E (Some (''Bearer'', c # tok)) ui) (\<lambda>res w'. coh E Users w' \<and> persist w' = persist w
      \<and> check_post E Users w (c # tok) res) w
    \<and> wp (IsSubAuthorized E (Some (''Bearer'', c # tok)) ui) (\<lambda>res w'. coh E Subs w' \<and> persist w' = persist w
      \<and> check_post E Subs w (c # tok) res) w"
  using check_token_wp [OF assms(1,3)] check_token_wp [OF assms(2,3)]
  by (simp add: IsAuthorized_def IsSubAuthorized_def IsAuthorized_token_def getBearerToken_def)

text \<open>
  C38. A token check does not refuse a token whose life time is over: it accepts it and only raises
  the expired flag.
\<close>

theorem expired_token_accepted:
  assumes "coh E Users w" "db_healthy E" "stored_token E Users w tok = Some t" "t_revocationDate t = 0"
    and "stored_user E Users w (t_userName t) = Some u" "\<forall>n. t_created t + t_expires t < e_clock E n"
  shows "wp (IsAuthorized_token E tok ui) (\<lambda>(ok, ui', expired) w'. ok \<and> expired \<and> same_user (uip_userinfo ui') u) w"
  unfolding IsAuthorized_token_def
  using assms by (intro wp_mono [OF check_token_wp]) (auto simp: check_post_def session_of_def)

subsection \<open>A concrete state\<close>

definition sample_member :: UserInfo where
  "sample_member = UserInfo_init\<lparr>u_id := ''u1'', u_email := ''a@b.c'',
     u_currentPassword := salted_hash env_inst 7 ''Secret1!'' (hash_name env_inst ''a@b.c'')\<rparr>"

text \<open>One stored user with one token, which is also cached.\<close>

definition session_world :: world where
  "session_world = upd_realm Users (\<lambda>r. r\<lparr>r_users := [UserInfo_to_tuple (e_poco env_inst) sample_member],
     r_tokens := [Token_to_tuple (e_poco env_inst) sample_token], r_tokenCache := [(''tok'', sample_token)]\<rparr>) world_empty"

lemma session_world_sel [simp]:
  "r_users (w_usr session_world) = [UserInfo_to_tuple (e_poco env_inst) sample_member]"
  "r_tokens (w_usr session_world) = [Token_to_tuple (e_poco env_inst) sample_token]"
  "r_tokenCache (w_usr session_world) = [(''tok'', sample_token)]"
  "r_byId (w_usr session_world) = Map.empty" "r_byEmail (w_usr session_world) = Map.empty"
  "w_sub session_world = realm_empty" "w_tick session_world = 0"
  by (simp_all add: session_world_def world_empty_def realm_empty_def)

lemma session_world_coh: "coh env_inst Rm session_world"
  by (cases Rm)
    (simp_all add: coh_def user_coherent_def table_ok_def keys_distinct_def emails_distinct_def users_readable_def
      token_coherent_def realm_empty_def sample_token_def UserInfo_tuple_roundtrip)

lemma session_world_user: "stored_user env_inst Users session_world ''u1'' = Some sample_member"
  by (simp add: stored_user_def sample_member_def UserInfo_tuple_roundtrip)

lemma session_world_token: "stored_token env_inst Users session_world ''tok'' = Some sample_token"
  by (simp add: stored_token_def sample_token_def)

theorem is_authorized_refines_witness:
  "wp (IsAuthorized env_inst (Some (''Bearer'', CHR ''t'' # ''ok'')) UserInfoAndPolicy_init) (\<lambda>res w'. coh env_inst Users w'
      \<and> persist w' = persist session_world \<and> check_post env_inst Users session_world (CHR ''t'' # ''ok'') res) session_world
    \<and> wp (IsSubAuthorized env_inst (Some (''Bearer'', CHR ''t'' # ''ok'')) UserInfoAndPolicy_init) (\<lambda>res w'. coh env_inst Subs w'
      \<and> persist w' = persist session_world \<and> check_post env_inst Subs session_world (CHR ''t'' # ''ok'') res) session_world"
  by (rule is_authorized_refines) (simp_all add: session_world_coh)

text \<open>An environment whose clock stands, long after the token's life time.\<close>

definition late_env :: env where
  "late_env = env_inst\<lparr>e_clock := \<lambda>n. 2000\<rparr>"

lemma late_env_poco: "e_poco late_env = e_poco env_inst"
  by (simp add: late_env_def)

theorem expired_token_accepted_witness:
  "wp (IsAuthorized_token late_env ''tok'' UserInfoAndPolicy_init) (\<lambda>(ok, ui', expired) w'. ok \<and> expired
      \<and> same_user (uip_userinfo ui') sample_member) session_world"
proof (rule expired_token_accepted)
  show "coh late_env Users session_world"
    using session_world_coh [of Users]
    by (simp add: coh_def user_coherent_def table_ok_def keys_distinct_def emails_distinct_def users_readable_def
      token_coherent_def late_env_def cached_ok_def)
  show "db_healthy late_env" using env_inst_healthy by (simp add: db_healthy_def late_env_def)
  show "stored_token late_env Users session_world ''tok'' = Some sample_token"
    using session_world_token by (simp only: stored_token_def late_env_poco)
  have "t_userName sample_token = ''u1''" by (simp add: sample_token_def)
  with session_world_user show "stored_user late_env Users session_world (t_userName sample_token) = Some sample_member"
    by (simp only: stored_user_def late_env_poco)
qed (simp_all add: sample_token_def Token_init_def late_env_def)

end
