(* ===== verification/Session_Table.thy ===== *)
theory Session_Table
  imports Sessions
begin

text \<open>
  The table of sessions: which user a token stands for. A check reads it; a login adds one entry,
  a logout removes one and a refresh moves one. The theorems hold for both realms, as long as the
  tokens that are issued were not in use.
\<close>

subsection \<open>Which user a token stands for\<close>

definition session_user :: "env \<Rightarrow> realm_id \<Rightarrow> world \<Rightarrow> string \<Rightarrow> string option" where
  "session_user E Rm w tok = map_option u_id (session_of E Rm w tok)"

definition user_ids :: "realm_id \<Rightarrow> world \<Rightarrow> string set" where
  "user_ids Rm w = ur_id ` set (r_users (realm_of Rm w))"

definition token_unused :: "realm_id \<Rightarrow> world \<Rightarrow> string \<Rightarrow> bool" where
  "token_unused Rm w tok \<longleftrightarrow> (\<forall>T \<in> set (r_tokens (realm_of Rm w)). tr_token T \<noteq> tok)"

lemma stored_user_id: "stored_user E Rm w i = Some u \<Longrightarrow> u_id u = i"
  by (erule stored_userE) (simp add: User_from_sel)

lemma stored_user_dom:
  assumes "user_coherent E Rm w"
  shows "stored_user E Rm w i \<noteq> None \<longleftrightarrow> i \<in> user_ids Rm w"
proof
  assume "i \<in> user_ids Rm w"
  then obtain T where T: "T \<in> set (r_users (realm_of Rm w))" "ur_id T = i" by (auto simp: user_ids_def)
  moreover obtain v where "UserInfo_from_tuple (e_poco E) T = Some v"
    using assms T(1) by (auto simp: user_coherent_def table_ok_def users_readable_def)
  ultimately show "stored_user E Rm w i \<noteq> None"
    using stored_by_id [of E Rm w T v] User_from_sel assms by (auto simp: user_coherent_def)
qed (auto simp: user_ids_def elim: stored_userE)

definition session_entry :: "string set \<Rightarrow> Token \<Rightarrow> string option" where
  "session_entry ids t = (if t_revocationDate t = 0 \<and> t_userName t \<in> ids then Some (t_userName t) else None)"

lemma session_user_alt:
  assumes "user_coherent E Rm w"
  shows "session_user E Rm w tok = Option.bind (stored_token E Rm w tok) (session_entry (user_ids Rm w))"
  using stored_user_dom [OF assms] stored_user_id [of E Rm w]
  by (fastforce simp: session_user_def session_of_def session_entry_def split: option.splits)

text \<open>A change of the token table, seen on the sessions.\<close>

lemma session_user_upd:
  assumes "user_coherent E Rm w" "user_coherent E Rm w'" "user_ids Rm w' = user_ids Rm w"
    and "stored_token E Rm w' = (stored_token E Rm w)(tok := x)"
  shows "session_user E Rm w' = (session_user E Rm w)(tok := Option.bind x (session_entry (user_ids Rm w)))"
  by (rule ext) (simp add: session_user_alt assms)

text \<open>What the operations on other tables leave alone.\<close>

definition view :: "env \<Rightarrow> realm_id \<Rightarrow> world \<Rightarrow> bool \<times> TokenRecordTuple list \<times> UserInfoRecordTuple list" where
  "view E Rm w = (coh E Rm w, r_tokens (realm_of Rm w), r_users (realm_of Rm w))"

lemma view_logins [simp]: "view E Rm (upd_realm R (r_logins_update g) w) = view E Rm w"
proof -
  have "users_frame Rm w (upd_realm R (r_logins_update g) w)" by simp
  from coherent_frame [OF this, of E] show ?thesis
    by (cases R; cases Rm; simp add: view_def coh_def token_coherent_def keys_distinct_def)
qed

lemma view_tick [simp]: "view E Rm (w\<lparr>w_tick := n\<rparr>) = view E Rm w"
  by (simp add: view_def)

lemma view_prim [pres]:
  "preserves (\<lambda>w. view E Rm w = v) step" "preserves (\<lambda>w. view E Rm w = v) (db_step E')"
  "preserves (\<lambda>w. view E Rm w = v) (Now E')"
  "preserves (\<lambda>w. view E Rm w = v) (modify (upd_realm R (r_logins_update g)))"
  by (simp_all add: preserves_def db_step_def Now_def)

lemma view_login_ops [pres]:
  "preserves (\<lambda>w. view E Rm w = v) (AddLogin E' R u e t)"
  "preserves (\<lambda>w. view E Rm w = v) (AddLogout E' R t)"
  unfolding AddLogin_def AddLogout_def GetRecord_def SelectRecord_def CreateRecord_def UpdateRecord_def
    LoginDB_cache LoginDB_upd_fun
  by (intro pres)+

lemma view_cong:
  assumes "view E Rm w' = view E Rm w"
  shows "coh E Rm w' = coh E Rm w" "user_ids Rm w' = user_ids Rm w" "token_unused Rm w' = token_unused Rm w"
    "stored_token E Rm w' = stored_token E Rm w" "stored_user E Rm w' = stored_user E Rm w"
proof -
  have rows: "r_tokens (realm_of Rm w') = r_tokens (realm_of Rm w)" "r_users (realm_of Rm w') = r_users (realm_of Rm w)"
    and "coh E Rm w' = coh E Rm w"
    using assms by (simp_all add: view_def)
  then show "coh E Rm w' = coh E Rm w" "user_ids Rm w' = user_ids Rm w" "token_unused Rm w' = token_unused Rm w"
    by (auto simp: user_ids_def token_unused_def fun_eq_iff)
  show "stored_token E Rm w' = stored_token E Rm w" using rows by (auto intro: stored_token_cong)
  show "stored_user E Rm w' = stored_user E Rm w" by (rule stored_frame [OF rows(2)])
qed

lemma view_wp: "preserves (\<lambda>w. view E Rm w = v) m \<Longrightarrow> view E Rm w = v \<Longrightarrow> wp m (\<lambda>_ w'. view E Rm w' = v) w"
  by (rule preservesD)

subsection \<open>Logging out\<close>

lemma find_filter_key:
  "List.find (\<lambda>x. f x = a) (filter (\<lambda>x. f x \<noteq> k) xs) = (if a = k then None else List.find (\<lambda>x. f x = a) xs)"
  by (induction xs) auto

lemma stored_token_deleted:
  assumes "r_tokens (realm_of Rm w') = filter (\<lambda>T. tr_token T \<noteq> tok) (r_tokens (realm_of Rm w))"
  shows "stored_token E Rm w' = (stored_token E Rm w)(tok := None)"
  by (rule ext) (simp add: stored_token_def assms find_filter_key)

lemma DeleteToken_wp:
  assumes "coh E Rm w" "db_healthy E"
  shows "wp (DeleteRecord E (TokenDB E Rm) ''token'' tok) (\<lambda>ok w'. ok \<and> coh E Rm w'
      \<and> stored_token E Rm w' = (stored_token E Rm w)(tok := None) \<and> user_ids Rm w' = user_ids Rm w) w"
proof -
  have u: "user_coherent E Rm w" and t: "token_coherent E Rm w" using assms(1) by (simp_all add: coh_def)
  have users: "wp (DeleteRecord E (TokenDB E Rm) ''token'' tok) (\<lambda>_ w'. users_frame Rm w w') w"
    by (rule preservesD) (auto intro: pres)
  have rows: "wp (DeleteRecord E (TokenDB E Rm) ''token'' tok) (\<lambda>ok w'. ok
      \<and> r_tokens (realm_of Rm w') = filter (\<lambda>T. tr_token T \<noteq> tok) (r_tokens (realm_of Rm w))) w"
    using assms(2) unfolding DeleteRecord_def db_step_def TokenDB_cache TokenCache_Delete_def
    by (simp add: db_healthy_def)
  have "wp (DeleteRecord E (TokenDB E Rm) ''token'' tok) (\<lambda>_. token_coherent E Rm) w"
    using coherent_RevokeToken [OF t] by (simp add: RevokeToken_def)
  from wp_conj [OF wp_conj [OF users rows] this] show ?thesis
  proof (rule wp_mono)
    fix ok w'
    assume *: "(users_frame Rm w w' \<and> ok \<and> r_tokens (realm_of Rm w') = filter (\<lambda>T. tr_token T \<noteq> tok) (r_tokens (realm_of Rm w)))
        \<and> token_coherent E Rm w'"
    then have fr: "users_frame Rm w w'" by blast
    have "coh E Rm w'" unfolding coh_def coherent_frame [OF fr] using u * by blast
    moreover have "user_ids Rm w' = user_ids Rm w" using fr by (simp add: users_frame_def user_ids_def)
    moreover have "stored_token E Rm w' = (stored_token E Rm w)(tok := None)"
      using * by (intro stored_token_deleted) blast
    ultimately show "ok \<and> coh E Rm w' \<and> stored_token E Rm w' = (stored_token E Rm w)(tok := None)
        \<and> user_ids Rm w' = user_ids Rm w" using * by blast
  qed
qed

lemma logout_wp:
  assumes "coh E Rm w" "db_healthy E"
  shows "wp (end_session E Rm tok)
     (\<lambda>_ w'. coh E Rm w' \<and> session_user E Rm w' = (session_user E Rm w)(tok := None)) w"
  unfolding end_session_def wp_bind
proof (rule wp_mono [OF DeleteToken_wp [OF assms]], elim conjE)
  fix w1
  assume w1: "coh E Rm w1" "stored_token E Rm w1 = (stored_token E Rm w)(tok := None)" "user_ids Rm w1 = user_ids Rm w"
  have s: "session_user E Rm w2 = (session_user E Rm w)(tok := None)" if v: "view E Rm w2 = view E Rm w1" for w2
  proof -
    have "user_coherent E Rm w" "user_coherent E Rm w2"
      using assms(1) w1(1) view_cong(1) [OF v] by (simp_all add: coh_def)
    from session_user_upd [OF this, of tok None] show ?thesis
      unfolding view_cong(2,4) [OF v] w1(2,3) by simp
  qed
  show "wp (AddLogout E Rm tok) (\<lambda>_ w'. coh E Rm w' \<and> session_user E Rm w' = (session_user E Rm w)(tok := None)) w1"
    by (rule wp_mono [OF view_wp [OF view_login_ops(2) refl]]) (use s view_cong(1) w1(1) in blast)
qed

text \<open>
  C20. Logging out ends exactly the session of the token: with a database that answers, the table of
  sessions afterwards is the one before without that token, for users and for subscribers; no other
  session is touched and the caches stay coherent.
\<close>

theorem logout_ends_session:
  assumes "coh E Users w" "coh E Subs w" "db_healthy E"
  shows "wp (Logout E tok) (\<lambda>_ w'. coh E Users w' \<and> session_user E Users w' = (session_user E Users w)(tok := None)) w
    \<and> wp (SubLogout E tok) (\<lambda>_ w'. coh E Subs w' \<and> session_user E Subs w' = (session_user E Subs w)(tok := None)) w"
  using logout_wp [OF assms(1,3)] logout_wp [OF assms(2,3)] by (simp only: Logout_def SubLogout_def)

subsection \<open>Refreshing\<close>

definition refresh_accepted :: "env \<Rightarrow> realm_id \<Rightarrow> world \<Rightarrow> string \<Rightarrow> string \<Rightarrow> bool" where
  "refresh_accepted E Rm w tok RToken \<longleftrightarrow> (\<exists>t. stored_token E Rm w tok = Some t \<and> t_refreshToken t = RToken)"

lemma RefreshToken_wp:
  assumes c: "coh E Rm w" and db: "db_healthy E" and old: "stored_token E Rm w old = Some t"
    and new: "token_unused Rm w new"
  shows "wp (RefreshToken E Rm old new newr lst) (\<lambda>_ w'. coh E Rm w'
      \<and> session_user E Rm w' = (session_user E Rm w)(old := None, new := session_user E Rm w old)) w"
proof -
  have u: "user_coherent E Rm w" and t: "token_coherent E Rm w" using c by (simp_all add: coh_def)
  have ne: "new \<noteq> old" using stored_token_mem [OF old] new by (auto simp: token_unused_def)
  have users: "wp (RefreshToken E Rm old new newr lst) (\<lambda>_ w'. users_frame Rm w w') w"
    by (rule preservesD) (auto intro: pres)
  note toks = RefreshToken_spec [OF t db old new [unfolded token_unused_def] ne, of newr lst]
  from wp_conj [OF users toks] show ?thesis
  proof (rule wp_mono)
    fix ok w'
    assume *: "users_frame Rm w w' \<and> ok \<and> token_coherent E Rm w' \<and> token_gone Rm old w'
      \<and> (\<exists>now. stored_token E Rm w' new = Some (refreshed t new newr lst now))
      \<and> (\<forall>tok. tok \<noteq> old \<longrightarrow> tok \<noteq> new \<longrightarrow> stored_token E Rm w' tok = stored_token E Rm w tok)"
    then obtain now where now: "stored_token E Rm w' new = Some (refreshed t new newr lst now)" by blast
    have fr: "users_frame Rm w w'" using * by blast
    have u': "user_coherent E Rm w'" unfolding coherent_frame [OF fr] by (rule u)
    have ids: "user_ids Rm w' = user_ids Rm w" using fr by (simp add: users_frame_def user_ids_def)
    have gone: "stored_token E Rm w' old = None"
      using * by (auto simp: token_gone_def stored_token_def find_none)
    have "session_user E Rm w' tok = ((session_user E Rm w)(old := None, new := session_user E Rm w old)) tok" for tok
      unfolding session_user_alt [OF u'] fun_upd_def session_user_alt [OF u] ids
      using * gone now old by (auto simp: session_entry_def refreshed_def)
    then show "coh E Rm w' \<and> session_user E Rm w' = (session_user E Rm w)(old := None, new := session_user E Rm w old)"
      using u' * by (auto simp: coh_def)
  qed
qed

lemma wp_weak: "(\<And>x w'. Q x w') \<Longrightarrow> wp m Q w"
  by (simp add: wp_def split: prod.splits)

lemma persist_sessions:
  assumes "persist w' = persist w"
  shows "session_user E Rm w' = session_user E Rm w" "token_unused Rm w' = token_unused Rm w"
    "user_ids Rm w' = user_ids Rm w" "refresh_accepted E Rm w' = refresh_accepted E Rm w"
  using persist_stored [OF assms] persist_eqD [OF assms]
  by (auto simp: fun_eq_iff session_user_def token_unused_def user_ids_def refresh_accepted_def)

definition refresh_post ::
  "env \<Rightarrow> realm_id \<Rightarrow> world \<Rightarrow> string \<Rightarrow> string \<Rightarrow> bool \<times> UserInfoAndPolicy \<Rightarrow> world \<Rightarrow> bool" where
  "refresh_post E Rm w tok RToken res w' = (case res of (ok, ui) \<Rightarrow>
     if ok then refresh_accepted E Rm w tok RToken
       \<and> (token_unused Rm w (wt_access_token (uip_webtoken ui)) \<longrightarrow> coh E Rm w'
          \<and> session_user E Rm w' =
              (session_user E Rm w)(tok := None, wt_access_token (uip_webtoken ui) := session_user E Rm w tok))
     else \<not> refresh_accepted E Rm w tok RToken \<and> persist w' = persist w \<and> coh E Rm w')"

lemma refresh_session_wp:
  assumes c: "coh E Rm w" and db: "db_healthy E" and tok: "tok \<noteq> []"
  shows "wp (refresh_session E Rm (Some (''Bearer'', tok)) RToken ui) (refresh_post E Rm w tok RToken) w"
proof (cases "stored_token E Rm w tok")
  case None
  then show ?thesis
    using tok unfolding refresh_session_def
    by (auto simp: getBearerToken_def refresh_post_def refresh_accepted_def intro!: wp_mono [OF GetToken_wp [OF c db]])
next
  case (Some t)
  have step: "wp (RefreshToken E Rm tok new newr lst) (\<lambda>_ w'. token_unused Rm w new \<longrightarrow> coh E Rm w'
      \<and> session_user E Rm w' = (session_user E Rm w)(tok := None, new := session_user E Rm w tok)) (w1\<lparr>w_tick := n\<rparr>)"
    if w1: "coh E Rm w1" "persist w1 = persist w" for w1 new newr lst n
  proof (cases "token_unused Rm w new")
    case True
    have p: "persist (w1\<lparr>w_tick := n\<rparr>) = persist w" using w1 by simp
    have "stored_token E Rm (w1\<lparr>w_tick := n\<rparr>) tok = Some t" using Some by (simp add: persist_stored(3) [OF p])
    from RefreshToken_wp [OF _ db this, of new newr lst] w1(1) True show ?thesis
      unfolding persist_sessions [OF p] by simp
  qed (simp add: wp_weak)
  show ?thesis
    using tok Some unfolding refresh_session_def
    by (auto simp: getBearerToken_def refresh_post_def refresh_accepted_def GenerateTokenHMAC_def Now_def Let_def
        intro!: wp_mono [OF GetToken_wp [OF c db]] wp_mono [OF step])
qed

text \<open>
  A refresh succeeds exactly when the bearer token is stored together with the refresh token
  shown; then, unless the new token collides with a stored one, the session moves from the old
  token to the new one and no other session changes. A refused refresh changes nothing.
\<close>

theorem refresh_moves_session:
  assumes "coh E Users w" "coh E Subs w" "db_healthy E" "tok \<noteq> []"
  shows "wp (RefreshUserToken E (Some (''Bearer'', tok)) RToken ui) (refresh_post E Users w tok RToken) w
    \<and> wp (RefreshSubToken E (Some (''Bearer'', tok)) RToken ui) (refresh_post E Subs w tok RToken) w"
  using refresh_session_wp [OF assms(1,3,4)] refresh_session_wp [OF assms(2-4)]
  by (simp add: RefreshUserToken_def RefreshSubToken_def)

theorem logout_ends_session_witness:
  "wp (Logout env_inst ''tok'') (\<lambda>_ w'. coh env_inst Users w'
      \<and> session_user env_inst Users w' = (session_user env_inst Users session_world)(''tok'' := None)) session_world
    \<and> wp (SubLogout env_inst ''tok'') (\<lambda>_ w'. coh env_inst Subs w'
      \<and> session_user env_inst Subs w' = (session_user env_inst Subs session_world)(''tok'' := None)) session_world"
  by (rule logout_ends_session) (simp_all add: session_world_coh)

theorem refresh_moves_session_witness:
  "wp (RefreshUserToken env_inst (Some (''Bearer'', ''tok'')) ''ref'' UserInfoAndPolicy_init)
      (refresh_post env_inst Users session_world ''tok'' ''ref'') session_world
    \<and> wp (RefreshSubToken env_inst (Some (''Bearer'', ''tok'')) ''ref'' UserInfoAndPolicy_init)
      (refresh_post env_inst Subs session_world ''tok'' ''ref'') session_world
    \<and> refresh_accepted env_inst Users session_world ''tok'' ''ref''"
  using refresh_moves_session [of env_inst session_world "''tok''" "''ref''" UserInfoAndPolicy_init] session_world_coh session_world_token
  by (simp add: refresh_accepted_def sample_token_def)

end
