(* ===== verification/Login_Sound.thy ===== *)
theory Login_Sound
  imports Session_Table
begin

text \<open>
  Logging in: who gets a session, and what a login changes.
\<close>

subsection \<open>Steps that keep the sessions\<close>

definition same_sessions :: "env \<Rightarrow> realm_id \<Rightarrow> world \<Rightarrow> world \<Rightarrow> bool" where
  "same_sessions E Rm w w' \<longleftrightarrow> coh E Rm w' \<and> user_ids Rm w' = user_ids Rm w
     \<and> r_tokens (realm_of Rm w') = r_tokens (realm_of Rm w)"

lemma same_sessions_trans: "same_sessions E Rm w w' \<Longrightarrow> same_sessions E Rm w' w'' \<Longrightarrow> same_sessions E Rm w w''"
  by (simp add: same_sessions_def)

lemma same_sessions_tick [simp]: "same_sessions E Rm w (w'\<lparr>w_tick := n\<rparr>) = same_sessions E Rm w w'"
  "same_sessions E Rm (w\<lparr>w_tick := n\<rparr>) = same_sessions E Rm w"
  by (simp_all add: same_sessions_def user_ids_def fun_eq_iff)

lemma same_sessions_persist: "coh E Rm w' \<Longrightarrow> persist w' = persist w \<Longrightarrow> same_sessions E Rm w w'"
  unfolding same_sessions_def using persist_sessions(3) persist_eqD(2) by blast

lemma same_sessionsD:
  assumes "same_sessions E Rm w w'"
  shows "coh E Rm w'" "user_ids Rm w' = user_ids Rm w" "stored_token E Rm w' = stored_token E Rm w"
    "token_unused Rm w' = token_unused Rm w" "coh E Rm w \<Longrightarrow> session_user E Rm w' = session_user E Rm w"
proof -
  show c: "coh E Rm w'" and i: "user_ids Rm w' = user_ids Rm w" using assms by (simp_all add: same_sessions_def)
  show t: "stored_token E Rm w' = stored_token E Rm w"
    using assms by (intro ext stored_token_cong) (simp add: same_sessions_def)
  show "token_unused Rm w' = token_unused Rm w"
    using assms by (auto simp: same_sessions_def token_unused_def)
  show "session_user E Rm w' = session_user E Rm w" if "coh E Rm w"
    using that c i t by (auto simp: fun_eq_iff session_user_alt coh_def)
qed

text \<open>Rewriting the user rows without changing their identifiers.\<close>

lemma same_sessions_users:
  assumes "user_coherent E Rm w'" "token_coherent E Rm w'"
    and "persist w' = upd_realm Rm (r_users_update f) (persist w)"
    and "map ur_id (f (r_users (realm_of Rm w))) = map ur_id (r_users (realm_of Rm w))"
  shows "same_sessions E Rm w w'"
proof -
  have "r_users (realm_of Rm (persist w')) = f (r_users (realm_of Rm w))"
    "r_tokens (realm_of Rm (persist w')) = r_tokens (realm_of Rm w)"
    unfolding assms(3) by simp_all
  moreover have "set (map ur_id (f (r_users (realm_of Rm w)))) = set (map ur_id (r_users (realm_of Rm w)))"
    unfolding assms(4) ..
  ultimately show ?thesis using assms(1,2) by (simp add: same_sessions_def coh_def user_ids_def)
qed

lemma SetLastLogin_sessions:
  assumes "coh E Rm w" "db_healthy E"
  shows "wp (SetLastLogin E Rm i) (\<lambda>_. same_sessions E Rm w) w"
  using assms by (intro wp_mono [OF SetLastLogin_wp]) (auto simp: coh_def intro: same_sessions_users stamp_login_sel)

lemma UpdateUserInfo_sessions:
  assumes "coh E Rm w" "poco_ok (e_poco E)" "db_healthy E" "stored_user E Rm w (u_id u) = Some v" "u_email v = u_email u"
  shows "wp (UpdateUserInfo E Rm (u_id u) u) (\<lambda>_. same_sessions E Rm w) w"
  using assms by (intro wp_mono [OF UpdateUserInfo_wp [of E Rm w u v]])
    (auto simp: coh_def put_user_def intro!: same_sessions_users)

lemma AddLogin_sessions: "coh E Rm w \<Longrightarrow> wp (AddLogin E Rm u e t) (\<lambda>_. same_sessions E Rm w) w"
  by (rule wp_mono [OF view_wp [OF view_login_ops(1) refl]])
    (auto simp: view_def same_sessions_def user_ids_def)

subsection \<open>Issuing a token\<close>

lemma find_append: "List.find P (xs @ ys) = (case List.find P xs of None \<Rightarrow> List.find P ys | Some x \<Rightarrow> Some x)"
  by (induction xs) auto

lemma stored_token_added:
  assumes "r_tokens (realm_of Rm w') = r_tokens (realm_of Rm w) @ [Token_to_tuple (e_poco E) t]" "token_unused Rm w (t_token t)"
  shows "stored_token E Rm w' = (stored_token E Rm w)(t_token t \<mapsto> t)"
proof
  fix a
  have "List.find (\<lambda>T. tr_token T = t_token t) (r_tokens (realm_of Rm w)) = None"
    using assms(2) by (simp add: token_unused_def find_none)
  then show "stored_token E Rm w' a = ((stored_token E Rm w)(t_token t \<mapsto> t)) a"
    by (auto simp: stored_token_def assms(1) find_append split: option.splits)
qed

lemma AddToken_wp:
  assumes c: "coh E Rm w" and db: "db_healthy E"
  shows "wp (AddToken E Rm uid tok rtok ty ex tmo) (\<lambda>_ w'. coh E Rm w' \<and> user_ids Rm w' = user_ids Rm w
      \<and> (token_unused Rm w tok \<longrightarrow> (\<exists>t. t_userName t = uid \<and> t_revocationDate t = 0
            \<and> stored_token E Rm w' = (stored_token E Rm w)(tok \<mapsto> t)))) w"
proof -
  have u: "user_coherent E Rm w" and t: "token_coherent E Rm w" using c by (simp_all add: coh_def)
  have users: "wp (AddToken E Rm uid tok rtok ty ex tmo) (\<lambda>_ w'. users_frame Rm w w') w"
    by (rule preservesD) (auto intro: pres)
  have rows: "wp (AddToken E Rm uid tok rtok ty ex tmo) (\<lambda>_ w'. token_unused Rm w tok \<longrightarrow>
      (\<exists>t. r_tokens (realm_of Rm w') = r_tokens (realm_of Rm w) @ [Token_to_tuple (e_poco E) t]
         \<and> t_token t = tok \<and> t_userName t = uid \<and> t_revocationDate t = 0)) w"
    using db unfolding AddToken_def CreateRecord_def db_step_def Now_def
    by (simp add: Let_def db_healthy_def list_ex_iff token_unused_def) (intro impI exI conjI, rule refl, simp_all)
  from wp_conj [OF wp_conj [OF users rows] coherent_AddToken [OF t]] show ?thesis
  proof (rule wp_mono)
    fix x w'
    assume *: "(users_frame Rm w w' \<and> (token_unused Rm w tok \<longrightarrow>
      (\<exists>t. r_tokens (realm_of Rm w') = r_tokens (realm_of Rm w) @ [Token_to_tuple (e_poco E) t]
         \<and> t_token t = tok \<and> t_userName t = uid \<and> t_revocationDate t = 0)))
      \<and> token_coherent E Rm w'"
    then have fr: "users_frame Rm w w'" by blast
    have "coh E Rm w'" unfolding coh_def coherent_frame [OF fr] using u * by blast
    moreover have "user_ids Rm w' = user_ids Rm w" using fr by (simp add: users_frame_def user_ids_def)
    moreover have "\<exists>t. t_userName t = uid \<and> t_revocationDate t = 0 \<and> stored_token E Rm w' = (stored_token E Rm w)(tok \<mapsto> t)"
      if new: "token_unused Rm w tok"
    proof -
      obtain t where "t_token t = tok" "t_userName t = uid" "t_revocationDate t = 0"
          "r_tokens (realm_of Rm w') = r_tokens (realm_of Rm w) @ [Token_to_tuple (e_poco E) t]"
        using * new by blast
      then show ?thesis using stored_token_added [of Rm w' w E t] new by blast
    qed
    ultimately show "coh E Rm w' \<and> user_ids Rm w' = user_ids Rm w
      \<and> (token_unused Rm w tok \<longrightarrow> (\<exists>t. t_userName t = uid \<and> t_revocationDate t = 0
            \<and> stored_token E Rm w' = (stored_token E Rm w)(tok \<mapsto> t)))" by blast
  qed
qed

lemma session_added:
  assumes "coh E Rm w" "coh E Rm w'" "user_ids Rm w' = user_ids Rm w" "t_userName t = uid" "t_revocationDate t = 0"
    and "stored_token E Rm w' = (stored_token E Rm w)(tok \<mapsto> t)" "uid \<in> user_ids Rm w"
  shows "session_user E Rm w' = (session_user E Rm w)(tok \<mapsto> uid)"
  using session_user_upd [of E Rm w w' tok "Some t"] assms by (simp add: coh_def session_entry_def)

definition issued :: "env \<Rightarrow> realm_id \<Rightarrow> world \<Rightarrow> string \<Rightarrow> UserInfoAndPolicy \<Rightarrow> world \<Rightarrow> bool" where
  "issued E Rm w uid ui w' \<longleftrightarrow> coh E Rm w' \<and> user_ids Rm w' = user_ids Rm w \<and> u_id (uip_userinfo ui) = uid
     \<and> (token_unused Rm w (wt_access_token (uip_webtoken ui)) \<longrightarrow>
        session_user E Rm w' = (session_user E Rm w)(wt_access_token (uip_webtoken ui) \<mapsto> uid))"

lemma issue_token_wp:
  assumes c: "coh E Rm w" and db: "db_healthy E" and uid: "u_id (uip_userinfo ui) \<in> user_ids Rm w"
  shows "wp (issue_token E Rm name ui) (issued E Rm w (u_id (uip_userinfo ui))) w"
proof -
  let ?uid = "u_id (uip_userinfo ui)"
  have stamp: "wp (SetLastLogin E Rm i) (\<lambda>_. same_sessions E Rm w) (w\<lparr>w_tick := n\<rparr>)" for i n
    using SetLastLogin_sessions [of E Rm "w\<lparr>w_tick := n\<rparr>" i] c db by simp
  have add: "wp (AddToken E Rm ?uid tok rtok ty ex tmo) (\<lambda>_ w2. coh E Rm w2 \<and> user_ids Rm w2 = user_ids Rm w
      \<and> (token_unused Rm w tok \<longrightarrow> session_user E Rm w2 = (session_user E Rm w)(tok \<mapsto> ?uid))) w1"
    if w1: "same_sessions E Rm w w1" for w1 tok rtok ty ex tmo
  proof (rule wp_mono [OF AddToken_wp [OF same_sessionsD(1) [OF w1] db]])
    fix x w2
    assume *: "coh E Rm w2 \<and> user_ids Rm w2 = user_ids Rm w1
      \<and> (token_unused Rm w1 tok \<longrightarrow> (\<exists>t. t_userName t = ?uid \<and> t_revocationDate t = 0
            \<and> stored_token E Rm w2 = (stored_token E Rm w1)(tok \<mapsto> t)))"
    then show "coh E Rm w2 \<and> user_ids Rm w2 = user_ids Rm w
      \<and> (token_unused Rm w tok \<longrightarrow> session_user E Rm w2 = (session_user E Rm w)(tok \<mapsto> ?uid))"
      unfolding same_sessionsD(2-4) [OF w1] using session_added [OF c, of w2] uid by blast
  qed
  have log: "wp (AddLogin E Rm a b t) (\<lambda>_ w3. coh E Rm w3 \<and> user_ids Rm w3 = user_ids Rm w
      \<and> (token_unused Rm w tok \<longrightarrow> session_user E Rm w3 = (session_user E Rm w)(tok \<mapsto> ?uid))) w2"
    if "coh E Rm w2 \<and> user_ids Rm w2 = user_ids Rm w
      \<and> (token_unused Rm w tok \<longrightarrow> session_user E Rm w2 = (session_user E Rm w)(tok \<mapsto> ?uid))" for w2 tok a b t
  proof -
    have c2: "coh E Rm w2" using that by blast
    show ?thesis
      by (rule wp_mono [OF AddLogin_sessions [OF c2]]) (use that same_sessionsD(1,2,5) c2 in metis)
  qed
  show ?thesis
    unfolding issue_token_def GenerateTokenHMAC_def Now_def
    by (simp add: Let_def, rule wp_mono [OF stamp], rule wp_mono [OF add], assumption, rule wp_mono [OF log], assumption)
      (simp add: issued_def)
qed

subsection \<open>Changing the password on the way\<close>

lemma lower_idem: "poco_ok P \<Longrightarrow> str_toLower P (str_toLower P s) = str_toLower P s"
proof -
  have "ascii_lower (ascii_lower c) = ascii_lower c" for c by (auto simp: ascii_lower_def)
  then show "poco_ok P \<Longrightarrow> ?thesis" by (simp add: poco_okD)
qed

lemma SetPassword_wp:
  "wp (SetPassword E pw u) (\<lambda>res w'. (\<exists>n. w' = w\<lparr>w_tick := n\<rparr>) \<and>
     (\<forall>u' ok. res = Some (u', ok) \<longrightarrow> u_id u' = u_id u \<and> u_email u' = str_toLower (e_poco E) (u_email u))) w"
  unfolding SetPassword_def by (auto simp: Let_def tick_self split: option.splits)

lemma change_password_wp:
  "wp (change_password E Rm pw u) (\<lambda>res w'. (\<exists>n. w' = w\<lparr>w_tick := n\<rparr>) \<and>
     (\<forall>u' ok. res = Some (u', ok) \<longrightarrow> u_id u' = u_id u \<and> u_email u' = str_toLower (e_poco E) (u_email u))) w"
  using SetPassword_wp by (simp add: change_password_def SetSubPassword_def split: realm_id.splits)

lemma stored_email_user:
  assumes "user_coherent E Rm w" "stored_email E Rm w e = Some u"
  shows "stored_user E Rm w (u_id u) = Some u" "u_email u = e" "u_id u \<in> user_ids Rm w"
proof -
  obtain T where T: "T \<in> set (r_users (realm_of Rm w))" "ur_email T = e" "UserInfo_from_tuple (e_poco E) T = Some u"
    using assms(2) by (auto simp: stored_email_def split: option.splits dest: find_mem)
  then show "stored_user E Rm w (u_id u) = Some u" "u_email u = e" "u_id u \<in> user_ids Rm w"
    using stored_by_id [OF _ T(1,3)] User_from_sel [OF T(3)] assms(1)
    by (auto simp: user_coherent_def user_ids_def)
qed

subsection \<open>Logging in\<close>

lemma issued_same:
  assumes "same_sessions E Rm w w1" "coh E Rm w" "issued E Rm w1 uid ui w'"
  shows "issued E Rm w uid ui w'"
  using assms(3) unfolding issued_def same_sessionsD(2,4) [OF assms(1)] same_sessionsD(5) [OF assms(1,2)] .

lemma issue_in_realm:
  "wp (case Rm of Users \<Rightarrow> CreateToken E name ui | Subs \<Rightarrow> CreateSubToken E name ui) = wp (issue_token E Rm name ui)"
  by (cases Rm) (simp_all add: CreateToken_def CreateSubToken_def)

lemma finish_login_wp:
  assumes c: "coh E Rm w" and db: "db_healthy E" and uid: "u_id (uip_userinfo ui) \<in> user_ids Rm w"
  shows "wp (finish_login E Rm name ui) (\<lambda>res w'. \<exists>ui'. res = Some (SUCCESS, ui')
      \<and> issued E Rm w (u_id (uip_userinfo ui)) ui' w') w"
proof -
  have stamp: "wp (SetLastLogin E Rm i) (\<lambda>_. same_sessions E Rm w) (w\<lparr>w_tick := n\<rparr>)" for i n
    using SetLastLogin_sessions [of E Rm "w\<lparr>w_tick := n\<rparr>" i] c db by simp
  have issue: "wp (issue_token E Rm name ui1) (issued E Rm w (u_id (uip_userinfo ui))) w1"
    if "same_sessions E Rm w w1" "u_id (uip_userinfo ui1) = u_id (uip_userinfo ui)" for ui1 w1
    using issue_token_wp [OF same_sessionsD(1) [OF that(1)] db, of ui1 name] that uid same_sessionsD(2) [OF that(1)]
    by (auto elim!: wp_mono intro: issued_same c)
  show ?thesis
    unfolding finish_login_def Now_def
    by (simp add: Let_def issue_in_realm, rule wp_mono [OF stamp], rule wp_mono [OF issue], assumption) simp_all
qed

definition may_login :: "env \<Rightarrow> realm_id \<Rightarrow> world \<Rightarrow> string \<Rightarrow> string \<Rightarrow> string \<Rightarrow> UserInfo \<Rightarrow> bool" where
  "may_login E Rm w name pw newpw u \<longleftrightarrow> stored_email E Rm w (str_toLower (e_poco E) name) = Some u
     \<and> \<not> u_suspended u \<and> \<not> u_waitingForEmailCheck u
     \<and> hash_validates E Rm (str_toLower (e_poco E) name) pw (u_currentPassword u)
     \<and> (u_changePassword u \<longrightarrow> newpw \<noteq> []) \<and> (newpw \<noteq> [] \<longrightarrow> password_acceptable E Rm newpw)"

definition login_post ::
  "env \<Rightarrow> realm_id \<Rightarrow> world \<Rightarrow> string \<Rightarrow> string \<Rightarrow> string \<Rightarrow>
   (UNAUTHORIZED_REASON \<times> UserInfoAndPolicy) option \<Rightarrow> world \<Rightarrow> bool" where
  "login_post E Rm w name pw newpw res w' \<longleftrightarrow>
     (if \<exists>ui. res = Some (SUCCESS, ui)
      then \<exists>u ui. res = Some (SUCCESS, ui) \<and> may_login E Rm w name pw newpw u \<and> issued E Rm w (u_id u) ui w'
      else persist w' = persist w \<and> coh E Rm w' \<and> (newpw = [] \<longrightarrow> (\<forall>u. \<not> may_login E Rm w name pw newpw u)))"

lemma login_refused:
  assumes "persist w' = persist w" "coh E Rm w'" "\<And>ui. res \<noteq> Some (SUCCESS, ui)"
    and "newpw = [] \<Longrightarrow> \<not> (\<exists>u. may_login E Rm w name pw newpw u)"
  shows "login_post E Rm w name pw newpw res w'"
  using assms by (auto simp: login_post_def)

lemma login_finish:
  assumes c: "coh E Rm w" and db: "db_healthy E" and may: "may_login E Rm w name pw newpw u"
    and w1: "same_sessions E Rm w w1" and uid: "u_id (uip_userinfo ui) = u_id u"
  shows "wp (finish_login E Rm nm ui) (login_post E Rm w name pw newpw) w1"
proof -
  have "stored_email E Rm w (str_toLower (e_poco E) name) = Some u" "user_coherent E Rm w"
    using may c by (simp_all add: may_login_def coh_def)
  then have "u_id (uip_userinfo ui) \<in> user_ids Rm w1"
    using stored_email_user(3) uid same_sessionsD(2) [OF w1] by metis
  then show ?thesis
    using may uid same_sessionsD(1) [OF w1]
    by (intro wp_mono [OF finish_login_wp [OF _ db]]) (auto simp: login_post_def intro: issued_same [OF w1 c])
qed

lemma login_change_wp:
  assumes c: "coh E Rm w" and lib: "poco_ok (e_poco E)" and db: "db_healthy E"
    and may: "may_login E Rm w name pw newpw u" and new: "newpw \<noteq> []"
    and w1: "coh E Rm w1" "persist w1 = persist w" and same: "same_user (uip_userinfo ui) u"
  shows "wp (login_change E Rm nm newpw ui) (login_post E Rm w name pw newpw) w1"
  unfolding login_change_def wp_bind
proof (rule wp_mono [OF change_password_wp], elim conjE exE)
  fix changed :: "(UserInfo \<times> bool) option" and w2 n
  assume w2: "w2 = w1\<lparr>w_tick := n\<rparr>" and sel: "\<forall>u' ok. changed = Some (u', ok) \<longrightarrow>
      u_id u' = u_id (uip_userinfo ui) \<and> u_email u' = str_toLower (e_poco E) (u_email (uip_userinfo ui))"
  have stored: "stored_email E Rm w (str_toLower (e_poco E) name) = Some u" "user_coherent E Rm w"
    using may c by (simp_all add: may_login_def coh_def)
  note st = stored_email_user [OF stored(2,1)]
  have upd: "wp (UpdateUserInfo E Rm (u_id u) u2) (\<lambda>_. same_sessions E Rm w) (w1\<lparr>w_tick := m\<rparr>)"
    if "u_id u2 = u_id u" "u_email u2 = u_email u" for m u2
  proof -
    have p: "persist (w1\<lparr>w_tick := m\<rparr>) = persist w" using w1(2) by simp
    have "wp (UpdateUserInfo E Rm (u_id u2) u2) (\<lambda>_. same_sessions E Rm (w1\<lparr>w_tick := m\<rparr>)) (w1\<lparr>w_tick := m\<rparr>)"
    proof (rule UpdateUserInfo_sessions [OF _ lib db])
      show "stored_user E Rm (w1\<lparr>w_tick := m\<rparr>) (u_id u2) = Some u"
        unfolding persist_stored(1) [OF p] that(1) by (rule st(1))
    qed (use w1(1) that(2) in simp_all)
    then show ?thesis
      unfolding that(1) by (rule wp_mono) (use same_sessions_trans same_sessions_persist [OF w1] in fastforce)
  qed
  have refused: "login_post E Rm w name pw newpw res w2" if "\<And>ui. res \<noteq> Some (SUCCESS, ui)" for res
    using w1 w2 new that by (intro login_refused) simp_all
  have low: "str_toLower (e_poco E) (u_email (uip_userinfo ui)) = u_email u"
    using st(2) lower_idem [OF lib] same_user_sel(2) [OF same] by simp
  show "wp (case changed of
        None \<Rightarrow> ret None
      | Some (ui', ok) \<Rightarrow>
          if \<not> ok then ret (Some (PASSWORD_ALREADY_USED,
            ui\<lparr>uip_userinfo := ui', uip_webtoken := (uip_webtoken ui)\<lparr>wt_errorCode := 1\<rparr>\<rparr>))
          else do {
            t1 \<leftarrow> Now E;
            t2 \<leftarrow> Now E;
            let ui' = ui'\<lparr>u_lastPasswordChange := t1, u_changePassword := False, u_modified := t2\<rparr>;
            UpdateUserInfo E Rm (u_id ui') ui';
            finish_login E Rm nm (ui\<lparr>uip_userinfo := ui'\<rparr>)
          }) (login_post E Rm w name pw newpw) w2"
  proof (cases changed)
    case None
    then show ?thesis by (simp add: refused)
  next
    case (Some p)
    obtain u2 ok where p: "p = (u2, ok)" by (cases p)
    have id: "u_id u2 = u_id u" "u_email u2 = u_email u"
      using sel Some p low same_user_sel(1) [OF same] by auto
    show ?thesis
      unfolding Some p w2 Now_def
      by (cases ok; simp add: id refused [unfolded w2] Let_def)
        (intro wp_mono [OF upd] login_finish [OF c db may], simp_all add: id)
  qed
qed

lemma login_wp:
  assumes c: "coh E Rm w" and lib: "poco_ok (e_poco E)" and db: "db_healthy E"
  shows "wp (login E Rm name pw newpw ui) (login_post E Rm w name pw newpw) w"
  unfolding login_def wp_bind Let_def
proof (rule wp_mono [OF GetUserByEmail_wp [OF c db]], elim conjE)
  let ?name = "str_toLower (e_poco E) name"
  fix user w1
  assume w1: "coh E Rm w1" "persist w1 = persist w" and rel: "rel_option same_user user (stored_email E Rm w ?name)"
  have refused: "login_post E Rm w name pw newpw res w1"
    if "\<And>ui. res \<noteq> Some (SUCCESS, ui)" "\<not> (\<exists>u. may_login E Rm w name pw newpw u)" for res
    using w1 that by (intro login_refused) simp_all
  show "wp (case user of None \<Rightarrow> ret (Some (INVALID_CREDENTIALS, ui)) | Some u1 \<Rightarrow>
      if u_suspended u1 then ret (Some (ACCOUNT_SUSPENDED, ui\<lparr>uip_userinfo := u1\<rparr>))
      else if u_waitingForEmailCheck u1 then ret (Some (USERNAME_PENDING_VERIFICATION, ui\<lparr>uip_userinfo := u1\<rparr>))
      else if \<not> hash_validates E Rm ?name pw (u_currentPassword u1)
      then ret (Some (INVALID_CREDENTIALS, ui\<lparr>uip_userinfo := u1\<rparr>))
      else if u_changePassword u1 \<and> newpw = [] then
        ret (Some (PASSWORD_CHANGE_REQUIRED, ui\<lparr>uip_userinfo := u1, uip_webtoken :=
          (uip_webtoken (ui\<lparr>uip_userinfo := u1\<rparr>))\<lparr>wt_userMustChangePassword := True\<rparr>\<rparr>))
      else if newpw \<noteq> [] \<and> \<not> password_acceptable E Rm newpw
      then ret (Some (PASSWORD_INVALID, ui\<lparr>uip_userinfo := u1\<rparr>))
      else if u_changePassword u1 \<or> newpw \<noteq> [] then login_change E Rm ?name newpw (ui\<lparr>uip_userinfo := u1\<rparr>)
      else finish_login E Rm ?name (ui\<lparr>uip_userinfo := u1\<rparr>)) (login_post E Rm w name pw newpw) w1"
  proof (cases user)
    case None
    with rel have "stored_email E Rm w ?name = None" by simp
    then show ?thesis using None by (simp add: refused may_login_def)
  next
    case (Some u1)
    then obtain u where u: "stored_email E Rm w ?name = Some u" "same_user u1 u"
      using rel by (auto simp: option_rel_Some1)
    note sel = same_user_sel [OF u(2)]
    have may: "(\<exists>v. may_login E Rm w name pw newpw v) = may_login E Rm w name pw newpw u"
      using u(1) by (auto simp: may_login_def)
    show ?thesis
    proof (cases "may_login E Rm w name pw newpw u")
      case True
      then show ?thesis
        using Some sel login_change_wp [OF c lib db True _ w1] login_finish [OF c db True same_sessions_persist [OF w1]] u(2)
        by (auto simp: may_login_def)
    next
      case False
      with may have no: "\<not> (\<exists>v. may_login E Rm w name pw newpw v)" by simp
      have "\<forall>res. (\<forall>ui. res \<noteq> Some (SUCCESS, ui)) \<longrightarrow> login_post E Rm w name pw newpw res w1"
        using refused [OF _ no] by blast
      then show ?thesis
        using Some sel False u(1) by (auto simp: may_login_def)
    qed
  qed
qed

text \<open>
  C1. Only the holder of an account can log in: a login succeeds only for a stored address of an
  account that is neither suspended nor waiting for its address check, with a password that the
  stored hash validates, and with an acceptable new password when one is given or demanded. It then
  adds exactly one session, that user's under the new token (unless the token collides with a
  stored one). Every other outcome changes no table; without a new password, a holder is never
  refused.
\<close>

theorem login_sound:
  assumes "coh E Users w" "coh E Subs w" "poco_ok (e_poco E)" "db_healthy E"
  shows "wp (Authorize E name pw newpw ui) (login_post E Users w name pw newpw) w
    \<and> wp (AuthorizeSub E name pw newpw ui) (login_post E Subs w name pw newpw) w"
  using login_wp [OF assms(1,3,4)] login_wp [OF assms(2-4)] by (simp add: Authorize_def AuthorizeSub_def)

lemma sample_may_login: "may_login env_inst Users session_world ''a@b.c'' ''Secret1!'' [] sample_member"
proof -
  have low: "str_toLower (e_poco env_inst) ''a@b.c'' = ''a@b.c''"
    by (simp add: env_inst_def poco_inst_def ascii_lower_def)
  have "ValidatePasswordHash env_inst ''a@b.c'' ''Secret1!'' (u_currentPassword sample_member)"
    by (simp add: sample_member_def validates_salted_hash)
  then show ?thesis
    unfolding may_login_def low hash_validates_def
    by (simp add: stored_email_def UserInfo_tuple_roundtrip) (simp add: sample_member_def UserInfo_init_def)
qed

theorem login_sound_witness:
  "wp (Authorize env_inst ''a@b.c'' ''Secret1!'' [] UserInfoAndPolicy_init)
      (login_post env_inst Users session_world ''a@b.c'' ''Secret1!'' []) session_world
    \<and> wp (AuthorizeSub env_inst ''a@b.c'' ''Secret1!'' [] UserInfoAndPolicy_init)
      (login_post env_inst Subs session_world ''a@b.c'' ''Secret1!'' []) session_world
    \<and> may_login env_inst Users session_world ''a@b.c'' ''Secret1!'' [] sample_member"
  using login_sound [of env_inst session_world "''a@b.c''" "''Secret1!''" "[]" UserInfoAndPolicy_init]
    session_world_coh sample_may_login by simp

end
