(* ===== verification/Session_Invariant.thy ===== *)
theory Session_Invariant
  imports Login_Sound
begin

text \<open>
  API keys, and the invariant of the sessions over every sequence of account and session
  operations of one realm.
\<close>

subsection \<open>API keys\<close>

definition key_entry :: "env \<Rightarrow> world \<Rightarrow> string \<Rightarrow> ApiKeyEntry option" where
  "key_entry E w key =
     (case List.find (\<lambda>T. akr_apiKey T = key) (w_apikeys w) of
        None \<Rightarrow> None | Some T \<Rightarrow> ApiKeyEntry_from_tuple (e_poco E) T)"

definition key_holder :: "env \<Rightarrow> world \<Rightarrow> string \<Rightarrow> u64 \<Rightarrow> UserInfo \<Rightarrow> bool" where
  "key_holder E w key now u \<longleftrightarrow> (\<exists>k. key_entry E w key = Some k \<and> now \<le> ak_expiresOn k
     \<and> stored_user E Users w (ak_userUuid k) = Some u \<and> \<not> u_suspended u)"

text \<open>
  C21. An API key is accepted exactly when it is stored, has not expired at the time of the check and
  belongs to a stored user who is not suspended; the answer then carries that user.
\<close>

theorem api_key_sound:
  assumes "coh E Users w" "db_healthy E"
  shows "wp (IsValidApiKey E key WT UI Expired expiresOn) (\<lambda>(ok, wt, ui, expired, on, suspended) w'.
      (if ok then \<exists>u. key_holder E w key (e_clock E (Suc (w_tick w))) u \<and> same_user ui u
       else \<not> (\<exists>u. key_holder E w key (e_clock E (Suc (w_tick w))) u))) w"
proof -
  have user: "wp (GetUserById E Users i) (\<lambda>res w'. case res of None \<Rightarrow> stored_user E Users w i = None
      | Some v \<Rightarrow> \<exists>u. stored_user E Users w i = Some u \<and> same_user v u \<and> u_suspended v = u_suspended u) (w\<lparr>w_tick := n\<rparr>)" for i n
  proof -
    have "wp (GetUserById E Users i) (\<lambda>res w'. rel_option same_user res (stored_user E Users w i)) (w\<lparr>w_tick := n\<rparr>)"
      using assms GetUserById_wp [of E Users "w\<lparr>w_tick := n\<rparr>" i]
      by (auto elim!: wp_mono simp: persist_stored(1) [OF persist_tick])
    then show ?thesis
      by (rule wp_mono) (use same_user_sel(3) in \<open>auto simp: option_rel_Some1 split: option.splits\<close>)
  qed
  have key: "wp (GetRecord E (ApiKeyDB E) ''apiKey'' key) Q w = Q (key_entry E w key) (w\<lparr>w_tick := Suc (w_tick w)\<rparr>)" for Q
    using assms(2) unfolding apikey_table.wp_GetRecord_plain key_entry_def plain_convert
    by (simp add: db_healthy_def)
  show ?thesis
  proof (cases "key_entry E w key")
    case None
    then show ?thesis unfolding IsValidApiKey_def wp_bind key by (simp add: key_holder_def)
  next
    case (Some k)
    then show ?thesis
      unfolding IsValidApiKey_def wp_bind key
      by (auto simp: Now_def Let_def key_holder_def apikey_table.wp_UpdateRecord_plain not_less
          intro!: wp_mono [OF user] split: option.splits)
  qed
qed

definition key_world :: world where
  "key_world = session_world\<lparr>w_apikeys := [ApiKeyEntry_to_tuple (e_poco env_inst)
     (ApiKeyEntry_init\<lparr>ak_id := ''k1'', ak_userUuid := ''u1'', ak_apiKey := ''key'', ak_expiresOn := 5000\<rparr>)]\<rparr>"

lemma coh_other_tables:
  assumes "realm_of Rm w' = realm_of Rm w"
  shows "coh E Rm w' = coh E Rm w" "stored_user E Rm w' = stored_user E Rm w"
  using assms by (simp_all add: coh_def user_coherent_def table_ok_def keys_distinct_def emails_distinct_def
      users_readable_def cached_ok_def token_coherent_def stored_user_def fun_eq_iff)

theorem api_key_sound_witness:
  "wp (IsValidApiKey env_inst ''key'' WebToken_init UserInfo_init False 0) (\<lambda>(ok, wt, ui, expired, on, suspended) w'.
      (if ok then \<exists>u. key_holder env_inst key_world ''key'' (e_clock env_inst (Suc (w_tick key_world))) u \<and> same_user ui u
       else \<not> (\<exists>u. key_holder env_inst key_world ''key'' (e_clock env_inst (Suc (w_tick key_world))) u))) key_world"
proof (rule api_key_sound)
  have "realm_of Users key_world = realm_of Users session_world" by (simp add: key_world_def)
  from coh_other_tables(1) [OF this] show "coh env_inst Users key_world" using session_world_coh by simp
qed simp

subsection \<open>Reachable states\<close>

text \<open>
  One realm from its empty start through any sequence of account creations and deletions, logins,
  refreshes, token checks, logouts and revocations. New identifiers and tokens do not collide with
  ones in use.
\<close>

inductive auth_reach :: "env \<Rightarrow> realm_id \<Rightarrow> world \<Rightarrow> bool" for E Rm where
  start: "auth_reach E Rm world_empty"
| create: "auth_reach E Rm w \<Longrightarrow> id_is_new E Rm w u hashed \<Longrightarrow> run_state (CreateUser E Rm u hashed) w = (r, w') \<Longrightarrow>
    auth_reach E Rm w'"
| delete: "auth_reach E Rm w \<Longrightarrow> run_state (DeleteUser E Rm i) w = (r, w') \<Longrightarrow> auth_reach E Rm w'"
| login: "auth_reach E Rm w \<Longrightarrow> run_state (login E Rm name pw newpw ui) w = (r, w') \<Longrightarrow> auth_reach E Rm w'"
| check: "auth_reach E Rm w \<Longrightarrow> run_state (check_token E Rm tok ui) w = (r, w') \<Longrightarrow> auth_reach E Rm w'"
| refresh: "auth_reach E Rm w \<Longrightarrow> tok \<noteq> [] \<Longrightarrow> run_state (refresh_session E Rm (Some (''Bearer'', tok)) rtok ui) w = ((ok, ui'), w') \<Longrightarrow>
    token_unused Rm w (wt_access_token (uip_webtoken ui')) \<Longrightarrow> auth_reach E Rm w'"
| logout: "auth_reach E Rm w \<Longrightarrow>
    run_state (end_session E Rm tok) w = (r, w') \<Longrightarrow> auth_reach E Rm w'"
| revoke: "auth_reach E Rm w \<Longrightarrow> run_state (RevokeAllTokens E Rm uid) w = (r, w') \<Longrightarrow> auth_reach E Rm w'"

lemma users_frame_revoke [pres]: "preserves (users_frame Rm w0) (RevokeAllTokens E R uid)"
  unfolding RevokeAllTokens_def DeleteRecords_def TokenDB_upd_fun by (intro pres)

lemma RevokeAllTokens_coh:
  assumes "coh E Rm w"
  shows "wp (RevokeAllTokens E Rm uid) (\<lambda>_. coh E Rm) w"
proof -
  have u: "user_coherent E Rm w" and t: "token_coherent E Rm w" using assms by (simp_all add: coh_def)
  show ?thesis
    by (rule wp_mono [OF wp_conj [OF frame_coherent [OF users_frame_revoke u] coherent_RevokeAllTokens [OF t]]])
      (simp add: coh_def)
qed

lemma reach_coh:
  assumes "auth_reach E Rm w" "poco_ok (e_poco E)" "db_healthy E"
  shows "coh E Rm w"
  using assms(1)
proof induction
  case start
  have "token_coherent E Rm world_empty"
    by (cases Rm) (simp_all add: token_coherent_def keys_distinct_def world_empty_def realm_empty_def)
  then show ?case by (simp add: coh_def coherent_empty)
next
  case (create w u hashed r w')
  have "user_coherent E Rm w" using create.IH by (simp add: coh_def)
  from wp_runD [OF CreateUser_wp [OF this assms(2,3) create.hyps(2)] create.hyps(3)] create.IH
  show ?case by (cases r) (simp add: added_user_def coh_def)
next
  case (delete w i r w')
  have "user_coherent E Rm w" using delete.IH by (simp add: coh_def)
  from wp_runD [OF DeleteUser_wp [OF this assms(3)] delete.hyps(2)] delete.IH show ?case by (simp add: coh_def)
next
  case (login w name pw newpw ui r w')
  from wp_runD [OF login_wp [OF login.IH assms(2,3)] login.hyps(2)]
  show ?case by (auto simp: login_post_def issued_def split: if_splits)
next
  case (check w tok ui r w')
  from wp_runD [OF check_token_wp [OF check.IH assms(3)] check.hyps(2)] show ?case by simp
next
  case (refresh w tok rtok ui ok ui' w')
  from wp_runD [OF refresh_session_wp [OF refresh.IH assms(3) refresh.hyps(2)] refresh.hyps(3)] refresh.hyps(4)
  show ?case by (auto simp: refresh_post_def split: if_splits)
next
  case (logout w tok r w')
  from wp_runD [OF logout_wp [OF logout.IH assms(3)] logout.hyps(2)] show ?case by simp
next
  case (revoke w uid r w')
  from wp_runD [OF RevokeAllTokens_coh [OF revoke.IH] revoke.hyps(2)] show ?case .
qed


definition logged_in_world :: world where
  "logged_in_world = snd (run_state (login env_inst Users ''a@b.c'' ''Secret1!'' [] UserInfoAndPolicy_init) one_user_world)"


end
