(* ===== verification/Multi_Factor.thy ===== *)
theory Multi_Factor
  imports Auth_Login Totp_Otp
begin

text \<open>
  The second factor: text messages (\<^verbatim>\<open>src/SMSSender.cpp\<close>), challenges (\<^verbatim>\<open>src/MFAServer.cpp\<close>) and the
  enrolment of authenticator applications (\<^verbatim>\<open>src/TotpCache.h\<close>). What a phone provider answers and
  the drawing of QR codes are the environment. An exception, or arithmetic outside its domain, is
  \<open>None\<close>.
\<close>

subsection \<open>Codes\<close>

text \<open>\<^verbatim>\<open>{0:06}\<close> and \<^verbatim>\<open>%06u\<close>: at least six digits, padded with zeros.\<close>

definition pad6 :: "string \<Rightarrow> string" where
  "pad6 s = replicate (6 - length s) CHR ''0'' @ s"

definition MakeChallenge :: "env \<Rightarrow> string sec" where
  "MakeChallenge E = do { r \<leftarrow> Random E 1 999999; ret (pad6 (to_dec r)) }"

subsection \<open>Text messages\<close>

definition provider_Send :: "env \<Rightarrow> string \<Rightarrow> string \<Rightarrow> bool sec" where
  "provider_Send E Number Message = do {
     t \<leftarrow> step;
     modify (\<lambda>w. w\<lparr>w_smsSent := w_smsSent w @ [(Number, Message)]\<rparr>);
     ret (e_smsSend E t)
   }"

definition SMSSender_CleanCache :: "env \<Rightarrow> unit sec" where
  "SMSSender_CleanCache E = do {
     now \<leftarrow> Now E;
     modify (\<lambda>w. w\<lparr>w_sms := filter (\<lambda>i. \<not> (300 < now - sv_Created i)) (w_sms w)\<rparr>)
   }"

definition SMSSender_StartValidation :: "env \<Rightarrow> string \<Rightarrow> string \<Rightarrow> bool sec" where
  "SMSSender_StartValidation E Number UserName =
     (if \<not> e_smsEnabled E then ret False
      else do {
        SMSSender_CleanCache E;
        now \<leftarrow> Now E;
        Challenge \<leftarrow> MakeChallenge E;
        modify (\<lambda>w. w\<lparr>w_sms := w_sms w @
          [\<lparr>sv_Number = Number, sv_Code = Challenge, sv_UserName = UserName, sv_Created = now,
            sv_Validated = False\<rparr>]\<rparr>);
        provider_Send E Number (''Please enter the following code on your login screen: '' @ Challenge)
      })"

definition IsNumberValid :: "env \<Rightarrow> string \<Rightarrow> string \<Rightarrow> bool sec" where
  "IsNumberValid E Number UserName =
     (if \<not> e_smsEnabled E then ret False
      else do {
        cache \<leftarrow> gets w_sms;
        ret (case List.find (\<lambda>i. sv_Number i = Number \<and> sv_UserName i = UserName) cache of
               None \<Rightarrow> False | Some i \<Rightarrow> sv_Validated i)
      })"

text \<open>The loop marks the first entry with the code.\<close>

fun mark_validated :: "(SMSValidationCacheEntry \<Rightarrow> bool) \<Rightarrow> SMSValidationCacheEntry list \<Rightarrow> SMSValidationCacheEntry list \<times> bool" where
  "mark_validated P [] = ([], False)"
| "mark_validated P (i # is) =
     (if P i then (i\<lparr>sv_Validated := True\<rparr> # is, True)
      else (case mark_validated P is of (is', ok) \<Rightarrow> (i # is', ok)))"

definition SMSSender_CompleteValidation :: "env \<Rightarrow> string \<Rightarrow> string \<Rightarrow> string \<Rightarrow> bool sec" where
  "SMSSender_CompleteValidation E Number Code UserName =
     (if \<not> e_smsEnabled E then ret False
      else do {
        cache \<leftarrow> gets w_sms;
        let marked = mark_validated (\<lambda>i. sv_Code i = Code \<and> sv_Number i = Number \<and> sv_UserName i = UserName) cache;
        modify (\<lambda>w. w\<lparr>w_sms := fst marked\<rparr>);
        ret (snd marked)
      })"

definition SMSSender_Send :: "env \<Rightarrow> string \<Rightarrow> string \<Rightarrow> bool sec" where
  "SMSSender_Send E PhoneNumber Message =
     (if \<not> e_smsEnabled E then ret False else provider_Send E PhoneNumber Message)"

subsection \<open>Authenticator codes\<close>

text \<open>A \<^verbatim>\<open>ByteString\<close> made from \<^verbatim>\<open>c_str()\<close> ends at the first zero byte.\<close>

definition c_bytes :: "string \<Rightarrow> byte_string" where
  "c_bytes s = takeWhile (\<lambda>b. b \<noteq> 0) (map (\<lambda>c. of_nat (of_char c)) s)"

fun random_chars :: "env \<Rightarrow> nat \<Rightarrow> string sec" where
  "random_chars E 0 = ret []"
| "random_chars E (Suc Size) = do {
     r \<leftarrow> Random E 33 127;
     R \<leftarrow> random_chars E Size;
     ret (char_of r # R)
   }"

text \<open>The secret and its base-32 text.\<close>

definition GenerateSecret :: "env \<Rightarrow> nat \<Rightarrow> (string \<times> (bytes_error + string)) sec" where
  "GenerateSecret E Size = do {
     R \<leftarrow> random_chars E Size;
     ret (R, toBase32 (c_bytes R))
   }"

definition GenerateQRCode :: "env \<Rightarrow> string \<Rightarrow> string \<Rightarrow> string" where
  "GenerateQRCode E Secret email =
     e_qrSvg E (''otpauth://totp/'' @ e_issuer E @ '':'' @ email @ ''?secret='' @ Secret @ ''&issuer='' @ e_issuer E)"

text \<open>Whether the code is right, and the code expected.\<close>

definition ValidateCode :: "env \<Rightarrow> string \<Rightarrow> string \<Rightarrow> (bool \<times> string) option sec" where
  "ValidateCode E Secret Code = do {
     now \<leftarrow> Now E;
     ret (case totp (c_bytes Secret) now 0 30 6 hmacSha1_64 of
            None \<Rightarrow> None
          | Some p \<Rightarrow> (let Expecting = take 6 (pad6 (to_dec (unat p))) in Some (Code = Expecting, Expecting)))
   }"

subsection \<open>Enrolment of an authenticator\<close>

definition TotpCache_put :: "string \<Rightarrow> TotpEntry \<Rightarrow> unit sec" where
  "TotpCache_put i e = modify (\<lambda>w. w\<lparr>w_totp := (w_totp w)(i \<mapsto> e)\<rparr>)"

text \<open>A new session: its QR code, or \<open>None\<close> when the base-32 conversion throws.\<close>

definition TotpCache_new :: "env \<Rightarrow> UserInfo \<Rightarrow> bool \<Rightarrow> string option sec" where
  "TotpCache_new E User Subscriber = do {
     secret \<leftarrow> GenerateSecret E 20;
     case snd secret of
       Inl e \<Rightarrow> ret None
     | Inr Base32Secret \<Rightarrow> do {
         let QRCode = GenerateQRCode E Base32Secret (u_email User);
         start \<leftarrow> Now E;
         TotpCache_put (u_id User)
           \<lparr>te_Subscriber = Subscriber, te_Start = start, te_Done = 0, te_Verifications = 0,
            te_Secret = fst secret, te_QRCode = QRCode, te_LastCode = []\<rparr>;
         ret (Some QRCode)
       }
   }"

definition TotpCache_reset :: "env \<Rightarrow> UserInfo \<Rightarrow> bool \<Rightarrow> TotpEntry \<Rightarrow> string option sec" where
  "TotpCache_reset E User Subscriber h = do {
     start \<leftarrow> Now E;
     secret \<leftarrow> GenerateSecret E 20;
     let h = h\<lparr>te_Subscriber := Subscriber, te_Start := start, te_Done := 0, te_Verifications := 0\<rparr>;
     case snd secret of
       Inl e \<Rightarrow> do { TotpCache_put (u_id User) h; ret None }
     | Inr Base32Secret \<Rightarrow> do {
         let QRCode = GenerateQRCode E Base32Secret (u_email User);
         TotpCache_put (u_id User)
           (h\<lparr>te_Secret := fst secret, te_QRCode := QRCode, te_LastCode := []\<rparr>);
         ret (Some QRCode)
       }
   }"

definition TotpCache_StartValidation :: "env \<Rightarrow> UserInfo \<Rightarrow> bool \<Rightarrow> bool \<Rightarrow> string option sec" where
  "TotpCache_StartValidation E User Subscriber Reset = do {
     Hint \<leftarrow> gets (\<lambda>w. w_totp w (u_id User));
     case Hint of
       None \<Rightarrow> TotpCache_new E User Subscriber
     | Some h \<Rightarrow>
         if te_Subscriber h = Subscriber
         then (if Reset then TotpCache_reset E User Subscriber h else ret (Some (te_QRCode h)))
         else TotpCache_new E User Subscriber
   }"

datatype totp_error = TOTInvalidCode | TOTInvalidIndex | TOTRepeatedCode | TOTInvalidProtocol | TOTNoSession

text \<open>The answer of one step: success, the next index, whether more codes are needed, the error.\<close>

type_synonym totp_answer = "bool \<times> u64 \<times> bool \<times> totp_error option"

text \<open>A code that is only looked at under a condition: \<^verbatim>\<open>cond && ValidateCode(...)\<close>.\<close>

definition guarded_code :: "env \<Rightarrow> bool \<Rightarrow> string \<Rightarrow> string \<Rightarrow> bool option sec" where
  "guarded_code E cond Secret Code =
     (if cond then do { r \<leftarrow> ValidateCode E Secret Code; ret (map_option fst r) } else ret (Some False))"

definition refused_code :: "u64 \<Rightarrow> bool \<Rightarrow> string \<Rightarrow> TotpEntry \<Rightarrow> bool \<Rightarrow> totp_answer" where
  "refused_code NextIndex MoreCodes Code h right =
     (False, NextIndex, MoreCodes,
      Some (if \<not> right then TOTInvalidCode
            else if NextIndex \<noteq> 1 \<and> NextIndex \<noteq> 2 then TOTInvalidIndex
            else if Code = te_LastCode h then TOTRepeatedCode
            else TOTInvalidProtocol))"

definition TotpCache_ContinueValidation ::
  "env \<Rightarrow> UserInfo \<Rightarrow> bool \<Rightarrow> string \<Rightarrow> u64 \<Rightarrow> bool \<Rightarrow> totp_answer option sec" where
  "TotpCache_ContinueValidation E User Subscriber Code NextIndex MoreCodes = do {
     Hint \<leftarrow> gets (\<lambda>w. w_totp w (u_id User));
     now \<leftarrow> Now E;
     case Hint of
       None \<Rightarrow> ret (Some (False, NextIndex, MoreCodes, Some TOTNoSession))
     | Some h \<Rightarrow>
         if \<not> (Subscriber = te_Subscriber h \<and> now - te_Start h < 15 * 60)
         then ret (Some (False, NextIndex, MoreCodes, Some TOTNoSession))
         else do {
           first \<leftarrow> guarded_code E (NextIndex = 1 \<and> te_Verifications h = 0) (te_Secret h) Code;
           case first of
             None \<Rightarrow> ret None
           | Some True \<Rightarrow> do {
               TotpCache_put (u_id User) (h\<lparr>te_Verifications := te_Verifications h + 1, te_LastCode := Code\<rparr>);
               ret (Some (True, NextIndex + 1, True, None))
             }
           | Some False \<Rightarrow> do {
               second \<leftarrow> guarded_code E (NextIndex = 2 \<and> te_Verifications h = 1 \<and> Code \<noteq> te_LastCode h) (te_Secret h) Code;
               case second of
                 None \<Rightarrow> ret None
               | Some True \<Rightarrow> do {
                   TotpCache_put (u_id User) (h\<lparr>te_Done := now\<rparr>);
                   ret (Some (True, NextIndex, False, None))
                 }
               | Some False \<Rightarrow> do {
                   third \<leftarrow> guarded_code E True (te_Secret h) Code;
                   ret (map_option (refused_code NextIndex MoreCodes Code h) third)
                 }
             }
         }
   }"

definition TotpCache_CompleteValidation :: "env \<Rightarrow> UserInfo \<Rightarrow> bool \<Rightarrow> string option sec" where
  "TotpCache_CompleteValidation E User Subscriber = do {
     Hint \<leftarrow> gets (\<lambda>w. w_totp w (u_id User));
     now \<leftarrow> Now E;
     case Hint of
       None \<Rightarrow> ret None
     | Some h \<Rightarrow>
         if Subscriber = te_Subscriber h \<and> now - te_Start h < 15 * 60 \<and> te_Done h \<noteq> 0 then do {
           modify (\<lambda>w. w\<lparr>w_totp := (w_totp w)(u_id User := None)\<rparr>);
           ret (Some (te_Secret h))
         }
         else ret None
   }"

subsection \<open>Challenges\<close>

definition MFAServer_CleanCache :: "env \<Rightarrow> unit sec" where
  "MFAServer_CleanCache E = do {
     now \<leftarrow> Now E;
     modify (\<lambda>w. w\<lparr>w_mfa := (\<lambda>i. case w_mfa w i of
        None \<Rightarrow> None | Some e \<Rightarrow> if 300 < now - mc_Created e then None else Some e)\<rparr>)
   }"

definition SendChallenge :: "env \<Rightarrow> UserInfoAndPolicy \<Rightarrow> string \<Rightarrow> string \<Rightarrow> bool sec" where
  "SendChallenge E UInfo Method Challenge =
     (let ext = u_userTypeProprietaryInfo (uip_userinfo UInfo)
      in if Method = SMS_method \<and> e_smsEnabled E \<and> ux_mobiles ext \<noteq> [] then
           SMSSender_Send E (mp_number (ux_mobiles ext ! 0))
             (''This is your login code: '' @ Challenge @ '' Please enter this in your login screen.'')
         else if Method = EMAIL_method \<and> e_smtpEnabled E \<and> u_email (uip_userinfo UInfo) \<noteq> [] then
           SendEmailChallengeCode E UInfo Challenge
         else ret (Method = AUTHENTICATOR_method \<and> ux_authenticatorSecret ext \<noteq> []))"

text \<open>The result and the answer's object.\<close>

definition StartMFAChallenge :: "env \<Rightarrow> UserInfoAndPolicy \<Rightarrow> jobj \<Rightarrow> (bool \<times> jobj) sec" where
  "StartMFAChallenge E UInfo ChallengeStart = do {
     let method = mfa_method (ux_mfa (u_userTypeProprietaryInfo (uip_userinfo UInfo)));
     MFAServer_CleanCache E;
     if \<not> MethodEnabled E method then ret (False, ChallengeStart)
     else do {
       Challenge \<leftarrow> MakeChallenge E;
       uuid \<leftarrow> CreateUUID E;
       Created \<leftarrow> Now E;
       modify (\<lambda>w. w\<lparr>w_mfa := (w_mfa w)(uuid \<mapsto>
         \<lparr>mc_UInfo = UInfo, mc_Answer = Challenge, mc_Created = Created, mc_Method = method\<rparr>)\<rparr>);
       ok \<leftarrow> SendChallenge E UInfo method Challenge;
       ret (ok, obj_set ''method'' (JStr method) (obj_set ''question'' (JStr ''mfa challenge'')
         (obj_set ''created'' (jU64 Created) (obj_set ''uuid'' (JStr uuid) ChallengeStart))))
     }
   }"

definition ResendCode :: "env \<Rightarrow> string \<Rightarrow> bool sec" where
  "ResendCode E uuid = do {
     Hint \<leftarrow> gets (\<lambda>w. w_mfa w uuid);
     case Hint of
       None \<Rightarrow> ret False
     | Some h \<Rightarrow> SendChallenge E (mc_UInfo h) (mc_Method h) (mc_Answer h)
   }"

text \<open>The comparison of the answer, by the method of the challenge.\<close>

definition answer_right :: "env \<Rightarrow> MFACacheEntry \<Rightarrow> string \<Rightarrow> bool option sec" where
  "answer_right E h answer =
     (if mc_Method h = AUTHENTICATOR_method then
        guarded_code E True (ux_authenticatorSecret (u_userTypeProprietaryInfo (uip_userinfo (mc_UInfo h)))) answer
      else ret (Some (mc_Answer h = answer)))"

definition CompleteMFAChallenge :: "env \<Rightarrow> jobj \<Rightarrow> UserInfoAndPolicy \<Rightarrow> (bool \<times> UserInfoAndPolicy) option sec" where
  "CompleteMFAChallenge E ChallengeResponse UInfo =
     (case (map_of ChallengeResponse ''uuid'', map_of ChallengeResponse ''answer'') of
        (Some juuid, Some janswer) \<Rightarrow>
          (case var_toString (e_poco E) juuid of
             None \<Rightarrow> ret None
           | Some uuid \<Rightarrow> do {
               Hint \<leftarrow> gets (\<lambda>w. w_mfa w uuid);
               case Hint of
                 None \<Rightarrow> ret (Some (False, UInfo))
               | Some h \<Rightarrow>
                   (case var_toString (e_poco E) janswer of
                      None \<Rightarrow> ret None
                    | Some answer \<Rightarrow> do {
                        right \<leftarrow> answer_right E h answer;
                        case right of
                          None \<Rightarrow> ret None
                        | Some False \<Rightarrow> ret (Some (False, UInfo))
                        | Some True \<Rightarrow> do {
                            modify (\<lambda>w. w\<lparr>w_mfa := (w_mfa w)(uuid := None)\<rparr>);
                            ret (Some (True, mc_UInfo h))
                          }
                      })
             })
      | _ \<Rightarrow> ret (Some (False, UInfo)))"

end
