(* ===== verification/Second_Factor.thy ===== *)
theory Second_Factor
  imports Multi_Factor
begin

text \<open>
  What the second factor promises: codes have six digits, a challenge is answered once and only with
  its code, and an authenticator is enrolled only after two different codes were right.
\<close>

subsection \<open>Six digits\<close>

lemma length_to_dec: "n < 10 ^ d \<Longrightarrow> 0 < d \<Longrightarrow> length (to_dec n) \<le> d"
proof (induction n arbitrary: d rule: to_dec.induct)
  case (1 n)
  show ?case
  proof (cases "n < 10")
    case True
    then show ?thesis using 1(3) by (subst to_dec.simps) simp
  next
    case False
    then obtain e where e: "d = Suc e" "0 < e" using 1(2,3) by (cases d; cases "d - 1") auto
    then have "length (to_dec (n div 10)) \<le> e" using 1(1) [OF False, of e] 1(2) by auto
    then show ?thesis using False e by (subst to_dec.simps) simp
  qed
qed

lemma length_pad6: "length s \<le> 6 \<Longrightarrow> length (pad6 s) = 6"
  by (simp add: pad6_def)

text \<open>The code of RFC 6238 for a secret at a time, six digits.\<close>

definition rfc_code :: "string \<Rightarrow> u64 \<Rightarrow> string" where
  "rfc_code Secret now =
     pad6 (to_dec (truncateRef (hmacRef sha1Ref 64 (c_bytes Secret) (u64beToByteString (now div 30))) 6))"

lemma totp_code:
  "\<exists>p. totp (c_bytes Secret) now 0 30 6 hmacSha1_64 = Some p
     \<and> take 6 (pad6 (to_dec (unat p))) = rfc_code Secret now"
proof -
  let ?h = "hmacRef sha1Ref 64 (c_bytes Secret) (u64beToByteString (now div 30))"
  have len: "length ?h = 20" unfolding sha1_eq_sha1Ref [symmetric] by (rule sha1_hash.length_hmacRef)
  have h: "hmacSha1_64 (c_bytes Secret) (u64beToByteString (now div 30)) = ?h"
    by (simp add: hmacSha1_64_def hmacSha1_eq_hmacRef sha1_eq_sha1Ref)
  have "6 \<le> (9::nat)" by simp
  from hotp_truncates [where hmacf = hmacSha1_64 and key = "c_bytes Secret" and counter = "now div 30", OF len h this] obtain r where r: "hotp (c_bytes Secret) (now div 30) 6 hmacSha1_64 = Some r"
      "unat r = truncateRef ?h 6"
    by blast
  have "unat r < 10 ^ 6" using r(2) by (simp add: truncateRef_def)
  then have "length (pad6 (to_dec (unat r))) = 6" by (intro length_pad6 length_to_dec) simp_all
  then show ?thesis using r by (simp add: totp_def rfc_code_def)
qed

lemma wp_guarded_code [simp]:
  "wp (guarded_code E b Secret Code) Q w =
     (if b then Q (Some (Code = rfc_code Secret (e_clock E (w_tick w)))) (w\<lparr>w_tick := Suc (w_tick w)\<rparr>)
      else Q (Some False) w)"
proof -
  obtain p where "totp (c_bytes Secret) (e_clock E (w_tick w)) 0 30 6 hmacSha1_64 = Some p"
      "take 6 (pad6 (to_dec (unat p))) = rfc_code Secret (e_clock E (w_tick w))"
    using totp_code by blast
  then show ?thesis by (simp add: guarded_code_def ValidateCode_def Now_def Let_def)
qed

text \<open>What the random source documents: numbers within the bounds.\<close>

definition random_ok :: "env \<Rightarrow> bool" where
  "random_ok E \<longleftrightarrow> (\<forall>t lo hi. lo \<le> hi \<longrightarrow> lo \<le> e_random E t lo hi \<and> e_random E t lo hi \<le> hi)"

text \<open>
  Every challenge code sent by text message or mail consists of exactly six decimal digits.
\<close>

theorem challenge_six_digits:
  assumes "random_ok E"
  shows "wp (MakeChallenge E) (\<lambda>c w'. length c = 6 \<and> set c \<subseteq> digit ` {0..<10}) w"
proof -
  let ?r = "e_random E (w_tick w) 1 999999"
  have "?r < 10 ^ 6" using assms by (simp add: random_ok_def le_less_trans [of _ 999999])
  then have "length (pad6 (to_dec ?r)) = 6" by (intro length_pad6 length_to_dec) simp_all
  moreover have "CHR ''0'' = digit 0" unfolding digit_def by code_simp
  then have "set (pad6 (to_dec ?r)) \<subseteq> digit ` {0..<10}"
    using to_dec_digits [of _ ?r] by (fastforce simp: pad6_def)
  ultimately show ?thesis by (simp add: MakeChallenge_def Random_def)
qed

theorem challenge_six_digits_witness:
  "wp (MakeChallenge env_inst) (\<lambda>c w'. length c = 6 \<and> set c \<subseteq> digit ` {0..<10}) world_empty"
  by (rule challenge_six_digits) (simp add: random_ok_def env_inst_def)

subsection \<open>Challenges\<close>

definition right_answer :: "env \<Rightarrow> MFACacheEntry \<Rightarrow> nat \<Rightarrow> string \<Rightarrow> bool" where
  "right_answer E h n answer \<longleftrightarrow> answer =
     (if mc_Method h = AUTHENTICATOR_method
      then rfc_code (ux_authenticatorSecret (u_userTypeProprietaryInfo (uip_userinfo (mc_UInfo h)))) (e_clock E n)
      else mc_Answer h)"

lemma wp_answer_right:
  "wp (answer_right E h answer) Q w =
     (if mc_Method h = AUTHENTICATOR_method
      then Q (Some (right_answer E h (w_tick w) answer)) (w\<lparr>w_tick := Suc (w_tick w)\<rparr>)
      else Q (Some (right_answer E h (w_tick w) answer)) w)"
  by (simp add: answer_right_def right_answer_def eq_commute [of answer])

text \<open>
  C11. A challenge is passed only with its own answer: the code that was sent, or for an authenticator
  the current code of the user's secret. The answer then gives the user of the challenge and uses
  the challenge up; every other answer changes nothing.
\<close>

theorem mfa_challenge_sound:
  "wp (CompleteMFAChallenge E obj ui) (\<lambda>res w'.
     if \<exists>ui'. res = Some (True, ui')
     then \<exists>juuid janswer uuid answer h. map_of obj ''uuid'' = Some juuid \<and> var_toString (e_poco E) juuid = Some uuid
       \<and> map_of obj ''answer'' = Some janswer \<and> var_toString (e_poco E) janswer = Some answer
       \<and> w_mfa w uuid = Some h \<and> right_answer E h (w_tick w) answer \<and> res = Some (True, mc_UInfo h)
       \<and> w_mfa w' = (w_mfa w)(uuid := None)
     else persist w' = persist w) w"
  unfolding CompleteMFAChallenge_def
  by (auto simp: wp_answer_right split: option.splits bool.splits)

lemma mfa_kept [pres]:
  "preserves (\<lambda>w. w_mfa w = m) step" "preserves (\<lambda>w. w_mfa w = m) (Now E)"
  "preserves (\<lambda>w. w_mfa w = m) (SendMessage E a b c d)" "preserves (\<lambda>w. w_mfa w = m) (provider_Send E a b)"
  by (simp_all add: preserves_def Now_def SendMessage_def provider_Send_def)

lemma SendChallenge_mfa: "preserves (\<lambda>w. w_mfa w = m) (SendChallenge E ui meth c)"
  unfolding SendChallenge_def SendEmailChallengeCode_def SMSSender_Send_def by (intro pres)

text \<open>
  C35. A challenge that was started is found under the identifier the client is told and belongs to
  the user it was started for; answering it with that identifier and the right answer passes it.
\<close>

theorem mfa_roundtrip:
  assumes "poco_ok (e_poco E)"
  shows "wp (StartMFAChallenge E ui obj) (\<lambda>(ok, answer_obj) w'. ok \<longrightarrow>
      (\<exists>uuid h. map_of answer_obj ''uuid'' = Some (JStr uuid) \<and> w_mfa w' uuid = Some h \<and> mc_UInfo h = ui
        \<and> (\<forall>answer. right_answer E h (w_tick w') answer \<longrightarrow>
             wp (CompleteMFAChallenge E [(''uuid'', JStr uuid), (''answer'', JStr answer)] ui0)
               (\<lambda>res _. res = Some (True, ui)) w'))) w"
proof -
  have complete: "wp (CompleteMFAChallenge E [(''uuid'', JStr uuid), (''answer'', JStr answer)] ui0)
      (\<lambda>res _. res = Some (True, mc_UInfo h)) w1"
    if "w_mfa w1 uuid = Some h" "right_answer E h (w_tick w1) answer" for w1 uuid h answer
    using that assms by (simp add: CompleteMFAChallenge_def poco_okD wp_answer_right)
  show ?thesis
    unfolding StartMFAChallenge_def MFAServer_CleanCache_def Now_def MakeChallenge_def Random_def CreateUUID_def
    by (auto simp: Let_def map_of_obj_set intro!: wp_mono [OF preservesD [OF SendChallenge_mfa refl]]
        wp_mono [OF complete])
qed

subsection \<open>Enrolment of an authenticator\<close>

text \<open>
  Runs of the enrolment, with the codes accepted for each user since the session's secret was
  made. A start makes a new secret unless it finds a session and does not reset it.
\<close>

definition keeps_secret :: "world \<Rightarrow> UserInfo \<Rightarrow> bool \<Rightarrow> bool \<Rightarrow> bool" where
  "keeps_secret w u sub reset \<longleftrightarrow> (\<exists>h. w_totp w (u_id u) = Some h \<and> te_Subscriber h = sub \<and> \<not> reset)"

definition no_codes :: "string \<Rightarrow> string list" where
  "no_codes = (\<lambda>_. [])"

inductive totp_run :: "env \<Rightarrow> (string \<Rightarrow> string list) \<Rightarrow> world \<Rightarrow> bool" for E where
  init: "totp_run E no_codes world_empty"
| begin_: "totp_run E H w \<Longrightarrow> run_state (TotpCache_StartValidation E u sub reset) w = (Some qr, w') \<Longrightarrow>
    totp_run E (if keeps_secret w u sub reset then H else H(u_id u := [])) w'"
| code: "totp_run E H w \<Longrightarrow>
    run_state (TotpCache_ContinueValidation E u sub c idx mo) w = (Some (ok, idx', mo', err), w') \<Longrightarrow>
    totp_run E (if ok then H(u_id u := H (u_id u) @ [c]) else H) w'"
| finish: "totp_run E H w \<Longrightarrow> run_state (TotpCache_CompleteValidation E u sub) w = (r, w') \<Longrightarrow> totp_run E H w'"

definition entry_ok :: "string list \<Rightarrow> TotpEntry \<Rightarrow> bool" where
  "entry_ok cs e \<longleftrightarrow> (te_Verifications e = 0 \<longrightarrow> te_Done e = 0)
     \<and> (te_Verifications e \<noteq> 0 \<longrightarrow> te_Verifications e = 1 \<and> te_LastCode e \<in> set cs)
     \<and> (te_Done e \<noteq> 0 \<longrightarrow> (\<exists>c \<in> set cs. c \<noteq> te_LastCode e))"

definition totp_inv :: "(string \<Rightarrow> string list) \<Rightarrow> world \<Rightarrow> bool" where
  "totp_inv H w \<longleftrightarrow> (\<forall>i e. w_totp w i = Some e \<longrightarrow> entry_ok (H i) e)"

lemma wp_random_chars: "wp (random_chars E n) (\<lambda>_ w'. \<exists>k. w' = w\<lparr>w_tick := k\<rparr>) w"
proof (induction n arbitrary: w)
  case 0
  show ?case using tick_self [of w] by simp
next
  case (Suc n)
  show ?case by (auto simp: Random_def intro!: wp_mono [OF Suc])
qed

lemma start_inv:
  assumes "totp_inv H w"
  shows "wp (TotpCache_StartValidation E u sub reset) (\<lambda>res w'. res \<noteq> None \<longrightarrow>
      totp_inv (if keeps_secret w u sub reset then H else H(u_id u := [])) w') w"
proof -
  have gen: "wp (GenerateSecret E 20) (\<lambda>_ w'. \<exists>k. w' = w\<lparr>w_tick := k\<rparr>) (w\<lparr>w_tick := m\<rparr>)" for m
    unfolding GenerateSecret_def
    by (auto intro!: wp_mono [OF wp_random_chars])
  have gen0: "wp (GenerateSecret E 20) (\<lambda>_ w'. \<exists>k. w' = w\<lparr>w_tick := k\<rparr>) w"
    using gen [of "w_tick w"] by simp
  show ?thesis
    unfolding TotpCache_StartValidation_def TotpCache_new_def TotpCache_reset_def TotpCache_put_def Now_def
    using assms
    by (auto simp: keeps_secret_def Let_def totp_inv_def entry_ok_def split: option.splits sum.splits
        intro!: wp_mono [OF gen] wp_mono [OF gen0])
qed

lemma code_inv:
  assumes "totp_inv H w"
  shows "wp (TotpCache_ContinueValidation E u sub c idx mo) (\<lambda>res w'. \<forall>ok x. res = Some (ok, x) \<longrightarrow>
      totp_inv (if ok then H(u_id u := H (u_id u) @ [c]) else H) w') w"
  unfolding TotpCache_ContinueValidation_def TotpCache_put_def Now_def refused_code_def
  using assms
  by (auto simp: totp_inv_def entry_ok_def split: option.splits bool.splits)

lemma finish_inv:
  assumes "totp_inv H w"
  shows "wp (TotpCache_CompleteValidation E u sub) (\<lambda>_. totp_inv H) w"
  unfolding TotpCache_CompleteValidation_def Now_def
  using assms by (auto simp: totp_inv_def split: option.splits)

lemma totp_run_inv: "totp_run E H w \<Longrightarrow> totp_inv H w"
proof (induction rule: totp_run.induct)
  case init
  show ?case by (simp add: totp_inv_def world_empty_def)
next
  case (begin_ H w u sub reset qr w')
  show ?case using wp_runD [OF start_inv [OF begin_.IH] begin_.hyps(2)] by simp
next
  case (code H w u sub c idx mo ok idx' mo' err w')
  show ?case using wp_runD [OF code_inv [OF code.IH] code.hyps(2)] by simp
next
  case (finish H w u sub r w')
  show ?case using wp_runD [OF finish_inv [OF finish.IH] finish.hyps(2)] .
qed

text \<open>
  C12. An authenticator is enrolled only after two different codes were accepted for its secret: in
  every run of the enrolment, when completing it hands out the secret, the codes accepted since the
  secret was made include two that differ.
\<close>

theorem totp_enrol_two_codes:
  assumes "totp_run E H w"
  shows "wp (TotpCache_CompleteValidation E u sub) (\<lambda>res w'. res \<noteq> None \<longrightarrow>
      (\<exists>a \<in> set (H (u_id u)). \<exists>b \<in> set (H (u_id u)). a \<noteq> b)) w"
proof -
  have two: "\<exists>a \<in> set (H (u_id u)). \<exists>b \<in> set (H (u_id u)). a \<noteq> b"
    if "w_totp w (u_id u) = Some e" "te_Done e \<noteq> 0" for e
  proof -
    have "entry_ok (H (u_id u)) e" using totp_run_inv [OF assms] that(1) by (simp add: totp_inv_def)
    then have "te_LastCode e \<in> set (H (u_id u))" "\<exists>c \<in> set (H (u_id u)). c \<noteq> te_LastCode e"
      using that(2) by (auto simp: entry_ok_def)
    then show ?thesis by blast
  qed
  show ?thesis
    unfolding TotpCache_CompleteValidation_def Now_def
    by (auto split: option.splits dest!: two)
qed

text \<open>An enrolment that was begun.\<close>

definition enrol_world :: world where
  "enrol_world = snd (run_state (TotpCache_StartValidation env_inst sample_user False False) world_empty)"

lemma new_session_qr: "wp (TotpCache_StartValidation E u sub False) (\<lambda>res _. res \<noteq> None) world_empty"
proof -
  have qr: "wp (case toBase32 x of Inl e \<Rightarrow> ret None | Inr b \<Rightarrow> f b) Q w"
    if "\<And>b. wp (f b) Q w" for x Q w and f :: "string \<Rightarrow> string option sec"
    using that toBase32_shape [of x] by auto
  show ?thesis
    unfolding TotpCache_StartValidation_def TotpCache_new_def GenerateSecret_def TotpCache_put_def
    by (simp add: world_empty_def) (auto intro!: wp_mono [OF wp_random_chars] qr simp: Let_def Now_def)
qed

theorem totp_enrol_two_codes_witness:
  "wp (TotpCache_CompleteValidation env_inst sample_user False) (\<lambda>res w'. res \<noteq> None \<longrightarrow>
      (\<exists>a \<in> set ((no_codes(u_id sample_user := [])) (u_id sample_user)).
       \<exists>b \<in> set ((no_codes(u_id sample_user := [])) (u_id sample_user)). a \<noteq> b)) enrol_world"
proof (rule totp_enrol_two_codes [where H = "no_codes(u_id sample_user := [])"])
  let ?start = "TotpCache_StartValidation env_inst sample_user False False"
  obtain qr where "run_state ?start world_empty = (Some qr, enrol_world)"
    using new_session_qr [of env_inst sample_user False] unfolding wp_def enrol_world_def
    by (cases "run_state ?start world_empty") auto
  from totp_run.begin_ [OF totp_run.init this]
  show "totp_run env_inst (no_codes(u_id sample_user := [])) enrol_world"
    by (simp add: keeps_secret_def world_empty_def)
qed

text \<open>
  Each accepted code of an enrolment is the RFC 6238 code of the session's secret at the time it
  was checked, and a code is refused when the session is older than fifteen minutes.
\<close>

theorem totp_code_checked:
  "wp (TotpCache_ContinueValidation E u sub c idx mo) (\<lambda>res w'. \<exists>ok idx' mo' err. res = Some (ok, idx', mo', err)
     \<and> (if ok then \<exists>h. w_totp w (u_id u) = Some h \<and> te_Subscriber h = sub
            \<and> e_clock E (w_tick w) - te_Start h < 15 * 60
            \<and> c = rfc_code (te_Secret h) (e_clock E (Suc (w_tick w)))
            \<and> (idx = 1 \<and> te_Verifications h = 0 \<or> idx = 2 \<and> te_Verifications h = 1 \<and> c \<noteq> te_LastCode h)
        else w_totp w' = w_totp w \<and> err \<noteq> None)) w"
  unfolding TotpCache_ContinueValidation_def TotpCache_put_def Now_def refused_code_def
  by (auto split: option.splits bool.splits)

definition mfa_member :: UserInfoAndPolicy where
  "mfa_member = UserInfoAndPolicy_init\<lparr>uip_userinfo := UserInfo_init\<lparr>u_email := ''a@b.c'',
     u_userTypeProprietaryInfo := UserLoginLoginExtensions_init\<lparr>ux_mfa := MfaAuthInfo_init\<lparr>mfa_method := ''email''\<rparr>\<rparr>\<rparr>\<rparr>"

theorem mfa_roundtrip_witness:
  "wp (StartMFAChallenge env_inst mfa_member []) (\<lambda>(ok, answer_obj) w'. ok \<longrightarrow>
      (\<exists>uuid h. map_of answer_obj ''uuid'' = Some (JStr uuid) \<and> w_mfa w' uuid = Some h \<and> mc_UInfo h = mfa_member
        \<and> (\<forall>answer. right_answer env_inst h (w_tick w') answer \<longrightarrow>
             wp (CompleteMFAChallenge env_inst [(''uuid'', JStr uuid), (''answer'', JStr answer)] UserInfoAndPolicy_init)
               (\<lambda>res _. res = Some (True, mfa_member)) w'))) world_empty"
  by (rule mfa_roundtrip) simp

end
