(* ===== verification/Link_Manager.thy ===== *)
theory Link_Manager
  imports Second_Factor
begin

text \<open>
  The background thread that mails action links, \<^verbatim>\<open>src/ActionLinkManager.cpp\<close>: one pass fetches the
  links not sent yet and mails or cancels each. An exception that ends the thread is \<open>False\<close>.
\<close>

definition link_action :: "ActionLink \<Rightarrow> LinkActions \<Rightarrow> bool" where
  "link_action i a \<longleftrightarrow> al_action i = LinkActionsValue a"

text \<open>The user of a link; for the other kinds of links the thread looks up nobody.\<close>

definition link_user :: "env \<Rightarrow> ActionLink \<Rightarrow> UserInfo option sec" where
  "link_user E i =
     (if link_action i LA_FORGOT_PASSWORD \<or> link_action i LA_VERIFY_EMAIL then GetUserById E Users (al_userId i)
      else if link_action i LA_SUB_FORGOT_PASSWORD \<or> link_action i LA_SUB_VERIFY_EMAIL \<or> link_action i LA_SUB_SIGNUP
      then GetUserById E Subs (al_userId i)
      else ret (Some UserInfo_init))"

text \<open>The operator of a subscriber who signs up: the first of several parts, which must exist.\<close>

definition signup_operator :: "env \<Rightarrow> UserInfo \<Rightarrow> string option" where
  "signup_operator E UInfo =
     (let Signup = str_tokens (e_poco E) CHR '':'' (u_signingUp UInfo)
      in if length Signup = 1 then Some [] else if Signup = [] then None else Some (Signup ! 0))"

definition mail_link :: "env \<Rightarrow> ActionLink \<Rightarrow> UserInfo \<Rightarrow> bool sec" where
  "mail_link E i UInfo = do {
     sent \<leftarrow>
       (if link_action i LA_FORGOT_PASSWORD then do {
          SendEmailToUser E (al_id i) (u_email UInfo) FORGOT_PASSWORD; ret True }
        else if link_action i LA_VERIFY_EMAIL then do {
          SendEmailToUser E (al_id i) (u_email UInfo) EMAIL_VERIFICATION; ret True }
        else if link_action i LA_EMAIL_INVITATION then do {
          SendEmailToUser E (al_id i) (u_email UInfo) EMAIL_INVITATION; ret True }
        else if link_action i LA_SUB_FORGOT_PASSWORD then do {
          SendEmailToSubUser E (al_id i) (u_email UInfo) SUB_FORGOT_PASSWORD []; ret True }
        else if link_action i LA_SUB_VERIFY_EMAIL then do {
          SendEmailToSubUser E (al_id i) (u_email UInfo) SUB_EMAIL_VERIFICATION []; ret True }
        else if link_action i LA_SUB_SIGNUP then
          (case signup_operator E UInfo of
             None \<Rightarrow> ret False
           | Some operator_ \<Rightarrow> do {
               SendEmailToSubUser E (al_id i) (u_email UInfo) SUB_SIGNUP_VERIFICATION operator_; ret True })
        else ret True);
     if sent then do { SentAction E (al_id i); ret True } else ret False
   }"

definition process_link :: "env \<Rightarrow> ActionLink \<Rightarrow> bool sec" where
  "process_link E i = do {
     user \<leftarrow> link_user E i;
     late \<leftarrow> (if link_action i LA_EMAIL_INVITATION
       then do { now \<leftarrow> Now E; ret (24 * 60 * 60 < now - al_created i) } else ret False);
     case user of
       None \<Rightarrow> do { CancelAction E (al_id i); ret True }
     | Some UInfo \<Rightarrow>
         if late then do { CancelAction E (al_id i); ret True } else mail_link E i UInfo
   }"

fun process_links :: "env \<Rightarrow> ActionLink list \<Rightarrow> bool sec" where
  "process_links E [] = ret True"
| "process_links E (i # Links) = do {
     ok \<leftarrow> process_link E i;
     if ok then process_links E Links else ret False
   }"

definition link_pass :: "env \<Rightarrow> bool sec" where
  "link_pass E = do {
     Links \<leftarrow> GetActions E 200;
     process_links E (fst Links)
   }"

subsection \<open>A link is settled\<close>

lemma ro_links: "reads_only m \<Longrightarrow> preserves (\<lambda>w. w_links w = L) m"
  unfolding preserves_def by (auto intro!: wp_mono [OF reads_onlyD] dest: persist_eqD(4))

lemma links_kept [pres]:
  "preserves (\<lambda>w. w_links w = L) (Now E)" "preserves (\<lambda>w. w_links w = L) (SendMessage E a b c d)"
  "preserves (\<lambda>w. w_links w = L) (GetUserById E Rm i)" "preserves (\<lambda>w. w_links w = L) (GetUserByEmail E Rm e)"
  by (auto intro: ro_links ro) (simp add: preserves_def SendMessage_def Now_def)

lemma mail_links [pres]:
  "preserves (\<lambda>w. w_links w = L) (SendEmailToUser E a b c)" "preserves (\<lambda>w. w_links w = L) (SendEmailToSubUser E a b c d)"
  "preserves (\<lambda>w. w_links w = L) (link_user E i)"
  unfolding SendEmailToUser_def SendEmailToSubUser_def link_user_def Let_def by (intro pres)+

definition link_stored :: "env \<Rightarrow> ActionLinkRecordTuple list \<Rightarrow> ActionLink \<Rightarrow> bool" where
  "link_stored E rows i \<longleftrightarrow> distinct (map alr_id rows)
     \<and> (\<exists>T. List.find (\<lambda>T. alr_id T = al_id i) rows = Some T \<and> ActionLink_from_tuple (e_poco E) T = Some i)"

definition put_link :: "env \<Rightarrow> ActionLink \<Rightarrow> ActionLinkRecordTuple list \<Rightarrow> ActionLinkRecordTuple list" where
  "put_link E A = map (\<lambda>T. if alr_id T = al_id A then ActionLink_to_tuple (e_poco E) A else T)"

definition settled :: "env \<Rightarrow> ActionLink \<Rightarrow> ActionLinkRecordTuple list \<Rightarrow> ActionLinkRecordTuple list \<Rightarrow> bool" where
  "settled E i rows rows' \<longleftrightarrow> (\<exists>n. rows' = put_link E (i\<lparr>al_sent := e_clock E n\<rparr>) rows
     \<or> rows' = put_link E (i\<lparr>al_canceled := e_clock E n\<rparr>) rows)"

lemma distinct_put: "distinct (map f xs) \<Longrightarrow> f n = k \<Longrightarrow> distinct (map f (map (\<lambda>x. if f x = k then n else x) xs))"
proof -
  assume "distinct (map f xs)" "f n = k"
  moreover from this have "map f (map (\<lambda>x. if f x = k then n else x) xs) = map f xs" by (induction xs) auto
  ultimately show ?thesis by metis
qed

lemma alr_id_tuple [simp]: "alr_id (ActionLink_to_tuple P A) = al_id A"
  by (simp add: ActionLink_to_tuple_def)

lemma stamp_link:
  assumes "link_stored E (w_links w) i" "db_healthy E"
  shows "wp (SentAction E (al_id i)) (\<lambda>_ w'. settled E i (w_links w) (w_links w')) w"
    and "wp (CancelAction E (al_id i)) (\<lambda>_ w'. settled E i (w_links w) (w_links w')) w"
proof -
  obtain T where T: "List.find (\<lambda>T. alr_id T = al_id i) (w_links w) = Some T" "ActionLink_from_tuple (e_poco E) T = Some i"
    and d: "distinct (map alr_id (w_links w))"
    using assms(1) by (auto simp: link_stored_def)
  have upd: "updated_rows (ActionLinkDB E) ''id'' (al_id A) A = put_link E A" for A
    by (rule ext) (simp add: updated_rows_def put_link_def)
  have dist: "distinct (map alr_id (put_link E A (w_links w)))" for A
    unfolding put_link_def by (rule distinct_put [OF d]) simp
  have s: "settled E i rows (put_link E (i\<lparr>al_sent := e_clock E n\<rparr>) rows)"
    "settled E i rows (put_link E (i\<lparr>al_canceled := e_clock E n\<rparr>) rows)" for rows n
    by (auto simp: settled_def)
  show "wp (SentAction E (al_id i)) (\<lambda>_ w'. settled E i (w_links w) (w_links w')) w"
    using T assms(2) upd [of "i\<lparr>al_sent := x\<rparr>" for x] dist
    by (simp add: SentAction_def link_table.wp_GetRecord_plain link_table.wp_UpdateRecord_plain Now_def db_healthy_def s Let_def)
  show "wp (CancelAction E (al_id i)) (\<lambda>_ w'. settled E i (w_links w) (w_links w')) w"
    using T assms(2) upd [of "i\<lparr>al_canceled := x\<rparr>" for x] dist
    by (simp add: CancelAction_def link_table.wp_GetRecord_plain link_table.wp_UpdateRecord_plain Now_def db_healthy_def s Let_def)
qed


definition sample_link :: ActionLink where
  "sample_link = ActionLink_init\<lparr>al_id := ''l1'', al_action := LinkActionsValue LA_FORGOT_PASSWORD, al_userId := ''u1''\<rparr>"

definition link_world :: world where
  "link_world = world_empty\<lparr>w_links := [ActionLink_to_tuple (e_poco env_inst) sample_link]\<rparr>"


end
