(* ===== verification/Utils_Regex.thy ===== *)
theory Utils_Regex
  imports Owsec_Prelude
begin

text \<open>
  The text patterns of \<^verbatim>\<open>src/framework/utils.cpp\<close>: regular expressions (\<^verbatim>\<open>std::regex_match\<close> asks whether
  the whole text is in the language; derivatives decide it) and e-mail addresses.
\<close>

subsection \<open>Regular expressions\<close>

datatype rex = RNone | REmpty | RClass "char \<Rightarrow> bool" | RSeq rex rex | RAlt rex rex | RStar rex

primrec nullable :: "rex \<Rightarrow> bool" where
  "nullable RNone = False"
| "nullable REmpty = True"
| "nullable (RClass P) = False"
| "nullable (RSeq r s) = (nullable r \<and> nullable s)"
| "nullable (RAlt r s) = (nullable r \<or> nullable s)"
| "nullable (RStar r) = True"

primrec deriv :: "char \<Rightarrow> rex \<Rightarrow> rex" where
  "deriv c RNone = RNone"
| "deriv c REmpty = RNone"
| "deriv c (RClass P) = (if P c then REmpty else RNone)"
| "deriv c (RSeq r s) = (if nullable r then RAlt (RSeq (deriv c r) s) (deriv c s) else RSeq (deriv c r) s)"
| "deriv c (RAlt r s) = RAlt (deriv c r) (deriv c s)"
| "deriv c (RStar r) = RSeq (deriv c r) (RStar r)"

definition regex_match :: "string \<Rightarrow> rex \<Rightarrow> bool" where
  "regex_match s r = nullable (foldl (\<lambda>r c. deriv c r) r s)"

definition RPlus :: "rex \<Rightarrow> rex" where
  "RPlus r = RSeq r (RStar r)"

definition ROpt :: "rex \<Rightarrow> rex" where
  "ROpt r = RAlt REmpty r"

definition RChar :: "char \<Rightarrow> rex" where
  "RChar c = RClass (\<lambda>d. d = c)"

text \<open>At least \<open>m\<close> and at most \<open>m + n\<close> times.\<close>

primrec RUpto :: "nat \<Rightarrow> rex \<Rightarrow> rex" where
  "RUpto 0 r = REmpty"
| "RUpto (Suc n) r = ROpt (RSeq r (RUpto n r))"

primrec RRep :: "nat \<Rightarrow> nat \<Rightarrow> rex \<Rightarrow> rex" where
  "RRep 0 n r = RUpto n r"
| "RRep (Suc m) n r = RSeq r (RRep m n r)"

text \<open>The language of an expression, as a set of words.\<close>

inductive matches :: "rex \<Rightarrow> string \<Rightarrow> bool" where
  mEmpty: "matches REmpty []"
| mClass: "P c \<Longrightarrow> matches (RClass P) [c]"
| mSeq: "matches r u \<Longrightarrow> matches s v \<Longrightarrow> matches (RSeq r s) (u @ v)"
| mAlt1: "matches r u \<Longrightarrow> matches (RAlt r s) u"
| mAlt2: "matches s u \<Longrightarrow> matches (RAlt r s) u"
| mStar0: "matches (RStar r) []"
| mStar1: "matches r u \<Longrightarrow> matches (RStar r) v \<Longrightarrow> matches (RStar r) (u @ v)"

inductive_simps matches_simps [simp]:
  "matches RNone u" "matches REmpty u" "matches (RClass P) u" "matches (RSeq r s) u" "matches (RAlt r s) u"

lemma nullable_matches: "nullable r = matches r []"
  by (induction r) (auto intro: mStar0)

lemma star_step: "matches (RStar r) u \<Longrightarrow> u = c # w \<Longrightarrow> \<exists>v v'. matches r (c # v) \<and> matches (RStar r) v' \<and> w = v @ v'"
proof (induction "RStar r" u arbitrary: c w rule: matches.induct)
  case (mStar1 u v)
  show ?case
  proof (cases u)
    case Nil
    with mStar1 show ?thesis by simp
  next
    case (Cons d u')
    with mStar1 show ?thesis by auto
  qed
qed simp

lemma deriv_matches: "matches (deriv c r) w = matches r (c # w)"
proof (induction r arbitrary: w)
  case (RSeq r s)
  have "(\<exists>u v. c # w = u @ v \<and> matches r u \<and> matches s v) \<longleftrightarrow>
      (matches r [] \<and> matches s (c # w)) \<or> (\<exists>u v. w = u @ v \<and> matches r (c # u) \<and> matches s v)"
    by (auto simp: Cons_eq_append_conv)
  then show ?case using RSeq by (auto simp: nullable_matches)
next
  case (RStar r)
  have "matches (RStar r) (c # w) \<longleftrightarrow> (\<exists>v v'. matches r (c # v) \<and> matches (RStar r) v' \<and> w = v @ v')"
    using star_step [of r "c # w"] mStar1 [of r "c # _"] by fastforce
  then show ?case using RStar by auto
qed auto

lemma regex_match_matches: "regex_match s r = matches r s"
proof (induction s arbitrary: r)
  case Nil
  show ?case by (simp add: regex_match_def nullable_matches)
next
  case (Cons c s)
  then have "regex_match s (deriv c r) = matches (deriv c r) s" .
  then show ?case by (simp add: regex_match_def deriv_matches)
qed

lemma star_class: "matches (RStar (RClass P)) u = list_all P u"
proof
  show "matches (RStar (RClass P)) u \<Longrightarrow> list_all P u"
    by (induction "RStar (RClass P)" u rule: matches.induct) auto
  show "list_all P u \<Longrightarrow> matches (RStar (RClass P)) u"
  proof (induction u)
    case (Cons c u)
    then show ?case using mStar1 [OF mClass [of P c], of u] by simp
  qed (simp add: mStar0)
qed

lemma seq_class: "matches (RSeq (RClass P) r) u \<longleftrightarrow> (\<exists>c v. u = c # v \<and> P c \<and> matches r v)"
  by (simp) (metis append_Cons append_Nil)

lemma plus_class: "matches (RPlus (RClass P)) u \<longleftrightarrow> u \<noteq> [] \<and> list_all P u"
  unfolding RPlus_def seq_class star_class by (cases u) auto

lemma star_words: "matches (RStar r) u \<longleftrightarrow> (\<exists>ws. u = concat ws \<and> (\<forall>w\<in>set ws. matches r w))"
proof
  show "matches (RStar r) u \<Longrightarrow> \<exists>ws. u = concat ws \<and> (\<forall>w\<in>set ws. matches r w)"
  proof (induction "RStar r" u rule: matches.induct)
    case mStar0
    then show ?case by (metis concat.simps(1) empty_iff empty_set)
  next
    case (mStar1 u v)
    then show ?case by (metis concat.simps(2) set_ConsD)
  qed
  have "\<forall>w\<in>set ws. matches r w \<Longrightarrow> matches (RStar r) (concat ws)" for ws
    by (induction ws) (auto intro: mStar0 mStar1)
  then show "\<exists>ws. u = concat ws \<and> (\<forall>w\<in>set ws. matches r w) \<Longrightarrow> matches (RStar r) u" by blast
qed

subsection \<open>Character classes\<close>

definition is_digit :: "char \<Rightarrow> bool" where
  "is_digit ch \<longleftrightarrow> (48::nat) \<le> of_char ch \<and> of_char ch \<le> (57::nat)"

definition is_lower :: "char \<Rightarrow> bool" where
  "is_lower c \<longleftrightarrow> (97::nat) \<le> of_char c \<and> of_char c \<le> (122::nat)"

definition is_upper :: "char \<Rightarrow> bool" where
  "is_upper c \<longleftrightarrow> (65::nat) \<le> of_char c \<and> of_char c \<le> (90::nat)"

subsection \<open>E-mail addresses\<close>

definition host_char :: "char \<Rightarrow> bool" where
  "host_char c \<longleftrightarrow> is_lower c \<or> is_digit c \<or> c = CHR ''-''"

definition local_char :: "char \<Rightarrow> bool" where
  "local_char c \<longleftrightarrow> c = CHR ''_'' \<or> host_char c"

definition dotted_rex :: "(char \<Rightarrow> bool) \<Rightarrow> rex" where
  "dotted_rex P = RSeq (RPlus (RClass P)) (RStar (RSeq (RChar CHR ''.'') (RPlus (RClass P))))"

definition local_rex :: rex where
  "local_rex = RSeq (dotted_rex local_char) (ROpt (RSeq (RChar CHR ''+'') (RPlus (RClass host_char))))"

definition host_rex :: rex where
  "host_rex = dotted_rex host_char"

definition ValidEMailAddress :: "string \<Rightarrow> bool" where
  "ValidEMailAddress email = regex_match email (RSeq local_rex (RSeq (RChar CHR ''@'') host_rex))"

text \<open>Non-empty labels of a class, with single dots between them.\<close>

definition label :: "(char \<Rightarrow> bool) \<Rightarrow> string \<Rightarrow> bool" where
  "label P w \<longleftrightarrow> w \<noteq> [] \<and> list_all P w"

definition dotted :: "(char \<Rightarrow> bool) \<Rightarrow> string \<Rightarrow> bool" where
  "dotted P u \<longleftrightarrow> (\<exists>w ws. u = w @ concat (map (Cons CHR ''.'') ws) \<and> label P w \<and> list_all (label P) ws)"

lemma matches_RChar [simp]: "matches (RChar c) u \<longleftrightarrow> u = [c]"
  by (auto simp: RChar_def)

lemma dotted_matches: "matches (dotted_rex P) u = dotted P u"
proof -
  have tail: "(\<exists>ws. v = concat ws \<and> (\<forall>w\<in>set ws. matches (RSeq (RChar CHR ''.'') (RPlus (RClass P))) w)) \<longleftrightarrow>
      (\<exists>ws. v = concat (map (Cons CHR ''.'') ws) \<and> list_all (label P) ws)" (is "?A \<longleftrightarrow> ?B") for v
  proof
    assume ?A
    then obtain ws where v: "v = concat ws"
      and w: "\<forall>w\<in>set ws. matches (RSeq (RChar CHR ''.'') (RPlus (RClass P))) w" by blast
    from w have "map (Cons CHR ''.'') (map tl ws) = ws" by (induction ws) auto
    moreover from w have "list_all (label P) (map tl ws)" by (auto simp: list_all_iff label_def plus_class)
    ultimately show ?B using v by metis
  next
    assume ?B
    then obtain ws where "v = concat (map (Cons CHR ''.'') ws)" "list_all (label P) ws" by blast
    then have "v = concat (map (Cons CHR ''.'') ws) \<and>
        (\<forall>w\<in>set (map (Cons CHR ''.'') ws). matches (RSeq (RChar CHR ''.'') (RPlus (RClass P))) w)"
      by (auto simp: list_all_iff label_def plus_class)
    then show ?A by blast
  qed
  show ?thesis
    unfolding dotted_rex_def dotted_def matches_simps(4) plus_class star_words tail label_def by blast
qed

text \<open>
  The e-mail addresses the service accepts are exactly those of the form \<open>local[+tag]@host\<close>, where the
  local part is a non-empty sequence of non-empty labels of lower-case letters, digits, dashes
  and underscores separated by single dots, the host the same without underscores, and the tag, when
  there is one, a non-empty run of lower-case letters, digits and dashes.
\<close>

theorem valid_email_grammar:
  "ValidEMailAddress e \<longleftrightarrow>
    (\<exists>l t h. e = l @ t @ CHR ''@'' # h \<and> dotted local_char l \<and> dotted host_char h \<and>
      (t = [] \<or> (\<exists>g. t = CHR ''+'' # g \<and> label host_char g)))"
proof -
  have opt: "matches (ROpt (RSeq (RChar CHR ''+'') (RPlus (RClass host_char)))) t \<longleftrightarrow>
      t = [] \<or> (\<exists>g. t = CHR ''+'' # g \<and> label host_char g)" for t
    by (auto simp: ROpt_def plus_class label_def)
  have "ValidEMailAddress e \<longleftrightarrow> (\<exists>u h. e = u @ CHR ''@'' # h \<and> matches local_rex u \<and> dotted host_char h)"
    by (simp add: ValidEMailAddress_def regex_match_matches host_rex_def dotted_matches) blast
  moreover have "matches local_rex u \<longleftrightarrow> (\<exists>l t. u = l @ t \<and> dotted local_char l \<and>
      (t = [] \<or> (\<exists>g. t = CHR ''+'' # g \<and> label host_char g)))" for u
    unfolding local_rex_def matches_simps(4) dotted_matches opt ..
  ultimately show ?thesis by (metis append_assoc)
qed

end
