(* ===== verification/Rest_Base.thy ===== *)
theory Rest_Base
  imports Session_Invariant Link_Manager Acl_Processor Utils_Regex
begin

text \<open>
  The base class of the request handlers, \<^verbatim>\<open>src/framework/RESTAPI_Handler.h\<close>: parameters, bindings,
  the common answers, authorization and the order of the steps of a request; and the rate limiter
  of \<^verbatim>\<open>src/framework/RESTAPI_RateLimiter.h\<close>. Headers, compression and logging are left out; an answer
  is a value of \<open>response\<close>.
\<close>

subsection \<open>Errors and answers\<close>

datatype rest_error =
    Err_PASSWORD_CHANGE_REQUIRED | Err_INVALID_CREDENTIALS | Err_PASSWORD_ALREADY_USED
  | Err_USERNAME_PENDING_VERIFICATION | Err_PASSWORD_INVALID | Err_ACCESS_DENIED
  | Err_INVALID_TOKEN | Err_EXPIRED_TOKEN | Err_RATE_LIMIT_EXCEEDED | Err_BAD_MFA_TRANSACTION
  | Err_MFA_FAILURE | Err_SECURITY_SERVICE_UNREACHABLE | Err_CANNOT_REFRESH_TOKEN
  | Err_ACCOUNT_SUSPENDED | Err_InternalError | Err_InvalidJSONDocument | Err_UnsupportedHTTPMethod
  | Err_RecordNotCreated | Err_RecordNotUpdated | Err_MissingOrInvalidParameters
  | Err_InvalidCommand | Err_MissingUserID | Err_IdMustBe0 | Err_InvalidUserRole
  | Err_InvalidEmailAddress | Err_PasswordRejected | Err_NeedMobileNumber | Err_BadMFAMethod
  | Err_InvalidPassword | Err_UnrecognizedRequest | Err_AuthenticatorVerificationIncomplete
  | Err_SMSCouldNotBeSentRetry | Err_SMSCouldNotValidate | Err_UserAlreadyExists
  | Err_SMSMFANotEnabled | Err_EMailMFANotEnabled | Err_TOT totp_error | Err_SignupAlreadySigned
  | Err_SMSMissingPhoneNumber | Err_SMSTryLater | Err_SMSMissingChallenge
  | Err_ApiKeyNameAlreadyExists | Err_TooManyApiKeys | Err_UserMustExist | Err_ApiKeyDoesNotExist | Err_NotImplemented

primrec totp_err_num :: "totp_error \<Rightarrow> nat" where
  "totp_err_num TOTInvalidCode = 1086"
| "totp_err_num TOTInvalidIndex = 1087"
| "totp_err_num TOTRepeatedCode = 1088"
| "totp_err_num TOTInvalidProtocol = 1089"
| "totp_err_num TOTNoSession = 1090"

primrec err_num :: "rest_error \<Rightarrow> nat" where
  "err_num Err_PASSWORD_CHANGE_REQUIRED = 1"
| "err_num Err_INVALID_CREDENTIALS = 2"
| "err_num Err_PASSWORD_ALREADY_USED = 3"
| "err_num Err_USERNAME_PENDING_VERIFICATION = 4"
| "err_num Err_PASSWORD_INVALID = 5"
| "err_num Err_ACCESS_DENIED = 7"
| "err_num Err_INVALID_TOKEN = 8"
| "err_num Err_EXPIRED_TOKEN = 9"
| "err_num Err_RATE_LIMIT_EXCEEDED = 10"
| "err_num Err_BAD_MFA_TRANSACTION = 11"
| "err_num Err_MFA_FAILURE = 12"
| "err_num Err_SECURITY_SERVICE_UNREACHABLE = 13"
| "err_num Err_CANNOT_REFRESH_TOKEN = 14"
| "err_num Err_ACCOUNT_SUSPENDED = 15"
| "err_num Err_InternalError = 1002"
| "err_num Err_InvalidJSONDocument = 1003"
| "err_num Err_UnsupportedHTTPMethod = 1004"
| "err_num Err_RecordNotCreated = 1011"
| "err_num Err_RecordNotUpdated = 1012"
| "err_num Err_MissingOrInvalidParameters = 1018"
| "err_num Err_InvalidCommand = 1031"
| "err_num Err_MissingUserID = 1037"
| "err_num Err_IdMustBe0 = 1038"
| "err_num Err_InvalidUserRole = 1039"
| "err_num Err_InvalidEmailAddress = 1040"
| "err_num Err_PasswordRejected = 1041"
| "err_num Err_NeedMobileNumber = 1044"
| "err_num Err_BadMFAMethod = 1045"
| "err_num Err_InvalidPassword = 1047"
| "err_num Err_UnrecognizedRequest = 1050"
| "err_num Err_AuthenticatorVerificationIncomplete = 1055"
| "err_num Err_SMSCouldNotBeSentRetry = 1056"
| "err_num Err_SMSCouldNotValidate = 1057"
| "err_num Err_UserAlreadyExists = 1061"
| "err_num Err_NotImplemented = 1062"
| "err_num Err_SMSMFANotEnabled = 1084"
| "err_num Err_EMailMFANotEnabled = 1085"
| "err_num (Err_TOT e) = totp_err_num e"
| "err_num Err_SignupAlreadySigned = 1091"
| "err_num Err_SMSMissingPhoneNumber = 1094"
| "err_num Err_SMSTryLater = 1095"
| "err_num Err_SMSMissingChallenge = 1096"
| "err_num Err_ApiKeyNameAlreadyExists = 1147"
| "err_num Err_TooManyApiKeys = 1148"
| "err_num Err_UserMustExist = 1149"
| "err_num Err_ApiKeyDoesNotExist = 1150"

text \<open>
  \<open>NoAnswer\<close> is a handler that sends nothing; \<open>EscapesHandler\<close> stands for an exception that is not one of the Poco library: \<^verbatim>\<open>handleRequest\<close> does
  not catch it.
\<close>

datatype response =
    BadRequest rest_error
  | UnAuthorized rest_error
  | InternalErrorAnswer rest_error
  | NotFound
  | OK
  | ReturnStatus nat
  | ReturnObject json
  | SendHTML string "(string \<times> string) list"
  | SendFileContent string string string
  | SendFile string string
  | Upgraded string string
  | OptionsAnswer
  | NoAnswer
  | EscapesHandler

fun http_status :: "response \<Rightarrow> nat" where
  "http_status (BadRequest e) = 400"
| "http_status (UnAuthorized e) = 403"
| "http_status (InternalErrorAnswer e) = 500"
| "http_status NotFound = 404"
| "http_status OK = 200"
| "http_status (ReturnStatus n) = n"
| "http_status (ReturnObject j) = 200"
| "http_status (SendHTML f vars) = 200"
| "http_status (SendFileContent c typ name) = 200"
| "http_status (SendFile path typ) = 200"
| "http_status (Upgraded cid User) = 101"
| "http_status OptionsAnswer = 200"
| "http_status NoAnswer = 200"
| "http_status EscapesHandler = 500"

subsection \<open>Requests\<close>

text \<open>
  A body is absent, does not parse to a JSON object, is an object, the fields of a form, or an uploaded part
  with its name, content type and content.
\<close>

datatype body = NoBody | BadBody | Body jobj | FormBody "(string \<times> string) list" | PartBody string string string

record request =
  rq_method :: string
  rq_path :: string
  rq_client :: string
  rq_auth :: credentials
  rq_apiKey :: "string option"
  rq_internalName :: "string option"
  rq_upgrade :: "string option"
  rq_params :: "(string \<times> string) list"
  rq_bindings :: "(string \<times> string) list"
  rq_body :: body

text \<open>What the members of a handler hold while it runs.\<close>

record rest_ctx =
  cx_request :: request
  cx_internal :: bool
  cx_user :: UserInfoAndPolicy
  cx_session :: string
  cx_requester :: string

abbreviation caller :: "rest_ctx \<Rightarrow> UserInfo" where
  "caller c \<equiv> uip_userinfo (cx_user c)"

definition ParsedBody :: "rest_ctx \<Rightarrow> jobj option" where
  "ParsedBody c = (case rq_body (cx_request c) of Body o1 \<Rightarrow> Some o1 | _ \<Rightarrow> None)"

subsection \<open>Parameters\<close>

definition is_number :: "string \<Rightarrow> bool" where
  "is_number s \<longleftrightarrow> s \<noteq> [] \<and> list_all is_digit s"

definition is_bool :: "string \<Rightarrow> bool" where
  "is_bool s \<longleftrightarrow> s = ''true'' \<or> s = ''false''"

definition dec_value :: "string \<Rightarrow> nat" where
  "dec_value s = foldl (\<lambda>n ch. 10 * n + (of_char ch - 48)) 0 s"

text \<open>\<^verbatim>\<open>std::stoull\<close> of a text of digits: \<open>None\<close> when it is out of range and throws.\<close>

definition stoull :: "string \<Rightarrow> u64 option" where
  "stoull s = (if dec_value s < 2 ^ 64 then Some (of_nat (dec_value s)) else None)"

definition GetParameter_u64 :: "rest_ctx \<Rightarrow> string \<Rightarrow> u64 \<Rightarrow> u64 option" where
  "GetParameter_u64 c Name Default =
     (case map_of (rq_params (cx_request c)) Name of
        None \<Rightarrow> Some Default
      | Some v \<Rightarrow> if is_number v then stoull v else Some Default)"

definition GetBoolParameter :: "rest_ctx \<Rightarrow> string \<Rightarrow> bool \<Rightarrow> bool" where
  "GetBoolParameter c Name Default =
     (case map_of (rq_params (cx_request c)) Name of
        None \<Rightarrow> Default
      | Some v \<Rightarrow> if is_bool v then v = ''true'' else Default)"

definition GetParameter :: "rest_ctx \<Rightarrow> string \<Rightarrow> string \<Rightarrow> string" where
  "GetParameter c Name Default =
     (case map_of (rq_params (cx_request c)) Name of None \<Rightarrow> Default | Some v \<Rightarrow> v)"

definition HasParameter :: "rest_ctx \<Rightarrow> string \<Rightarrow> string option" where
  "HasParameter c Name = map_of (rq_params (cx_request c)) Name"

definition GetBinding :: "env \<Rightarrow> rest_ctx \<Rightarrow> string \<Rightarrow> string \<Rightarrow> string" where
  "GetBinding E c Name Default =
     (case map_of (rq_bindings (cx_request c)) (str_toLower (e_poco E) Name) of None \<Rightarrow> Default | Some v \<Rightarrow> v)"

definition MakeList :: "string list \<Rightarrow> string" where
  "MakeList L = foldl (\<lambda>R i. if R = [] then i else R @ '', '' @ i) [] L"

text \<open>The members of a JSON body: \<open>None\<close> is the exception of a value without text.\<close>

definition GetS :: "env \<Rightarrow> string \<Rightarrow> jobj \<Rightarrow> string \<Rightarrow> string option" where
  "GetS E Parameter Obj Default =
     (case map_of Obj Parameter of None \<Rightarrow> Some Default | Some v \<Rightarrow> var_toString (e_poco E) v)"

definition GetB :: "env \<Rightarrow> string \<Rightarrow> jobj \<Rightarrow> bool \<Rightarrow> bool option" where
  "GetB E Parameter Obj Default =
     (case map_of Obj Parameter of
        None \<Rightarrow> Some Default | Some v \<Rightarrow> map_option (\<lambda>s. s = ''true'') (var_toString (e_poco E) v))"

definition Get_u64 :: "env \<Rightarrow> string \<Rightarrow> jobj \<Rightarrow> u64 \<Rightarrow> u64 option" where
  "Get_u64 E Parameter Obj Default =
     (case map_of Obj Parameter of None \<Rightarrow> Some Default | Some v \<Rightarrow> var_toU64 (e_poco E) v)"

definition Assign_string :: "env \<Rightarrow> jobj \<Rightarrow> string \<Rightarrow> ((string \<Rightarrow> string) \<Rightarrow> 'r \<Rightarrow> 'r) \<Rightarrow> 'r \<Rightarrow> 'r option" where
  "Assign_string E Obj fld upd r =
     (case map_of Obj fld of
        None \<Rightarrow> Some r
      | Some v \<Rightarrow> map_option (\<lambda>s. upd (\<lambda>_. s) r) (var_toString (e_poco E) v))"

definition Assign_bool :: "env \<Rightarrow> jobj \<Rightarrow> string \<Rightarrow> ((bool \<Rightarrow> bool) \<Rightarrow> 'r \<Rightarrow> 'r) \<Rightarrow> 'r \<Rightarrow> 'r option" where
  "Assign_bool E Obj fld upd r =
     (case map_of Obj fld of
        None \<Rightarrow> Some r
      | Some v \<Rightarrow> map_option (\<lambda>s. upd (\<lambda>_. s = ''true'') r) (var_toString (e_poco E) v))"

subsection \<open>The query block\<close>

record QueryBlock =
  qb_StartDate :: u64
  qb_EndDate :: u64
  qb_Offset :: u64
  qb_Limit :: u64
  qb_LogType :: u64
  qb_SerialNumber :: string
  qb_Filter :: string
  qb_Select :: "string list"
  qb_Lifetime :: bool
  qb_LastOnly :: bool
  qb_Newest :: bool
  qb_CountOnly :: bool
  qb_AdditionalInfo :: bool

definition InitQueryBlock :: "env \<Rightarrow> rest_ctx \<Rightarrow> QueryBlock option" where
  "InitQueryBlock E c =
     (case (GetParameter_u64 c ''startDate'' 0, GetParameter_u64 c ''endDate'' 0,
            GetParameter_u64 c ''offset'' 0, GetParameter_u64 c ''limit'' 100,
            GetParameter_u64 c ''logType'' 0) of
        (Some StartDate, Some EndDate, Some Offset, Some Limit, Some LogType) \<Rightarrow>
          Some \<lparr>qb_StartDate = StartDate, qb_EndDate = EndDate, qb_Offset = Offset, qb_Limit = Limit,
                qb_LogType = LogType, qb_SerialNumber = GetParameter c ''serialNumber'' [],
                qb_Filter = GetParameter c ''filter'' [],
                qb_Select = str_tokens (e_poco E) CHR '','' (GetParameter c ''select'' []),
                qb_Lifetime = GetBoolParameter c ''lifetime'' False,
                qb_LastOnly = GetBoolParameter c ''lastOnly'' False,
                qb_Newest = GetBoolParameter c ''newest'' False,
                qb_CountOnly = GetBoolParameter c ''countOnly'' False,
                qb_AdditionalInfo = GetBoolParameter c ''withExtendedInfo'' False\<rparr>
      | _ \<Rightarrow> None)"

subsection \<open>Routing\<close>

text \<open>
  One endpoint against the path: whether it matches, and the bindings; those made before a mismatch
  stay.
\<close>

fun match_items :: "env \<Rightarrow> string list \<Rightarrow> string list \<Rightarrow> (string \<times> string) list \<Rightarrow> bool \<times> (string \<times> string) list" where
  "match_items E (p # ps) (q # qs) bs =
     (if p = q then match_items E ps qs bs
      else if q \<noteq> [] \<and> q ! 0 = CHR ''{'' then
        match_items E ps qs (AList.update (str_toLower (e_poco E) (take (length q - 2) (drop 1 q))) p bs)
      else (False, bs))"
| "match_items E _ _ bs = (True, bs)"

fun match_endpoints :: "env \<Rightarrow> string list \<Rightarrow> string list \<Rightarrow> (string \<times> string) list \<Rightarrow> bool \<times> (string \<times> string) list" where
  "match_endpoints E PathItems [] bs = (False, bs)"
| "match_endpoints E PathItems (EndPoint # EndPoints) bs =
     (let ParamItems = str_tokens (e_poco E) CHR ''/'' EndPoint
      in if length PathItems \<noteq> length ParamItems then match_endpoints E PathItems EndPoints bs
         else (case match_items E PathItems ParamItems bs of
           (True, bs') \<Rightarrow> (True, bs')
         | (False, bs') \<Rightarrow> match_endpoints E PathItems EndPoints bs'))"

definition ParseBindings :: "env \<Rightarrow> string \<Rightarrow> string list \<Rightarrow> bool \<times> (string \<times> string) list" where
  "ParseBindings E Request EndPoints =
     match_endpoints E (str_tokens (e_poco E) CHR ''/'' Request) EndPoints []"

subsection \<open>Rate limiting\<close>

definition IsRateLimited :: "env \<Rightarrow> request \<Rightarrow> int \<Rightarrow> int \<Rightarrow> bool sec" where
  "IsRateLimited E R Period MaxCalls = do {
     let H = e_strHash E (rq_path R @ rq_client R);
     cached \<leftarrow> gets (\<lambda>w. w_rates w H);
     t \<leftarrow> step;
     let now = e_millis E t;
     case (if e_evict E t (rq_path R @ rq_client R) then None else cached) of
       None \<Rightarrow> do {
         modify (\<lambda>w. w\<lparr>w_rates := (w_rates w)(H \<mapsto> \<lparr>cc_Start = now, cc_Count = 1\<rparr>)\<rparr>);
         ret False
       }
     | Some e \<Rightarrow>
         if now - cc_Start e < Period then do {
           modify (\<lambda>w. w\<lparr>w_rates := (w_rates w)(H \<mapsto> e\<lparr>cc_Count := cc_Count e + 1\<rparr>)\<rparr>);
           ret (MaxCalls < cc_Count e + 1)
         }
         else do {
           modify (\<lambda>w. w\<lparr>w_rates := (w_rates w)(H \<mapsto> \<lparr>cc_Start = now, cc_Count = 1\<rparr>)\<rparr>);
           ret False
         }
   }"

subsection \<open>Authorization of a request\<close>

text \<open>Whether it is allowed, whether the token is expired, whether somebody was asked.\<close>

definition handler_IsAuthorized :: "env \<Rightarrow> rest_ctx \<Rightarrow> bool \<Rightarrow> (bool \<times> bool \<times> bool \<times> rest_ctx) sec" where
  "handler_IsAuthorized E c Sub =
     (let R = cx_request c in
      case (cx_internal c, rq_internalName R, rq_apiKey R) of
        (True, Some Name, key) \<Rightarrow>
          (let Allowed = (key = Some (e_myHash E))
           in ret (Allowed, False, True, if Allowed then c\<lparr>cx_requester := Name\<rparr> else c))
      | (False, _, Some key) \<Rightarrow> do {
          (ok, WT, UI, Expired, on, suspended) \<leftarrow>
            IsValidApiKey E key (uip_webtoken (cx_user c)) (uip_userinfo (cx_user c)) False 0;
          let c1 = c\<lparr>cx_session := key, cx_user := (cx_user c)\<lparr>uip_webtoken := WT, uip_userinfo := UI\<rparr>\<rparr>;
          ret (ok, Expired, False, if ok then c1\<lparr>cx_requester := u_email UI\<rparr> else c1)
        }
      | _ \<Rightarrow> do {
          (ok, UI, Expired) \<leftarrow>
            (if Sub then IsSubAuthorized E (rq_auth R) (cx_user c) else IsAuthorized E (rq_auth R) (cx_user c));
          let tok = (case getBearerToken (rq_auth R) of None \<Rightarrow> [] | Some t \<Rightarrow> t);
          let c1 = c\<lparr>cx_session := (if cx_session c = [] then tok else cx_session c), cx_user := UI\<rparr>;
          ret (ok, Expired, False, if ok then c1\<lparr>cx_requester := u_email (uip_userinfo UI)\<rparr> else c1)
        })"

subsection \<open>A request\<close>

type_synonym rest_op = "rest_ctx \<Rightarrow> response option sec"

record handler =
  hd_methods :: "string list"
  hd_internal :: bool
  hd_always :: bool
  hd_rateLimited :: bool
  hd_interval :: int
  hd_maxCalls :: int
  hd_subOnly :: bool
  hd_get :: rest_op
  hd_post :: rest_op
  hd_put :: rest_op
  hd_delete :: rest_op

definition dispatch :: "env \<Rightarrow> handler \<Rightarrow> rest_op" where
  "dispatch E H c =
     (case InitQueryBlock E c of
        None \<Rightarrow> ret (Some EscapesHandler)
      | Some QB \<Rightarrow>
          (if rq_method (cx_request c) = ''GET'' then hd_get H c
           else if rq_method (cx_request c) = ''POST'' then hd_post H c
           else if rq_method (cx_request c) = ''DELETE'' then hd_delete H c
           else if rq_method (cx_request c) = ''PUT'' then hd_put H c
           else ret (Some (BadRequest Err_UnsupportedHTTPMethod))))"

definition process_request :: "env \<Rightarrow> handler \<Rightarrow> rest_op" where
  "process_request E H c =
     (if rq_body (cx_request c) = BadBody then ret None
      else do {
        limited \<leftarrow> (if hd_rateLimited H
          then IsRateLimited E (cx_request c) (hd_interval H) (hd_maxCalls H) else ret False);
        if limited then ret (Some (UnAuthorized Err_RATE_LIMIT_EXCEEDED))
        else if rq_method (cx_request c) = ''OPTIONS'' then ret (Some OptionsAnswer)
        else if rq_method (cx_request c) \<notin> set (hd_methods H) then ret (Some (BadRequest Err_UnsupportedHTTPMethod))
        else if hd_always H then do {
          (ok, Expired, Contacted, c1) \<leftarrow> handler_IsAuthorized E c (hd_subOnly H);
          if \<not> ok then
            ret (Some (UnAuthorized
              (if Expired then Err_EXPIRED_TOKEN
               else if Contacted then Err_INVALID_TOKEN else Err_SECURITY_SERVICE_UNREACHABLE)))
          else dispatch E H c1
        }
        else dispatch E H c
      })"

definition handleRequest :: "env \<Rightarrow> handler \<Rightarrow> request \<Rightarrow> response sec" where
  "handleRequest E H R = do {
     answer \<leftarrow> process_request E H
       \<lparr>cx_request = R, cx_internal = hd_internal H, cx_user = UserInfoAndPolicy_init,
        cx_session = [], cx_requester = []\<rparr>;
     ret (case answer of None \<Rightarrow> BadRequest Err_InternalError | Some r \<Rightarrow> r)
   }"

definition Sanitize :: "UserInfo \<Rightarrow> UserInfo" where
  "Sanitize U = U\<lparr>u_currentPassword := [], u_lastPasswords := [], u_oauthType := []\<rparr>"

definition Sanitize_key :: "ApiKeyEntry \<Rightarrow> ApiKeyEntry" where
  "Sanitize_key U = U\<lparr>ak_salt := []\<rparr>"

end
