(* ===== verification/Rest_Oauth.thy ===== *)
theory Rest_Oauth
  imports Rest_Base
begin

text \<open>
  The login endpoints, \<^verbatim>\<open>src/RESTAPI/RESTAPI_oauth2_handler.cpp\<close> for users and
  \<^verbatim>\<open>src/RESTAPI/RESTAPI_suboauth2_handler.cpp\<close> for subscribers. The two differ in the tables and in the
  treatment of a missing body; a realm selects the text.
\<close>

text \<open>\<^verbatim>\<open>to_json\<close> into an object that may already have members.\<close>

definition obj_merge :: "jobj \<Rightarrow> jobj \<Rightarrow> jobj" where
  "obj_merge obj kvs = foldl (\<lambda>o1 (k, v). obj_set k v o1) obj kvs"

definition return_token :: "jobj \<Rightarrow> WebToken \<Rightarrow> response" where
  "return_token obj WT = ReturnObject (JObj (obj_merge obj (WebToken_to_json WT)))"

subsection \<open>GET: who am I\<close>

definition oauth_DoGet :: "env \<Rightarrow> bool \<Rightarrow> rest_op" where
  "oauth_DoGet E Sub c = do {
     (ok, Expired, Contacted, c1) \<leftarrow> handler_IsAuthorized E c Sub;
     ret (Some (
       if \<not> ok then UnAuthorized (if Expired then Err_EXPIRED_TOKEN else Err_INVALID_TOKEN)
       else if GetBoolParameter c1 ''me'' False then ReturnObject (JObj (UserInfo_to_json (Sanitize (caller c1))))
       else BadRequest Err_UnrecognizedRequest))
   }"

definition RESTAPI_oauth2_DoGet :: "env \<Rightarrow> rest_op" where
  "RESTAPI_oauth2_DoGet E = oauth_DoGet E False"

definition RESTAPI_suboauth2_DoGet :: "env \<Rightarrow> rest_op" where
  "RESTAPI_suboauth2_DoGet E = oauth_DoGet E True"

subsection \<open>DELETE: log out\<close>

definition oauth_DoDelete :: "env \<Rightarrow> realm_id \<Rightarrow> rest_op" where
  "oauth_DoDelete E Rm c =
     (let Token = GetBinding E c ''token'' []
      in case getBearerToken (rq_auth (cx_request c)) of
           None \<Rightarrow> ret (Some (BadRequest Err_MissingOrInvalidParameters))
         | Some SessionToken \<Rightarrow>
             if Token = [] \<or> Token \<noteq> SessionToken then ret (Some (BadRequest Err_MissingOrInvalidParameters))
             else do {
               (case Rm of Users \<Rightarrow> Logout E Token | Subs \<Rightarrow> SubLogout E Token);
               ret (Some (ReturnStatus 204))
             })"

definition RESTAPI_oauth2_DoDelete :: "env \<Rightarrow> rest_op" where
  "RESTAPI_oauth2_DoDelete E = oauth_DoDelete E Users"

definition RESTAPI_suboauth2_DoDelete :: "env \<Rightarrow> rest_op" where
  "RESTAPI_suboauth2_DoDelete E = oauth_DoDelete E Subs"

subsection \<open>POST: log in and its companions\<close>

definition oauth_refresh :: "env \<Rightarrow> realm_id \<Rightarrow> string \<Rightarrow> rest_op" where
  "oauth_refresh E Rm refreshToken c = do {
     (ok, UInfo) \<leftarrow>
       (case Rm of
          Users \<Rightarrow> RefreshUserToken E (rq_auth (cx_request c)) refreshToken UserInfoAndPolicy_init
        | Subs \<Rightarrow> RefreshSubToken E (rq_auth (cx_request c)) refreshToken UserInfoAndPolicy_init);
     ret (Some (if ok then return_token [] (uip_webtoken UInfo) else UnAuthorized Err_CANNOT_REFRESH_TOKEN))
   }"

definition oauth_requirements :: "env \<Rightarrow> realm_id \<Rightarrow> response" where
  "oauth_requirements E Rm = ReturnObject (JObj
     [(''passwordPattern'', JStr (e_passwordPattern E)),
      (''accessPolicy'', JStr (case Rm of Users \<Rightarrow> e_accessPolicy E | Subs \<Rightarrow> e_subAccessPolicy E)),
      (''passwordPolicy'', JStr (case Rm of Users \<Rightarrow> e_passwordPolicy E | Subs \<Rightarrow> e_subPasswordPolicy E))])"

text \<open>The answer is the same whether or not the account exists.\<close>

definition oauth_forgot :: "env \<Rightarrow> realm_id \<Rightarrow> string \<Rightarrow> response option sec" where
  "oauth_forgot E Rm userId = do {
     user \<leftarrow> GetUserByEmail E Rm userId;
     (case user of
        None \<Rightarrow> ret ()
      | Some UInfo1 \<Rightarrow> do {
          uuid \<leftarrow> CreateUUID E;
          now \<leftarrow> Now E;
          CreateAction E (ActionLink_init\<lparr>
            al_action := LinkActionsValue (case Rm of Users \<Rightarrow> LA_FORGOT_PASSWORD | Subs \<Rightarrow> LA_SUB_FORGOT_PASSWORD),
            al_id := uuid, al_userId := u_id UInfo1, al_created := now, al_expires := now + 24 * 60 * 60,
            al_userAction := (Rm = Users)\<rparr>);
          ret ()
        });
     ret (Some (return_token [] (WebToken_init\<lparr>wt_userMustChangePassword := True\<rparr>)))
   }"

definition oauth_resend :: "env \<Rightarrow> jobj \<Rightarrow> response option sec" where
  "oauth_resend E Obj =
     (case map_of Obj ''uuid'' of
        None \<Rightarrow> ret (Some (UnAuthorized Err_BAD_MFA_TRANSACTION))
      | Some j \<Rightarrow>
          (case var_toString (e_poco E) j of
             None \<Rightarrow> ret None
           | Some uuid \<Rightarrow> do {
               sent \<leftarrow> ResendCode E uuid;
               ret (Some (if sent then OK else UnAuthorized Err_BAD_MFA_TRANSACTION))
             }))"

definition oauth_complete :: "env \<Rightarrow> realm_id \<Rightarrow> jobj \<Rightarrow> response option sec" where
  "oauth_complete E Rm Obj =
     (if map_of Obj ''uuid'' = None \<or> (Rm = Subs \<and> map_of Obj ''answer'' = None)
      then ret (Some (UnAuthorized Err_MFA_FAILURE))
      else do {
        done \<leftarrow> CompleteMFAChallenge E Obj UserInfoAndPolicy_init;
        ret (case done of
               None \<Rightarrow> None
             | Some (ok, UInfo) \<Rightarrow>
                 Some (if ok then return_token [] (uip_webtoken UInfo) else UnAuthorized Err_MFA_FAILURE))
      })"

primrec login_refusal :: "UNAUTHORIZED_REASON \<Rightarrow> rest_error" where
  "login_refusal SUCCESS = Err_INVALID_CREDENTIALS"
| "login_refusal PASSWORD_CHANGE_REQUIRED = Err_PASSWORD_CHANGE_REQUIRED"
| "login_refusal INVALID_CREDENTIALS = Err_INVALID_CREDENTIALS"
| "login_refusal PASSWORD_ALREADY_USED = Err_PASSWORD_ALREADY_USED"
| "login_refusal USERNAME_PENDING_VERIFICATION = Err_USERNAME_PENDING_VERIFICATION"
| "login_refusal PASSWORD_INVALID = Err_PASSWORD_INVALID"
| "login_refusal INTERNAL_ERROR = Err_INVALID_CREDENTIALS"
| "login_refusal ACCESS_DENIED = Err_INVALID_CREDENTIALS"
| "login_refusal INVALID_TOKEN = Err_INVALID_CREDENTIALS"
| "login_refusal EXPIRED_TOKEN = Err_INVALID_CREDENTIALS"
| "login_refusal RATE_LIMIT_EXCEEDED = Err_INVALID_CREDENTIALS"
| "login_refusal BAD_MFA_TRANSACTION = Err_INVALID_CREDENTIALS"
| "login_refusal MFA_FAILURE = Err_INVALID_CREDENTIALS"
| "login_refusal SECURITY_SERVICE_UNREACHABLE = Err_INVALID_CREDENTIALS"
| "login_refusal CANNOT_REFRESH_TOKEN = Err_INVALID_CREDENTIALS"
| "login_refusal ACCOUNT_SUSPENDED = Err_ACCOUNT_SUSPENDED"

text \<open>After the password: the second factor, or the token at once.\<close>

definition oauth_second_factor :: "env \<Rightarrow> UserInfoAndPolicy \<Rightarrow> response option sec" where
  "oauth_second_factor E UInfo =
     (if RequiresMFA E UInfo then do {
        (started, ReturnObj) \<leftarrow> StartMFAChallenge E UInfo [];
        ret (Some (if started then ReturnObject (JObj ReturnObj) else return_token ReturnObj (uip_webtoken UInfo)))
      }
      else ret (Some (return_token [] (uip_webtoken UInfo))))"

definition oauth_login :: "env \<Rightarrow> realm_id \<Rightarrow> string \<Rightarrow> string \<Rightarrow> string \<Rightarrow> response option sec" where
  "oauth_login E Rm userId password newPassword = do {
     res \<leftarrow> (case Rm of
       Users \<Rightarrow> Authorize E userId password newPassword UserInfoAndPolicy_init
     | Subs \<Rightarrow> AuthorizeSub E userId password newPassword UserInfoAndPolicy_init);
     case res of
       None \<Rightarrow> ret None
     | Some (Code, UInfo) \<Rightarrow>
         if Code = SUCCESS then oauth_second_factor E UInfo else ret (Some (UnAuthorized (login_refusal Code)))
   }"

definition oauth_DoPost :: "env \<Rightarrow> realm_id \<Rightarrow> jobj \<Rightarrow> rest_op" where
  "oauth_DoPost E Rm Obj c =
     (case (GetS E ''userId'' Obj [], GetS E ''password'' Obj [], GetS E ''newPassword'' Obj [], GetS E ''refreshToken'' Obj []) of
        (Some userId, Some password, Some newPassword, Some refreshToken) \<Rightarrow>
          (let userId = str_toLower (e_poco E) userId
           in if refreshToken \<noteq> [] \<and> GetParameter c ''grant_type'' [] = ''refresh_token'' then oauth_refresh E Rm refreshToken c
              else if GetBoolParameter c ''requirements'' False then ret (Some (oauth_requirements E Rm))
              else if GetBoolParameter c ''forgotPassword'' False then oauth_forgot E Rm userId
              else if GetBoolParameter c ''resendMFACode'' False then oauth_resend E Obj
              else if GetBoolParameter c ''completeMFAChallenge'' False then oauth_complete E Rm Obj
              else oauth_login E Rm userId password newPassword)
      | _ \<Rightarrow> ret None)"

definition RESTAPI_oauth2_DoPost :: "env \<Rightarrow> rest_op" where
  "RESTAPI_oauth2_DoPost E c =
     (case ParsedBody c of
        None \<Rightarrow> ret (Some (BadRequest Err_InvalidJSONDocument))
      | Some Obj \<Rightarrow> oauth_DoPost E Users Obj c)"

definition RESTAPI_suboauth2_DoPost :: "env \<Rightarrow> rest_op" where
  "RESTAPI_suboauth2_DoPost E c =
     (case ParsedBody c of None \<Rightarrow> ret None | Some Obj \<Rightarrow> oauth_DoPost E Subs Obj c)"

definition no_put :: rest_op where
  "no_put c = ret (Some NoAnswer)"

definition RESTAPI_oauth2_handler :: "env \<Rightarrow> handler" where
  "RESTAPI_oauth2_handler E =
     \<lparr>hd_methods = [''POST'', ''DELETE'', ''GET'', ''OPTIONS''], hd_internal = False, hd_always = False,
      hd_rateLimited = True, hd_interval = 1000, hd_maxCalls = 10, hd_subOnly = False,
      hd_get = RESTAPI_oauth2_DoGet E, hd_post = RESTAPI_oauth2_DoPost E, hd_put = no_put,
      hd_delete = RESTAPI_oauth2_DoDelete E\<rparr>"

definition RESTAPI_suboauth2_handler :: "env \<Rightarrow> handler" where
  "RESTAPI_suboauth2_handler E =
     \<lparr>hd_methods = [''POST'', ''DELETE'', ''GET'', ''OPTIONS''], hd_internal = False, hd_always = False,
      hd_rateLimited = False, hd_interval = 1000, hd_maxCalls = 10, hd_subOnly = False,
      hd_get = RESTAPI_suboauth2_DoGet E, hd_post = RESTAPI_suboauth2_DoPost E, hd_put = no_put,
      hd_delete = RESTAPI_suboauth2_DoDelete E\<rparr>"

end
