(* ===== verification/Rest_User.thy ===== *)
theory Rest_User
  imports Rest_Oauth Utils_Regex
begin

text \<open>
  The records of the users over REST, \<^verbatim>\<open>src/RESTAPI/RESTAPI_user_handler.cpp\<close>. In the helpers that read a body, \<open>None\<close> is the exception of a
  value that cannot be converted.
\<close>

subsection \<open>Helpers of the handler\<close>

datatype PasswordUpdateStatus = PasswordApplied | PasswordInvalidPassword | PasswordRejectedStatus

datatype MfaUpdateStatus =
  MfaApplied | BadMethod | SmsNotEnabled | EmailNotEnabled | NeedMobileNumber | AuthenticatorIncomplete

definition IsSelfServiceCaller :: "UserInfo \<Rightarrow> bool" where
  "IsSelfServiceCaller User \<longleftrightarrow> u_userRole User \<noteq> ROOT \<and> u_userRole User \<noteq> ADMIN"

definition IsAllowedSelfServiceField :: "string \<Rightarrow> bool" where
  "IsAllowedSelfServiceField fld \<longleftrightarrow> fld \<in> set
     [''name'', ''description'', ''location'', ''locale'', ''changePassword'', ''currentPassword'',
      ''userTypeProprietaryInfo'']"

definition HasOnlyAllowedSelfServiceFields :: "jobj \<Rightarrow> bool" where
  "HasOnlyAllowedSelfServiceFields RawObject = list_all (\<lambda>Entry. IsAllowedSelfServiceField (fst Entry)) RawObject"

definition user_answer :: "UserInfo \<Rightarrow> response" where
  "user_answer U = ReturnObject (JObj (UserInfo_to_json (Sanitize U)))"

text \<open>The answer with the stored record; the caller decides what a missing one means.\<close>

definition BuildUpdatedUserResponse :: "env \<Rightarrow> string \<Rightarrow> response option sec" where
  "BuildUpdatedUserResponse E Id1 = do {
     NewUserInfo \<leftarrow> GetUserById E Users Id1;
     ret (map_option user_answer NewUserInfo)
   }"

definition reset_mfa :: "UserInfo \<Rightarrow> UserInfo" where
  "reset_mfa U = U\<lparr>u_userTypeProprietaryInfo := (u_userTypeProprietaryInfo U)\<lparr>
     ux_mfa := (ux_mfa (u_userTypeProprietaryInfo U))\<lparr>mfa_enabled := False, mfa_method := []\<rparr>,
     ux_mobiles := []\<rparr>\<rparr>"

definition HandleResetMFA :: "env \<Rightarrow> UserInfo \<Rightarrow> string \<Rightarrow> UserInfo \<Rightarrow> response option sec" where
  "HandleResetMFA E Caller Id1 Existing = do {
     now \<leftarrow> Now E;
     noted \<leftarrow> Now E;
     updated \<leftarrow> UpdateUserInfo E Users Id1 ((reset_mfa Existing)\<lparr>u_modified := now,
       u_notes := u_notes Existing @ [\<lparr>ni_created = noted, ni_createdBy = u_email Caller,
         ni_note = ''MFA Reset by '' @ u_email Caller\<rparr>]\<rparr>);
     if \<not> updated then ret None else BuildUpdatedUserResponse E Id1
   }"

text \<open>The flag set on the local copy of the record is not stored.\<close>

definition HandleForgotPassword :: "env \<Rightarrow> UserInfo \<Rightarrow> bool sec" where
  "HandleForgotPassword E Existing = do {
     let Existing = Existing\<lparr>u_changePassword := True\<rparr>;
     uuid \<leftarrow> CreateUUID E;
     now \<leftarrow> Now E;
     CreateAction E (ActionLink_init\<lparr>al_action := LinkActionsValue LA_FORGOT_PASSWORD, al_id := uuid,
       al_userId := u_id Existing, al_created := now, al_expires := now + 24 * 60 * 60, al_userAction := True\<rparr>);
     ret True
   }"

definition ValidateUpdatePayload :: "env \<Rightarrow> jobj \<Rightarrow> bool option" where
  "ValidateUpdatePayload E RawObject =
     (case map_of RawObject ''userRole'' of
        None \<Rightarrow> Some True
      | Some v \<Rightarrow> map_option (\<lambda>s. UserTypeFromString (e_poco E) s \<noteq> UNKNOWN) (var_toString (e_poco E) v))"

definition ApplyOwnerUpdate :: "env \<Rightarrow> UserInfo \<Rightarrow> jobj \<Rightarrow> UserInfo \<Rightarrow> UserInfo option" where
  "ApplyOwnerUpdate E Caller RawObject Existing =
     (if map_of RawObject ''owner'' \<noteq> None \<and> u_userRole Caller = ROOT \<and> u_owner Existing = []
      then Assign_string E RawObject ''owner'' u_owner_update Existing else Some Existing)"

definition ApplyProfileFields :: "env \<Rightarrow> jobj \<Rightarrow> UserInfo \<Rightarrow> UserInfo option" where
  "ApplyProfileFields E RawObject Existing = do {
     U1 \<leftarrow> Assign_string E RawObject ''name'' u_name_update Existing;
     U2 \<leftarrow> Assign_string E RawObject ''description'' u_description_update U1;
     U3 \<leftarrow> Assign_string E RawObject ''location'' u_location_update U2;
     U4 \<leftarrow> Assign_string E RawObject ''locale'' u_locale_update U3;
     Assign_bool E RawObject ''changePassword'' u_changePassword_update U4
   }"

definition ApplyAdminStatusFields :: "env \<Rightarrow> jobj \<Rightarrow> UserInfo \<Rightarrow> UserInfo option" where
  "ApplyAdminStatusFields E RawObject Existing = do {
     U1 \<leftarrow> Assign_bool E RawObject ''suspended'' u_suspended_update Existing;
     Assign_bool E RawObject ''blackListed'' u_blackListed_update U1
   }"

text \<open>Whether the change of role is allowed, and the record.\<close>

definition ApplyRoleChange :: "env \<Rightarrow> UserInfo \<Rightarrow> UserInfo \<Rightarrow> jobj \<Rightarrow> (bool \<times> UserInfo) option" where
  "ApplyRoleChange E Caller Existing RawObject =
     (case map_of RawObject ''userRole'' of
        None \<Rightarrow> Some (True, Existing)
      | Some v \<Rightarrow>
          map_option (\<lambda>s.
            let NewRole = UserTypeFromString (e_poco E) s
            in if NewRole = u_userRole Existing then (True, Existing)
               else if \<not> CanChangeUserRole Caller Existing NewRole then (False, Existing)
               else (True, Existing\<lparr>u_userRole := NewRole\<rparr>)) (var_toString (e_poco E) v))"

fun push_notes :: "env \<Rightarrow> UserInfo \<Rightarrow> NoteInfo list \<Rightarrow> UserInfo \<Rightarrow> UserInfo sec" where
  "push_notes E Caller [] Existing = ret Existing"
| "push_notes E Caller (i # NIV) Existing = do {
     now \<leftarrow> Now E;
     push_notes E Caller NIV (Existing\<lparr>u_notes := u_notes Existing @
       [\<lparr>ni_created = now, ni_createdBy = u_email Caller, ni_note = ni_note i\<rparr>]\<rparr>)
   }"

definition AppendNotes :: "env \<Rightarrow> UserInfo \<Rightarrow> jobj \<Rightarrow> UserInfo \<Rightarrow> UserInfo option sec" where
  "AppendNotes E Caller RawObject Existing =
     (case map_of RawObject ''notes'' of
        None \<Rightarrow> ret (Some Existing)
      | Some v \<Rightarrow>
          (case var_toString (e_poco E) v of
             None \<Rightarrow> ret None
           | Some s \<Rightarrow> do {
               U \<leftarrow> push_notes E Caller
                 (to_object_array (e_poco E) (NoteInfo_from_json (e_poco E)) NoteInfo_init s) Existing;
               ret (Some U)
             }))"

definition ApplyPasswordChange :: "env \<Rightarrow> jobj \<Rightarrow> UserInfo \<Rightarrow> (PasswordUpdateStatus \<times> UserInfo) option sec" where
  "ApplyPasswordChange E RawObject Existing =
     (case map_of RawObject ''currentPassword'' of
        None \<Rightarrow> ret (Some (PasswordApplied, Existing))
      | Some v \<Rightarrow>
          (case var_toString (e_poco E) v of
             None \<Rightarrow> ret None
           | Some Password \<Rightarrow>
               if \<not> ValidatePassword E Password then ret (Some (PasswordInvalidPassword, Existing))
               else do {
                 res \<leftarrow> SetPassword E Password Existing;
                 ret (map_option (\<lambda>(U, ok). (if ok then PasswordApplied else PasswordRejectedStatus, U)) res)
               }))"

definition MFAMETHODS_Validate :: "string \<Rightarrow> bool" where
  "MFAMETHODS_Validate M \<longleftrightarrow> M \<in> set [SMS_method, EMAIL_method, AUTHENTICATOR_method]"

text \<open>The two-factor part of a record with an enabled method, its number checked or its secret taken.\<close>

definition mfa_sms :: "env \<Rightarrow> UserInfo \<Rightarrow> UserLoginLoginExtensions \<Rightarrow> UserLoginLoginExtensions
    \<Rightarrow> (MfaUpdateStatus \<times> UserLoginLoginExtensions) sec" where
  "mfa_sms E Caller NewExt Ext =
     (case ux_mobiles NewExt of
        [] \<Rightarrow> ret (NeedMobileNumber, Ext)
      | m # ms \<Rightarrow> do {
          valid \<leftarrow> IsNumberValid E (mp_number m) (u_email Caller);
          ret (if \<not> valid then (NeedMobileNumber, Ext)
               else (MfaApplied, Ext\<lparr>ux_mobiles := m\<lparr>mp_verified := True\<rparr> # ms, ux_authenticatorSecret := []\<rparr>))
        })"

definition mfa_authenticator :: "env \<Rightarrow> UserInfo \<Rightarrow> UserLoginLoginExtensions
    \<Rightarrow> (MfaUpdateStatus \<times> UserLoginLoginExtensions) sec" where
  "mfa_authenticator E Caller Ext =
     (let Ext = Ext\<lparr>ux_mobiles := []\<rparr>
      in if ux_authenticatorSecret Ext = [] then do {
           Secret \<leftarrow> TotpCache_CompleteValidation E Caller False;
           ret (case Secret of
                  Some s \<Rightarrow> (MfaApplied, Ext\<lparr>ux_authenticatorSecret := s\<rparr>)
                | None \<Rightarrow> (AuthenticatorIncomplete, Ext))
         }
         else ret (MfaApplied, Ext))"

definition ApplyMfaChange :: "env \<Rightarrow> UserInfo \<Rightarrow> UserInfo \<Rightarrow> bool \<Rightarrow> UserInfo \<Rightarrow> (MfaUpdateStatus \<times> UserInfo) sec" where
  "ApplyMfaChange E Caller NewUser HasMfaUpdate Existing =
     (let NewExt = u_userTypeProprietaryInfo NewUser; Ext = u_userTypeProprietaryInfo Existing; meth = mfa_method (ux_mfa NewExt)
      in if \<not> HasMfaUpdate then ret (MfaApplied, Existing)
         else if \<not> mfa_enabled (ux_mfa NewExt) then
           ret (MfaApplied, Existing\<lparr>u_userTypeProprietaryInfo := Ext\<lparr>ux_authenticatorSecret := [], ux_mobiles := [],
             ux_mfa := (ux_mfa Ext)\<lparr>mfa_enabled := False\<rparr>\<rparr>\<rparr>)
         else if \<not> MFAMETHODS_Validate meth then ret (BadMethod, Existing)
         else if meth = SMS_method \<and> \<not> e_smsEnabled E then ret (SmsNotEnabled, Existing)
         else if meth = EMAIL_method \<and> \<not> e_smtpEnabled E then ret (EmailNotEnabled, Existing)
         else do {
           let Ext = Ext\<lparr>ux_mfa := (ux_mfa Ext)\<lparr>mfa_method := meth, mfa_enabled := True\<rparr>\<rparr>;
           (status, Ext) \<leftarrow>
             (if meth = SMS_method then mfa_sms E Caller NewExt Ext
              else if meth = AUTHENTICATOR_method then mfa_authenticator E Caller Ext
              else ret (MfaApplied, Ext\<lparr>ux_mobiles := [], ux_authenticatorSecret := []\<rparr>));
           ret (status, Existing\<lparr>u_userTypeProprietaryInfo := Ext\<rparr>)
         })"

definition IsOwprovRequester :: "env \<Rightarrow> string \<Rightarrow> bool" where
  "IsOwprovRequester E RequesterStr \<longleftrightarrow> RequesterStr \<noteq> [] \<and> RequesterStr \<in> set (e_provEndPoints E)"

subsection \<open>The handler\<close>

definition RESTAPI_user_DoGet :: "env \<Rightarrow> rest_op" where
  "RESTAPI_user_DoGet E c =
     (let Id1 = GetBinding E c ''id'' []
      in if Id1 = [] then ret (Some (BadRequest Err_MissingUserID))
         else if cx_internal c \<and> \<not> IsOwprovRequester E (cx_requester c) then ret (Some (UnAuthorized Err_ACCESS_DENIED))
         else do {
           let Id1 = str_toLower (e_poco E) Id1;
           user \<leftarrow> (if HasParameter c ''byEmail'' = Some ''true'' then GetUserByEmail E Users Id1 else GetUserById E Users Id1);
           ret (Some (case user of
             None \<Rightarrow> NotFound
           | Some UInfo1 \<Rightarrow>
               if \<not> cx_internal c \<and> \<not> CanReadUserRecord (caller c) UInfo1 then UnAuthorized Err_ACCESS_DENIED
               else user_answer UInfo1))
         })"

definition RESTAPI_user_DoDelete :: "env \<Rightarrow> rest_op" where
  "RESTAPI_user_DoDelete E c =
     (let Id1 = GetBinding E c ''id'' []
      in if Id1 = [] then ret (Some (BadRequest Err_MissingUserID))
         else do {
           user \<leftarrow> GetUserById E Users Id1;
           case user of
             None \<Rightarrow> ret (Some NotFound)
           | Some UInfo1 \<Rightarrow>
               if \<not> CanDeleteUserRecord (caller c) UInfo1 then ret (Some (UnAuthorized Err_ACCESS_DENIED))
               else do {
                 deleted \<leftarrow> DeleteUser E Users Id1;
                 if \<not> deleted then ret (Some NotFound)
                 else do {
                   DeleteUserFromCache E Id1;
                   DeleteAvatar E Users Id1;
                   DeletePreferences E Users Id1;
                   RevokeAllTokens E Users Id1;
                   RemoveAllApiKeys E Id1;
                   ret (Some OK)
                 }
               }
         })"

text \<open>A new record as it is handed to the table: no second factor, validated, named.\<close>

definition new_user_record :: "UserInfo \<Rightarrow> UserInfo" where
  "new_user_record NewUser = NewUser\<lparr>u_name := (if u_name NewUser = [] then u_email NewUser else u_name NewUser),
     u_userTypeProprietaryInfo := (u_userTypeProprietaryInfo NewUser)\<lparr>
       ux_mfa := (ux_mfa (u_userTypeProprietaryInfo NewUser))\<lparr>mfa_enabled := False, mfa_method := []\<rparr>,
       ux_mobiles := [], ux_authenticatorSecret := []\<rparr>\<rparr>"

definition store_new_user :: "env \<Rightarrow> UserInfo \<Rightarrow> rest_op" where
  "store_new_user E NewUser c = do {
     (created, NewUser) \<leftarrow> CreateUser E Users NewUser False;
     if \<not> created then ret (Some (BadRequest Err_RecordNotCreated))
     else do {
       (if GetParameter c ''email_verification'' [] = ''true'' then do {
          (ok, NewUser) \<leftarrow> VerifyEmail E NewUser;
          UpdateUserInfo E Users (u_id NewUser) NewUser;
          ret ()
        }
        else ret ());
       stored \<leftarrow> GetUserByEmail E Users (u_email NewUser);
       ret (Some (case stored of None \<Rightarrow> NotFound | Some U \<Rightarrow> user_answer U))
     }
   }"

definition RESTAPI_user_DoPost :: "env \<Rightarrow> rest_op" where
  "RESTAPI_user_DoPost E c =
     (if GetBinding E c ''id'' [] \<noteq> ''0'' then ret (Some (BadRequest Err_IdMustBe0))
      else case map_option (\<lambda>Obj. UserInfo_from_json (e_poco E) Obj UserInfo_init) (ParsedBody c) of
        None \<Rightarrow> ret (Some (BadRequest Err_InvalidJSONDocument))
      | Some (NewUser, parsed) \<Rightarrow>
          if \<not> parsed then ret (Some (BadRequest Err_InvalidJSONDocument))
          else if u_userRole NewUser = UNKNOWN then ret (Some (BadRequest Err_InvalidUserRole))
          else (let NewUser = NewUser\<lparr>u_createdBy := u_id (caller c),
                  u_owner := (if u_userRole (caller c) = ROOT then GetParameter c ''entity'' [] else u_owner (caller c))\<rparr>
                in if \<not> CanCreateUserRecord (caller c) NewUser then ret (Some (UnAuthorized Err_ACCESS_DENIED))
                   else (let NewUser = NewUser\<lparr>u_email := str_toLower (e_poco E) (u_email NewUser)\<rparr>
                         in if \<not> ValidEMailAddress (u_email NewUser) then ret (Some (BadRequest Err_InvalidEmailAddress))
                            else do {
                              Existing \<leftarrow> GetUserByEmail E Subs (u_email NewUser);
                              if Existing \<noteq> None then ret (Some (BadRequest Err_UserAlreadyExists))
                              else if u_currentPassword NewUser \<noteq> [] \<and> \<not> ValidatePassword E (u_currentPassword NewUser)
                              then ret (Some (BadRequest Err_InvalidPassword))
                              else store_new_user E ((new_user_record NewUser)\<lparr>u_validated := True\<rparr>) c
                            })))"

primrec mfa_refusal :: "MfaUpdateStatus \<Rightarrow> rest_error option" where
  "mfa_refusal MfaApplied = None"
| "mfa_refusal BadMethod = Some Err_BadMFAMethod"
| "mfa_refusal SmsNotEnabled = Some Err_SMSMFANotEnabled"
| "mfa_refusal EmailNotEnabled = Some Err_EMailMFANotEnabled"
| "mfa_refusal NeedMobileNumber = Some Err_NeedMobileNumber"
| "mfa_refusal AuthenticatorIncomplete = Some Err_AuthenticatorVerificationIncomplete"

text \<open>The fields that are assigned before anything is asked of the environment.\<close>

definition apply_fields :: "env \<Rightarrow> UserInfo \<Rightarrow> jobj \<Rightarrow> UserInfo \<Rightarrow> (bool \<times> UserInfo) option" where
  "apply_fields E Caller RawObject Existing = do {
     U1 \<leftarrow> ApplyOwnerUpdate E Caller RawObject Existing;
     U2 \<leftarrow> ApplyProfileFields E RawObject U1;
     U3 \<leftarrow> ApplyAdminStatusFields E RawObject U2;
     ApplyRoleChange E Caller U3 RawObject
   }"

definition store_update :: "env \<Rightarrow> string \<Rightarrow> UserInfo \<Rightarrow> response option sec" where
  "store_update E Id1 Existing = do {
     now \<leftarrow> Now E;
     updated \<leftarrow> UpdateUserInfo E Users Id1 (Existing\<lparr>u_modified := now\<rparr>);
     if \<not> updated then ret (Some (BadRequest Err_RecordNotUpdated))
     else do {
       answer \<leftarrow> BuildUpdatedUserResponse E Id1;
       ret (Some (case answer of None \<Rightarrow> NotFound | Some r \<Rightarrow> r))
     }
   }"

text \<open>From the verification on: verification, second factor, then the table.\<close>

definition finish_update :: "env \<Rightarrow> string \<Rightarrow> jobj \<Rightarrow> UserInfo \<Rightarrow> UserInfo \<Rightarrow> rest_op" where
  "finish_update E Id1 RawObject NewUser U c = do {
     U1 \<leftarrow> (if GetParameter c ''email_verification'' [] = ''true''
           then do { (ok, V) \<leftarrow> VerifyEmail E U; ret V } else ret U);
     (status, U2) \<leftarrow> ApplyMfaChange E (caller c) NewUser (map_of RawObject ''userTypeProprietaryInfo'' \<noteq> None) U1;
     case mfa_refusal status of
       Some e \<Rightarrow> ret (Some (BadRequest e))
     | None \<Rightarrow> store_update E Id1 U2
   }"

definition apply_secrets :: "env \<Rightarrow> string \<Rightarrow> jobj \<Rightarrow> UserInfo \<Rightarrow> UserInfo \<Rightarrow> rest_op" where
  "apply_secrets E Id1 RawObject NewUser Existing c = do {
     changed \<leftarrow> ApplyPasswordChange E RawObject Existing;
     case changed of
       None \<Rightarrow> ret None
     | Some (PasswordInvalidPassword, U) \<Rightarrow> ret (Some (BadRequest Err_InvalidPassword))
     | Some (PasswordRejectedStatus, U) \<Rightarrow> ret (Some (BadRequest Err_PasswordRejected))
     | Some (PasswordApplied, U) \<Rightarrow> finish_update E Id1 RawObject NewUser U c
   }"

definition update_user :: "env \<Rightarrow> string \<Rightarrow> jobj \<Rightarrow> UserInfo \<Rightarrow> UserInfo \<Rightarrow> rest_op" where
  "update_user E Id1 RawObject NewUser Existing c =
     (case ValidateUpdatePayload E RawObject of
        None \<Rightarrow> ret None
      | Some False \<Rightarrow> ret (Some (BadRequest Err_InvalidUserRole))
      | Some True \<Rightarrow>
          if IsSelfServiceCaller (caller c) \<and> \<not> HasOnlyAllowedSelfServiceFields RawObject
          then ret (Some (UnAuthorized Err_ACCESS_DENIED))
          else (case apply_fields E (caller c) RawObject Existing of
            None \<Rightarrow> ret None
          | Some (False, U) \<Rightarrow> ret (Some (UnAuthorized Err_ACCESS_DENIED))
          | Some (True, U) \<Rightarrow> do {
              noted \<leftarrow> AppendNotes E (caller c) RawObject U;
              case noted of
                None \<Rightarrow> ret None
              | Some U1 \<Rightarrow> apply_secrets E Id1 RawObject NewUser U1 c
            }))"

definition change_user :: "env \<Rightarrow> string \<Rightarrow> UserInfo \<Rightarrow> rest_op" where
  "change_user E Id1 Existing c =
     (if GetParameter c ''resetMFA'' [] = ''true'' then
        (if \<not> CanResetUserMFA (caller c) Existing then ret (Some (UnAuthorized Err_ACCESS_DENIED))
         else do {
           answer \<leftarrow> HandleResetMFA E (caller c) Id1 Existing;
           ret (Some (case answer of None \<Rightarrow> BadRequest Err_RecordNotUpdated | Some r \<Rightarrow> r))
         })
      else if GetParameter c ''forgotPassword'' [] = ''true'' then do {
        HandleForgotPassword E Existing;
        ret (Some OK)
      }
      else (case ParsedBody c of
        None \<Rightarrow> ret (Some (BadRequest Err_InvalidJSONDocument))
      | Some RawObject \<Rightarrow>
          (case UserInfo_from_json (e_poco E) RawObject UserInfo_init of
             (NewUser, parsed) \<Rightarrow>
               if \<not> parsed then ret (Some (BadRequest Err_InvalidJSONDocument))
               else update_user E Id1 RawObject NewUser Existing c)))"

definition RESTAPI_user_DoPut :: "env \<Rightarrow> rest_op" where
  "RESTAPI_user_DoPut E c =
     (let Id1 = GetBinding E c ''id'' []
      in if Id1 = [] then ret (Some (BadRequest Err_MissingUserID))
         else do {
           user \<leftarrow> GetUserById E Users Id1;
           case user of
             None \<Rightarrow> ret (Some NotFound)
           | Some Existing \<Rightarrow>
               if \<not> CanModifyUserRecord (caller c) Existing then ret (Some (UnAuthorized Err_ACCESS_DENIED))
               else change_user E Id1 Existing c
         })"

definition RESTAPI_user_handler :: "env \<Rightarrow> bool \<Rightarrow> handler" where
  "RESTAPI_user_handler E Internal =
     \<lparr>hd_methods = (if Internal then [''GET'', ''OPTIONS''] else [''POST'', ''GET'', ''PUT'', ''DELETE'', ''OPTIONS'']),
      hd_internal = Internal, hd_always = True, hd_rateLimited = False, hd_interval = 1000, hd_maxCalls = 100,
      hd_subOnly = False,
      hd_get = RESTAPI_user_DoGet E, hd_post = RESTAPI_user_DoPost E, hd_put = RESTAPI_user_DoPut E,
      hd_delete = RESTAPI_user_DoDelete E\<rparr>"

end
