(* ===== verification/Rest_Guard.thy ===== *)
theory Rest_Guard
  imports Rest_User
begin

text \<open>
  What the request layer promises: no protected handler runs without a session, the login endpoint
  answers with a token only for the holder of an account, and the rate limiter counts.
\<close>

subsection \<open>Requests without a session\<close>

lemma rates_coh [simp]: "coh E Rm (w\<lparr>w_rates := r\<rparr>) = coh E Rm w"
  by (rule coh_other_tables) (cases Rm; simp)

lemma IsRateLimited_wp: "wp (IsRateLimited E R P M) (\<lambda>_ w'. \<exists>n r. w' = w\<lparr>w_tick := n, w_rates := r\<rparr>) w"
  unfolding IsRateLimited_def by (auto simp: Let_def split: option.splits)

lemma bearer_wp:
  assumes c: "coh E Rm w" and db: "db_healthy E" and none: "\<And>tok. session_of E Rm w tok = None"
  shows "wp (if Rm = Subs then IsSubAuthorized E auth ui else IsAuthorized E auth ui)
     (\<lambda>(ok, ui', x) w'. \<not> ok \<and> persist w' = persist w) w"
proof -
  have check: "wp (check_token E Rm tok ui) (\<lambda>(ok, ui', x) w'. \<not> ok \<and> persist w' = persist w) w" for tok
    by (rule wp_mono [OF check_token_wp [OF c db]]) (auto simp: check_post_def none)
  show ?thesis
    using check
    by (cases Rm) (auto simp: IsAuthorized_def IsSubAuthorized_def IsAuthorized_token_def split: option.splits)
qed

definition inert_answer :: "response \<Rightarrow> bool" where
  "inert_answer r \<longleftrightarrow> (\<exists>e. r = UnAuthorized e) \<or> (\<exists>e. r = BadRequest e) \<or> r = OptionsAnswer"

definition handler_realm :: "handler \<Rightarrow> realm_id" where
  "handler_realm H = (if hd_subOnly H then Subs else Users)"

text \<open>
  A protected external handler does nothing for a client without a session: when no token of the
  handler's realm stands for a user and the request carries no API key, the answer is a refusal (or
  the reply to an OPTIONS request), whatever the handler's operations are, and no table changes.
\<close>

theorem no_session_no_effect:
  assumes "hd_always H" "\<not> hd_internal H" "rq_apiKey R = None"
    and "coh E (handler_realm H) w" "db_healthy E" "\<And>tok. session_of E (handler_realm H) w tok = None"
  shows "wp (handleRequest E H R) (\<lambda>r w'. inert_answer r \<and> persist w' = persist w) w"
proof -
  let ?c = "\<lparr>cx_request = R, cx_internal = hd_internal H, cx_user = UserInfoAndPolicy_init, cx_session = [], cx_requester = []\<rparr>"
  have auth: "wp (handler_IsAuthorized E ?c (hd_subOnly H)) (\<lambda>(ok, x) w'. \<not> ok \<and> persist w' = persist w) (w\<lparr>w_tick := n, w_rates := r\<rparr>)" for n r
  proof -
    have "coh E (handler_realm H) (w\<lparr>w_tick := n, w_rates := r\<rparr>)" using assms(4) by simp
    moreover have p: "persist (w\<lparr>w_tick := n, w_rates := r\<rparr>) = persist w" by simp
    ultimately have "wp (if handler_realm H = Subs then IsSubAuthorized E (rq_auth R) UserInfoAndPolicy_init
        else IsAuthorized E (rq_auth R) UserInfoAndPolicy_init)
      (\<lambda>(ok, ui', x) w'. \<not> ok \<and> persist w' = persist w) (w\<lparr>w_tick := n, w_rates := r\<rparr>)"
      using bearer_wp [of E "handler_realm H" "w\<lparr>w_tick := n, w_rates := r\<rparr>"] assms(5,6) persist_stored(4) [OF p] by simp
    then show ?thesis
      using assms(2,3) unfolding handler_IsAuthorized_def
      by (auto simp: handler_realm_def Let_def split: if_splits elim!: wp_mono)
  qed
  have auth0: "wp (handler_IsAuthorized E ?c (hd_subOnly H)) (\<lambda>(ok, x) w'. \<not> ok \<and> persist w' = persist w) w"
    using auth [where n = "w_tick w" and r = "w_rates w"] by simp
  show ?thesis
    using assms(1) unfolding handleRequest_def process_request_def
    by (auto simp: inert_answer_def intro!: wp_mono [OF IsRateLimited_wp] wp_mono [OF auth] wp_mono [OF auth0])
qed

subsection \<open>Counting calls\<close>

fun repeated :: "nat \<Rightarrow> 'a sec \<Rightarrow> 'a list sec" where
  "repeated 0 m = ret []"
| "repeated (Suc n) m = do { x \<leftarrow> m; xs \<leftarrow> repeated n m; ret (x # xs) }"

text \<open>The limiter's cache keeps its entries, and the clock stays within one period.\<close>

definition quiet_period :: "env \<Rightarrow> request \<Rightarrow> int \<Rightarrow> bool" where
  "quiet_period E R P \<longleftrightarrow> (\<forall>t t'. e_millis E t - e_millis E t' < P) \<and> (\<forall>t. \<not> e_evict E t (rq_path R @ rq_client R))"

text \<open>The answers to \<open>n\<close> calls when \<open>k\<close> were counted before.\<close>

primrec rate_answers :: "nat \<Rightarrow> int \<Rightarrow> int \<Rightarrow> bool list" where
  "rate_answers 0 M k = []"
| "rate_answers (Suc n) M k = (M < k + 1) # rate_answers n M (k + 1)"

lemma rate_answers_split: "rate_answers n M k = replicate (min n (nat (M - k))) False @ replicate (n - nat (M - k)) True"
proof (induction n arbitrary: k)
  case (Suc n)
  show ?case
  proof (cases "M - k \<le> 0")
    case True
    then show ?thesis by (simp add: Suc.IH)
  next
    case False
    then have "nat (M - k) = Suc (nat (M - (k + 1)))" by simp
    with False show ?thesis by (simp add: Suc.IH)
  qed
qed simp

lemma repeated_limited:
  assumes "quiet_period E R P"
  shows "\<exists>t. w_rates w (e_strHash E (rq_path R @ rq_client R)) = Some \<lparr>cc_Start = e_millis E t, cc_Count = k\<rparr> \<Longrightarrow>
    wp (repeated n (IsRateLimited E R P M)) (\<lambda>res _. res = rate_answers n M k) w"
proof (induction n arbitrary: w k)
  case 0
  then show ?case by simp
next
  case (Suc n)
  from Suc.prems obtain t where t: "w_rates w (e_strHash E (rq_path R @ rq_client R)) = Some \<lparr>cc_Start = e_millis E t, cc_Count = k\<rparr>" ..
  have "wp (repeated n (IsRateLimited E R P M)) (\<lambda>res _. res = rate_answers n M (k + 1))
     (w\<lparr>w_tick := m, w_rates := (w_rates w)(e_strHash E (rq_path R @ rq_client R) \<mapsto> \<lparr>cc_Start = e_millis E t, cc_Count = k + 1\<rparr>)\<rparr>)" for m
    by (rule Suc.IH) auto
  then show ?case
    using assms t by (auto simp: IsRateLimited_def Let_def quiet_period_def elim!: wp_mono)
qed


subsection \<open>The login endpoint\<close>

lemma map_of_merge: "map_of (obj_merge obj kvs) k = (case map_of (rev kvs) k of None \<Rightarrow> map_of obj k | Some v \<Rightarrow> Some v)"
proof (induction kvs arbitrary: obj)
  case (Cons kv kvs)
  then show ?case
    by (cases kv) (auto simp: obj_merge_def map_of_obj_set map_of_append map_add_def split: option.splits)
qed (simp add: obj_merge_def)

lemma token_in_object: "map_of (obj_merge obj (WebToken_to_json WT)) ''access_token'' = Some (JStr (wt_access_token WT))"
  by (simp add: map_of_merge WebToken_to_json_def obj_sets_def)

lemma realm_kept [pres]:
  "preserves (\<lambda>w. realm_of Rm w = x) step" "preserves (\<lambda>w. realm_of Rm w = x) (Now E)"
  "preserves (\<lambda>w. realm_of Rm w = x) (CreateUUID E)" "preserves (\<lambda>w. realm_of Rm w = x) (Random E lo hi)"
  "preserves (\<lambda>w. realm_of Rm w = x) (SendMessage E a b c d)" "preserves (\<lambda>w. realm_of Rm w = x) (provider_Send E a b)"
  "preserves (\<lambda>w. realm_of Rm w = x) (modify (\<lambda>w. w\<lparr>w_mfa := f w\<rparr>))"
  by (cases Rm; simp add: preserves_def Now_def CreateUUID_def Random_def SendMessage_def provider_Send_def)+

lemma StartMFAChallenge_realm: "preserves (\<lambda>w. realm_of Rm w = x) (StartMFAChallenge E ui obj)"
  unfolding StartMFAChallenge_def SendChallenge_def SendEmailChallengeCode_def SMSSender_Send_def MakeChallenge_def
    MFAServer_CleanCache_def
  by (intro pres)

text \<open>The challenge that is told to the client is stored for the user; the object has no token.\<close>

definition challenge_pending :: "UserInfoAndPolicy \<Rightarrow> jobj \<Rightarrow> world \<Rightarrow> bool" where
  "challenge_pending ui obj w \<longleftrightarrow> map_of obj ''access_token'' = None
     \<and> (\<exists>uuid h. map_of obj ''uuid'' = Some (JStr uuid) \<and> w_mfa w uuid = Some h \<and> mc_UInfo h = ui)"

lemma StartMFAChallenge_pending:
  "wp (StartMFAChallenge E ui []) (\<lambda>(ok, obj) w'. ok \<longrightarrow> challenge_pending ui obj w') w"
  unfolding StartMFAChallenge_def MFAServer_CleanCache_def Now_def MakeChallenge_def Random_def CreateUUID_def
  by (auto simp: Let_def map_of_obj_set challenge_pending_def intro!: wp_mono [OF preservesD [OF SendChallenge_mfa refl]])

definition carries_token :: "UserInfoAndPolicy \<Rightarrow> jobj \<Rightarrow> bool" where
  "carries_token ui obj \<longleftrightarrow> map_of obj ''access_token'' = Some (JStr (wt_access_token (uip_webtoken ui)))"

lemma StartMFAChallenge_wp:
  "wp (StartMFAChallenge E ui []) (\<lambda>(ok, obj) w'. (\<forall>Rm. realm_of Rm w' = realm_of Rm w) \<and> (ok \<longrightarrow> challenge_pending ui obj w')) w"
proof -
  have "wp (StartMFAChallenge E ui []) (\<lambda>_ w'. realm_of Rm w' = realm_of Rm w) w" for Rm
    by (rule preservesD [OF StartMFAChallenge_realm refl])
  from wp_conj [OF wp_conj [OF this [of Users] this [of Subs]] StartMFAChallenge_pending [of E ui w]]
  show ?thesis by (rule wp_mono) (clarsimp, metis realm_id.exhaust realm_of.simps)
qed

lemma second_factor_wp:
  "wp (oauth_second_factor E ui) (\<lambda>r w'. (\<forall>Rm. realm_of Rm w' = realm_of Rm w) \<and>
     (\<exists>obj. r = Some (ReturnObject (JObj obj)) \<and>
        (if RequiresMFA E ui then carries_token ui obj \<or> challenge_pending ui obj w' else carries_token ui obj))) w"
  unfolding oauth_second_factor_def return_token_def
  by (auto simp: carries_token_def token_in_object intro!: wp_mono [OF StartMFAChallenge_wp])

definition login_answer ::
  "env \<Rightarrow> realm_id \<Rightarrow> world \<Rightarrow> string \<Rightarrow> string \<Rightarrow> string \<Rightarrow> response option \<Rightarrow> world \<Rightarrow> bool" where
  "login_answer E Rm w name pw newpw r w' \<longleftrightarrow>
     (if \<exists>j. r = Some (ReturnObject j)
      then \<exists>u ui obj. r = Some (ReturnObject (JObj obj)) \<and> may_login E Rm w name pw newpw u \<and> issued E Rm w (u_id u) ui w'
        \<and> (if RequiresMFA E ui then carries_token ui obj \<or> challenge_pending ui obj w' else carries_token ui obj)
      else persist w' = persist w \<and> (newpw = [] \<longrightarrow> (\<forall>u. \<not> may_login E Rm w name pw newpw u)))"

lemma session_user_realm:
  assumes "realm_of Rm w2 = realm_of Rm w1"
  shows "session_user E Rm w2 = session_user E Rm w1"
proof -
  have "stored_token E Rm w2 = stored_token E Rm w1" using assms by (intro ext stored_token_cong) simp
  then show ?thesis
    by (intro ext) (unfold session_user_def session_of_def coh_other_tables(2) [OF assms], simp)
qed

lemma issued_realm:
  assumes "realm_of Rm w2 = realm_of Rm w1"
  shows "issued E Rm w uid ui w2 = issued E Rm w uid ui w1" "issued E Rm w2 uid ui = issued E Rm w1 uid ui"
  using assms session_user_realm [OF assms, of E] coh_other_tables(1) [OF assms, of E]
  by (auto simp: issued_def user_ids_def token_unused_def fun_eq_iff)

lemma login_answer_start:
  assumes "realm_of Rm w1 = realm_of Rm w" "persist w1 = persist w"
  shows "login_answer E Rm w1 name pw newpw r w' = login_answer E Rm w name pw newpw r w'"
proof -
  have "may_login E Rm w1 name pw newpw = may_login E Rm w name pw newpw"
    using assms(1) by (intro ext) (simp add: may_login_def stored_email_def)
  then show ?thesis by (simp only: login_answer_def issued_realm(2) [OF assms(1)] assms(2))
qed

lemma oauth_login_wp:
  assumes "coh E Rm w" "poco_ok (e_poco E)" "db_healthy E"
  shows "wp (oauth_login E Rm name pw newpw) (login_answer E Rm w name pw newpw) w"
proof -
  have factor: "wp (oauth_second_factor E ui) (login_answer E Rm w name pw newpw) w1"
    if "may_login E Rm w name pw newpw u" "issued E Rm w (u_id u) ui w1" for u ui w1
  proof (rule wp_mono [OF second_factor_wp], elim conjE exE)
    fix r w2 obj
    assume kept: "\<forall>Rm. realm_of Rm w2 = realm_of Rm w1" and r: "r = Some (ReturnObject (JObj obj))"
      and obj: "if RequiresMFA E ui then carries_token ui obj \<or> challenge_pending ui obj w2 else carries_token ui obj"
    have "issued E Rm w (u_id u) ui w2"
      using that(2) by (subst issued_realm(1)) (use kept in auto)
    then show "login_answer E Rm w name pw newpw r w2"
      unfolding login_answer_def r using that(1) obj by (subst if_P) blast+
  qed
  have body: "wp (case res of None \<Rightarrow> ret None | Some (Code, UInfo) \<Rightarrow>
         if Code = SUCCESS then oauth_second_factor E UInfo else ret (Some (UnAuthorized (login_refusal Code))))
     (login_answer E Rm w name pw newpw) w1" if "login_post E Rm w name pw newpw res w1" for res w1
  proof (cases "\<exists>ui. res = Some (SUCCESS, ui)")
    case True
    then show ?thesis using that factor by (auto simp: login_post_def)
  next
    case False
    then have "persist w1 = persist w \<and> (newpw = [] \<longrightarrow> (\<forall>u. \<not> may_login E Rm w name pw newpw u))"
      using that by (simp add: login_post_def)
    with False show ?thesis by (auto simp: login_answer_def split: option.splits)
  qed
  have "wp (case Rm of Users \<Rightarrow> Authorize E name pw newpw ui | Subs \<Rightarrow> AuthorizeSub E name pw newpw ui)
      (login_post E Rm w name pw newpw) w" for ui
    using login_wp [OF assms] by (cases Rm) (simp_all add: Authorize_def AuthorizeSub_def)
  then show ?thesis
    unfolding oauth_login_def wp_bind by (rule wp_mono) (rule body)
qed

lemma login_answer_error:
  "login_answer E Rm w name pw newpw None w' \<Longrightarrow> login_answer E Rm w name pw newpw (Some (BadRequest e)) w'"
  by (simp add: login_answer_def)

text \<open>A request to log in: the body has the name and the passwords, there is no parameter.\<close>

definition login_request :: "env \<Rightarrow> request \<Rightarrow> string \<Rightarrow> string \<Rightarrow> string \<Rightarrow> bool" where
  "login_request E R name pw newpw \<longleftrightarrow> rq_method R = ''POST'' \<and> rq_params R = []
     \<and> (\<exists>Obj rt. rq_body R = Body Obj \<and> GetS E ''userId'' Obj [] = Some name \<and> GetS E ''password'' Obj [] = Some pw
          \<and> GetS E ''newPassword'' Obj [] = Some newpw \<and> GetS E ''refreshToken'' Obj [] = Some rt)"

lemma dispatch_login:
  assumes "login_request E (cx_request c) name pw newpw"
  shows "dispatch E (RESTAPI_oauth2_handler E) c = oauth_login E Users (str_toLower (e_poco E) name) pw newpw"
proof -
  obtain Obj where "ParsedBody c = Some Obj" "oauth_DoPost E Users Obj c = oauth_login E Users (str_toLower (e_poco E) name) pw newpw"
    using assms unfolding login_request_def
    by (auto simp: ParsedBody_def oauth_DoPost_def Let_def GetParameter_def GetBoolParameter_def)
  moreover have "\<exists>QB. InitQueryBlock E c = Some QB"
    using assms by (simp add: login_request_def InitQueryBlock_def GetParameter_u64_def)
  ultimately show ?thesis
    using assms by (auto simp: dispatch_def RESTAPI_oauth2_handler_def RESTAPI_oauth2_DoPost_def login_request_def)
qed

text \<open>
  C8. The login endpoint, from the request to the answer: a request with a name and passwords is
  refused by the rate limiter without effect, or it is answered with an object exactly as a login
  succeeds. Then the account holder's new session is stored, and the object carries the access
  token; only for a user with a second factor it may carry instead a pending challenge of that
  user and no token. Every other answer leaves all tables as they were.
\<close>

theorem login_endpoint_sound:
  assumes "coh E Users w" "poco_ok (e_poco E)" "db_healthy E" "login_request E R name pw newpw"
  shows "wp (handleRequest E (RESTAPI_oauth2_handler E) R) (\<lambda>r w'.
     r = UnAuthorized Err_RATE_LIMIT_EXCEEDED \<and> persist w' = persist w
     \<or> login_answer E Users w (str_toLower (e_poco E) name) pw newpw (Some r) w') w"
proof -
  have login: "wp (oauth_login E Users (str_toLower (e_poco E) name) pw newpw)
      (login_answer E Users w (str_toLower (e_poco E) name) pw newpw) (w\<lparr>w_tick := n, w_rates := r\<rparr>)" for n r
  proof -
    have "realm_of Users (w\<lparr>w_tick := n, w_rates := r\<rparr>) = realm_of Users w" "persist (w\<lparr>w_tick := n, w_rates := r\<rparr>) = persist w"
      by simp_all
    note start = login_answer_start [OF this, of E]
    show ?thesis
      unfolding start [symmetric] by (rule oauth_login_wp) (use assms in simp_all)
  qed
  have post: "rq_method R = ''POST''" "rq_body R \<noteq> BadBody" using assms(4) by (auto simp: login_request_def)
  have fields: "hd_rateLimited (RESTAPI_oauth2_handler E)" "''POST'' \<in> set (hd_methods (RESTAPI_oauth2_handler E))"
    "\<not> hd_always (RESTAPI_oauth2_handler E)"
    by (simp_all add: RESTAPI_oauth2_handler_def)
  have goes: "dispatch E (RESTAPI_oauth2_handler E) c = oauth_login E Users (str_toLower (e_poco E) name) pw newpw"
    if "cx_request c = R" for c
    by (rule dispatch_login) (use that assms(4) in simp)
  show ?thesis
    unfolding handleRequest_def process_request_def
    by (simp add: post fields goes cong: if_cong)
      (auto intro!: wp_mono [OF IsRateLimited_wp [of E R _ _ w]] wp_mono [OF login] login_answer_error split: option.splits)
qed

text \<open>
  What a login of a user with a second factor discloses depends on the delivery of the challenge:
  with an authenticator secret the token is always withheld and the challenge is pending; when
  every text message fails, the answer carries the access token although the challenge was never
  answered.
\<close>

theorem second_factor_delivery:
  assumes "RequiresMFA E ui" "ext = u_userTypeProprietaryInfo (uip_userinfo ui)"
  shows "(mfa_method (ux_mfa ext) = AUTHENTICATOR_method \<and> ux_authenticatorSecret ext \<noteq> [] \<longrightarrow>
      wp (oauth_second_factor E ui) (\<lambda>r w'. \<exists>obj. r = Some (ReturnObject (JObj obj)) \<and> challenge_pending ui obj w') w)
    \<and> (mfa_method (ux_mfa ext) = SMS_method \<and> (\<forall>t. \<not> e_smsSend E t) \<longrightarrow>
      wp (oauth_second_factor E ui) (\<lambda>r w'. \<exists>obj. r = Some (ReturnObject (JObj obj)) \<and> carries_token ui obj) w)"
  using assms
  by (simp add: oauth_second_factor_def return_token_def StartMFAChallenge_def SendChallenge_def Let_def
      MFAServer_CleanCache_def Now_def MakeChallenge_def Random_def CreateUUID_def map_of_obj_set
      SMSSender_Send_def provider_Send_def RequiresMFA_def MethodEnabled_def SMS_method_def EMAIL_method_def AUTHENTICATOR_method_def
      challenge_pending_def carries_token_def token_in_object)

subsection \<open>Witnesses\<close>

definition put_request :: request where
  "put_request = \<lparr>rq_method = ''PUT'', rq_path = ''/api/v1/user/u1'', rq_client = ''10.0.0.1'', rq_auth = None,
     rq_apiKey = None, rq_internalName = None, rq_upgrade = None, rq_params = [], rq_bindings = [(''id'', ''u1'')], rq_body = Body []\<rparr>"

lemma empty_coh: "coh E Rm world_empty"
proof -
  have "token_coherent E Rm world_empty"
    by (cases Rm) (simp_all add: token_coherent_def keys_distinct_def world_empty_def realm_empty_def)
  then show ?thesis by (simp add: coh_def coherent_empty)
qed

lemma empty_sessions: "session_of E Rm world_empty tok = None"
  by (cases Rm) (simp_all add: session_of_def stored_token_def world_empty_def realm_empty_def)

theorem no_session_no_effect_witness:
  "wp (handleRequest env_inst (RESTAPI_user_handler env_inst False) put_request)
     (\<lambda>r w'. inert_answer r \<and> persist w' = persist world_empty) world_empty"
  by (rule no_session_no_effect)
    (simp_all add: RESTAPI_user_handler_def put_request_def empty_coh empty_sessions)


definition login_post_request :: request where
  "login_post_request = put_request\<lparr>rq_method := ''POST'', rq_path := ''/api/v1/oauth2'',
     rq_body := Body [(''userId'', JStr ''a@b.c''), (''password'', JStr ''Secret1!'')]\<rparr>"

theorem login_endpoint_sound_witness:
  "wp (handleRequest env_inst (RESTAPI_oauth2_handler env_inst) login_post_request) (\<lambda>r w'.
     r = UnAuthorized Err_RATE_LIMIT_EXCEEDED \<and> persist w' = persist session_world
     \<or> login_answer env_inst Users session_world (str_toLower (e_poco env_inst) ''a@b.c'') ''Secret1!'' [] (Some r) w') session_world
   \<and> may_login env_inst Users session_world ''a@b.c'' ''Secret1!'' [] sample_member"
proof
  have "GetS env_inst k [(''userId'', JStr ''a@b.c''), (''password'', JStr ''Secret1!'')] [] =
      Some (if k = ''userId'' then ''a@b.c'' else if k = ''password'' then ''Secret1!'' else [])" for k
    by (simp add: GetS_def poco_okD)
  then have "login_request env_inst login_post_request ''a@b.c'' ''Secret1!'' []"
    by (simp add: login_request_def login_post_request_def put_request_def)
  then show "wp (handleRequest env_inst (RESTAPI_oauth2_handler env_inst) login_post_request) (\<lambda>r w'.
     r = UnAuthorized Err_RATE_LIMIT_EXCEEDED \<and> persist w' = persist session_world
     \<or> login_answer env_inst Users session_world (str_toLower (e_poco env_inst) ''a@b.c'') ''Secret1!'' [] (Some r) w') session_world"
    by (intro login_endpoint_sound) (simp_all add: session_world_coh)
qed (rule sample_may_login)

definition sms_member :: UserInfoAndPolicy where
  "sms_member = UserInfoAndPolicy_init\<lparr>uip_userinfo := UserInfo_init\<lparr>u_userTypeProprietaryInfo :=
     UserLoginLoginExtensions_init\<lparr>ux_mfa := \<lparr>mfa_enabled = True, mfa_method = SMS_method\<rparr>,
       ux_mobiles := [MobilePhoneNumber_init\<lparr>mp_number := ''555''\<rparr>]\<rparr>\<rparr>\<rparr>"

theorem second_factor_delivery_witness:
  "wp (oauth_second_factor (env_inst\<lparr>e_smsSend := \<lambda>t. False\<rparr>) sms_member)
     (\<lambda>r w'. \<exists>obj. r = Some (ReturnObject (JObj obj)) \<and> carries_token sms_member obj) world_empty"
proof -
  have "RequiresMFA (env_inst\<lparr>e_smsSend := \<lambda>t. False\<rparr>) sms_member"
    by (simp add: sms_member_def UserInfoAndPolicy_init_def RequiresMFA_def MethodEnabled_def env_inst_def)
  from second_factor_delivery [OF this refl, of world_empty] show ?thesis
    by (simp add: sms_member_def)
qed

end
