(* ===== verification/User_Records.thy ===== *)
theory User_Records
  imports Rest_Guard
begin

text \<open>
  What the user endpoint promises: its answers show no password, an update stays within the rights of
  the caller, a deletion leaves nothing of the user behind.
\<close>

subsection \<open>Answers without secrets\<close>

text \<open>Whatever the state, the answer satisfies \<open>P\<close>; only the ends of a program matter.\<close>

definition answers :: "('a \<Rightarrow> bool) \<Rightarrow> 'a sec \<Rightarrow> bool" where
  "answers P m \<longleftrightarrow> (\<forall>w. wp m (\<lambda>r _. P r) w)"

named_theorems ends

lemma answers_ret [ends]: "P r \<Longrightarrow> answers P (ret r)"
  by (simp add: answers_def)

lemma answers_bind [ends]: "(\<And>x. answers P (f x)) \<Longrightarrow> answers P (State_Monad.bind m f)"
  unfolding answers_def wp_bind by (blast intro: wp_weak)

lemma answers_cases [ends]:
  "answers P m \<Longrightarrow> answers P n \<Longrightarrow> answers P (if b then m else n)"
  "answers P m \<Longrightarrow> (\<And>y. answers P (f y)) \<Longrightarrow> answers P (case x of None \<Rightarrow> m | Some y \<Rightarrow> f y)"
  "(\<And>x y. answers P (g x y)) \<Longrightarrow> answers P (case p of (x, y) \<Rightarrow> g x y)"
  "(\<And>x. answers P (h x)) \<Longrightarrow> answers P (let x = e in h x)"
  by (simp_all split: option.splits prod.splits)

lemma answers_bool [ends]: "answers P m \<Longrightarrow> answers P n \<Longrightarrow> answers P (case b of True \<Rightarrow> m | False \<Rightarrow> n)"
  by (simp split: bool.splits)

lemma answersD: "answers P m \<Longrightarrow> wp m (\<lambda>r _. P r) w"
  by (simp add: answers_def)

definition no_secrets :: "json \<Rightarrow> bool" where
  "no_secrets j \<longleftrightarrow> (\<exists>obj. j = JObj obj \<and> map_of obj ''currentPassword'' = Some (JStr [])
     \<and> map_of obj ''lastPasswords'' = Some (JArr []) \<and> map_of obj ''oauthType'' = Some (JStr []))"

definition clean :: "response option \<Rightarrow> bool" where
  "clean r \<longleftrightarrow> (\<forall>j. r = Some (ReturnObject j) \<longrightarrow> no_secrets j)"

lemma clean_simps [simp]:
  "clean None" "clean (Some (BadRequest e))" "clean (Some (UnAuthorized e))" "clean (Some NotFound)" "clean (Some OK)"
  "clean (Some NoAnswer)" "clean (Some EscapesHandler)" "clean (Some OptionsAnswer)" "clean (Some (ReturnStatus n))"
  "clean (Some (user_answer u))"
  by (simp_all add: clean_def user_answer_def no_secrets_def UserInfo_to_json_def Sanitize_def jStrings_def obj_sets_distinct)

lemma clean_option [simp]:
  "clean (Some (case x of None \<Rightarrow> a | Some y \<Rightarrow> f y)) = (case x of None \<Rightarrow> clean (Some a) | Some y \<Rightarrow> clean (Some (f y)))"
  by (simp split: option.splits)

text \<open>An answer that is only built on some branches.\<close>

lemma BuildUpdatedUserResponse_clean: "answers (\<lambda>r. clean r) (BuildUpdatedUserResponse E i)"
  unfolding BuildUpdatedUserResponse_def
  by (intro ends) (auto simp: clean_def map_option_case split: option.splits intro: clean_simps(10) [unfolded clean_def, rule_format])

lemma HandleResetMFA_clean: "answers (\<lambda>r. clean r) (HandleResetMFA E C i u)"
  unfolding HandleResetMFA_def by (intro ends BuildUpdatedUserResponse_clean) simp

lemma answers_then:
  "answers Q m \<Longrightarrow> (\<And>x. Q x \<Longrightarrow> answers P (f x)) \<Longrightarrow> answers P (State_Monad.bind m f)"
  unfolding answers_def wp_bind by (blast intro: wp_mono)

lemma clean_default [simp]: "clean r \<Longrightarrow> clean (Some (case r of None \<Rightarrow> BadRequest e | Some a \<Rightarrow> a))"
  "clean r \<Longrightarrow> clean (Some (case r of None \<Rightarrow> NotFound | Some a \<Rightarrow> a))"
  by (auto simp: clean_def split: option.splits)

lemma store_update_clean: "answers clean (store_update E i u)"
  unfolding store_update_def
  by (intro ends answers_then [OF BuildUpdatedUserResponse_clean]) (simp_all del: clean_option)

lemma apply_secrets_clean: "answers clean (apply_secrets E i obj new u c)"
  unfolding apply_secrets_def finish_update_def
  by (rule answers_bind, simp split: option.splits PasswordUpdateStatus.splits prod.splits,
      auto intro!: ends store_update_clean)

lemma update_user_clean: "answers clean (update_user E i obj new u c)"
  unfolding update_user_def
  by (auto intro!: ends apply_secrets_clean split: option.splits bool.splits prod.splits)

lemma user_ops_clean:
  "answers clean (RESTAPI_user_DoGet E c)" "answers clean (RESTAPI_user_DoDelete E c)"
  "answers clean (RESTAPI_user_DoPost E c)" "answers clean (RESTAPI_user_DoPut E c)"
  unfolding RESTAPI_user_DoGet_def RESTAPI_user_DoDelete_def RESTAPI_user_DoPost_def RESTAPI_user_DoPut_def store_new_user_def change_user_def
  by (intro ends update_user_clean answers_then [OF HandleResetMFA_clean]; simp del: clean_option split: option.splits)+

lemma process_clean:
  assumes "\<And>c. answers clean (hd_get H c)" "\<And>c. answers clean (hd_post H c)"
    "\<And>c. answers clean (hd_put H c)" "\<And>c. answers clean (hd_delete H c)"
  shows "answers clean (process_request E H c)"
  unfolding process_request_def dispatch_def by (intro ends assms) simp_all

text \<open>
  C22. No answer of the user endpoint, whatever the request and the state, shows the password hash of
  a record, the hashes of its former passwords or its login type.
\<close>

theorem user_answers_clean:
  "wp (handleRequest E (RESTAPI_user_handler E Internal) R) (\<lambda>r w'. clean (Some r)) w"
proof -
  have "answers clean (process_request E (RESTAPI_user_handler E Internal) c)" for c
    by (rule process_clean) (simp_all add: RESTAPI_user_handler_def user_ops_clean)
  then have "answers (\<lambda>r. clean (Some r)) (handleRequest E (RESTAPI_user_handler E Internal) R)"
    unfolding handleRequest_def by (rule answers_then) (intro ends, simp del: clean_option)
  then show ?thesis by (rule answersD)
qed

subsection \<open>Updates within the rights of the caller\<close>

definition limited_update :: "UserInfo \<Rightarrow> UserInfo \<Rightarrow> UserInfo \<Rightarrow> bool" where
  "limited_update C u u' \<longleftrightarrow> u_id u' = u_id u \<and> u_email u' = u_email u \<and> u_createdBy u' = u_createdBy u
     \<and> (u_userRole u' = u_userRole u \<or> CanChangeUserRole C u (u_userRole u'))
     \<and> (u_owner u' = u_owner u \<or> IsRoot C \<and> u_owner u = [])
     \<and> (IsSelfServiceCaller C \<longrightarrow> u_suspended u' = u_suspended u \<and> u_blackListed u' = u_blackListed u)"

text \<open>A step that leaves alone what the rights are about.\<close>

definition keeps_rights :: "UserInfo \<Rightarrow> UserInfo \<Rightarrow> bool" where
  "keeps_rights u u' \<longleftrightarrow> u_id u' = u_id u \<and> u_email u' = u_email u \<and> u_createdBy u' = u_createdBy u
     \<and> u_userRole u' = u_userRole u \<and> u_owner u' = u_owner u \<and> u_suspended u' = u_suspended u
     \<and> u_blackListed u' = u_blackListed u"

lemma keeps_rights_limited: "limited_update C u u1 \<Longrightarrow> keeps_rights u1 u2 \<Longrightarrow> limited_update C u u2"
  by (simp add: limited_update_def keeps_rights_def)

lemma keeps_rights_refl [simp]: "keeps_rights u u"
  by (simp add: keeps_rights_def)

lemma keeps_rights_field:
  "keeps_rights u (u_name_update f u)" "keeps_rights u (u_description_update f u)" "keeps_rights u (u_location_update f u)"
  "keeps_rights u (u_locale_update f u)" "keeps_rights u (u_changePassword_update g u)"
  by (simp_all add: keeps_rights_def)

lemma limited_refl: "keeps_rights u u' \<Longrightarrow> limited_update C u u'"
  by (simp add: limited_update_def keeps_rights_def)

lemma same_user_rights: "same_user u v \<Longrightarrow> keeps_rights v u"
  unfolding keeps_rights_def same_user_def
  by (auto dest: arg_cong [where f = u_id] arg_cong [where f = u_email] arg_cong [where f = u_createdBy]
      arg_cong [where f = u_userRole] arg_cong [where f = u_owner] arg_cong [where f = u_suspended]
      arg_cong [where f = u_blackListed])

lemma rights_acl:
  assumes "keeps_rights v u"
  shows "CanModifyUserRecord C u = CanModifyUserRecord C v" "CanDeleteUserRecord C u = CanDeleteUserRecord C v"
    "limited_update C u u' = limited_update C v u'"
proof -
  show "CanModifyUserRecord C u = CanModifyUserRecord C v" "CanDeleteUserRecord C u = CanDeleteUserRecord C v"
    using assms by (simp_all add: keeps_rights_def acl_defs)
  have "CanChangeUserRole C u r = CanChangeUserRole C v r" for r
    using assms by (simp add: keeps_rights_def acl_defs)
  with assms show "limited_update C u u' = limited_update C v u'"
    by (simp add: keeps_rights_def limited_update_def)
qed

lemma Assign_stringD: "Assign_string E obj f upd r = Some r' \<Longrightarrow> \<exists>s. r' = (if map_of obj f = None then r else upd (\<lambda>_. s) r)"
  by (auto simp: Assign_string_def split: option.splits)

lemma Assign_boolD: "Assign_bool E obj f upd r = Some r' \<Longrightarrow> \<exists>b. r' = (if map_of obj f = None then r else upd (\<lambda>_. b) r)"
  by (auto simp: Assign_bool_def split: option.splits)

lemma keeps_rights_trans: "keeps_rights u v \<Longrightarrow> keeps_rights v x \<Longrightarrow> keeps_rights u x"
  by (simp add: keeps_rights_def)

lemma Assign_rights:
  "Assign_string E obj f upd r = Some r' \<Longrightarrow> (\<And>s. keeps_rights r (upd (\<lambda>_. s) r)) \<Longrightarrow> keeps_rights r r'"
  "Assign_bool E obj f updb r = Some r' \<Longrightarrow> (\<And>s. keeps_rights r (updb (\<lambda>_. s) r)) \<Longrightarrow> keeps_rights r r'"
  by (auto dest!: Assign_stringD Assign_boolD)

lemma ApplyProfileFields_rights:
  assumes "ApplyProfileFields E obj u = Some u'"
  shows "keeps_rights u u'"
proof -
  obtain u1 u2 u3 u4 where s: "Assign_string E obj ''name'' u_name_update u = Some u1"
    "Assign_string E obj ''description'' u_description_update u1 = Some u2"
    "Assign_string E obj ''location'' u_location_update u2 = Some u3"
    "Assign_string E obj ''locale'' u_locale_update u3 = Some u4"
    "Assign_bool E obj ''changePassword'' u_changePassword_update u4 = Some u'"
    using assms by (auto simp: ApplyProfileFields_def bind_eq_Some_conv)
  show ?thesis
    using Assign_rights(1) [OF s(1) keeps_rights_field(1)] Assign_rights(1) [OF s(2) keeps_rights_field(2)]
      Assign_rights(1) [OF s(3) keeps_rights_field(3)] Assign_rights(1) [OF s(4) keeps_rights_field(4)]
      Assign_rights(2) [OF s(5) keeps_rights_field(5)]
    by (simp add: keeps_rights_def)
qed

lemma not_self_service_field:
  assumes "HasOnlyAllowedSelfServiceFields obj" "\<not> IsAllowedSelfServiceField f"
  shows "map_of obj f = None"
  using assms by (auto simp: HasOnlyAllowedSelfServiceFields_def list_all_iff map_of_eq_None_iff)

lemma apply_fields_limited:
  assumes "apply_fields E C obj u = Some (True, u')" "IsSelfServiceCaller C \<Longrightarrow> HasOnlyAllowedSelfServiceFields obj"
  shows "limited_update C u u'"
proof -
  obtain u1 u2 u3 where u1: "ApplyOwnerUpdate E C obj u = Some u1" and u2: "ApplyProfileFields E obj u1 = Some u2"
    and u3: "ApplyAdminStatusFields E obj u2 = Some u3" and u4: "ApplyRoleChange E C u3 obj = Some (True, u')"
    using assms(1) by (auto simp: apply_fields_def bind_eq_Some_conv)
  have 1: "\<exists>s. u1 = (if u_userRole C = ROOT \<and> u_owner u = [] then u\<lparr>u_owner := s\<rparr> else u)"
    using u1 by (cases u) (auto simp: ApplyOwnerUpdate_def dest!: Assign_stringD split: if_splits)
  have 2: "keeps_rights u1 u2"
    using u2 by (rule ApplyProfileFields_rights)
  have none: "map_of obj ''suspended'' = None \<and> map_of obj ''blackListed'' = None" if "IsSelfServiceCaller C"
    using not_self_service_field [OF assms(2) [OF that]] by (simp add: IsAllowedSelfServiceField_def)
  have 3: "\<exists>a b. u3 = u2\<lparr>u_suspended := a, u_blackListed := b\<rparr> \<and> (IsSelfServiceCaller C \<longrightarrow> u3 = u2)"
    using u3 none by (cases u2) (auto simp: ApplyAdminStatusFields_def bind_eq_Some_conv dest!: Assign_stringD Assign_boolD)
  have 4: "u' = u3 \<or> (\<exists>r. u' = u3\<lparr>u_userRole := r\<rparr> \<and> CanChangeUserRole C u3 r)"
    using u4 by (auto simp: ApplyRoleChange_def Let_def split: option.splits if_splits)
  have "limited_update C u u1" using 1 by (auto simp: limited_update_def IsRoot_def split: if_splits)
  then have "limited_update C u u2" using 2 by (rule keeps_rights_limited)
  then have lim: "limited_update C u u3"
    using 3 by (auto simp: limited_update_def)
  have "u_userRole u1 = u_userRole u" using 1 by auto
  then have same: "u_userRole u3 = u_userRole u"
    using 2 3 by (auto simp: keeps_rights_def)
  have "u_id u3 = u_id u" "u_createdBy u3 = u_createdBy u" using lim by (simp_all add: limited_update_def)
  then have can: "CanChangeUserRole C u r" if "CanChangeUserRole C u3 r" for r
    using that same
    by (auto simp: CanChangeUserRole_def IsSelf_def IsNonRootTarget_def WasCreatedBy_def split: if_splits)
  have "limited_update C u (u3\<lparr>u_userRole := r\<rparr>)" if "CanChangeUserRole C u r" for r
    using that lim by (simp add: limited_update_def)
  with lim 4 can show ?thesis by blast
qed

text \<open>The steps between the lookup and the table leave the users and their caches alone.\<close>

lemma realm_other_ops [pres]:
  "preserves (\<lambda>w. realm_of Rm w = x) (db_step E)"
  "preserves (\<lambda>w. realm_of Rm w = x) (CreateAction E a)"
  "preserves (\<lambda>w. realm_of Rm w = x) (IsNumberValid E n nm)"
  "preserves (\<lambda>w. realm_of Rm w = x) (TotpCache_CompleteValidation E uu b)"
  "preserves (\<lambda>w. realm_of Rm w = x) (SetPassword E p u)"
  "preserves (\<lambda>w. realm_of Rm w = x) (push_notes E C ns u)"
proof -
  show db [pres]: "preserves (\<lambda>w. realm_of Rm w = x) (db_step E)" by (simp add: preserves_def db_step_def)
  show "preserves (\<lambda>w. realm_of Rm w = x) (CreateAction E a)"
    by (cases Rm) (auto simp: preserves_def CreateAction_def CreateRecord_def cache_create_def db_step_def split: db_outcome.splits)
  show "preserves (\<lambda>w. realm_of Rm w = x) (IsNumberValid E n nm)" unfolding IsNumberValid_def by (intro pres)
  show "preserves (\<lambda>w. realm_of Rm w = x) (TotpCache_CompleteValidation E uu b)"
    by (cases Rm) (auto simp: preserves_def TotpCache_CompleteValidation_def Now_def split: option.splits)
  show "preserves (\<lambda>w. realm_of Rm w = x) (SetPassword E p u)"
    unfolding preserves_def by (auto intro!: wp_mono [OF SetPassword_wp])
  show "preserves (\<lambda>w. realm_of Rm w = x) (push_notes E C ns u)"
    by (induction ns arbitrary: u) (auto intro: pres)
qed

lemma preserves_list:
  "preserves I m \<Longrightarrow> (\<And>y ys. preserves I (f y ys)) \<Longrightarrow> preserves I (case xs of [] \<Rightarrow> m | y # ys \<Rightarrow> f y ys)"
  by (cases xs) simp_all

lemma realm_update_ops [pres]:
  "preserves (\<lambda>w. realm_of Rm w = x) (VerifyEmail E u)"
  "preserves (\<lambda>w. realm_of Rm w = x) (HandleForgotPassword E u)"
  "preserves (\<lambda>w. realm_of Rm w = x) (AppendNotes E C obj u)"
  "preserves (\<lambda>w. realm_of Rm w = x) (ApplyPasswordChange E obj u)"
  "preserves (\<lambda>w. realm_of Rm w = x) (ApplyMfaChange E C new b u)"
  unfolding VerifyEmail_def start_verification_def HandleForgotPassword_def AppendNotes_def ApplyPasswordChange_def
    ApplyMfaChange_def mfa_sms_def mfa_authenticator_def
  by (intro pres preserves_list)+

text \<open>What they do to the record in hand.\<close>

lemma push_notes_rights: "wp (push_notes E C ns u) (\<lambda>u' _. keeps_rights u u') w"
proof (induction ns arbitrary: u w)
  case (Cons n ns)
  have "keeps_rights (u\<lparr>u_notes := x\<rparr>) u' = keeps_rights u u'" for x u' by (simp add: keeps_rights_def)
  then show ?case using Cons.IH [of "u\<lparr>u_notes := _\<rparr>"] by (simp add: Now_def)
qed simp

lemma AppendNotes_rights: "wp (AppendNotes E C obj u) (\<lambda>r _. \<forall>u'. r = Some u' \<longrightarrow> keeps_rights u u') w"
  unfolding AppendNotes_def by (auto intro!: wp_mono [OF push_notes_rights] split: option.splits)

lemma SetPassword_rights:
  "str_toLower (e_poco E) (u_email u) = u_email u \<Longrightarrow>
   wp (SetPassword E p u) (\<lambda>r _. \<forall>u' ok. r = Some (u', ok) \<longrightarrow> keeps_rights u u') w"
  unfolding SetPassword_def ComputeNewPasswordHash_def
  by (auto simp: keeps_rights_def Let_def intro!: wp_weak split: option.splits)

lemma ApplyPasswordChange_rights:
  "str_toLower (e_poco E) (u_email u) = u_email u \<Longrightarrow>
   wp (ApplyPasswordChange E obj u) (\<lambda>r _. \<forall>s u'. r = Some (s, u') \<longrightarrow> keeps_rights u u') w"
  unfolding ApplyPasswordChange_def
  by (auto intro!: wp_mono [OF SetPassword_rights] split: option.splits)

lemma VerifyEmail_rights: "answers (\<lambda>r. keeps_rights u (snd r)) (VerifyEmail E u)"
  unfolding VerifyEmail_def start_verification_def by (intro ends) (simp add: keeps_rights_def)

lemma ApplyMfaChange_rights: "answers (\<lambda>r. keeps_rights u (snd r)) (ApplyMfaChange E C new b u)"
  unfolding ApplyMfaChange_def by (intro ends) (simp_all add: keeps_rights_def)

text \<open>Storing a record whose identifier and address are those of a stored one.\<close>

lemma stored_put:
  assumes "r_users (realm_of Rm w') = put_user E Rm u (r_users (realm_of Rm w))" "poco_ok (e_poco E)"
    and "stored_user E Rm w (u_id u) \<noteq> None"
  shows "stored_user E Rm w' = (stored_user E Rm w)(u_id u \<mapsto> u)"
proof
  fix i
  have "List.find (\<lambda>T. ur_id T = i) (put_user E Rm u rows) =
      (if i = u_id u \<and> List.find (\<lambda>T. ur_id T = i) rows \<noteq> None then Some (UserInfo_to_tuple (e_poco E) u)
       else List.find (\<lambda>T. ur_id T = i) rows)" for rows
    by (induction rows) (auto simp: put_user_def)
  then show "stored_user E Rm w' i = ((stored_user E Rm w)(u_id u \<mapsto> u)) i"
    using assms by (auto simp: stored_user_def UserInfo_tuple_roundtrip split: option.splits if_splits)
qed

lemma UpdateUserInfo_stored:
  assumes c: "coh E Rm w" and lib: "poco_ok (e_poco E)" and db: "db_healthy E"
    and row: "stored_user E Rm w (u_id u) = Some v" "u_email v = u_email u"
  shows "wp (UpdateUserInfo E Rm (u_id u) u) (\<lambda>ok w'. ok \<and> same_sessions E Rm w w'
     \<and> stored_user E Rm w' = (stored_user E Rm w)(u_id u \<mapsto> u)) w"
proof -
  have "user_coherent E Rm w" using c by (simp add: coh_def)
  note upd = UpdateUserInfo_wp [OF this lib db row]
  show ?thesis
  proof (rule wp_mono [OF wp_conj [OF upd UpdateUserInfo_sessions [OF c lib db row]]], elim conjE)
    fix ok w'
    assume ok: "ok" "same_sessions E Rm w w'" and p: "persist w' = upd_realm Rm (r_users_update (put_user E Rm u)) (persist w)"
    have "r_users (realm_of Rm (persist w')) = put_user E Rm u (r_users (realm_of Rm w))"
      unfolding p by simp
    then have "r_users (realm_of Rm w') = put_user E Rm u (r_users (realm_of Rm w))" by simp
    from ok stored_put [OF this lib] row(1)
    show "ok \<and> same_sessions E Rm w w' \<and> stored_user E Rm w' = (stored_user E Rm w)(u_id u \<mapsto> u)" by simp
  qed
qed

lemma GetUserById_keeps:
  assumes "coh E Rm w" "db_healthy E"
  shows "wp (GetUserById E Rm i) (\<lambda>_ w'. same_sessions E Rm w w' \<and> stored_user E Rm w' = stored_user E Rm w) w"
  using assms by (intro wp_mono [OF GetUserById_wp]) (auto intro: same_sessions_persist persist_stored(1))

subsection \<open>The update as a whole\<close>

text \<open>At most the addressed record changes, within the rights of the caller; the sessions stay.\<close>

definition put_effect :: "env \<Rightarrow> UserInfo \<Rightarrow> string \<Rightarrow> world \<Rightarrow> world \<Rightarrow> bool" where
  "put_effect E C i w w' \<longleftrightarrow> same_sessions E Users w w' \<and> (stored_user E Users w' = stored_user E Users w
     \<or> (\<exists>u u'. stored_user E Users w i = Some u \<and> CanModifyUserRecord C u \<and> limited_update C u u'
          \<and> stored_user E Users w' = (stored_user E Users w)(i \<mapsto> u')))"

text \<open>The situation between the lookup and the table: users, caches and tokens are as they were.\<close>

definition put_ready :: "env \<Rightarrow> UserInfo \<Rightarrow> string \<Rightarrow> UserInfo \<Rightarrow> world \<Rightarrow> world \<Rightarrow> bool" where
  "put_ready E C i u w w1 \<longleftrightarrow> stored_user E Users w i = Some u \<and> CanModifyUserRecord C u
     \<and> same_sessions E Users w w1 \<and> stored_user E Users w1 = stored_user E Users w"

lemma put_ready_realm:
  assumes "realm_of Users w2 = realm_of Users w1" "put_ready E C i u w w1"
  shows "put_ready E C i u w w2"
  using assms coh_other_tables [OF assms(1), of E]
  by (simp add: put_ready_def same_sessions_def user_ids_def)

lemma put_ready_effect: "put_ready E C i u w w1 \<Longrightarrow> put_effect E C i w w1"
  by (simp add: put_ready_def put_effect_def)

lemma put_ready_wp:
  assumes "put_ready E C i u w w1" "preserves (\<lambda>v. realm_of Users v = realm_of Users w1) m" "wp m (\<lambda>r _. P r) w1"
  shows "wp m (\<lambda>r w2. P r \<and> put_ready E C i u w w2) w1"
  using wp_conj [OF assms(3) preservesD [OF assms(2) refl]] by (rule wp_mono) (use put_ready_realm assms(1) in blast)

lemma update_then_read:
  assumes lib: "poco_ok (e_poco E)" and db: "db_healthy E" and r: "put_ready E C i u w w1"
    and lim: "limited_update C u u'"
    and read: "\<And>w2. coh E Users w2 \<Longrightarrow> wp (read True)
      (\<lambda>_ w'. same_sessions E Users w2 w' \<and> stored_user E Users w' = stored_user E Users w2) w2"
  shows "wp (State_Monad.bind (UpdateUserInfo E Users i u') read) (\<lambda>_. put_effect E C i w) w1"
proof -
  have id: "u_id u' = i" "u_email u = u_email u'"
    using r lim stored_user_id by (auto simp: put_ready_def limited_update_def)
  have st: "stored_user E Users w1 (u_id u') = Some u" "coh E Users w1"
    using r id by (auto simp: put_ready_def dest: same_sessionsD(1))
  have "wp (read ok) (\<lambda>_. put_effect E C i w) w2"
    if "ok" "same_sessions E Users w1 w2" "stored_user E Users w2 = (stored_user E Users w1)(i \<mapsto> u')" for ok w2
  proof -
    have "put_effect E C i w w'" if "same_sessions E Users w2 w'" "stored_user E Users w' = stored_user E Users w2" for w'
      using that \<open>same_sessions E Users w1 w2\<close> \<open>stored_user E Users w2 = _\<close> r lim
      by (auto simp: put_effect_def put_ready_def intro: same_sessions_trans)
    then show ?thesis
      using read [OF same_sessionsD(1) [OF that(2)]] that(1) by (auto elim: wp_mono)
  qed
  note fin = this
  have "wp (UpdateUserInfo E Users i u') (\<lambda>ok w2. ok \<and> same_sessions E Users w1 w2
      \<and> stored_user E Users w2 = (stored_user E Users w1)(i \<mapsto> u')) w1"
    using UpdateUserInfo_stored [OF st(2) lib db st(1) id(2)] unfolding id(1) .
  then show ?thesis
    unfolding wp_bind by (rule wp_mono) (use fin in blast)
qed

lemma BuildUpdated_keeps:
  assumes "coh E Users w" "db_healthy E"
  shows "wp (BuildUpdatedUserResponse E i) (\<lambda>_ w'. same_sessions E Users w w' \<and> stored_user E Users w' = stored_user E Users w) w"
  unfolding BuildUpdatedUserResponse_def by (simp, rule wp_mono [OF GetUserById_keeps [OF assms]], simp)

lemma store_update_effect:
  assumes lib: "poco_ok (e_poco E)" and db: "db_healthy E" and r: "put_ready E C i u w w1" and lim: "limited_update C u u'"
  shows "wp (store_update E i u') (\<lambda>_. put_effect E C i w) w1"
proof -
  let ?read = "\<lambda>updated. if \<not> updated then ret (Some (BadRequest Err_RecordNotUpdated))
     else do { answer \<leftarrow> BuildUpdatedUserResponse E i; ret (Some (case answer of None \<Rightarrow> NotFound | Some r \<Rightarrow> r)) }"
  have read: "wp (?read True) (\<lambda>_ w'. same_sessions E Users w2 w' \<and> stored_user E Users w' = stored_user E Users w2) w2"
    if "coh E Users w2" for w2
    by (simp, rule wp_mono [OF BuildUpdated_keeps [OF that db]], simp)
  have "put_ready E C i u w (w1\<lparr>w_tick := n\<rparr>)" "limited_update C u (u'\<lparr>u_modified := t\<rparr>)" for n t
    using put_ready_realm [OF _ r] lim by (simp_all add: limited_update_def)
  from update_then_read [where read = ?read, OF lib db this read]
  have "wp (State_Monad.bind (UpdateUserInfo E Users i (u'\<lparr>u_modified := t\<rparr>)) ?read) (\<lambda>_. put_effect E C i w)
      (w1\<lparr>w_tick := n\<rparr>)" for n t .
  then show ?thesis unfolding store_update_def Now_def by simp
qed

lemma HandleResetMFA_effect:
  assumes lib: "poco_ok (e_poco E)" and db: "db_healthy E" and r: "put_ready E C i u w w1" and same: "keeps_rights u v"
  shows "wp (HandleResetMFA E C i v) (\<lambda>_. put_effect E C i w) w1"
proof -
  let ?read = "\<lambda>updated. if \<not> updated then ret None else BuildUpdatedUserResponse E i"
  have "put_ready E C i u w (w1\<lparr>w_tick := n\<rparr>)" "limited_update C u ((reset_mfa v)\<lparr>u_modified := t, u_notes := ns\<rparr>)" for n t ns
    using put_ready_realm [OF _ r] same by (simp_all add: limited_update_def keeps_rights_def reset_mfa_def)
  from update_then_read [OF lib db this, of ?read] BuildUpdated_keeps [OF _ db, of _ i]
  have "wp (State_Monad.bind (UpdateUserInfo E Users i ((reset_mfa v)\<lparr>u_modified := t, u_notes := ns\<rparr>)) ?read)
      (\<lambda>_. put_effect E C i w) (w1\<lparr>w_tick := n\<rparr>)" for n t ns by simp
  then show ?thesis unfolding HandleResetMFA_def Now_def by simp
qed

lemma apply_secrets_effect:
  assumes lib: "poco_ok (e_poco E)" and db: "db_healthy E" and r: "put_ready E (caller c) i u w w1"
    and lim: "limited_update (caller c) u v" and low: "str_toLower (e_poco E) (u_email u) = u_email u"
  shows "wp (apply_secrets E i obj new v c) (\<lambda>_. put_effect E (caller c) i w) w1"
proof -
  have "str_toLower (e_poco E) (u_email v) = u_email v" using lim low by (simp add: limited_update_def)
  note pw = put_ready_wp [OF r realm_update_ops(4) ApplyPasswordChange_rights [OF this]]
  have verify: "wp (if b then do { (ok, x) \<leftarrow> VerifyEmail E v1; ret x } else ret v1)
      (\<lambda>v2 w3. keeps_rights v1 v2 \<and> put_ready E (caller c) i u w w3) w2"
    if "put_ready E (caller c) i u w w2" for b v1 w2
    using put_ready_wp [OF that realm_update_ops(1) answersD [OF VerifyEmail_rights], of E v1] that
    by (auto elim!: wp_mono)
  have mfa: "wp (do { (status, v3) \<leftarrow> ApplyMfaChange E (caller c) new b v2;
        case mfa_refusal status of Some e \<Rightarrow> ret (Some (BadRequest e)) | None \<Rightarrow> store_update E i v3 })
      (\<lambda>_. put_effect E (caller c) i w) w2"
    if "put_ready E (caller c) i u w w2" "limited_update (caller c) u v2" for b v2 w2
    unfolding wp_bind
    by (rule wp_mono [OF put_ready_wp [OF that(1) realm_update_ops(5) answersD [OF ApplyMfaChange_rights]]])
      (clarsimp split: option.split, blast intro: put_ready_effect store_update_effect [OF lib db] keeps_rights_limited [OF that(2)])
  have tail: "wp (finish_update E i obj new v1 c) (\<lambda>_. put_effect E (caller c) i w) w2"
    if "put_ready E (caller c) i u w w2" "keeps_rights v v1" for v1 w2
    unfolding finish_update_def
    by (subst wp_bind, rule wp_mono [OF verify [OF that(1)]], rule mfa)
      (use keeps_rights_limited [OF lim] keeps_rights_trans that(2) in blast)+
  show ?thesis
    unfolding apply_secrets_def
    by (subst wp_bind, rule wp_mono [OF pw])
      (auto intro: put_ready_effect tail split: option.splits PasswordUpdateStatus.splits)
qed

lemma update_user_effect:
  assumes lib: "poco_ok (e_poco E)" and db: "db_healthy E" and r: "put_ready E (caller c) i u w w1"
    and same: "keeps_rights u v" and low: "str_toLower (e_poco E) (u_email u) = u_email u"
  shows "wp (update_user E i obj new v c) (\<lambda>_. put_effect E (caller c) i w) w1"
proof -
  have noted: "wp (do { noted \<leftarrow> AppendNotes E (caller c) obj v1; case noted of None \<Rightarrow> ret None
       | Some v2 \<Rightarrow> apply_secrets E i obj new v2 c }) (\<lambda>_. put_effect E (caller c) i w) w1"
    if "limited_update (caller c) u v1" for v1
    by (subst wp_bind, rule wp_mono [OF put_ready_wp [OF r realm_update_ops(3) AppendNotes_rights]])
      (clarsimp split: option.split, blast intro: put_ready_effect apply_secrets_effect [OF lib db _ _ low] keeps_rights_limited [OF that])
  have fields: "limited_update (caller c) u v1"
    if "apply_fields E (caller c) obj v = Some (True, v1)" "\<not> (IsSelfServiceCaller (caller c) \<and> \<not> HasOnlyAllowedSelfServiceFields obj)" for v1
    using apply_fields_limited [OF that(1)] that(2) rights_acl(3) [OF same] by blast
  show ?thesis
    unfolding update_user_def
    by (auto simp del: wp_bind intro: put_ready_effect [OF r] noted fields split: option.splits bool.splits)
qed

lemma forgot_effect:
  assumes "put_ready E C i u w w1"
  shows "wp (HandleForgotPassword E v) (\<lambda>_. put_effect E C i w) w1"
  by (rule wp_mono [OF put_ready_wp [where P = "\<lambda>_. True", OF assms realm_update_ops(2) wp_weak]])
    (auto dest: put_ready_effect)

lemma change_user_effect:
  assumes lib: "poco_ok (e_poco E)" and db: "db_healthy E" and r: "put_ready E (caller c) i u w w1"
    and same: "keeps_rights u v" and low: "str_toLower (e_poco E) (u_email u) = u_email u"
  shows "wp (change_user E i v c) (\<lambda>_. put_effect E (caller c) i w) w1"
  unfolding change_user_def
  using HandleResetMFA_effect [OF lib db r same] forgot_effect [OF r, of v] update_user_effect [OF lib db r same low]
    put_ready_effect [OF r]
  by (auto split: option.split prod.split)

text \<open>
  C9. An update stays within the rights of the caller. Whatever a request to change a user holds, at
  most the addressed record changes, and only for a caller who may modify it; its identifier,
  address and creator stay; the role changes only to one the caller may give, the owner only by a
  root user where there was none, and a caller without administrative role changes neither
  suspension nor blacklisting. No session is made, lost or moved.
\<close>

theorem user_put_within_rights:
  assumes "coh E Users w" "poco_ok (e_poco E)" "db_healthy E"
    and "\<And>u. stored_user E Users w (GetBinding E c ''id'' []) = Some u \<Longrightarrow> str_toLower (e_poco E) (u_email u) = u_email u"
  shows "wp (RESTAPI_user_DoPut E c) (\<lambda>_. put_effect E (caller c) (GetBinding E c ''id'' []) w) w"
proof -
  let ?i = "GetBinding E c ''id'' []"
  have none: "put_effect E (caller c) ?i w w1" if "coh E Users w1" "persist w1 = persist w" for w1
    using same_sessions_persist [OF that] persist_stored(1) [OF that(2)] by (simp add: put_effect_def)
  have some: "put_ready E (caller c) ?i u w w1" if "coh E Users w1" "persist w1 = persist w"
     "stored_user E Users w ?i = Some u" "CanModifyUserRecord (caller c) u" for u w1
    using that same_sessions_persist [OF that(1,2)] persist_stored(1) [OF that(2)] by (simp add: put_ready_def)
  have body: "wp (case res of None \<Rightarrow> ret (Some NotFound) | Some Existing \<Rightarrow>
        if \<not> CanModifyUserRecord (caller c) Existing then ret (Some (UnAuthorized Err_ACCESS_DENIED))
        else change_user E ?i Existing c) (\<lambda>_. put_effect E (caller c) ?i w) w1"
    if w1: "coh E Users w1" "persist w1 = persist w" and rel: "rel_option same_user res (stored_user E Users w ?i)" for res w1
  proof (cases res)
    case (Some v)
    then obtain u where u: "stored_user E Users w ?i = Some u" "keeps_rights u v"
      using rel same_user_rights by (auto simp: option_rel_Some1)
    then show ?thesis
      using Some none [OF w1] change_user_effect [OF assms(2,3) some [OF w1 u(1)] u(2) assms(4) [OF u(1)]]
        rights_acl(1) [OF u(2)] by auto
  qed (simp add: none [OF w1])
  show ?thesis
  proof (cases "?i = []")
    case False
    show ?thesis
      unfolding RESTAPI_user_DoPut_def Let_def if_not_P [OF False] wp_bind
      by (rule wp_mono [OF GetUserById_wp [OF assms(1,3)]]) (use body in blast)
  qed (use none [OF assms(1) refl] in \<open>simp add: RESTAPI_user_DoPut_def\<close>)
qed

subsection \<open>Deletion\<close>

text \<open>A program that changes the tables by \<open>f\<close>, whatever it returns.\<close>

definition applies :: "(world \<Rightarrow> world) \<Rightarrow> 'a sec \<Rightarrow> bool" where
  "applies f m \<longleftrightarrow> (\<forall>w. wp m (\<lambda>_ w'. persist w' = f (persist w)) w)"

lemma appliesD: "applies f m \<Longrightarrow> persist w1 = p \<Longrightarrow> wp m (\<lambda>_ w'. persist w' = f p) w1"
  by (auto simp: applies_def)

lemma applies_bind:
  assumes "applies f m" "\<And>x. applies g (k x)"
  shows "applies (\<lambda>w. g (f w)) (State_Monad.bind m k)"
  unfolding applies_def wp_bind
  by (intro allI wp_mono [OF appliesD [OF assms(1) refl]] appliesD [OF assms(2)])

lemma applies_ret: "applies (\<lambda>w. w) (ret x)"
  by (simp add: applies_def)

lemma applies_ro: "reads_only m \<Longrightarrow> applies (\<lambda>w. w) m"
  by (simp add: applies_def reads_only_def)

text \<open>Everything the service keeps under a user's identifier, removed.\<close>

definition without_user :: "realm_id \<Rightarrow> string \<Rightarrow> world \<Rightarrow> world" where
  "without_user Rm i = upd_realm Rm (\<lambda>r. r\<lparr>r_users := filter (\<lambda>T. ur_id T \<noteq> i) (r_users r),
     r_tokens := filter (\<lambda>T. tr_userName T \<noteq> i) (r_tokens r), r_prefs := filter (\<lambda>T. prr_id T \<noteq> i) (r_prefs r),
     r_avatars := filter (\<lambda>T. avr_id T \<noteq> i) (r_avatars r)\<rparr>)"

lemma delete_ops_apply:
  assumes "db_healthy E"
  shows "applies (upd_realm Rm (r_avatars_update (filter (\<lambda>T. avr_id T \<noteq> i)))) (DeleteAvatar E Rm i)"
    "applies (upd_realm Rm (r_prefs_update (filter (\<lambda>T. prr_id T \<noteq> i)))) (DeletePreferences E Rm i)"
    "applies (upd_realm Rm (r_tokens_update (filter (\<lambda>T. tr_userName T \<noteq> i)))) (RevokeAllTokens E Rm i)"
    "applies (\<lambda>w. w) (DeleteRecordsFromCache (TokenDB E Rm) ''userName'' i)"
    "applies (\<lambda>w. w) (RemoveAllApiKeys E i)"
proof -
  show "applies (upd_realm Rm (r_avatars_update (filter (\<lambda>T. avr_id T \<noteq> i)))) (DeleteAvatar E Rm i)"
    "applies (upd_realm Rm (r_prefs_update (filter (\<lambda>T. prr_id T \<noteq> i)))) (DeletePreferences E Rm i)"
    using assms by (simp_all add: applies_def DeleteAvatar_def DeletePreferences_def DeleteRecord_def db_step_def
        db_healthy_def cache_delete_def)
  have cache: "reads_only (TokenCache_Delete E Rm ''userName'' i)" by (intro ro)
  have "applies (upd_realm Rm (r_tokens_update (filter (\<lambda>T. tr_userName T \<noteq> i))))
      (DeleteRecords E (TokenDB E Rm) (\<lambda>T. tr_userName T = i))"
    using assms by (simp add: applies_def DeleteRecords_def db_step_def db_healthy_def)
  from applies_bind [OF this applies_bind [OF applies_ro [OF cache] applies_ret]]
  show "applies (upd_realm Rm (r_tokens_update (filter (\<lambda>T. tr_userName T \<noteq> i)))) (RevokeAllTokens E Rm i)"
    unfolding RevokeAllTokens_def .
  show "applies (\<lambda>w. w) (DeleteRecordsFromCache (TokenDB E Rm) ''userName'' i)"
    unfolding DeleteRecordsFromCache_def TokenDB_cache by (intro applies_ro ro)
  show "applies (\<lambda>w. w) (RemoveAllApiKeys E i)"
    unfolding RemoveAllApiKeys_def by (intro applies_ro ro apikey_table.GetRecords_ro)
qed

definition delete_effect :: "env \<Rightarrow> UserInfo \<Rightarrow> string \<Rightarrow> world \<Rightarrow> response option \<Rightarrow> world \<Rightarrow> bool" where
  "delete_effect E C i w r w' \<longleftrightarrow>
     (if r = Some OK
      then (\<exists>u. stored_user E Users w i = Some u \<and> CanDeleteUserRecord C u) \<and> persist w' = without_user Users i (persist w)
      else persist w' = persist w \<and> (\<forall>u. stored_user E Users w i = Some u \<longrightarrow> i = [] \<or> \<not> CanDeleteUserRecord C u))"

lemma delete_rest_applies:
  assumes "db_healthy E"
  shows "applies (\<lambda>w. upd_realm Users (r_tokens_update (filter (\<lambda>T. tr_userName T \<noteq> i)))
       (upd_realm Users (r_prefs_update (filter (\<lambda>T. prr_id T \<noteq> i)))
          (upd_realm Users (r_avatars_update (filter (\<lambda>T. avr_id T \<noteq> i))) w)))
     (do { DeleteUserFromCache E i; DeleteAvatar E Users i; DeletePreferences E Users i;
           RevokeAllTokens E Users i; RemoveAllApiKeys E i; ret (Some OK) })"
proof -
  note ops = delete_ops_apply(1-4) [OF assms, of Users i] delete_ops_apply(5) [OF assms, of i]
  from applies_bind [OF ops(4) applies_bind [OF ops(1) applies_bind [OF ops(2) applies_bind [OF ops(3) applies_bind [OF ops(5) applies_ret]]]]]
  show ?thesis unfolding DeleteUserFromCache_def .
qed

text \<open>
  C10. A deletion is complete or has no effect. It succeeds exactly for a stored user the caller may
  delete, and then the record, its tokens, preferences and avatar are gone and nothing else has
  changed (the rows of the API keys stay); otherwise no table changes.
\<close>

theorem user_delete_complete:
  assumes "coh E Users w" "db_healthy E"
  shows "wp (RESTAPI_user_DoDelete E c) (delete_effect E (caller c) (GetBinding E c ''id'' []) w) w"
proof -
  let ?i = "GetBinding E c ''id'' []"
  let ?rest = "do { DeleteUserFromCache E ?i; DeleteAvatar E Users ?i; DeletePreferences E Users ?i;
      RevokeAllTokens E Users ?i; RemoveAllApiKeys E ?i; ret (Some OK) }"
  have rest: "wp ?rest (delete_effect E (caller c) ?i w) w2"
    if "stored_user E Users w ?i = Some u" "CanDeleteUserRecord (caller c) u"
      "persist w2 = upd_realm Users (r_users_update (filter (\<lambda>T. ur_id T \<noteq> ?i))) (persist w)" for u w2
  proof -
    have "answers (\<lambda>r. r = Some OK) ?rest" by (intro ends) simp
    from wp_conj [OF answersD [OF this] appliesD [OF delete_rest_applies [OF assms(2)] that(3)]]
    show ?thesis by (rule wp_mono) (use that(1,2) in \<open>auto simp: delete_effect_def without_user_def\<close>)
  qed
  have delete: "wp (do { deleted \<leftarrow> DeleteUser E Users ?i; if \<not> deleted then ret (Some NotFound) else ?rest })
      (delete_effect E (caller c) ?i w) w1"
    if "coh E Users w1" "persist w1 = persist w" "stored_user E Users w ?i = Some u" "CanDeleteUserRecord (caller c) u" for u w1
  proof -
    have "user_coherent E Users w1" using that(1) by (simp add: coh_def)
    from DeleteUser_wp [OF this assms(2)] show ?thesis
      by (subst wp_bind, rule wp_mono) (use rest [OF that(3,4)] that(2) in simp)
  qed
  have body: "wp (case res of None \<Rightarrow> ret (Some NotFound) | Some v \<Rightarrow>
        if \<not> CanDeleteUserRecord (caller c) v then ret (Some (UnAuthorized Err_ACCESS_DENIED))
        else do { deleted \<leftarrow> DeleteUser E Users ?i; if \<not> deleted then ret (Some NotFound) else ?rest })
      (delete_effect E (caller c) ?i w) w1"
    if w1: "coh E Users w1" "persist w1 = persist w" and rel: "rel_option same_user res (stored_user E Users w ?i)" for res w1
  proof (cases res)
    case (Some v)
    then obtain u where u: "stored_user E Users w ?i = Some u" "keeps_rights u v"
      using rel same_user_rights by (auto simp: option_rel_Some1)
    have "CanDeleteUserRecord (caller c) v = CanDeleteUserRecord (caller c) u" by (rule rights_acl(2) [OF u(2)])
    then show ?thesis
      using delete [OF w1 u(1)] u(1) w1(2) by (simp add: Some delete_effect_def del: wp_bind)
  qed (use rel w1(2) in \<open>simp add: delete_effect_def\<close>)
  show ?thesis
  proof (cases "?i = []")
    case False
    show ?thesis
      unfolding RESTAPI_user_DoDelete_def Let_def if_not_P [OF False]
      by (subst wp_bind, rule wp_mono [OF GetUserById_wp [OF assms]]) (use body in blast)
  qed (simp add: RESTAPI_user_DoDelete_def delete_effect_def)
qed

subsection \<open>Witnesses\<close>

definition root_user :: UserInfo where
  "root_user = UserInfo_init\<lparr>u_id := ''r1'', u_email := ''root@b.c'', u_userRole := ROOT\<rparr>"

definition put_ctx :: rest_ctx where
  "put_ctx = \<lparr>cx_request = put_request\<lparr>rq_body := Body [(''suspended'', JBool True)]\<rparr>, cx_internal = False,
     cx_user = UserInfoAndPolicy_init\<lparr>uip_userinfo := root_user\<rparr>, cx_session = [], cx_requester = []\<rparr>"

lemma put_ctx_id: "GetBinding env_inst put_ctx ''id'' [] = ''u1''"
  by (simp add: GetBinding_def put_ctx_def put_request_def env_inst_def poco_inst_def ascii_lower_def)

lemma sample_lower: "str_toLower (e_poco env_inst) (u_email sample_member) = u_email sample_member"
  by (simp add: sample_member_def env_inst_def poco_inst_def ascii_lower_def)

theorem user_put_within_rights_witness:
  "wp (RESTAPI_user_DoPut env_inst put_ctx) (\<lambda>_. put_effect env_inst (caller put_ctx) ''u1'' session_world) session_world
   \<and> CanModifyUserRecord (caller put_ctx) sample_member \<and> stored_user env_inst Users session_world ''u1'' = Some sample_member"
proof (intro conjI)
  show "wp (RESTAPI_user_DoPut env_inst put_ctx) (\<lambda>_. put_effect env_inst (caller put_ctx) ''u1'' session_world) session_world"
    using user_put_within_rights [of env_inst session_world put_ctx] session_world_coh session_world_user sample_lower
    by (simp add: put_ctx_id)
qed (simp_all add: session_world_user put_ctx_def root_user_def acl_defs)

theorem user_delete_complete_witness:
  "wp (RESTAPI_user_DoDelete env_inst put_ctx) (delete_effect env_inst (caller put_ctx) ''u1'' session_world) session_world
   \<and> CanDeleteUserRecord (caller put_ctx) sample_member \<and> stored_user env_inst Users session_world ''u1'' = Some sample_member"
proof (intro conjI)
  show "wp (RESTAPI_user_DoDelete env_inst put_ctx) (delete_effect env_inst (caller put_ctx) ''u1'' session_world) session_world"
    using user_delete_complete [of env_inst session_world put_ctx] session_world_coh by (simp add: put_ctx_id)
qed (simp_all add: session_world_user put_ctx_def root_user_def sample_member_def acl_defs)

end
