(* ===== verification/Rest_Links.thy ===== *)
theory Rest_Links
  imports User_Records
begin

text \<open>
  The pages behind the mailed links, \<^verbatim>\<open>src/RESTAPI/RESTAPI_action_links.cpp\<close>, and the sign-up of subscribers,
  \<^verbatim>\<open>src/RESTAPI/RESTAPI_signup_handler.cpp\<close>. Both are reached without a session. A page is the file it is made
  from with the variables that are replaced in it. The notification of the provisioning
  service is kept in the state; its answer is only logged.
\<close>

subsection \<open>Pages\<close>

definition AddGlobalVars :: "env \<Rightarrow> (string \<times> string) list \<Rightarrow> (string \<times> string) list" where
  "AddGlobalVars E Vars = Vars @
     [(''USER_HELPER_EMAIL'', e_helperEmail E), (''SUB_HELPER_EMAIL'', e_subHelperEmail E),
      (''GLOBAL_USER_HELPER_EMAIL'', e_globalHelperEmail E), (''GLOBAL_SUB_HELPER_EMAIL'', e_globalSubHelperEmail E),
      (''USER_HELPER_SITE'', e_helperSite E), (''SUB_HELPER_SITE'', e_subHelperSite E),
      (''USER_SYSTEM_LOGIN'', e_systemLoginSite E), (''SUB_SYSTEM_LOGIN'', e_subSystemLoginSite E),
      (''USER_SIGNATURE'', e_userSignature E), (''SUB_SIGNATURE'', e_subSignature E)]"

definition send_page :: "env \<Rightarrow> string \<Rightarrow> (string \<times> string) list \<Rightarrow> response option" where
  "send_page E name FormVars = Some (SendHTML (e_wwwAssets E @ name) (AddGlobalVars E FormVars))"

definition DoReturnA404 :: "env \<Rightarrow> response option" where
  "DoReturnA404 E = send_page E ''/404_error.html'' []"

definition error_page :: "env \<Rightarrow> string \<Rightarrow> string \<Rightarrow> string \<Rightarrow> response option" where
  "error_page E name Id1 txt = send_page E name [(''UUID'', Id1), (''ERROR_TEXT'', txt)]"

definition mismatch_text :: "string \<Rightarrow> string" where
  "mismatch_text Id1 = ''For some reason, the passwords entered do not match or they do not comply with accepted password creation restrictions. Please consult our on-line help to look at the our password policy. If you would like to contact us, please mention id('' @ Id1 @ '')''"

definition no_user_text :: string where
  "no_user_text = ''This request does not contain a valid user ID. Please contact your system administrator.''"

definition account_text :: string where
  "account_text = ''Please contact our system administrators. We have identified an error in your account that must be resolved first.''"

definition reuse_text :: string where
  "reuse_text = ''You cannot reuse one of your recent passwords.''"

definition RequestResetPassword :: "env \<Rightarrow> ActionLink \<Rightarrow> response option" where
  "RequestResetPassword E Link = send_page E ''/password_reset.html''
     [(''UUID'', al_id Link), (''PASSWORD_VALIDATION'', e_passwordPattern E)]"

definition DoNewSubVerification :: "env \<Rightarrow> ActionLink \<Rightarrow> response option" where
  "DoNewSubVerification E Link = send_page E ''/sub_signup_verification.html''
     [(''UUID'', al_id Link), (''PASSWORD_VALIDATION'', e_passwordPattern E)]"

subsection \<open>Following a link\<close>

definition link_realm :: "ActionLink \<Rightarrow> realm_id" where
  "link_realm Link = (if al_userAction Link then Users else Subs)"

definition verify_subscriber :: "env \<Rightarrow> ActionLink \<Rightarrow> UserInfo \<Rightarrow> response option sec" where
  "verify_subscriber E Link UInfo = do {
     checked \<leftarrow> Now E;
     valid \<leftarrow> Now E;
     modified \<leftarrow> Now E;
     UpdateUserInfo E Subs (al_userId Link) (UInfo\<lparr>u_waitingForEmailCheck := False, u_validated := True,
       u_lastEmailCheck := checked, u_validationDate := valid, u_modified := modified\<rparr>);
     CompleteAction E (al_id Link);
     ret (send_page E ''/email_verification_success.html''
       [(''UUID'', al_id Link), (''USERNAME'', u_email UInfo), (''ACTION_LINK'', e_uiURI E)])
   }"

definition DoEmailVerification :: "env \<Rightarrow> ActionLink \<Rightarrow> response option sec" where
  "DoEmailVerification E Link = do {
     now \<leftarrow> Now E;
     if al_expires Link < now then do { CancelAction E (al_id Link); ret (DoReturnA404 E) }
     else do {
       user \<leftarrow> GetUserById E (link_realm Link) (al_userId Link);
       case user of
         None \<Rightarrow> ret (error_page E ''/email_verification_error.html'' (al_id Link)
           ''This does not appear to be a valid email verification link..'')
       | Some UInfo \<Rightarrow>
           if al_userAction Link then ret (RequestResetPassword E Link)
           else verify_subscriber E Link UInfo
     }
   }"

definition RESTAPI_action_links_DoGet :: "env \<Rightarrow> rest_op" where
  "RESTAPI_action_links_DoGet E c =
     (let Action = GetParameter c ''action'' []; Id1 = GetParameter c ''id'' [] in do {
        link \<leftarrow> GetActionLink E Id1;
        case link of
          None \<Rightarrow> ret (DoReturnA404 E)
        | Some Link \<Rightarrow>
            if Action = ''password_reset'' \<or> Action = ''sub_password_reset'' then ret (RequestResetPassword E Link)
            else if Action = ''email_verification'' \<or> Action = ''sub_email_verification'' then DoEmailVerification E Link
            else if Action = ''signup_verification'' then ret (DoNewSubVerification E Link)
            else ret (DoReturnA404 E)
      })"

subsection \<open>Setting a password through a link\<close>

definition reset_allowed :: "ActionLink \<Rightarrow> bool" where
  "reset_allowed Link \<longleftrightarrow>
     al_userAction Link \<and> (link_action Link LA_FORGOT_PASSWORD \<or> link_action Link LA_VERIFY_EMAIL)
     \<or> \<not> al_userAction Link \<and> link_action Link LA_SUB_FORGOT_PASSWORD"

text \<open>A link mailed to verify an address validates the account with the new password.\<close>

definition confirm_email :: "env \<Rightarrow> ActionLink \<Rightarrow> UserInfo \<Rightarrow> UserInfo sec" where
  "confirm_email E Link UInfo =
     (if link_action Link LA_VERIFY_EMAIL then do {
        checked \<leftarrow> Now E;
        valid \<leftarrow> Now E;
        ret (UInfo\<lparr>u_waitingForEmailCheck := False, u_validated := True, u_lastEmailCheck := checked,
          u_validationDate := valid, u_changePassword := False\<rparr>)
      }
      else ret UInfo)"

definition store_reset :: "env \<Rightarrow> string \<Rightarrow> ActionLink \<Rightarrow> UserInfo \<Rightarrow> response option sec" where
  "store_reset E Id1 Link UInfo = do {
     UInfo \<leftarrow> confirm_email E Link UInfo;
     modified \<leftarrow> Now E;
     UpdateUserInfo E (link_realm Link) (al_userId Link) (UInfo\<lparr>u_modified := modified\<rparr>);
     CompleteAction E Id1;
     ret (send_page E ''/password_reset_success.html''
       [(''UUID'', Id1), (''USERNAME'', u_email UInfo), (''ACTION_LINK'', e_uiURI E)])
   }"

definition reset_user :: "env \<Rightarrow> string \<Rightarrow> ActionLink \<Rightarrow> string \<Rightarrow> UserInfo \<Rightarrow> response option sec" where
  "reset_user E Id1 Link Password1 UInfo =
     (if u_blackListed UInfo \<or> u_suspended UInfo then ret (error_page E ''/password_reset_error.html'' Id1 account_text)
      else do {
        changed \<leftarrow> change_password E (link_realm Link) Password1 UInfo;
        case changed of
          None \<Rightarrow> ret None
        | Some (UInfo, GoodPassword) \<Rightarrow>
            if \<not> GoodPassword then ret (error_page E ''/password_reset_error.html'' Id1 reuse_text)
            else store_reset E Id1 Link UInfo
      })"

definition reset_with_link :: "env \<Rightarrow> string \<Rightarrow> string \<Rightarrow> string \<Rightarrow> ActionLink \<Rightarrow> response option sec" where
  "reset_with_link E Id1 Password1 Password2 Link =
     (if \<not> reset_allowed Link then ret (DoReturnA404 E)
      else if Password1 \<noteq> Password2 \<or> \<not> ValidatePassword E Password2 \<or> \<not> ValidatePassword E Password1
      then ret (error_page E ''/password_reset_error.html'' Id1 (mismatch_text Id1))
      else do {
        user \<leftarrow> GetUserById E (link_realm Link) (al_userId Link);
        case user of
          None \<Rightarrow> ret (error_page E ''/password_reset_error.html'' Id1 no_user_text)
        | Some UInfo \<Rightarrow> reset_user E Id1 Link Password1 UInfo
      })"

definition form_get :: "(string \<times> string) list \<Rightarrow> string \<Rightarrow> string \<Rightarrow> string" where
  "form_get Form name def = (case map_of Form name of None \<Rightarrow> def | Some v \<Rightarrow> v)"

definition form_fields :: "rest_ctx \<Rightarrow> (string \<times> string) list" where
  "form_fields c = (case rq_body (cx_request c) of FormBody f \<Rightarrow> f | _ \<Rightarrow> [])"

text \<open>The part the two completions share: the link must be stored and not be expired.\<close>

definition with_link :: "env \<Rightarrow> (string \<times> string) list \<Rightarrow>
    (string \<Rightarrow> string \<Rightarrow> string \<Rightarrow> ActionLink \<Rightarrow> response option sec) \<Rightarrow> response option sec" where
  "with_link E Form k =
     (if Form = [] then ret (DoReturnA404 E)
      else do {
        let Password1 = form_get Form ''password1'' ''bla'';
        let Password2 = form_get Form ''password2'' ''blu'';
        let Id1 = form_get Form ''id'' [];
        now \<leftarrow> Now E;
        link \<leftarrow> GetActionLink E Id1;
        case link of
          None \<Rightarrow> ret (DoReturnA404 E)
        | Some Link \<Rightarrow>
            if al_expires Link < now then do { CancelAction E Id1; ret (DoReturnA404 E) }
            else k Id1 Password1 Password2 Link
      })"

definition CompleteResetPassword :: "env \<Rightarrow> rest_op" where
  "CompleteResetPassword E c = with_link E (form_fields c) (reset_with_link E)"

subsection \<open>Completing a sign-up\<close>

definition notify_prov :: "string \<Rightarrow> unit sec" where
  "notify_prov signupUUID = modify (\<lambda>w. w\<lparr>w_prov := w_prov w @ [signupUUID]\<rparr>)"

text \<open>Without any part in \<^verbatim>\<open>signingUp\<close> the second one is out of range.\<close>

definition signup_uuid :: "env \<Rightarrow> UserInfo \<Rightarrow> string option" where
  "signup_uuid E UInfo =
     (let RawSignup = str_tokens (e_poco E) CHR '':'' (u_signingUp UInfo)
      in if length RawSignup = 1 then Some (u_signingUp UInfo)
         else if 1 < length RawSignup then Some (RawSignup ! 1) else None)"

definition store_signup :: "env \<Rightarrow> string \<Rightarrow> ActionLink \<Rightarrow> UserInfo \<Rightarrow> response option sec" where
  "store_signup E Id1 Link UInfo = do {
     modified \<leftarrow> Now E;
     checked \<leftarrow> Now E;
     valid \<leftarrow> Now E;
     let UInfo = UInfo\<lparr>u_modified := modified, u_changePassword := False, u_lastEmailCheck := checked,
       u_waitingForEmailCheck := False, u_validated := (valid \<noteq> 0)\<rparr>;
     UpdateUserInfo E Subs (al_userId Link) UInfo;
     CompleteAction E Id1;
     case signup_uuid E UInfo of
       None \<Rightarrow> ret (Some EscapesHandler)
     | Some uuid \<Rightarrow> do {
         notify_prov uuid;
         ret (send_page E ''/sub_signup_verification_success.html'' [(''UUID'', Id1), (''USERNAME'', u_email UInfo)])
       }
   }"

definition signup_user :: "env \<Rightarrow> string \<Rightarrow> ActionLink \<Rightarrow> string \<Rightarrow> UserInfo \<Rightarrow> response option sec" where
  "signup_user E Id1 Link Password1 UInfo =
     (if u_blackListed UInfo \<or> u_suspended UInfo
      then ret (error_page E ''/sub_signup_verification_error.html'' Id1 account_text)
      else do {
        changed \<leftarrow> SetSubPassword E Password1 UInfo;
        case changed of
          None \<Rightarrow> ret None
        | Some (UInfo, GoodPassword) \<Rightarrow>
            if \<not> GoodPassword then ret (error_page E ''/sub_signup_verification_error.html'' Id1 reuse_text)
            else store_signup E Id1 Link UInfo
      })"

definition signup_with_link :: "env \<Rightarrow> string \<Rightarrow> string \<Rightarrow> string \<Rightarrow> ActionLink \<Rightarrow> response option sec" where
  "signup_with_link E Id1 Password1 Password2 Link =
     (if Password1 \<noteq> Password2 \<or> \<not> ValidateSubPassword E Password1
      then ret (error_page E ''/sub_password_reset_error.html'' Id1 (mismatch_text Id1))
      else do {
        user \<leftarrow> GetUserById E Subs (al_userId Link);
        case user of
          None \<Rightarrow> ret (error_page E ''/sub_signup_verification_error.html'' Id1 no_user_text)
        | Some UInfo \<Rightarrow> signup_user E Id1 Link Password1 UInfo
      })"

definition CompleteSubVerification :: "env \<Rightarrow> rest_op" where
  "CompleteSubVerification E c = with_link E (form_fields c) (signup_with_link E)"

definition CompleteEmailInvitation :: "rest_op" where
  "CompleteEmailInvitation c = ret (Some NoAnswer)"

definition RESTAPI_action_links_DoPost :: "env \<Rightarrow> rest_op" where
  "RESTAPI_action_links_DoPost E c =
     (let Action = GetParameter c ''action'' [] in
      if Action = ''password_reset'' then CompleteResetPassword E c
      else if Action = ''sub_password_reset'' then CompleteResetPassword E c
      else if Action = ''signup_completion'' then CompleteSubVerification E c
      else if Action = ''email_invitation'' then CompleteEmailInvitation c
      else ret (DoReturnA404 E))"

definition no_operation :: rest_op where
  "no_operation c = ret (Some NoAnswer)"

definition RESTAPI_action_links :: "env \<Rightarrow> bool \<Rightarrow> handler" where
  "RESTAPI_action_links E Internal =
     \<lparr>hd_methods = [''GET'', ''POST'', ''OPTIONS''], hd_internal = Internal, hd_always = False, hd_rateLimited = True,
      hd_interval = 1000, hd_maxCalls = 10, hd_subOnly = False,
      hd_get = RESTAPI_action_links_DoGet E, hd_post = RESTAPI_action_links_DoPost E, hd_put = no_operation,
      hd_delete = no_operation\<rparr>"

subsection \<open>Sign-up\<close>

definition new_subscriber :: "env \<Rightarrow> string \<Rightarrow> string \<Rightarrow> string \<Rightarrow> string \<Rightarrow> UserInfo sec" where
  "new_subscriber E UserName signupUUID ownerName operatorName = do {
     modified \<leftarrow> Now E;
     created \<leftarrow> Now E;
     uuid \<leftarrow> CreateUUID E;
     let NewSub = UserInfo_init\<lparr>u_signingUp := operatorName @ '':'' @ signupUUID, u_waitingForEmailCheck := True,
       u_name := UserName, u_modified := modified, u_creationDate := created, u_id := uuid, u_email := UserName,
       u_userRole := SUBSCRIBER, u_changePassword := True, u_owner := ownerName\<rparr>;
     CreateRecord E (UserDB E Subs) NewSub;
     ret NewSub
   }"

definition signup_link :: "env \<Rightarrow> UserInfo \<Rightarrow> response option sec" where
  "signup_link E NewSub = do {
     uuid \<leftarrow> CreateUUID E;
     now \<leftarrow> Now E;
     CreateAction E (ActionLink_init\<lparr>al_action := LinkActionsValue LA_SUB_SIGNUP, al_id := uuid, al_userId := u_id NewSub,
       al_created := now, al_expires := now + 1 * 60 * 60, al_userAction := False\<rparr>);
     ret (Some (ReturnObject (JObj (UserInfo_to_json NewSub))))
   }"

definition signup_for :: "env \<Rightarrow> rest_ctx \<Rightarrow> UserInfo option \<Rightarrow> response option sec" where
  "signup_for E c Existing =
     (case Existing of
        Some NewSub \<Rightarrow>
          if \<not> u_waitingForEmailCheck NewSub then ret (Some (BadRequest Err_SignupAlreadySigned))
          else do {
            (if GetBoolParameter c ''resend'' False
             then do { UpdateUserInfo E Subs (u_id NewSub) NewSub; ret () } else ret ());
            signup_link E NewSub
          }
      | None \<Rightarrow> do {
          NewSub \<leftarrow> new_subscriber E (GetParameter c ''email'' []) (GetParameter c ''signupUUID'' [])
            (GetParameter c ''owner'' []) (GetParameter c ''operatorName'' []);
          signup_link E NewSub
        })"

definition RESTAPI_signup_DoPost :: "env \<Rightarrow> rest_op" where
  "RESTAPI_signup_DoPost E c =
     (if GetParameter c ''email'' [] = [] \<or> GetParameter c ''signupUUID'' [] = [] \<or> GetParameter c ''owner'' [] = []
         \<or> GetParameter c ''operatorName'' [] = []
      then ret (Some (BadRequest Err_MissingOrInvalidParameters))
      else if \<not> ValidEMailAddress (GetParameter c ''email'' []) then ret (Some (BadRequest Err_InvalidEmailAddress))
      else State_Monad.bind (GetUserByEmail E Subs (GetParameter c ''email'' [])) (signup_for E c))"

definition RESTAPI_signup_handler :: "env \<Rightarrow> bool \<Rightarrow> handler" where
  "RESTAPI_signup_handler E Internal =
     \<lparr>hd_methods = [''POST'', ''OPTIONS'', ''PUT''], hd_internal = Internal, hd_always = False, hd_rateLimited = True,
      hd_interval = 1000, hd_maxCalls = 100, hd_subOnly = False,
      hd_get = no_operation, hd_post = RESTAPI_signup_DoPost E, hd_put = no_operation, hd_delete = no_operation\<rparr>"

end
