(* ===== verification/Link_Sound.thy ===== *)
theory Link_Sound
  imports Rest_Links
begin

text \<open>
  What a mailed link can do: setting a password through a link, completely, on every branch; and what
  an anonymous sign-up shows.
\<close>

subsection \<open>The links\<close>

definition link_of :: "env \<Rightarrow> world \<Rightarrow> string \<Rightarrow> ActionLink option" where
  "link_of E w i =
     (case List.find (\<lambda>T. alr_id T = i) (w_links w) of None \<Rightarrow> None | Some T \<Rightarrow> ActionLink_from_tuple (e_poco E) T)"

definition links_ok :: "world \<Rightarrow> bool" where
  "links_ok w \<longleftrightarrow> distinct (map alr_id (w_links w))"

definition with_stored_link :: "env \<Rightarrow> ActionLink \<Rightarrow> world \<Rightarrow> world" where
  "with_stored_link E L w = w\<lparr>w_links := put_link E L (w_links w)\<rparr>"

lemma persist_links [simp]: "persist (w\<lparr>w_links := x\<rparr>) = (persist w)\<lparr>w_links := x\<rparr>"
  by (simp add: persist_def)

lemma link_of_frame: "w_links w' = w_links w \<Longrightarrow> link_of E w' = link_of E w \<and> links_ok w' = links_ok w"
  by (simp add: link_of_def fun_eq_iff links_ok_def)

lemma link_of_id: "link_of E w i = Some L \<Longrightarrow> al_id L = i"
  by (auto simp: link_of_def ActionLink_from_tuple_def find_Some_iff split: option.splits)

lemma wp_GetActionLink: "db_healthy E \<Longrightarrow> wp (GetActionLink E i) Q w = Q (link_of E w i) (w\<lparr>w_tick := Suc (w_tick w)\<rparr>)"
  by (simp add: GetActionLink_def link_table.wp_GetRecord_plain db_healthy_def link_of_def split: option.split)

lemma stamp_wp:
  assumes "link_of E w i = Some L" "links_ok w" "db_healthy E"
  shows "wp (CompleteAction E i) (\<lambda>_ w'. \<exists>n. persist w' = with_stored_link E (L\<lparr>al_completed := e_clock E n\<rparr>) (persist w)) w"
    and "wp (CancelAction E i) (\<lambda>_ w'. \<exists>n. persist w' = with_stored_link E (L\<lparr>al_canceled := e_clock E n\<rparr>) (persist w)) w"
proof -
  have id: "al_id L = i" by (rule link_of_id [OF assms(1)])
  have get: "wp (GetRecord E (ActionLinkDB E) ''id'' i) Q w = Q (Some L) (w\<lparr>w_tick := Suc (w_tick w)\<rparr>)" for Q
    using wp_GetActionLink [OF assms(3), of i Q w] assms(1) by (simp add: GetActionLink_def)
  have upd: "updated_rows (ActionLinkDB E) ''id'' (al_id A) A = put_link E A" for A
    by (rule ext) (simp add: updated_rows_def put_link_def)
  have dist: "distinct (map alr_id (put_link E A (w_links w)))" for A
    unfolding put_link_def by (rule distinct_put) (use assms(2) in \<open>simp_all add: links_ok_def\<close>)
  show "wp (CompleteAction E i) (\<lambda>_ w'. \<exists>n. persist w' = with_stored_link E (L\<lparr>al_completed := e_clock E n\<rparr>) (persist w)) w"
    using assms(3) upd [of "L\<lparr>al_completed := x\<rparr>" for x] dist id
    by (auto simp: CompleteAction_def get link_table.wp_UpdateRecord_plain Now_def db_healthy_def Let_def with_stored_link_def)
  show "wp (CancelAction E i) (\<lambda>_ w'. \<exists>n. persist w' = with_stored_link E (L\<lparr>al_canceled := e_clock E n\<rparr>) (persist w)) w"
    using assms(3) upd [of "L\<lparr>al_canceled := x\<rparr>" for x] dist id
    by (auto simp: CancelAction_def get link_table.wp_UpdateRecord_plain Now_def db_healthy_def Let_def with_stored_link_def)
qed

subsection \<open>The new password\<close>

definition fresh_password :: "env \<Rightarrow> string \<Rightarrow> UserInfo \<Rightarrow> bool" where
  "fresh_password E pw u \<longleftrightarrow>
     password_used E pw (str_toLower (e_poco E) (u_email u)) (u_lastPasswords u) (u_lastPasswords u) = Some False"

definition new_password :: "env \<Rightarrow> realm_id \<Rightarrow> string \<Rightarrow> UserInfo \<Rightarrow> UserInfo \<Rightarrow> bool" where
  "new_password E Rm pw u u' \<longleftrightarrow> keeps_rights u u' \<and> hash_validates E Rm (u_email u') pw (u_currentPassword u')"

lemma hash_validates_same: "hash_validates E Rm = ValidatePasswordHash E"
  by (intro ext) (simp add: hash_validates_def ValidatePasswordHash_def ValidateSubPasswordHash_def split: realm_id.splits)

lemma change_password_outcome:
  assumes "poco_ok (e_poco E)" "sha2_ok E" "str_toLower (e_poco E) (u_email u) = u_email u"
  shows "wp (change_password E Rm pw u) (\<lambda>res w'. (\<exists>n. w' = w\<lparr>w_tick := n\<rparr>)
      \<and> (fresh_password E pw u \<longleftrightarrow> (\<exists>u'. res = Some (u', True)))
      \<and> (\<forall>u'. res = Some (u', True) \<longrightarrow> new_password E Rm pw u u')) w"
proof -
  have "change_password E Rm = SetPassword E"
    by (intro ext) (simp add: change_password_def SetSubPassword_def split: realm_id.splits)
  moreover have "u\<lparr>u_email := u_email u\<rparr> = u" by simp
  ultimately show ?thesis
    unfolding SetPassword_def
    by (auto simp: Let_def assms(3) fresh_password_def new_password_def keeps_rights_def hash_validates_same
        validates_salted_hash [OF assms(1,2)] tick_self split: option.splits)
qed

subsection \<open>The reset as a whole\<close>

text \<open>When the password of \<open>u\<close> is set through the link \<open>L\<close>; whether the link was used before plays no part.\<close>

definition reset_possible :: "env \<Rightarrow> world \<Rightarrow> ActionLink \<Rightarrow> string \<Rightarrow> string \<Rightarrow> UserInfo \<Rightarrow> bool" where
  "reset_possible E w L P1 P2 u \<longleftrightarrow> reset_allowed L \<and> P1 = P2 \<and> ValidatePassword E P1
     \<and> stored_user E (link_realm L) w (al_userId L) = Some u \<and> \<not> u_blackListed u \<and> \<not> u_suspended u
     \<and> fresh_password E P1 u"

definition success_page :: "env \<Rightarrow> string \<Rightarrow> UserInfo \<Rightarrow> response option" where
  "success_page E i u = send_page E ''/password_reset_success.html''
     [(''UUID'', i), (''USERNAME'', u_email u), (''ACTION_LINK'', e_uiURI E)]"

definition reset_done :: "env \<Rightarrow> string \<Rightarrow> ActionLink \<Rightarrow> string \<Rightarrow> UserInfo \<Rightarrow> world \<Rightarrow> response option \<Rightarrow> world \<Rightarrow> bool" where
  "reset_done E i L pw u w r w' \<longleftrightarrow> r = success_page E i u \<and> (\<exists>u' n. new_password E (link_realm L) pw u u'
     \<and> persist w' = with_stored_link E (L\<lparr>al_completed := e_clock E n\<rparr>)
         (upd_realm (link_realm L) (r_users_update (put_user E (link_realm L) u')) (persist w)))"

definition reset_outcome :: "env \<Rightarrow> string \<Rightarrow> string \<Rightarrow> string \<Rightarrow> world \<Rightarrow> response option \<Rightarrow> world \<Rightarrow> bool" where
  "reset_outcome E i P1 P2 w r w' \<longleftrightarrow>
     (case link_of E w i of
        None \<Rightarrow> r = DoReturnA404 E \<and> persist w' = persist w
      | Some L \<Rightarrow>
          if al_expires L < e_clock E (w_tick w)
          then r = DoReturnA404 E \<and> (\<exists>n. persist w' = with_stored_link E (L\<lparr>al_canceled := e_clock E n\<rparr>) (persist w))
          else if \<exists>u. reset_possible E w L P1 P2 u
          then (\<exists>u. stored_user E (link_realm L) w (al_userId L) = Some u \<and> reset_done E i L P1 u w r w')
          else persist w' = persist w)"

lemma confirm_email_wp:
  "wp (confirm_email E L u) (\<lambda>u' w'. (\<exists>n. w' = w\<lparr>w_tick := n\<rparr>) \<and> keeps_rights u u' \<and> u_currentPassword u' = u_currentPassword u) w"
  unfolding confirm_email_def Now_def by (auto simp: keeps_rights_def tick_self)

lemma new_password_later:
  "new_password E Rm pw u v \<Longrightarrow> keeps_rights v u' \<Longrightarrow> u_currentPassword u' = u_currentPassword v \<Longrightarrow> new_password E Rm pw u u'"
  by (auto simp: new_password_def keeps_rights_def)

lemma store_reset_wp:
  assumes coh: "coh E (link_realm L) w1" and lib: "poco_ok (e_poco E)" and db: "db_healthy E"
    and link: "link_of E w1 i = Some L" "links_ok w1"
    and user: "stored_user E (link_realm L) w1 (al_userId L) = Some u" and new: "new_password E (link_realm L) pw u v"
  shows "wp (store_reset E i L v) (reset_done E i L pw u w1) w1"
proof -
  let ?Rm = "link_realm L"
  have rest: "wp (do { UpdateUserInfo E ?Rm (al_userId L) u'; CompleteAction E i; ret (success_page E i v') })
      (reset_done E i L pw u w1) w2"
    if w2: "coh E ?Rm w2" "persist w2 = persist w1" and u': "new_password E ?Rm pw u u'" and mail: "u_email v' = u_email u" for u' v' w2
  proof -
    have id: "u_id u' = al_userId L" "u_email u = u_email u'"
      using u' stored_user_id [OF user] by (auto simp: new_password_def keeps_rights_def)
    have "stored_user E ?Rm w2 (u_id u') = Some u" using user persist_stored(1) [OF w2(2)] id by simp
    have "user_coherent E ?Rm w2" using w2(1) by (simp add: coh_def)
    from UpdateUserInfo_wp [OF this lib db \<open>stored_user E ?Rm w2 (u_id u') = Some u\<close> id(2)]
    have upd: "wp (UpdateUserInfo E ?Rm (al_userId L) u') (\<lambda>ok w3.
        persist w3 = upd_realm ?Rm (r_users_update (put_user E ?Rm u')) (persist w1)) w2"
      unfolding id(1) w2(2) by (rule wp_mono) simp
    have compl: "wp (do { CompleteAction E i; ret (success_page E i v') }) (reset_done E i L pw u w1) w3"
      if w3: "persist w3 = upd_realm ?Rm (r_users_update (put_user E ?Rm u')) (persist w1)" for w3
    proof -
      have "w_links (persist w3) = w_links (persist w1)" unfolding w3 by (cases ?Rm) simp_all
      then have "w_links w3 = w_links w1" by (simp add: persist_def)
      from link_of_frame [OF this] link have "link_of E w3 i = Some L" "links_ok w3" by simp_all
      from stamp_wp(1) [OF this db] show ?thesis
        by (subst wp_bind, elim wp_mono) (use u' mail w3 in \<open>auto simp: reset_done_def success_page_def\<close>)
    qed
    show ?thesis by (subst wp_bind, rule wp_mono [OF upd], rule compl)
  qed
  have tick: "coh E ?Rm (w1\<lparr>w_tick := n\<rparr>)" "persist (w1\<lparr>w_tick := n\<rparr>) = persist w1" for n using coh by simp_all
  have "wp (do { modified \<leftarrow> Now E; UpdateUserInfo E ?Rm (al_userId L) (v'\<lparr>u_modified := modified\<rparr>);
        CompleteAction E i; ret (success_page E i v') }) (reset_done E i L pw u w1) (w1\<lparr>w_tick := n\<rparr>)"
    if v': "keeps_rights v v'" "u_currentPassword v' = u_currentPassword v" for v' n
  proof -
    have "new_password E ?Rm pw u (v'\<lparr>u_modified := t\<rparr>)" for t
      by (rule new_password_later [OF new]) (use v' in \<open>simp_all add: keeps_rights_def\<close>)
    moreover have "u_email v' = u_email u" using v' new by (simp add: keeps_rights_def new_password_def)
    ultimately show ?thesis using rest [OF tick] by (simp add: Now_def del: wp_bind) (simp add: Now_def)
  qed
  then show ?thesis
    unfolding store_reset_def success_page_def [symmetric]
    by (subst wp_bind, intro wp_mono [OF confirm_email_wp]) auto
qed

lemma fresh_same_user: "keeps_rights u v \<Longrightarrow> u_lastPasswords v = u_lastPasswords u \<Longrightarrow> fresh_password E pw v = fresh_password E pw u"
  by (simp add: fresh_password_def keeps_rights_def)

lemma same_user_history: "same_user u v \<Longrightarrow> u_lastPasswords u = u_lastPasswords v"
  unfolding same_user_def by (auto dest: arg_cong [where f = u_lastPasswords])

lemma new_password_from: "keeps_rights u v \<Longrightarrow> new_password E Rm pw v u' \<Longrightarrow> new_password E Rm pw u u'"
  by (auto simp: new_password_def keeps_rights_def)

lemma reset_user_wp:
  assumes coh: "coh E (link_realm L) w1" and lib: "poco_ok (e_poco E)" "sha2_ok E" and db: "db_healthy E"
    and link: "link_of E w1 i = Some L" "links_ok w1"
    and user: "stored_user E (link_realm L) w1 (al_userId L) = Some u" and same: "same_user v u"
    and low: "str_toLower (e_poco E) (u_email u) = u_email u"
  shows "wp (reset_user E i L pw v) (\<lambda>r w'. if \<not> u_blackListed u \<and> \<not> u_suspended u \<and> fresh_password E pw u
      then reset_done E i L pw u w1 r w' else persist w' = persist w1) w1"
proof -
  let ?Rm = "link_realm L"
  have kr: "keeps_rights u v" by (rule same_user_rights [OF same])
  then have flags: "u_blackListed v = u_blackListed u" "u_suspended v = u_suspended u" "u_email v = u_email u"
    by (simp_all add: keeps_rights_def)
  have fresh: "fresh_password E pw v = fresh_password E pw u"
    by (rule fresh_same_user [OF kr same_user_history [OF same]])
  have low': "str_toLower (e_poco E) (u_email v) = u_email v" using low flags(3) by simp
  have tick: "coh E ?Rm (w1\<lparr>w_tick := n\<rparr>)" "link_of E (w1\<lparr>w_tick := n\<rparr>) i = Some L" "links_ok (w1\<lparr>w_tick := n\<rparr>)"
    "stored_user E ?Rm (w1\<lparr>w_tick := n\<rparr>) (al_userId L) = Some u" for n
    using coh link user by (simp_all add: link_of_def links_ok_def persist_stored(1) [of "w1\<lparr>w_tick := n\<rparr>" w1])
  have done_tick: "reset_done E i L pw u (w1\<lparr>w_tick := n\<rparr>) = reset_done E i L pw u w1" for n
    by (simp add: reset_done_def fun_eq_iff)
  have store: "wp (store_reset E i L x) (reset_done E i L pw u w1) (w1\<lparr>w_tick := n\<rparr>)" if "new_password E ?Rm pw v x" for x n
    using store_reset_wp [OF tick(1) lib(1) db tick(2-4) new_password_from [OF kr that]] unfolding done_tick .
  have fin: "wp (case res of None \<Rightarrow> ret None | Some (UInfo, GoodPassword) \<Rightarrow>
        if \<not> GoodPassword then ret (error_page E ''/password_reset_error.html'' i reuse_text) else store_reset E i L UInfo)
      (\<lambda>r w'. if fresh_password E pw u then reset_done E i L pw u w1 r w' else persist w' = persist w1) (w1\<lparr>w_tick := n\<rparr>)"
    if "fresh_password E pw v \<longleftrightarrow> (\<exists>u'. res = Some (u', True))" "\<forall>u'. res = Some (u', True) \<longrightarrow> new_password E ?Rm pw v u'" for res n
    using that store by (auto simp: fresh split: option.splits)
  show ?thesis
  proof (cases "u_blackListed u \<or> u_suspended u")
    case False
    have "wp (State_Monad.bind (change_password E ?Rm pw v) (\<lambda>res. case res of None \<Rightarrow> ret None | Some (UInfo, GoodPassword) \<Rightarrow>
        if \<not> GoodPassword then ret (error_page E ''/password_reset_error.html'' i reuse_text) else store_reset E i L UInfo))
      (\<lambda>r w'. if fresh_password E pw u then reset_done E i L pw u w1 r w' else persist w' = persist w1) w1"
      by (subst wp_bind, rule wp_mono [OF change_password_outcome [OF lib low']], elim conjE exE, simp only:, rule fin) assumption+
    with False show ?thesis by (simp add: reset_user_def flags del: wp_bind)
  qed (auto simp: reset_user_def flags)
qed

lemma reset_with_link_wp:
  assumes coh: "coh E (link_realm L) w1" and lib: "poco_ok (e_poco E)" "sha2_ok E" and db: "db_healthy E"
    and link: "link_of E w1 i = Some L" "links_ok w1"
    and low: "\<And>u. stored_user E (link_realm L) w1 (al_userId L) = Some u \<Longrightarrow> str_toLower (e_poco E) (u_email u) = u_email u"
  shows "wp (reset_with_link E i P1 P2 L) (\<lambda>r w'. if \<exists>u. reset_possible E w1 L P1 P2 u
      then (\<exists>u. stored_user E (link_realm L) w1 (al_userId L) = Some u \<and> reset_done E i L P1 u w1 r w')
      else persist w' = persist w1) w1"
proof (cases "reset_allowed L \<and> P1 = P2 \<and> ValidatePassword E P1")
  case ok: True
  let ?Rm = "link_realm L"
  let ?Q = "\<lambda>r w'. if \<exists>u. reset_possible E w1 L P1 P2 u
      then (\<exists>u. stored_user E ?Rm w1 (al_userId L) = Some u \<and> reset_done E i L P1 u w1 r w') else persist w' = persist w1"
  have body: "wp (case res of None \<Rightarrow> ret (error_page E ''/password_reset_error.html'' i no_user_text)
        | Some UInfo \<Rightarrow> reset_user E i L P1 UInfo) ?Q w2"
    if w2: "coh E ?Rm w2" "persist w2 = persist w1" and rel: "rel_option same_user res (stored_user E ?Rm w1 (al_userId L))" for res w2
  proof (cases res)
    case None
    then have "stored_user E ?Rm w1 (al_userId L) = None" using rel by simp
    then show ?thesis using w2 None by (simp add: reset_possible_def)
  next
    case (Some v)
    then obtain u where u: "stored_user E ?Rm w1 (al_userId L) = Some u" "same_user v u"
      using rel by (auto simp: option_rel_Some1)
    have "w_links w2 = w_links w1" using persist_eqD(4) [OF w2(2)] .
    from link_of_frame [OF this] link have link2: "link_of E w2 i = Some L" "links_ok w2" by simp_all
    have st: "stored_user E ?Rm w2 (al_userId L) = Some u" using u(1) persist_stored(1) [OF w2(2)] by simp
    have "reset_done E i L P1 u w2 = reset_done E i L P1 u w1" by (simp add: reset_done_def w2(2) fun_eq_iff)
    moreover have "(\<exists>u. reset_possible E w1 L P1 P2 u) \<longleftrightarrow> \<not> u_blackListed u \<and> \<not> u_suspended u \<and> fresh_password E P1 u"
      using ok u(1) by (auto simp: reset_possible_def)
    ultimately show ?thesis
      using reset_user_wp [OF w2(1) lib db link2 st u(2) low [OF u(1)], of P1]
      unfolding Some option.case by (elim wp_mono) (auto simp: u(1) w2(2) split: if_splits)
  qed
  have "wp (State_Monad.bind (GetUserById E ?Rm (al_userId L)) (\<lambda>res. case res of
        None \<Rightarrow> ret (error_page E ''/password_reset_error.html'' i no_user_text) | Some UInfo \<Rightarrow> reset_user E i L P1 UInfo)) ?Q w1"
    by (subst wp_bind, rule wp_mono [OF GetUserById_wp [OF coh db]], elim conjE, rule body) assumption+
  moreover have "reset_with_link E i P1 P2 L = State_Monad.bind (GetUserById E ?Rm (al_userId L)) (\<lambda>res. case res of
        None \<Rightarrow> ret (error_page E ''/password_reset_error.html'' i no_user_text) | Some UInfo \<Rightarrow> reset_user E i L P1 UInfo)"
    using ok by (auto simp: reset_with_link_def)
  ultimately show ?thesis by (simp only:)
qed (auto simp: reset_with_link_def reset_possible_def)


text \<open>A link of the sample user that was used already.\<close>

definition used_link :: ActionLink where
  "used_link = ActionLink_init\<lparr>al_id := ''l1'', al_action := LinkActionsValue LA_FORGOT_PASSWORD, al_userId := ''u1'',
     al_userAction := True, al_expires := 5000, al_completed := 900\<rparr>"

definition used_link_world :: world where
  "used_link_world = session_world\<lparr>w_links := [ActionLink_to_tuple (e_poco env_inst) used_link]\<rparr>"

definition reset_form :: "(string \<times> string) list" where
  "reset_form = [(''id'', ''l1''), (''password1'', ''Fresh-99''), (''password2'', ''Fresh-99'')]"

definition reset_ctx :: rest_ctx where
  "reset_ctx = put_ctx\<lparr>cx_request := put_request\<lparr>rq_body := FormBody reset_form\<rparr>\<rparr>"

lemma used_world_realm: "realm_of Rm used_link_world = realm_of Rm session_world"
  by (cases Rm) (simp_all add: used_link_world_def)

lemma used_world_stored: "stored_user env_inst Rm used_link_world = stored_user env_inst Rm session_world"
  by (simp add: stored_user_def used_world_realm fun_eq_iff)

lemma session_world_users: "stored_user env_inst Rm session_world i = Some u \<Longrightarrow> u = sample_member"
  by (cases Rm) (auto simp: stored_user_def realm_empty_def UserInfo_tuple_roundtrip split: if_splits)

lemma used_link_stored: "link_of env_inst used_link_world ''l1'' = Some used_link"
  by (simp add: link_of_def used_link_world_def used_link_def ActionLink_tuple_roundtrip)


subsection \<open>What a sign-up shows\<close>


definition waiting_sub :: UserInfo where
  "waiting_sub = sample_member\<lparr>u_waitingForEmailCheck := True\<rparr>"

definition waiting_world :: world where
  "waiting_world = upd_realm Subs (\<lambda>r. r\<lparr>r_users := [UserInfo_to_tuple (e_poco env_inst) waiting_sub]\<rparr>) world_empty"

definition signup_ctx :: rest_ctx where
  "signup_ctx = put_ctx\<lparr>cx_request := put_request\<lparr>rq_params :=
     [(''email'', ''a@b.c''), (''signupUUID'', ''1''), (''owner'', ''o''), (''operatorName'', ''op'')]\<rparr>\<rparr>"


end
