(* ===== verification/Utils_Text.thy ===== *)
theory Utils_Text
  imports Utils_Regex
begin

text \<open>
  The text helpers of \<^verbatim>\<open>src/framework/utils.cpp\<close> and \<^verbatim>\<open>src/framework/utils.h\<close>: numbers and host names, the
  wildcard match, splitting, identifiers (serial numbers, UUIDs, MAC addresses), addresses
  and the masking of tokens. The static regular expression of \<^verbatim>\<open>ValidNumber\<close> is state of the
  process and is passed explicitly.
\<close>

subsection \<open>Numbers and host names\<close>

definition number_rex :: rex where
  "number_rex = RSeq (RClass is_digit) (RSeq (RStar (RClass is_digit))
     (ROpt (RSeq (RChar CHR ''.'') (RPlus (RClass is_digit)))))"

definition IntRegex :: rex where
  "IntRegex = RSeq (ROpt (RChar CHR ''-'')) number_rex"

definition ValidNumber :: "rex \<Rightarrow> string \<Rightarrow> bool \<Rightarrow> rex \<times> bool" where
  "ValidNumber regex number isSigned =
     (let regex = (if \<not> isSigned then number_rex else regex) in (regex, regex_match number regex))"

text \<open>The expression a sequence of earlier calls has left behind.\<close>

definition number_calls :: "(string \<times> bool) list \<Rightarrow> rex" where
  "number_calls calls = foldl (\<lambda>r c. fst (ValidNumber r (fst c) (snd c))) IntRegex calls"

definition HostNameRegex :: rex where
  "HostNameRegex =
     RSeq (RPlus (RClass (\<lambda>c. is_upper c \<or> host_char c)))
       (RSeq (RStar (RSeq (RClass (\<lambda>c. c = CHR ''-'' \<or> c = CHR ''.''))
            (RPlus (RClass (\<lambda>c. is_lower c \<or> is_digit c)))))
         (RSeq (RChar CHR ''.'') (RRep 2 4 (RClass (\<lambda>c. is_upper c \<or> is_lower c)))))"

text \<open>The look-ahead \<^verbatim>\<open>(?!-)\<close> refuses texts that start with a dash.\<close>

definition ValidHostname :: "string \<Rightarrow> bool" where
  "ValidHostname Hostname \<longleftrightarrow> \<not> (Hostname \<noteq> [] \<and> hd Hostname = CHR ''-'') \<and> regex_match Hostname HostNameRegex"

subsection \<open>Wildcards\<close>

text \<open>
  The two pointers are the texts from there on; \<open>None\<close> is a read past the terminator, which a
  question mark at the end of the second text leads to.
\<close>

fun skip_stars :: "string \<Rightarrow> string" where
  "skip_stars (a # b # p) = (if a = CHR ''*'' \<and> b = CHR ''*'' then skip_stars (b # p) else a # b # p)"
| "skip_stars p = p"

lemma length_skip_stars: "length (skip_stars p) \<le> length p"
  by (induction p rule: skip_stars.induct) auto

function match :: "string \<Rightarrow> string \<Rightarrow> bool option" where
  "match first second =
     (if first = [] \<and> second = [] then Some True
      else (case skip_stars first of
          [] \<Rightarrow> Some False
        | c # rest \<Rightarrow>
            if c = CHR ''*'' \<and> rest \<noteq> [] \<and> second = [] then Some False
            else if c = CHR ''?'' \<or> second \<noteq> [] \<and> c = hd second then
              (case second of [] \<Rightarrow> None | _ # after \<Rightarrow> match rest after)
            else if c = CHR ''*'' then
              (case match rest second of
                 None \<Rightarrow> None
               | Some True \<Rightarrow> Some True
               | Some False \<Rightarrow> (case second of [] \<Rightarrow> None | _ # after \<Rightarrow> match (c # rest) after))
            else Some False))"
  by pat_completeness auto
termination
proof (relation "measure (\<lambda>(p, t). length p + length t)", goal_cases)
  case (2 first second c rest x after)
  then show ?case using length_skip_stars [of first] by auto
next
  case (3 first second c rest)
  then show ?case using length_skip_stars [of first] by auto
next
  case (4 first second c rest x after)
  then show ?case using length_skip_stars [of first] by auto
qed simp

declare match.simps [simp del]

text \<open>What the wildcards mean: a question mark is one character, a star any text.\<close>

fun glob :: "string \<Rightarrow> string \<Rightarrow> bool" where
  "glob [] t = (t = [])"
| "glob (c # p) [] = (c = CHR ''*'' \<and> glob p [])"
| "glob (c # p) (d # t) =
     (if c = CHR ''*'' then glob p (d # t) \<or> glob (c # p) t else (c = CHR ''?'' \<or> c = d) \<and> glob p t)"

lemma glob_stars: "glob (skip_stars p) t = glob p t"
proof (induction p arbitrary: t rule: skip_stars.induct)
  case (1 a b p)
  show ?case
  proof (cases "a = CHR ''*'' \<and> b = CHR ''*''")
    case True
    have "glob (CHR ''*'' # CHR ''*'' # p) t = glob (CHR ''*'' # p) t" for t
      by (induction t) auto
    with True 1 show ?thesis by simp
  qed auto
qed auto

lemma skip_stars_head: "skip_stars p = CHR ''*'' # r \<Longrightarrow> r = [] \<or> hd r \<noteq> CHR ''*''"
  by (induction p arbitrary: r rule: skip_stars.induct) (auto split: if_splits)

lemma skip_stars_Nil [simp]: "skip_stars p = [] \<longleftrightarrow> p = []"
  by (induction p rule: skip_stars.induct) auto

lemma skip_stars_set: "set (skip_stars p) \<subseteq> set p"
  by (induction p rule: skip_stars.induct) auto

lemma glob_empty: "glob p [] = list_all (\<lambda>c. c = CHR ''*'') p"
  by (induction p) auto

lemma match_empty:
  "match [] t = Some (t = [])"
  "skip_stars p = c # rest \<Longrightarrow> match p [] =
     (if c = CHR ''*'' then Some (rest = []) else if c = CHR ''?'' then None else Some False)"
  by (auto simp: match.simps [of "[]"] match.simps [of p])

lemma match_step:
  "skip_stars p = c # rest \<Longrightarrow> match p (d # t) =
     (if c = CHR ''?'' \<or> c = d then match rest t
      else if c = CHR ''*'' then
        (case match rest (d # t) of Some False \<Rightarrow> match (c # rest) t | r \<Rightarrow> r)
      else Some False)"
  by (auto simp: match.simps [of p] split: option.splits bool.splits)

lemma match_induct [case_names Nil Empty Step]:
  assumes "\<And>t. Q [] t"
    and "\<And>p c rest. skip_stars p = c # rest \<Longrightarrow> Q p []"
    and "\<And>p c rest d t. skip_stars p = c # rest \<Longrightarrow> Q rest t \<Longrightarrow> Q rest (d # t) \<Longrightarrow> Q (c # rest) t \<Longrightarrow> Q p (d # t)"
  shows "Q p t"
proof (induction "length p + length t" arbitrary: p t rule: less_induct)
  case less
  show ?case
  proof (cases "skip_stars p")
    case Nil
    then show ?thesis using assms(1) by simp
  next
    case (Cons c rest)
    note sk = this
    then have len: "length rest < length p" using length_skip_stars [of p] by simp
    show ?thesis
    proof (cases t)
      case Nil
      with sk assms(2) show ?thesis by blast
    next
      case (Cons d u)
      have "length (c # rest) \<le> length p" using sk length_skip_stars [of p] by simp
      then have "Q rest u" "Q rest (d # u)" "Q (c # rest) u" using len Cons by (auto intro: less)
      then show ?thesis unfolding Cons by (rule assms(3) [OF sk])
    qed
  qed
qed

lemma match_glob:
  "CHR ''*'' \<notin> set t \<Longrightarrow> match p t = None \<or> match p t = Some (glob p t)"
proof (induction p t rule: match_induct)
  case (Empty p c rest)
  then show ?case using skip_stars_head [of p rest] glob_stars [of p "[]"]
    by (cases rest) (auto simp: match_empty)
next
  case (Step p c rest d t)
  then show ?case using glob_stars [of p "d # t"]
    by (auto simp: match_step split: option.splits bool.splits)
qed (simp add: match_empty)

lemma match_defined: "CHR ''?'' \<notin> set p \<Longrightarrow> match p t \<noteq> None"
proof (induction p t rule: match_induct)
  case (Empty p c rest)
  then show ?case using skip_stars_set [of p] by (auto simp: match_empty)
next
  case (Step p c rest d t)
  from Step skip_stars_set [of p] have "CHR ''?'' \<notin> set rest" "c \<noteq> CHR ''?''" by auto
  with Step show ?case by (auto simp: match_step split: option.splits bool.splits)
qed (simp add: match_empty)

text \<open>
  For a text without stars the wildcard match answers what the wildcards mean (a question mark stands
  for one character, a star for any text) or reads past the end of the text; a pattern without
  question marks never reads past the end.
\<close>

theorem wildcard_match:
  assumes "CHR ''*'' \<notin> set t"
  shows "(match p t = None \<or> match p t = Some (glob p t)) \<and>
    (CHR ''?'' \<notin> set p \<longrightarrow> match p t = Some (glob p t))"
  using match_glob [OF assms, of p] match_defined [of p t] by blast

theorem wildcard_match_witness:
  "CHR ''*'' \<notin> set ''abccd'' \<and> match ''ab*d'' ''abccd'' = Some True \<and> glob ''ab*d'' ''abccd''"
  using wildcard_match [of "''abccd''" "''ab*d''"] by simp

text \<open>A star in the text is taken literally before it is taken as a wildcard, and a question mark beyond the text reads on.\<close>

lemma wildcard_star_in_text: "match ''*'' ''*a'' = Some False \<and> glob ''*'' ''*a''"
  by (simp add: match.simps)

lemma wildcard_reads_past_end: "match ''?'' [] = None"
  by (simp add: match.simps)

subsection \<open>Numbers: the static expression\<close>

lemma number_calls_cases:
  "number_calls calls = (if list_all snd calls then IntRegex else number_rex)"
  by (induction calls rule: rev_induct) (auto simp: number_calls_def ValidNumber_def Let_def)

lemma number_not_negative: "\<not> matches number_rex (CHR ''-'' # n)"
  unfolding number_rex_def seq_class by (simp add: is_digit_def)

text \<open>
  Once any caller has asked for an unsigned number, no later check accepts a negative number:
  the call replaced the expression for good.
\<close>

lemma signed_numbers_lost:
  "\<not> list_all snd calls \<Longrightarrow> \<not> snd (ValidNumber (number_calls calls) (CHR ''-'' # n) True)"
  by (simp add: number_calls_cases ValidNumber_def regex_match_matches number_not_negative)

lemma signed_number_first: "snd (ValidNumber (number_calls []) ''-5'' True)"
  by (simp add: number_calls_def ValidNumber_def IntRegex_def number_rex_def regex_match_def
    ROpt_def RChar_def RPlus_def is_digit_def)

subsection \<open>Splitting\<close>

fun index_from :: "char \<Rightarrow> nat \<Rightarrow> string \<Rightarrow> nat option" where
  "index_from d P [] = None"
| "index_from d P (c # s) = (if c = d then Some P else index_from d (Suc P) s)"

definition find_first_of :: "string \<Rightarrow> char \<Rightarrow> nat \<Rightarrow> nat option" where
  "find_first_of s d P = index_from d P (drop P s)"

lemma index_from_SomeD: "index_from d P u = Some P2 \<Longrightarrow> P \<le> P2 \<and> P2 < P + length u"
  by (induction u arbitrary: P) (auto split: if_splits, fastforce+)

lemma find_first_of_bounds: "find_first_of s d P = Some P2 \<Longrightarrow> P \<le> P2 \<and> P2 < length s"
  using index_from_SomeD [of d P "drop P s" P2] by (cases "P \<le> length s") (auto simp: find_first_of_def)

definition substr :: "string \<Rightarrow> nat \<Rightarrow> nat \<Rightarrow> string" where
  "substr s P n = take n (drop P s)"

function split_loop :: "string \<Rightarrow> char \<Rightarrow> nat \<Rightarrow> string list" where
  "split_loop List Delimiter P =
     (if P < length List then
        (case find_first_of List Delimiter P of
           None \<Rightarrow> [drop P List]
         | Some P2 \<Rightarrow> substr List P (P2 - P) # split_loop List Delimiter (P2 + 1))
      else [])"
  by pat_completeness auto
termination
  by (relation "measure (\<lambda>(s, d, P). length s - P)") (auto dest: find_first_of_bounds)

declare split_loop.simps [simp del]

definition Split :: "string \<Rightarrow> char \<Rightarrow> string list" where
  "Split List Delimiter = split_loop List Delimiter 0"

text \<open>The words with the delimiter between them.\<close>

fun join :: "char \<Rightarrow> string list \<Rightarrow> string" where
  "join d [] = []"
| "join d [w] = w"
| "join d (w # ws) = w @ d # join d ws"

lemma index_from_word:
  "d \<notin> set w \<Longrightarrow> index_from d P (w @ d # r) = Some (P + length w)"
  "d \<notin> set w \<Longrightarrow> index_from d P w = None"
  by (induction w arbitrary: P) auto

lemma split_loop_join:
  assumes "ws \<noteq> [] \<Longrightarrow> last ws \<noteq> []" and "\<forall>w\<in>set ws. d \<notin> set w" and "s = u @ join d ws"
  shows "split_loop s d (length u) = ws"
  using assms
proof (induction d ws arbitrary: u rule: join.induct)
  case (2 d w)
  then show ?case by (simp add: split_loop.simps [of "u @ w"] find_first_of_def index_from_word)
next
  case (3 d w v vs)
  let ?r = "join d (v # vs)"
  have s: "s = u @ w @ d # ?r" using 3 by simp
  have "split_loop s d (length (u @ w @ [d])) = v # vs"
    by (rule "3.IH") (use 3 s in auto)
  moreover have "find_first_of s d (length u) = Some (length u + length w)"
    using 3 by (simp add: s find_first_of_def index_from_word)
  ultimately show ?case unfolding s by (subst split_loop.simps) (simp add: substr_def)
qed (simp add: split_loop.simps)

text \<open>Words without the delimiter, the last one not empty, are split apart as they were joined.\<close>

lemma Split_join:
  "(ws \<noteq> [] \<Longrightarrow> last ws \<noteq> []) \<Longrightarrow> \<forall>w\<in>set ws. d \<notin> set w \<Longrightarrow> Split (join d ws) d = ws"
  using split_loop_join [of ws d "join d ws" "[]"] by (simp add: Split_def)

lemma Split_example: "Split ''a,,bc,'' CHR '','' = [''a'', [], ''bc'']"
  by (simp add: Split_def split_loop.simps find_first_of_def substr_def numeral_nat)

subsection \<open>Identifiers\<close>

definition isxdigit :: "char \<Rightarrow> bool" where
  "isxdigit c \<longleftrightarrow> is_digit c \<or> of_char c \<in> {65..70::nat} \<or> of_char c \<in> {97..102::nat}"

definition isalnum :: "char \<Rightarrow> bool" where
  "isalnum c \<longleftrightarrow> is_digit c \<or> is_upper c \<or> is_lower c"

definition to_lower :: "char \<Rightarrow> char" where
  "to_lower c = (if is_upper c then char_of (of_char c + 32 :: nat) else c)"

definition SERIAL_NUMBER_LENGTH :: nat where
  "SERIAL_NUMBER_LENGTH = 30"

text \<open>The text after the call and the answer: a refused address keeps the separators removed.\<close>

definition NormalizeMac :: "string \<Rightarrow> string \<times> bool" where
  "NormalizeMac Mac =
     (let Mac = filter (\<lambda>c. c \<noteq> CHR '':'') Mac; Mac = filter (\<lambda>c. c \<noteq> CHR ''-'') Mac in
      if length Mac \<noteq> 12 then (Mac, False)
      else if \<not> list_all isxdigit Mac then (Mac, False)
      else (map to_lower Mac, True))"

definition ValidSerialNumber :: "string \<Rightarrow> bool" where
  "ValidSerialNumber Serial \<longleftrightarrow> length Serial < SERIAL_NUMBER_LENGTH \<and> list_all isxdigit Serial"

definition ValidSerialNumbers :: "string list \<Rightarrow> bool" where
  "ValidSerialNumbers numbers = list_all ValidSerialNumber numbers"

text \<open>The loop stops at the first other character; the dashes before it are counted.\<close>

fun uuid_loop :: "string \<Rightarrow> u32 \<Rightarrow> bool \<times> u32" where
  "uuid_loop [] dashes = (True, dashes)"
| "uuid_loop (i # s) dashes =
     (let dashes = (if i = CHR ''-'' then dashes + 1 else dashes) in
      if i = CHR ''-'' \<or> isxdigit i then uuid_loop s dashes else (False, dashes))"

definition ValidUUID :: "string \<Rightarrow> bool" where
  "ValidUUID UUID =
     (if 36 < length UUID then False else (let (every, dashes) = uuid_loop UUID 0 in every \<and> 0 < dashes))"

definition FormatIPv6 :: "string \<Rightarrow> string" where
  "FormatIPv6 I =
     (if take 8 I = ''[::ffff:'' then
        (case find_first_of I CHR '']'' 0 of
           Some P \<Rightarrow> substr I 8 (P - 8) @ drop (P + 1) I
         | None \<Rightarrow> drop 8 I @ I)
      else I)"

definition padTo :: "string \<Rightarrow> nat \<Rightarrow> char \<Rightarrow> string" where
  "padTo str num paddingChar = str @ replicate (num - length str mod num) paddingChar"

text \<open>The result is read from a C buffer, so it ends before the first zero byte.\<close>

definition SerialToMAC :: "string \<Rightarrow> string" where
  "SerialToMAC Serial =
     (let R = (if length Serial < 12 then padTo Serial 12 CHR ''0''
               else if 12 < length Serial then take 12 Serial else Serial);
          buf = [R ! 0, R ! 1, CHR '':'', R ! 2, R ! 3, CHR '':'', R ! 4, R ! 5, CHR '':'',
                 R ! 6, R ! 7, CHR '':'', R ! 8, R ! 9, CHR '':'', R ! 10, R ! 11]
      in takeWhile (\<lambda>c. c \<noteq> CHR 0x00) buf)"

definition IsAlphaNumeric :: "string \<Rightarrow> bool" where
  "IsAlphaNumeric s = list_all isalnum s"

definition SanitizeToken :: "string \<Rightarrow> string" where
  "SanitizeToken Token =
     (if 8 < length Token then substr Token 0 4 @ ''****'' @ substr Token (length Token - 4) 4 else ''*******'')"

lemma to_lower_hex: "isxdigit c \<Longrightarrow> isxdigit (to_lower c) \<and> \<not> is_upper (to_lower c)"
  by (auto simp: isxdigit_def to_lower_def is_upper_def is_digit_def)

text \<open>An accepted address is twelve lower-case hexadecimal digits, and normalising it again changes nothing.\<close>

lemma normalized_mac:
  assumes "NormalizeMac m = (m', True)"
  shows "length m' = 12 \<and> list_all (\<lambda>c. isxdigit c \<and> \<not> is_upper c) m' \<and> NormalizeMac m' = (m', True)"
proof -
  have l: "length m' = 12" "list_all (\<lambda>c. isxdigit c \<and> \<not> is_upper c) m'"
    using assms by (auto simp: NormalizeMac_def Let_def list_all_iff split: if_splits) (metis to_lower_hex)+
  then have "\<forall>c\<in>set m'. c \<noteq> CHR '':'' \<and> c \<noteq> CHR ''-'' \<and> to_lower c = c \<and> isxdigit c"
    by (auto simp: list_all_iff isxdigit_def is_digit_def to_lower_def)
  then have "filter (\<lambda>c. c \<noteq> CHR '':'') m' = m'" "filter (\<lambda>c. c \<noteq> CHR ''-'') m' = m'" "map to_lower m' = m'"
    "list_all isxdigit m'"
    by (auto simp: filter_id_conv map_idI list_all_iff)
  with l show ?thesis by (simp add: NormalizeMac_def)
qed

text \<open>A masked token shows nothing but the first and the last four characters of a long token.\<close>

lemma sanitized_token:
  "8 < length t \<Longrightarrow> 8 < length t' \<Longrightarrow> take 4 t = take 4 t' \<Longrightarrow> drop (length t - 4) t = drop (length t' - 4) t' \<Longrightarrow>
    SanitizeToken t = SanitizeToken t'"
  "length t \<le> 8 \<Longrightarrow> SanitizeToken t = ''*******''"
  by (auto simp: SanitizeToken_def substr_def)

lemma format_ipv6_mapped:
  assumes "CHR '']'' \<notin> set ip"
  shows "FormatIPv6 (''[::ffff:'' @ ip @ CHR '']'' # port) = ip @ port"
proof -
  obtain pre where pre: "pre = ''[::ffff:''" by simp
  then have len: "length pre = 8" and free: "CHR '']'' \<notin> set pre" by simp_all
  have "find_first_of (pre @ ip @ CHR '']'' # port) CHR '']'' 0 = Some (8 + length ip)"
    using index_from_word(1) [of "CHR '']''" "pre @ ip"] assms len free by (simp add: find_first_of_def)
  with len show ?thesis unfolding pre [symmetric] FormatIPv6_def by (simp add: substr_def)
qed

text \<open>Without the closing bracket the address is followed by the whole text again.\<close>

lemma format_ipv6_open: "FormatIPv6 ''[::ffff:1.2'' = ''1.2[::ffff:1.2''"
  by (simp add: FormatIPv6_def find_first_of_def)

end
