(* ===== verification/Rest_Accounts.thy ===== *)
theory Rest_Accounts
  imports Rest_Links Utils_Text
begin

text \<open>
  The endpoints for single subscribers and for the lists of users and subscribers:
  \<^verbatim>\<open>src/RESTAPI/RESTAPI_subuser_handler.cpp\<close>, \<^verbatim>\<open>RESTAPI_users_handler.cpp\<close> and \<^verbatim>\<open>RESTAPI_subusers_handler.cpp\<close>. A where clause
  is the condition on the rows it stands for; \<^verbatim>\<open>like\<close> is the pattern match of SQL.
\<close>

subsection \<open>One subscriber\<close>

definition RESTAPI_subuser_DoGet :: "env \<Rightarrow> rest_op" where
  "RESTAPI_subuser_DoGet E c =
     (let Id1 = GetBinding E c ''id'' []
      in if Id1 = [] then ret (Some (BadRequest Err_MissingUserID))
         else do {
           let Id1 = str_toLower (e_poco E) Id1;
           user \<leftarrow> (if HasParameter c ''byEmail'' = Some ''true'' then GetUserByEmail E Subs Id1 else GetUserById E Subs Id1);
           ret (Some (case user of None \<Rightarrow> NotFound | Some UInfo \<Rightarrow> user_answer UInfo))
         })"

text \<open>The tokens are revoked by the address; they are stored under the identifier.\<close>

definition RESTAPI_subuser_DoDelete :: "env \<Rightarrow> rest_op" where
  "RESTAPI_subuser_DoDelete E c =
     (let Id1 = GetBinding E c ''id'' []
      in if Id1 = [] then ret (Some (BadRequest Err_MissingUserID))
         else do {
           user \<leftarrow> GetUserById E Subs Id1;
           case user of
             None \<Rightarrow> ret (Some NotFound)
           | Some TargetUser \<Rightarrow>
               if u_userRole TargetUser \<noteq> SUBSCRIBER then ret (Some (BadRequest Err_InvalidUserRole))
               else if \<not> cx_internal c \<and> \<not> Can (caller c) TargetUser ACL_DELETE then ret (Some (UnAuthorized Err_ACCESS_DENIED))
               else do {
                 deleted \<leftarrow> DeleteUser E Subs Id1;
                 if \<not> deleted then ret (Some NotFound)
                 else do {
                   DeleteSubUserFromCache E Id1;
                   RevokeAllTokens E Subs (u_email TargetUser);
                   DeleteRecord E (PreferencesDB E Subs) ''id'' Id1;
                   DeleteRecord E (AvatarDB E Subs) ''id'' Id1;
                   ret (Some OK)
                 }
               }
         })"

definition store_new_subuser :: "env \<Rightarrow> UserInfo \<Rightarrow> rest_op" where
  "store_new_subuser E NewUser c = do {
     (created, NewUser) \<leftarrow> CreateUser E Subs NewUser False;
     if \<not> created then ret (Some (BadRequest Err_RecordNotCreated))
     else do {
       (if GetParameter c ''email_verification'' ''false'' = ''true'' then do {
          (ok, NewUser) \<leftarrow> VerifySubEmail E NewUser;
          UpdateUserInfo E Subs (u_id NewUser) NewUser;
          ret ()
        }
        else ret ());
       stored \<leftarrow> GetUserByEmail E Subs (u_email NewUser);
       ret (Some (case stored of None \<Rightarrow> NotFound | Some U \<Rightarrow> user_answer U))
     }
   }"

definition RESTAPI_subuser_DoPost :: "env \<Rightarrow> rest_op" where
  "RESTAPI_subuser_DoPost E c =
     (if GetBinding E c ''id'' [] \<noteq> ''0'' then ret (Some (BadRequest Err_IdMustBe0))
      else case map_option (\<lambda>Obj. UserInfo_from_json (e_poco E) Obj UserInfo_init) (ParsedBody c) of
        None \<Rightarrow> ret (Some (BadRequest Err_InvalidJSONDocument))
      | Some (NewUser, parsed) \<Rightarrow>
          if \<not> parsed then ret (Some (BadRequest Err_InvalidJSONDocument))
          else if u_userRole NewUser \<noteq> SUBSCRIBER then ret (Some (BadRequest Err_InvalidUserRole))
          else do {
            let NewUser = NewUser\<lparr>u_email := str_toLower (e_poco E) (u_email NewUser)\<rparr>;
            Existing \<leftarrow> GetUserByEmail E Subs (u_email NewUser);
            if Existing \<noteq> None then ret (Some (BadRequest Err_UserAlreadyExists))
            else if \<not> cx_internal c \<and> \<not> Can (caller c) NewUser ACL_CREATE then ret (Some (UnAuthorized Err_ACCESS_DENIED))
            else (let NewUser = NewUser\<lparr>u_email := str_toLower (e_poco E) (u_email NewUser)\<rparr>
                  in if \<not> ValidEMailAddress (u_email NewUser) then ret (Some (BadRequest Err_InvalidEmailAddress))
                     else if u_currentPassword NewUser \<noteq> [] \<and> \<not> ValidateSubPassword E (u_currentPassword NewUser)
                     then ret (Some (BadRequest Err_InvalidPassword))
                     else store_new_subuser E (new_user_record NewUser) c)
          })"

text \<open>The answer to a reset of the second factor is the record under the caller's own address.\<close>

definition sub_reset_mfa :: "env \<Rightarrow> string \<Rightarrow> UserInfo \<Rightarrow> rest_op" where
  "sub_reset_mfa E Id1 Existing c =
     (if u_userRole (caller c) = ROOT \<or> u_userRole (caller c) = ADMIN \<and> u_userRole Existing \<noteq> ROOT \<or> u_id (caller c) = Id1
      then do {
        now \<leftarrow> Now E;
        noted \<leftarrow> Now E;
        UpdateUserInfo E Subs Id1 ((reset_mfa Existing)\<lparr>u_modified := now,
          u_notes := u_notes Existing @ [\<lparr>ni_created = noted, ni_createdBy = u_email (caller c),
            ni_note = ''MFA Reset by '' @ u_email (caller c)\<rparr>]\<rparr>);
        NewUserInfo \<leftarrow> GetUserByEmail E Subs (u_email (caller c));
        ret (Some (user_answer (case NewUserInfo of None \<Rightarrow> UserInfo_init | Some U \<Rightarrow> U)))
      }
      else ret (Some (UnAuthorized Err_ACCESS_DENIED)))"

definition sub_forgot_password :: "env \<Rightarrow> UserInfo \<Rightarrow> response option sec" where
  "sub_forgot_password E Existing = do {
     uuid \<leftarrow> CreateUUID E;
     now \<leftarrow> Now E;
     CreateAction E (ActionLink_init\<lparr>al_action := LinkActionsValue LA_SUB_FORGOT_PASSWORD, al_id := uuid,
       al_userId := u_id Existing, al_created := now, al_expires := now + 24 * 60 * 60, al_userAction := False\<rparr>);
     ret (Some OK)
   }"

text \<open>The role \<^verbatim>\<open>subscriber\<close> is refused together with unknown ones.\<close>

definition sub_role_ok :: "env \<Rightarrow> jobj \<Rightarrow> bool option" where
  "sub_role_ok E RawObject =
     (case map_of RawObject ''userRole'' of
        None \<Rightarrow> Some True
      | Some v \<Rightarrow> map_option (\<lambda>s. let r = UserTypeFromString (e_poco E) s in r \<noteq> UNKNOWN \<and> r \<noteq> SUBSCRIBER) (var_toString (e_poco E) v))"

definition sub_fields :: "env \<Rightarrow> jobj \<Rightarrow> UserInfo \<Rightarrow> UserInfo option" where
  "sub_fields E RawObject Existing = do {
     U1 \<leftarrow> Assign_string E RawObject ''name'' u_name_update Existing;
     U2 \<leftarrow> Assign_string E RawObject ''description'' u_description_update U1;
     U3 \<leftarrow> Assign_string E RawObject ''owner'' u_owner_update U2;
     U4 \<leftarrow> Assign_string E RawObject ''location'' u_location_update U3;
     U5 \<leftarrow> Assign_string E RawObject ''locale'' u_locale_update U4;
     U6 \<leftarrow> Assign_bool E RawObject ''changePassword'' u_changePassword_update U5;
     U7 \<leftarrow> Assign_bool E RawObject ''suspended'' u_suspended_update U6;
     Assign_bool E RawObject ''blackListed'' u_blackListed_update U7
   }"

definition sub_role_change :: "env \<Rightarrow> UserInfo \<Rightarrow> string \<Rightarrow> jobj \<Rightarrow> UserInfo \<Rightarrow> (bool \<times> UserInfo) option" where
  "sub_role_change E Caller Id1 RawObject Existing =
     (case map_of RawObject ''userRole'' of
        None \<Rightarrow> Some (True, Existing)
      | Some v \<Rightarrow>
          map_option (\<lambda>s.
            let NewRole = UserTypeFromString (e_poco E) s
            in if NewRole = u_userRole Existing then (True, Existing)
               else if u_userRole Caller \<noteq> ROOT \<and> NewRole = ROOT then (False, Existing)
               else if Id1 = u_id Caller then (False, Existing)
               else (True, Existing\<lparr>u_userRole := NewRole\<rparr>)) (var_toString (e_poco E) v))"

definition sub_password_change :: "env \<Rightarrow> jobj \<Rightarrow> UserInfo \<Rightarrow> (PasswordUpdateStatus \<times> UserInfo) option sec" where
  "sub_password_change E RawObject Existing =
     (case map_of RawObject ''currentPassword'' of
        None \<Rightarrow> ret (Some (PasswordApplied, Existing))
      | Some v \<Rightarrow>
          (case var_toString (e_poco E) v of
             None \<Rightarrow> ret None
           | Some Password \<Rightarrow>
               if \<not> ValidateSubPassword E Password then ret (Some (PasswordInvalidPassword, Existing))
               else do {
                 res \<leftarrow> SetPassword E Password Existing;
                 ret (map_option (\<lambda>(U, ok). (if ok then PasswordApplied else PasswordRejectedStatus, U)) res)
               }))"

definition sub_store_update :: "env \<Rightarrow> string \<Rightarrow> UserInfo \<Rightarrow> response option sec" where
  "sub_store_update E Id1 Existing = do {
     updated \<leftarrow> UpdateUserInfo E Subs Id1 Existing;
     if updated then do {
       NewUserInfo \<leftarrow> GetUserById E Subs Id1;
       ret (Some (user_answer (case NewUserInfo of None \<Rightarrow> UserInfo_init | Some U \<Rightarrow> U)))
     }
     else ret (Some (BadRequest Err_RecordNotUpdated))
   }"

definition sub_finish_update :: "env \<Rightarrow> string \<Rightarrow> jobj \<Rightarrow> UserInfo \<Rightarrow> UserInfo \<Rightarrow> rest_op" where
  "sub_finish_update E Id1 RawObject NewUser U c = do {
     U1 \<leftarrow> (if GetParameter c ''email_verification'' ''false'' = ''true''
           then do { (ok, V) \<leftarrow> VerifySubEmail E U; ret V } else ret U);
     (status, U2) \<leftarrow> ApplyMfaChange E (caller c) NewUser (map_of RawObject ''userTypeProprietaryInfo'' \<noteq> None) U1;
     case mfa_refusal status of
       Some e \<Rightarrow> ret (Some (BadRequest e))
     | None \<Rightarrow> sub_store_update E Id1 U2
   }"

definition sub_apply_secrets :: "env \<Rightarrow> string \<Rightarrow> jobj \<Rightarrow> UserInfo \<Rightarrow> UserInfo \<Rightarrow> rest_op" where
  "sub_apply_secrets E Id1 RawObject NewUser Existing c = do {
     changed \<leftarrow> sub_password_change E RawObject Existing;
     case changed of
       None \<Rightarrow> ret None
     | Some (PasswordInvalidPassword, U) \<Rightarrow> ret (Some (BadRequest Err_InvalidPassword))
     | Some (PasswordRejectedStatus, U) \<Rightarrow> ret (Some (BadRequest Err_PasswordRejected))
     | Some (PasswordApplied, U) \<Rightarrow> sub_finish_update E Id1 RawObject NewUser U c
   }"

definition sub_update :: "env \<Rightarrow> string \<Rightarrow> jobj \<Rightarrow> UserInfo \<Rightarrow> UserInfo \<Rightarrow> rest_op" where
  "sub_update E Id1 RawObject NewUser Existing c =
     (case sub_role_ok E RawObject of
        None \<Rightarrow> ret None
      | Some False \<Rightarrow> ret (Some (BadRequest Err_InvalidUserRole))
      | Some True \<Rightarrow>
          (case Option.bind (sub_fields E RawObject Existing) (sub_role_change E (caller c) Id1 RawObject) of
             None \<Rightarrow> ret None
           | Some (False, U) \<Rightarrow> ret (Some (UnAuthorized Err_ACCESS_DENIED))
           | Some (True, U) \<Rightarrow> do {
               noted \<leftarrow> AppendNotes E (caller c) RawObject U;
               case noted of
                 None \<Rightarrow> ret None
               | Some U1 \<Rightarrow> sub_apply_secrets E Id1 RawObject NewUser U1 c
             }))"

definition RESTAPI_subuser_DoPut :: "env \<Rightarrow> rest_op" where
  "RESTAPI_subuser_DoPut E c =
     (let Id1 = GetBinding E c ''id'' []
      in if Id1 = [] then ret (Some (BadRequest Err_MissingUserID))
         else do {
           user \<leftarrow> GetUserById E Subs Id1;
           case user of
             None \<Rightarrow> ret (Some NotFound)
           | Some Existing \<Rightarrow>
               if \<not> cx_internal c \<and> \<not> Can (caller c) Existing ACL_MODIFY then ret (Some (UnAuthorized Err_ACCESS_DENIED))
               else if GetBoolParameter c ''resetMFA'' False then sub_reset_mfa E Id1 Existing c
               else if GetBoolParameter c ''forgotPassword'' False \<or> GetBoolParameter c ''resetPassword'' False
               then sub_forgot_password E Existing
               else (case ParsedBody c of
                 None \<Rightarrow> ret (Some (BadRequest Err_InvalidJSONDocument))
               | Some RawObject \<Rightarrow>
                   (case UserInfo_from_json (e_poco E) RawObject UserInfo_init of
                      (NewUser, parsed) \<Rightarrow>
                        if \<not> parsed then ret (Some (BadRequest Err_InvalidJSONDocument))
                        else sub_update E Id1 RawObject NewUser Existing c))
         })"

definition RESTAPI_subuser_handler :: "env \<Rightarrow> bool \<Rightarrow> handler" where
  "RESTAPI_subuser_handler E Internal =
     \<lparr>hd_methods = [''POST'', ''GET'', ''PUT'', ''DELETE'', ''OPTIONS''],
      hd_internal = Internal, hd_always = True, hd_rateLimited = False, hd_interval = 1000, hd_maxCalls = 100,
      hd_subOnly = False,
      hd_get = RESTAPI_subuser_DoGet E, hd_post = RESTAPI_subuser_DoPost E, hd_put = RESTAPI_subuser_DoPut E,
      hd_delete = RESTAPI_subuser_DoDelete E\<rparr>"

subsection \<open>Lists\<close>

text \<open>\<^verbatim>\<open>like\<close> of SQL: a percent sign stands for any text, an underscore for one character.\<close>

fun sql_like :: "string \<Rightarrow> string \<Rightarrow> bool" where
  "sql_like [] t = (t = [])"
| "sql_like (p # ps) [] = (p = CHR ''%'' \<and> sql_like ps [])"
| "sql_like (p # ps) (c # t) =
     (if p = CHR ''%'' then sql_like ps (c # t) \<or> sql_like (p # ps) t
      else (p = CHR ''_'' \<or> p = c) \<and> sql_like ps t)"

definition contains_like :: "env \<Rightarrow> string \<Rightarrow> string \<Rightarrow> bool" where
  "contains_like E search column =
     sql_like (''%'' @ str_toLower (e_poco E) search @ ''%'') (str_toLower (e_poco E) column)"

type_synonym user_where = "UserInfoRecordTuple \<Rightarrow> bool"

text \<open>The clause built from the two searches; an empty clause selects every row.\<close>

definition base_query :: "env \<Rightarrow> rest_ctx \<Rightarrow> user_where option" where
  "base_query E c =
     (let nameSearch = GetParameter c ''nameSearch'' []; emailSearch = GetParameter c ''emailSearch'' [];
          byName = (\<lambda>T. contains_like E nameSearch (ur_name T)); byEmail = (\<lambda>T. contains_like E emailSearch (ur_email T))
      in if nameSearch \<noteq> [] \<and> emailSearch \<noteq> [] then Some (\<lambda>T. byName T \<and> byEmail T)
         else if nameSearch \<noteq> [] then Some byName
         else if emailSearch \<noteq> [] then Some byEmail
         else None)"

definition where_and :: "user_where \<Rightarrow> user_where option \<Rightarrow> user_where option" where
  "where_and p q = (case q of None \<Rightarrow> Some p | Some r \<Rightarrow> Some (\<lambda>T. p T \<and> r T))"

definition where_rows :: "user_where option \<Rightarrow> user_where" where
  "where_rows q = (case q of None \<Rightarrow> (\<lambda>T. True) | Some r \<Rightarrow> r)"

definition users_json :: "UserInfo list \<Rightarrow> response option" where
  "users_json us = Some (ReturnObject (JObj (UserInfoList_to_json \<lparr>ul_users = us\<rparr>)))"

definition users_ids_json :: "UserInfo list \<Rightarrow> response option" where
  "users_ids_json us = Some (ReturnObject (JObj [(''users'', JArr (map (\<lambda>u. JStr (u_id u)) us))]))"

text \<open>The selected records that exist, in the order of the selection.\<close>

fun selected_users :: "env \<Rightarrow> realm_id \<Rightarrow> (UserInfo \<Rightarrow> bool) \<Rightarrow> string list \<Rightarrow> UserInfo list sec" where
  "selected_users E Rm allowed [] = ret []"
| "selected_users E Rm allowed (i # is) = do {
     user \<leftarrow> GetUserById E Rm i;
     rest \<leftarrow> selected_users E Rm allowed is;
     ret (case user of None \<Rightarrow> rest | Some U \<Rightarrow> if allowed U then Sanitize U # rest else rest)
   }"

text \<open>
  Who asks and within which scope: internal requests carry the token of a user besides the
  credentials of the service. \<open>Inl\<close> is the refusal.
\<close>

definition admin_scope :: "UserInfo \<Rightarrow> user_where option \<Rightarrow> user_where option" where
  "admin_scope U q = (if u_userRole U = ADMIN then where_and (\<lambda>T. ur_createdBy T = u_id U) q else q)"

definition list_caller :: "env \<Rightarrow> rest_ctx \<Rightarrow> (response + UserInfo) sec" where
  "list_caller E c =
     (if cx_internal c then
        (if rq_internalName (cx_request c) = None then ret (Inl (UnAuthorized Err_ACCESS_DENIED))
         else (let userToken = (case getBearerToken (rq_auth (cx_request c)) of None \<Rightarrow> [] | Some t \<Rightarrow> t)
               in if userToken = [] then ret (Inl (UnAuthorized Err_INVALID_TOKEN))
                  else do {
                    (ok, WT, UI, Expired) \<leftarrow> IsValidToken E userToken (uip_webtoken UserInfoAndPolicy_init) (uip_userinfo UserInfoAndPolicy_init);
                    ret (if \<not> ok \<or> Expired then Inl (UnAuthorized (if Expired then Err_EXPIRED_TOKEN else Err_INVALID_TOKEN))
                         else if u_userRole UI = ROOT \<or> u_userRole UI = ADMIN then Inr UI
                         else Inl (UnAuthorized Err_ACCESS_DENIED))
                  }))
      else ret (if u_userRole (caller c) = ROOT \<or> u_userRole (caller c) = ADMIN then Inr (caller c)
                else Inl (UnAuthorized Err_ACCESS_DENIED)))"

definition list_users :: "env \<Rightarrow> rest_ctx \<Rightarrow> QueryBlock \<Rightarrow> UserInfo \<Rightarrow> response option sec" where
  "list_users E c QB U =
     (if qb_Select QB = [] then do {
        (us, ok) \<leftarrow> GetUsers E Users (unat (qb_Offset QB)) (unat (qb_Limit QB)) (where_rows (admin_scope U (base_query E c)));
        ret (if ok then
               (if GetParameter c ''idOnly'' ''false'' = ''true'' then users_ids_json (map Sanitize us)
                else users_json (map Sanitize us))
             else users_json us)
      }
      else do {
        us \<leftarrow> selected_users E Users (CanReadUserRecord U) (qb_Select QB);
        ret (users_json us)
      })"

definition RESTAPI_users_DoGet :: "env \<Rightarrow> rest_op" where
  "RESTAPI_users_DoGet E c =
     (case InitQueryBlock E c of
        None \<Rightarrow> ret (Some EscapesHandler)
      | Some QB \<Rightarrow> do {
          who \<leftarrow> list_caller E c;
          case who of
            Inl refusal \<Rightarrow> ret (Some refusal)
          | Inr U \<Rightarrow> list_users E c QB U
        })"

definition RESTAPI_users_handler :: "env \<Rightarrow> bool \<Rightarrow> handler" where
  "RESTAPI_users_handler E Internal =
     \<lparr>hd_methods = [''GET'', ''OPTIONS''], hd_internal = Internal, hd_always = True, hd_rateLimited = False,
      hd_interval = 1000, hd_maxCalls = 100, hd_subOnly = False,
      hd_get = RESTAPI_users_DoGet E, hd_post = no_operation, hd_put = no_operation, hd_delete = no_operation\<rparr>"

definition ReturnCountOnly :: "nat \<Rightarrow> response option" where
  "ReturnCountOnly n = Some (ReturnObject (JObj [(''count'', JNum (int n))]))"

text \<open>Without an operator the searches are not used, and the count is the one of the users.\<close>

definition operator_where :: "env \<Rightarrow> rest_ctx \<Rightarrow> user_where option" where
  "operator_where E c =
     (let operatorId = GetParameter c ''operatorId'' []
      in if operatorId \<noteq> [] \<and> ValidUUID operatorId
         then where_and (\<lambda>T. ur_owner T = operatorId) (base_query E c) else None)"

definition RESTAPI_subusers_DoGet :: "env \<Rightarrow> rest_op" where
  "RESTAPI_subusers_DoGet E c =
     (case InitQueryBlock E c of
        None \<Rightarrow> ret (Some EscapesHandler)
      | Some QB \<Rightarrow>
          if qb_CountOnly QB then
            (case operator_where E c of
               Some w1 \<Rightarrow> do { n \<leftarrow> DBCount E (UserDB E Subs) w1; ret (ReturnCountOnly n) }
             | None \<Rightarrow> do { n \<leftarrow> DBCount E (UserDB E Users) (\<lambda>T. True); ret (ReturnCountOnly n) })
          else if qb_Select QB = [] then do {
            (us, ok) \<leftarrow> GetUsers E Subs (unat (qb_Offset QB)) (unat (qb_Limit QB)) (where_rows (operator_where E c));
            let us = (if ok then map Sanitize us else us);
            ret (if GetBoolParameter c ''idOnly'' False then users_ids_json us else users_json us)
          }
          else do {
            us \<leftarrow> selected_users E Subs (\<lambda>U. True) (qb_Select QB);
            ret (users_json us)
          })"

definition RESTAPI_subusers_handler :: "env \<Rightarrow> bool \<Rightarrow> handler" where
  "RESTAPI_subusers_handler E Internal =
     \<lparr>hd_methods = [''GET'', ''OPTIONS''], hd_internal = Internal, hd_always = True, hd_rateLimited = False,
      hd_interval = 1000, hd_maxCalls = 100, hd_subOnly = False,
      hd_get = RESTAPI_subusers_DoGet E, hd_post = no_operation, hd_put = no_operation, hd_delete = no_operation\<rparr>"

subsection \<open>The scope of a list\<close>

definition readable_rows :: "env \<Rightarrow> world \<Rightarrow> bool" where
  "readable_rows E w \<longleftrightarrow> (\<forall>T \<in> set (r_users (realm_of Users w)). UserInfo_from_tuple (e_poco E) T \<noteq> None)"

definition scoped_list :: "env \<Rightarrow> UserInfo \<Rightarrow> response option \<Rightarrow> world \<Rightarrow> bool" where
  "scoped_list E U r w \<longleftrightarrow> (\<exists>us. (r = users_json us \<or> r = users_ids_json us)
     \<and> (\<forall>u \<in> set us. CanReadUserRecord U u \<or> u_createdBy u = u_id U)
     \<and> (readable_rows E w \<longrightarrow> (\<forall>u \<in> set us. Sanitize u = u)))"

definition list_outcome :: "env \<Rightarrow> rest_ctx \<Rightarrow> response + UserInfo \<Rightarrow> response option \<Rightarrow> world \<Rightarrow> bool" where
  "list_outcome E c who r w =
     (if InitQueryBlock E c = None then r = Some EscapesHandler
      else case who of
        Inl refusal \<Rightarrow> r = Some refusal
      | Inr U \<Rightarrow> (u_userRole U = ROOT \<or> u_userRole U = ADMIN) \<and> scoped_list E U r w)"

lemma Sanitize_idem [simp]: "Sanitize (Sanitize u) = Sanitize u"
  by (simp add: Sanitize_def)

lemma Sanitize_rights [simp]:
  "CanReadUserRecord U (Sanitize u) = CanReadUserRecord U u" "u_createdBy (Sanitize u) = u_createdBy u"
  by (simp_all add: Sanitize_def acl_defs)

lemma root_reads: "u_userRole U = ROOT \<Longrightarrow> CanReadUserRecord U u"
  by (simp add: acl_defs)

lemma convert_rows_from: "convert_rows conv rows = (rs, ok) \<Longrightarrow> r \<in> set rs \<Longrightarrow> \<exists>T \<in> set rows. conv T = Some r"
  by (induction rows arbitrary: rs) (auto split: option.splits prod.splits)

lemma convert_rows_ok: "convert_rows conv rows = (rs, ok) \<Longrightarrow> \<forall>T \<in> set rows. conv T \<noteq> None \<Longrightarrow> ok"
  by (induction rows arbitrary: rs) (auto split: option.splits prod.splits)

lemma page_rows: "T \<in> set (take n (drop k (filter p xs))) \<Longrightarrow> T \<in> set xs \<and> p T"
  by (auto dest!: in_set_takeD in_set_dropD)

lemma convert_page:
  assumes "convert_rows conv (take n (drop k (filter p rows))) = (rs, ok)"
  shows "(\<forall>r \<in> set rs. \<exists>T. conv T = Some r \<and> p T) \<and> ((\<forall>T \<in> set rows. conv T \<noteq> None) \<longrightarrow> ok)"
  using convert_rows_from [OF assms] convert_rows_ok [OF assms] page_rows by metis

lemma GetUsers_wp:
  "wp (GetUsers E Users k n W) (\<lambda>(us, ok) w'.
     (\<forall>u \<in> set us. \<exists>T. UserInfo_from_tuple (e_poco E) T = Some u \<and> W T)
     \<and> (readable_rows E w' \<longrightarrow> ok \<or> us = [])) w"
  unfolding GetUsers_def GetRecords_def db_step_def
  by (auto simp: Let_def UserDB_def readable_rows_def split: prod.splits dest!: convert_page)

lemma where_and_holds: "where_rows (where_and p q) T \<Longrightarrow> p T"
  by (auto simp: where_rows_def where_and_def split: option.splits)

lemma row_scope:
  assumes "u_userRole U = ROOT \<or> u_userRole U = ADMIN" "UserInfo_from_tuple P T = Some u"
    and "where_rows (admin_scope U q) T"
  shows "CanReadUserRecord U u \<or> u_createdBy u = u_id U"
  using assms by (auto simp: admin_scope_def UserInfo_from_tuple_def root_reads dest!: where_and_holds)

lemma selected_users_scope:
  "answers (\<lambda>us. \<forall>u \<in> set us. Sanitize u = u \<and> CanReadUserRecord U u) (selected_users E Rm (CanReadUserRecord U) is)"
proof (induction "is")
  case Nil
  show ?case by (simp add: answers_def)
next
  case (Cons i "is")
  show ?case unfolding answers_def
    by (auto intro!: wp_weak wp_mono [OF answersD [OF Cons.IH]] split: option.splits if_splits)
qed

lemma scoped_listI:
  assumes "\<forall>u \<in> set us. CanReadUserRecord U u \<or> u_createdBy u = u_id U"
    and "readable_rows E w \<Longrightarrow> \<forall>u \<in> set us. Sanitize u = u"
  shows "scoped_list E U (users_json us) w" "scoped_list E U (users_ids_json us) w"
  using assms by (auto simp: scoped_list_def)

lemma list_users_scoped:
  assumes "u_userRole U = ROOT \<or> u_userRole U = ADMIN"
  shows "wp (list_users E c QB U) (scoped_list E U) w"
proof (cases "qb_Select QB = []")
  case True
  have scope: "\<forall>u \<in> set us. \<exists>T. UserInfo_from_tuple (e_poco E) T = Some u \<and> where_rows (admin_scope U (base_query E c)) T
      \<Longrightarrow> \<forall>u \<in> set us. CanReadUserRecord U u \<or> u_createdBy u = u_id U" for us
    using row_scope [OF assms] by blast
  show ?thesis
    unfolding list_users_def using True
    by (auto intro!: wp_mono [OF GetUsers_wp] scoped_listI dest!: scope split: prod.splits) blast+
next
  case False
  then show ?thesis
    unfolding list_users_def
    by (auto intro!: wp_mono [OF answersD [OF selected_users_scope]] scoped_listI)
qed

lemma list_caller_role:
  "answers (\<lambda>who. \<forall>U. who = Inr U \<longrightarrow> u_userRole U = ROOT \<or> u_userRole U = ADMIN) (list_caller E c)"
  unfolding list_caller_def by (intro ends) auto


end
