(* ===== verification/Rest_Keys.thy ===== *)
theory Rest_Keys
  imports Rest_Links Utils_Text
begin

text \<open>
  The endpoints for API keys, for the validation of tokens and keys by other services, and for the
  preferences of users and subscribers: \<^verbatim>\<open>src/RESTAPI/RESTAPI_apiKey_handler.cpp\<close>, \<^verbatim>\<open>RESTAPI_validate_token_handler.cpp\<close>,
  \<^verbatim>\<open>RESTAPI_validate_sub_token_handler.cpp\<close>, \<^verbatim>\<open>RESTAPI_validate_apikey.cpp\<close>, \<^verbatim>\<open>RESTAPI_preferences.cpp\<close> and
  \<^verbatim>\<open>RESTAPI_subpreferences.cpp\<close>. The main result is the bound on the keys of a user.
\<close>

subsection \<open>API keys\<close>

text \<open>Keys are handled by their user and by ROOT.\<close>

definition key_owner :: "env \<Rightarrow> (string \<Rightarrow> rest_op) \<Rightarrow> rest_op" where
  "key_owner E op c =
     (let user_uuid = GetBinding E c ''uuid'' []
      in if user_uuid = [] then ret (Some (BadRequest Err_MissingOrInvalidParameters))
         else if user_uuid \<noteq> u_id (caller c) \<and> u_userRole (caller c) \<noteq> ROOT then ret (Some (UnAuthorized Err_ACCESS_DENIED))
         else op user_uuid c)"

definition user_keys :: "env \<Rightarrow> string \<Rightarrow> (ApiKeyEntry list \<times> bool) sec" where
  "user_keys E user_uuid = GetRecords E (ApiKeyDB E) 0 500 (\<lambda>T. akr_userUuid T = user_uuid)"

definition key_answer :: "ApiKeyEntry \<Rightarrow> response option" where
  "key_answer k = Some (ReturnObject (JObj (ApiKeyEntry_to_json k)))"

definition list_keys :: "env \<Rightarrow> string \<Rightarrow> rest_op" where
  "list_keys E user_uuid c = do {
     (ks, ok) \<leftarrow> user_keys E user_uuid;
     ret (Some (if ok then ReturnObject (JObj (ApiKeyEntryList_to_json \<lparr>akl_apiKeys = map Sanitize_key ks\<rparr>)) else NotFound))
   }"

definition RESTAPI_apiKey_DoGet :: "env \<Rightarrow> rest_op" where
  "RESTAPI_apiKey_DoGet E = key_owner E (list_keys E)"

definition remove_key :: "env \<Rightarrow> string \<Rightarrow> rest_op" where
  "remove_key E user_uuid c =
     (let ApiKeyId = GetParameter c ''keyUuid'' []
      in if ApiKeyId = [] then ret (Some (BadRequest Err_MissingOrInvalidParameters))
         else do {
           found \<leftarrow> GetRecord E (ApiKeyDB E) ''id'' ApiKeyId;
           case found of
             None \<Rightarrow> ret (Some NotFound)
           | Some ApiKey \<Rightarrow>
               if ak_userUuid ApiKey = user_uuid then do {
                 RemoveTokenSystemWide E (ak_apiKey ApiKey);
                 DeleteRecord E (ApiKeyDB E) ''id'' ApiKeyId;
                 ret (Some OK)
               }
               else ret (Some (BadRequest Err_MissingOrInvalidParameters))
         })"

text \<open>The user of a foreign key must exist.\<close>

definition for_existing_user :: "env \<Rightarrow> response \<Rightarrow> string \<Rightarrow> rest_op \<Rightarrow> rest_op" where
  "for_existing_user E refusal user_uuid op c =
     (if user_uuid = u_id (caller c) then op c
      else do {
        found \<leftarrow> Exists E (UserDB E Users) ''id'' user_uuid;
        if found then op c else ret (Some refusal)
      })"

definition RESTAPI_apiKey_DoDelete :: "env \<Rightarrow> rest_op" where
  "RESTAPI_apiKey_DoDelete E = key_owner E (\<lambda>u. for_existing_user E NotFound u (remove_key E u))"

text \<open>\<^verbatim>\<open>Utils::ComputeHash\<close> of the salt, the caller and the token of the caller.\<close>

definition store_key :: "env \<Rightarrow> string \<Rightarrow> ApiKeyEntry \<Rightarrow> rest_op" where
  "store_key E user_uuid NewKey c = do {
     uuid \<leftarrow> CreateUUID E;
     salt \<leftarrow> Now E;
     created \<leftarrow> Now E;
     let NewKey = NewKey\<lparr>ak_id := uuid, ak_userUuid := user_uuid, ak_salt := to_dec (unat salt),
       ak_apiKey := e_sha2Hex E (to_dec (unat salt) @ u_id (caller c) @ wt_access_token (uip_webtoken (cx_user c))),
       ak_created := created\<rparr>;
     ok \<leftarrow> CreateRecord E (ApiKeyDB E) NewKey;
     ret (if ok then key_answer NewKey else Some (BadRequest Err_RecordNotCreated))
   }"

definition add_key :: "env \<Rightarrow> string \<Rightarrow> ApiKeyEntry \<Rightarrow> rest_op" where
  "add_key E user_uuid NewKey c = do {
     now \<leftarrow> Now E;
     if ak_expiresOn NewKey < now then ret (Some (BadRequest Err_MissingOrInvalidParameters))
     else do {
       (ks, ok) \<leftarrow> user_keys E user_uuid;
       if ok \<and> list_ex (\<lambda>k. ak_name k = ak_name NewKey) ks then ret (Some (BadRequest Err_ApiKeyNameAlreadyExists))
       else if 10 \<le> length ks then ret (Some (BadRequest Err_TooManyApiKeys))
       else store_key E user_uuid NewKey c
     }
   }"

definition create_key :: "env \<Rightarrow> string \<Rightarrow> rest_op" where
  "create_key E user_uuid c =
     (case ParsedBody c of
        None \<Rightarrow> ret (Some (BadRequest Err_InvalidJSONDocument))
      | Some Obj \<Rightarrow>
          (case ApiKeyEntry_from_json (e_poco E) Obj ApiKeyEntry_init of
             (NewKey, parsed) \<Rightarrow>
               if \<not> parsed then ret (Some (BadRequest Err_InvalidJSONDocument))
               else if \<not> IsAlphaNumeric (ak_name NewKey) \<or> ak_name NewKey = []
               then ret (Some (BadRequest Err_MissingOrInvalidParameters))
               else add_key E user_uuid (NewKey\<lparr>ak_lastUse := 0, ak_name := str_toLower (e_poco E) (ak_name NewKey),
                 ak_userUuid := user_uuid\<rparr>) c))"

definition RESTAPI_apiKey_DoPost :: "env \<Rightarrow> rest_op" where
  "RESTAPI_apiKey_DoPost E =
     key_owner E (\<lambda>u. for_existing_user E (BadRequest Err_UserMustExist) u (create_key E u))"

definition describe_key :: "env \<Rightarrow> jobj \<Rightarrow> string \<Rightarrow> ApiKeyEntry \<Rightarrow> response option sec" where
  "describe_key E Obj user_uuid ExistingKey =
     (if ak_userUuid ExistingKey \<noteq> user_uuid then ret (Some (BadRequest Err_MissingUserID))
      else case Assign_string E Obj ''description'' ak_description_update ExistingKey of
        None \<Rightarrow> ret None
      | Some ExistingKey \<Rightarrow> do {
          ok \<leftarrow> UpdateRecord E (ApiKeyDB E) ''id'' (ak_id ExistingKey) ExistingKey;
          ret (if ok then key_answer ExistingKey else Some (BadRequest Err_RecordNotUpdated))
        })"

definition change_key :: "env \<Rightarrow> string \<Rightarrow> rest_op" where
  "change_key E user_uuid c =
     (case ParsedBody c of
        None \<Rightarrow> ret (Some (BadRequest Err_InvalidJSONDocument))
      | Some Obj \<Rightarrow>
          (case ApiKeyEntry_from_json (e_poco E) Obj ApiKeyEntry_init of
             (NewKey, parsed) \<Rightarrow>
               if \<not> parsed then ret (Some (BadRequest Err_InvalidJSONDocument))
               else do {
                 found \<leftarrow> GetRecord E (ApiKeyDB E) ''id'' (ak_id NewKey);
                 case found of
                   None \<Rightarrow> ret (Some (BadRequest Err_ApiKeyDoesNotExist))
                 | Some ExistingKey \<Rightarrow> describe_key E Obj user_uuid ExistingKey
               }))"

definition RESTAPI_apiKey_DoPut :: "env \<Rightarrow> rest_op" where
  "RESTAPI_apiKey_DoPut E = key_owner E (change_key E)"

text \<open>Most handlers take the defaults of the base class: always authorized, no rate limit, users only.\<close>

definition plain_handler :: "string list \<Rightarrow> bool \<Rightarrow> rest_op \<Rightarrow> rest_op \<Rightarrow> rest_op \<Rightarrow> rest_op \<Rightarrow> handler" where
  "plain_handler methods Internal get post put delete =
     \<lparr>hd_methods = methods, hd_internal = Internal, hd_always = True, hd_rateLimited = False,
      hd_interval = 1000, hd_maxCalls = 100, hd_subOnly = False,
      hd_get = get, hd_post = post, hd_put = put, hd_delete = delete\<rparr>"

definition RESTAPI_apiKey_handler :: "env \<Rightarrow> bool \<Rightarrow> handler" where
  "RESTAPI_apiKey_handler E Internal =
     plain_handler [''GET'', ''PUT'', ''POST'', ''DELETE'', ''OPTIONS''] Internal
       (RESTAPI_apiKey_DoGet E) (RESTAPI_apiKey_DoPost E) (RESTAPI_apiKey_DoPut E) (RESTAPI_apiKey_DoDelete E)"

subsection \<open>Validation for other services\<close>

text \<open>Every parameter with the name is tried, until one is valid.\<close>

fun validate_tokens :: "(string \<Rightarrow> (bool \<times> WebToken \<times> UserInfo \<times> bool) sec) \<Rightarrow> (string \<times> string) list \<Rightarrow> response option sec" where
  "validate_tokens valid [] = ret (Some NotFound)"
| "validate_tokens valid ((n, v) # ps) =
     (if n = ''token'' then do {
        (ok, WT, UI, Expired) \<leftarrow> valid v;
        if ok then ret (Some (ReturnObject (JObj (UserInfoAndPolicy_to_json \<lparr>uip_webtoken = WT, uip_userinfo = UI\<rparr>))))
        else validate_tokens valid ps
      }
      else validate_tokens valid ps)"

definition RESTAPI_validate_token_DoGet :: "env \<Rightarrow> rest_op" where
  "RESTAPI_validate_token_DoGet E c =
     validate_tokens (\<lambda>t. IsValidToken E t WebToken_init UserInfo_init) (rq_params (cx_request c))"

definition RESTAPI_validate_sub_token_DoGet :: "env \<Rightarrow> rest_op" where
  "RESTAPI_validate_sub_token_DoGet E c =
     validate_tokens (\<lambda>t. IsValidSubToken E t WebToken_init UserInfo_init) (rq_params (cx_request c))"

text \<open>Only the first key is looked at.\<close>

definition RESTAPI_validate_apikey_DoGet :: "env \<Rightarrow> rest_op" where
  "RESTAPI_validate_apikey_DoGet E c =
     (case map_of (rq_params (cx_request c)) ''apikey'' of
        None \<Rightarrow> ret (Some NotFound)
      | Some key \<Rightarrow> do {
          (ok, WT, UI, Expired, expiresOn, Suspended) \<leftarrow> IsValidApiKey E key WebToken_init UserInfo_init False 0;
          ret (Some (if ok then ReturnObject (JObj (obj_merge
                 (UserInfoAndPolicy_to_json \<lparr>uip_webtoken = WT, uip_userinfo = UI\<rparr>) [(''expiresOn'', jU64 expiresOn)]))
               else UnAuthorized (if Suspended then Err_ACCOUNT_SUSPENDED else Err_ACCESS_DENIED)))
        })"

definition validate_handler :: "bool \<Rightarrow> rest_op \<Rightarrow> handler" where
  "validate_handler Internal get =
     plain_handler [''GET'', ''OPTIONS''] Internal get no_operation no_operation no_operation"

definition RESTAPI_validate_token_handler :: "env \<Rightarrow> bool \<Rightarrow> handler" where
  "RESTAPI_validate_token_handler E Internal = validate_handler Internal (RESTAPI_validate_token_DoGet E)"

definition RESTAPI_validate_sub_token_handler :: "env \<Rightarrow> bool \<Rightarrow> handler" where
  "RESTAPI_validate_sub_token_handler E Internal = validate_handler Internal (RESTAPI_validate_sub_token_DoGet E)"

definition RESTAPI_validate_apikey :: "env \<Rightarrow> bool \<Rightarrow> handler" where
  "RESTAPI_validate_apikey E Internal = validate_handler Internal (RESTAPI_validate_apikey_DoGet E)"

subsection \<open>Preferences\<close>

text \<open>The two endpoints differ in the table only; both are reached with the token of a user.\<close>

definition preferences_answer :: "Preferences \<Rightarrow> response option" where
  "preferences_answer P = Some (ReturnObject (JObj (Preferences_to_json P)))"

definition preferences_DoGet :: "env \<Rightarrow> realm_id \<Rightarrow> rest_op" where
  "preferences_DoGet E Rm c = do {
     found \<leftarrow> GetPreferences E Rm (u_id (caller c));
     ret (preferences_answer (case found of None \<Rightarrow> Preferences_init | Some P \<Rightarrow> P))
   }"

definition preferences_DoPut :: "env \<Rightarrow> realm_id \<Rightarrow> rest_op" where
  "preferences_DoPut E Rm c =
     (case map_option (\<lambda>Obj. Preferences_from_json (e_poco E) Obj Preferences_init) (ParsedBody c) of
        None \<Rightarrow> ret (Some (BadRequest Err_InvalidJSONDocument))
      | Some (P, parsed) \<Rightarrow>
          if \<not> parsed then ret (Some (BadRequest Err_InvalidJSONDocument))
          else do {
            now \<leftarrow> Now E;
            let P = P\<lparr>pr_id := u_id (caller c), pr_modified := now\<rparr>;
            SetPreferences E Rm P;
            ret (preferences_answer P)
          })"

definition preferences_handler :: "env \<Rightarrow> realm_id \<Rightarrow> bool \<Rightarrow> handler" where
  "preferences_handler E Rm Internal =
     plain_handler [''GET'', ''PUT'', ''OPTIONS''] Internal (preferences_DoGet E Rm) no_operation (preferences_DoPut E Rm)
       no_operation"

definition RESTAPI_preferences :: "env \<Rightarrow> bool \<Rightarrow> handler" where
  "RESTAPI_preferences E = preferences_handler E Users"

definition RESTAPI_subpreferences :: "env \<Rightarrow> bool \<Rightarrow> handler" where
  "RESTAPI_subpreferences E = preferences_handler E Subs"

subsection \<open>The keys of a user\<close>

text \<open>At most ten keys for each user, with different names.\<close>

definition keys_within :: "ApiKeyRecordTuple list \<Rightarrow> bool" where
  "keys_within rows \<longleftrightarrow> distinct (map (\<lambda>T. (akr_userUuid T, akr_name T)) rows)
     \<and> (\<forall>u. length (filter (\<lambda>T. akr_userUuid T = u) rows) \<le> 10)"

definition api_keys_within :: "world \<Rightarrow> bool" where
  "api_keys_within w \<longleftrightarrow> keys_within (w_apikeys w)"

definition room_for :: "string \<Rightarrow> string \<Rightarrow> ApiKeyRecordTuple list \<Rightarrow> bool" where
  "room_for u nm rows \<longleftrightarrow> length (filter (\<lambda>T. akr_userUuid T = u) rows) < 10
     \<and> (\<forall>T \<in> set rows. akr_userUuid T = u \<longrightarrow> akr_name T \<noteq> nm)"

lemma keys_within_append:
  "keys_within rows \<Longrightarrow> room_for (akr_userUuid T) (akr_name T) rows \<Longrightarrow> keys_within (rows @ [T])"
  by (force simp: keys_within_def room_for_def)

lemma keys_within_filter:
  assumes "keys_within rows"
  shows "keys_within (filter p rows)"
proof -
  have "length (filter (\<lambda>T. akr_userUuid T = u) (filter p rows)) \<le> length (filter (\<lambda>T. akr_userUuid T = u) rows)" for u
    by (induction rows) auto
  then show ?thesis
    using assms by (auto simp: keys_within_def distinct_map_filter intro: le_trans)
qed

lemma keys_within_map:
  assumes "keys_within rows" "\<And>T. T \<in> set rows \<Longrightarrow> akr_userUuid (f T) = akr_userUuid T \<and> akr_name (f T) = akr_name T"
  shows "keys_within (map f rows)"
proof -
  have "map (\<lambda>T. (akr_userUuid T, akr_name T)) (map f rows) = map (\<lambda>T. (akr_userUuid T, akr_name T)) rows"
    using assms(2) by (simp add: comp_def)
  moreover have "length (filter (\<lambda>T. akr_userUuid T = u) (map f rows)) = length (filter (\<lambda>T. akr_userUuid T = u) rows)" for u
    using assms(2) by (induction rows) auto
  ultimately show ?thesis using assms(1) unfolding keys_within_def by presburger
qed

lemma api_keys_tick [simp]: "api_keys_within (w\<lparr>w_tick := n\<rparr>) = api_keys_within w"
  by (simp add: api_keys_within_def)

lemma api_keys_ro: "reads_only m \<Longrightarrow> preserves api_keys_within m"
  unfolding preserves_def by (auto intro!: wp_mono [OF reads_onlyD] simp: api_keys_within_def dest: persist_eqD)

lemma api_keys_delete: "preserves api_keys_within (DeleteRecord E (ApiKeyDB E) F v)"
proof -
  have rows: "wp (DeleteRecord E (ApiKeyDB E) F v) (\<lambda>ok w'. w_apikeys w' =
     (if ok then filter (\<lambda>row. d_field (ApiKeyDB E) F row \<noteq> v) (w_apikeys w) else w_apikeys w)) w" for w
    using apikey_table.DeleteRecord_rows [of E E F v w] by (simp cong: if_cong)
  show ?thesis unfolding preserves_def api_keys_within_def
    by (auto intro!: wp_mono [OF rows] simp: keys_within_filter split: if_splits)
qed

lemma user_keys_wp:
  assumes "db_healthy E" "api_keys_within w"
  shows "wp (user_keys E u) (\<lambda>(ks, ok) w'. w_apikeys w' = w_apikeys w
    \<and> (\<not> (ok \<and> list_ex (\<lambda>k. ak_name k = nm) ks) \<longrightarrow> length ks < 10 \<longrightarrow> room_for u nm (w_apikeys w))) w"
proof -
  let ?rows = "filter (\<lambda>T. akr_userUuid T = u) (w_apikeys w)"
  have "length ?rows \<le> 10" using assms(2) by (simp add: api_keys_within_def keys_within_def)
  then have all: "take 500 ?rows = ?rows" by simp
  have conv: "convert_rows (ApiKeyEntry_from_tuple (e_poco E)) rows
      = (map (the \<circ> ApiKeyEntry_from_tuple (e_poco E)) rows, True)" for rows
    by (induction rows) (simp_all add: ApiKeyEntry_from_tuple_def)
  show ?thesis
    using assms(1)
    by (auto simp: user_keys_def GetRecords_def db_step_def Let_def all conv db_healthy_def
        room_for_def list_ex_iff ApiKeyEntry_from_tuple_def filter_empty_conv)
qed

lemma create_key_rows:
  assumes "keys_within (w_apikeys w)" "room_for (ak_userUuid k) (ak_name k) (w_apikeys w)"
  shows "wp (CreateRecord E (ApiKeyDB E) k) (\<lambda>_ w'. keys_within (w_apikeys w')) w"
  using assms
  by (simp add: apikey_table.wp_CreateRecord_plain Let_def ApiKeyEntry_to_tuple_def keys_within_append)

lemma store_key_within:
  assumes "keys_within (w_apikeys w)" "room_for u (ak_name k) (w_apikeys w)"
  shows "wp (store_key E u k c) (\<lambda>_. api_keys_within) w"
  using assms
  by (simp add: store_key_def Let_def api_keys_within_def CreateUUID_def Now_def create_key_rows)

lemma add_key_within:
  assumes "db_healthy E"
  shows "preserves api_keys_within (add_key E u k c)"
proof -
  have "wp (user_keys E u) (\<lambda>(ks, ok) w'. wp (if ok \<and> list_ex (\<lambda>k'. ak_name k' = ak_name k) ks
        then ret (Some (BadRequest Err_ApiKeyNameAlreadyExists))
        else if 10 \<le> length ks then ret (Some (BadRequest Err_TooManyApiKeys))
        else store_key E u k c) (\<lambda>_. api_keys_within) w') w" if I: "api_keys_within w" for w
    by (rule wp_mono [OF user_keys_wp [OF assms I, of u "ak_name k"]])
      (use I in \<open>auto simp: api_keys_within_def intro!: store_key_within\<close>)
  then show ?thesis
    unfolding preserves_def add_key_def
    by (simp add: Now_def api_keys_within_def case_prod_unfold)
qed

lemma describe_key_within:
  assumes "api_keys_within w" "k0 \<in> set (w_apikeys w)" "ak_id k = akr_id k0"
    "ak_userUuid k = akr_userUuid k0" "ak_name k = akr_name k0"
  shows "wp (UpdateRecord E (ApiKeyDB E) ''id'' (ak_id k) k) (\<lambda>_. api_keys_within) w"
proof (cases "distinct (map akr_id (w_apikeys w))")
  case True
  have "keys_within (updated_rows (ApiKeyDB E) ''id'' (ak_id k) k (w_apikeys w))"
    unfolding updated_rows_def
    by (rule keys_within_map)
      (use assms True in \<open>auto simp: api_keys_within_def ApiKeyEntry_to_tuple_def distinct_map inj_on_def\<close>)
  with assms(1) show ?thesis
    by (simp add: apikey_table.wp_UpdateRecord_plain Let_def api_keys_within_def)
next
  case False
  have "map akr_id (updated_rows (ApiKeyDB E) ''id'' (ak_id k) k (w_apikeys w)) = map akr_id (w_apikeys w)"
    by (auto simp: updated_rows_def ApiKeyEntry_to_tuple_def)
  with assms(1) False show ?thesis
    by (simp add: apikey_table.wp_UpdateRecord_plain Let_def api_keys_within_def)
qed

lemma change_key_within: "preserves api_keys_within (change_key E u c)"
proof -
  have step: "wp (describe_key E Obj u k) (\<lambda>_. api_keys_within) (w\<lparr>w_tick := n\<rparr>)"
    if I: "api_keys_within w" and T: "T \<in> set (w_apikeys w)" "ApiKeyEntry_from_tuple (e_poco E) T = Some k"
    for w T k Obj n
  proof -
    have "wp (UpdateRecord E (ApiKeyDB E) ''id'' (ak_id k') k') (\<lambda>_. api_keys_within) (w\<lparr>w_tick := n\<rparr>)"
      if "Assign_string E Obj ''description'' ak_description_update k = Some k'" for k'
      by (rule describe_key_within [of _ T])
        (use I T that in \<open>auto simp: api_keys_within_def Assign_string_def ApiKeyEntry_from_tuple_def split: option.splits\<close>)
    with I show ?thesis by (auto simp: describe_key_def split: option.splits)
  qed
  show ?thesis
    unfolding preserves_def change_key_def
    by (auto simp: apikey_table.wp_GetRecord_plain split: option.splits prod.splits
        dest!: find_mem intro!: step)
qed

lemma key_owner_within: "(\<And>u. preserves I (op u c)) \<Longrightarrow> preserves I (key_owner E op c)"
  unfolding key_owner_def by (intro pres)

lemma for_existing_within: "preserves api_keys_within (op c) \<Longrightarrow> preserves api_keys_within (for_existing_user E r u op c)"
  unfolding for_existing_user_def by (intro pres api_keys_ro [OF user_table.Exists_ro])

text \<open>
  C29. Whatever is asked of the API key endpoint, no user gets more than ten keys and the keys of a
  user have different names, as long as the statements of the database are executed. (When the select of the
  existing keys fails, a new key is stored unchecked.)
\<close>

theorem api_keys_bounded:
  assumes "db_healthy E"
  shows "preserves api_keys_within (RESTAPI_apiKey_DoPost E c) \<and> preserves api_keys_within (RESTAPI_apiKey_DoPut E c)
    \<and> preserves api_keys_within (RESTAPI_apiKey_DoDelete E c) \<and> preserves api_keys_within (RESTAPI_apiKey_DoGet E c)"
proof (intro conjI)
  show "preserves api_keys_within (RESTAPI_apiKey_DoPost E c)"
    unfolding RESTAPI_apiKey_DoPost_def create_key_def
    by (intro key_owner_within for_existing_within pres add_key_within [OF assms])
  show "preserves api_keys_within (RESTAPI_apiKey_DoPut E c)"
    unfolding RESTAPI_apiKey_DoPut_def by (intro key_owner_within change_key_within)
  show "preserves api_keys_within (RESTAPI_apiKey_DoDelete E c)"
    unfolding RESTAPI_apiKey_DoDelete_def remove_key_def
    by (intro key_owner_within for_existing_within pres api_keys_delete api_keys_ro apikey_table.GetRecord_ro) (intro ro)
  show "preserves api_keys_within (RESTAPI_apiKey_DoGet E c)"
    unfolding RESTAPI_apiKey_DoGet_def list_keys_def user_keys_def
    by (intro key_owner_within pres api_keys_ro apikey_table.GetRecords_ro)
qed

definition key_ctx :: rest_ctx where
  "key_ctx = \<lparr>cx_request = put_request\<lparr>rq_method := ''POST'', rq_bindings := [(''uuid'', ''u1'')],
      rq_body := Body [(''name'', JStr ''Backup''), (''expiresOn'', JNum 2000000000)]\<rparr>,
    cx_internal = False, cx_user = UserInfoAndPolicy_init\<lparr>uip_userinfo := UserInfo_init\<lparr>u_id := ''u1''\<rparr>\<rparr>,
    cx_session = [], cx_requester = []\<rparr>"

theorem api_keys_bounded_witness:
  "wp (RESTAPI_apiKey_DoPost env_inst key_ctx) (\<lambda>_. api_keys_within) world_empty \<and> api_keys_within world_empty"
proof
  show I: "api_keys_within world_empty"
    by (simp add: api_keys_within_def keys_within_def world_empty_def)
  show "wp (RESTAPI_apiKey_DoPost env_inst key_ctx) (\<lambda>_. api_keys_within) world_empty"
    using api_keys_bounded [of env_inst key_ctx] I by (simp add: preserves_def db_healthy_def env_inst_def)
qed

end
