(* ===== verification/Ordered_Map.thy ===== *)
theory Ordered_Map
  imports Owsec_Prelude "HOL-Library.Char_ord" "HOL-Library.List_Lexorder"
begin

text \<open>
  \<^verbatim>\<open>std::map\<close> as the list of its pairs in the order of the keys. Strings are compared byte by byte, as
  \<^verbatim>\<open>std::string\<close> does. The interface of a map and what its clients derive from it is the locale \<open>map_laws\<close>.
\<close>

fun store_set :: "'k::linorder \<Rightarrow> 'v \<Rightarrow> ('k \<times> 'v) list \<Rightarrow> ('k \<times> 'v) list" where
  "store_set k v [] = [(k, v)]"
| "store_set k v ((k', v') # xs) =
     (if k = k' then (k, v) # xs
      else if k < k' then (k, v) # (k', v') # xs
      else (k', v') # store_set k v xs)"

definition store_erase :: "'k \<Rightarrow> ('k \<times> 'v) list \<Rightarrow> ('k \<times> 'v) list" where
  "store_erase k xs = filter (\<lambda>(k', v). k' \<noteq> k) xs"

definition store_sorted :: "('k::linorder \<times> 'v) list \<Rightarrow> bool" where
  "store_sorted xs \<longleftrightarrow> sorted_wrt (<) (map fst xs)"

subsection \<open>The interface\<close>

datatype ('k, 'v) change = Put 'k 'v | Drop 'k

fun spec_change :: "('k, 'v) change \<Rightarrow> ('k \<rightharpoonup> 'v) \<Rightarrow> ('k \<rightharpoonup> 'v)" where
  "spec_change (Put k v) m = m(k \<mapsto> v)"
| "spec_change (Drop k) m = m(k := None)"

primrec apply_change :: "('k \<Rightarrow> 'v \<Rightarrow> 'm \<Rightarrow> 'm) \<Rightarrow> ('k \<Rightarrow> 'm \<Rightarrow> 'm) \<Rightarrow> ('k, 'v) change \<Rightarrow> 'm \<Rightarrow> 'm" where
  "apply_change put erase (Put k v) m = put k v m"
| "apply_change put erase (Drop k) m = erase k m"

locale map_laws =
  fixes lookup :: "'m \<Rightarrow> 'k \<Rightarrow> 'v option" and put :: "'k \<Rightarrow> 'v \<Rightarrow> 'm \<Rightarrow> 'm" and erase :: "'k \<Rightarrow> 'm \<Rightarrow> 'm" and ok :: "'m \<Rightarrow> bool"
  assumes lookup_put: "lookup (put k v m) = (lookup m)(k \<mapsto> v)"
    and lookup_erase: "lookup (erase k m) = (lookup m)(k := None)"
    and put_ok: "ok m \<Longrightarrow> ok (put k v m)"
    and erase_ok: "ok m \<Longrightarrow> ok (erase k m)"
begin

lemma change_refines: "lookup (apply_change put erase ch m) = spec_change ch (lookup m)"
  by (cases ch) (simp_all add: lookup_put lookup_erase)

lemma change_ok: "ok m \<Longrightarrow> ok (apply_change put erase ch m)"
  by (cases ch) (simp_all add: put_ok erase_ok)

lemma changes_refine: "lookup (fold (apply_change put erase) chs m) = fold spec_change chs (lookup m)"
  by (induction chs arbitrary: m) (simp_all add: change_refines)

lemma changes_ok: "ok m \<Longrightarrow> ok (fold (apply_change put erase) chs m)"
  by (induction chs arbitrary: m) (simp_all add: change_ok)

end

subsection \<open>The ordered list is a map\<close>

lemma map_of_store_set: "map_of (store_set k v xs) = (map_of xs)(k \<mapsto> v)"
  by (induction k v xs rule: store_set.induct) (auto simp: fun_eq_iff)

lemma map_of_store_erase: "map_of (store_erase k xs) = (map_of xs)(k := None)"
  by (induction xs) (auto simp: store_erase_def fun_eq_iff)

lemma keys_store_set: "set (map fst (store_set k v xs)) = insert k (set (map fst xs))"
  by (induction k v xs rule: store_set.induct) auto

lemma store_set_sorted: "store_sorted xs \<Longrightarrow> store_sorted (store_set k v xs)"
proof (induction k v xs rule: store_set.induct)
  case (2 k v k' v' xs)
  then show ?case
    using keys_store_set [of k v xs] by (auto simp: store_sorted_def)
qed (simp add: store_sorted_def)

lemma store_filter_sorted: "store_sorted xs \<Longrightarrow> store_sorted (filter p xs)"
  by (induction xs) (auto simp: store_sorted_def)

lemma store_erase_sorted: "store_sorted xs \<Longrightarrow> store_sorted (store_erase k xs)"
  by (simp add: store_erase_def store_filter_sorted)

interpretation std_map: map_laws map_of store_set store_erase store_sorted
  by unfold_locales (simp_all add: map_of_store_set map_of_store_erase store_set_sorted store_erase_sorted)

text \<open>A key behind all others is put at the end.\<close>

lemma store_set_last: "\<forall>k' \<in> set (map fst xs). k' < k \<Longrightarrow> store_set k v xs = xs @ [(k, v)]"
  by (induction xs) auto

lemma sorted_distinct: "store_sorted xs \<Longrightarrow> distinct (map fst xs)"
  by (simp add: store_sorted_def strict_sorted_iff)

lemma map_of_filter_sorted:
  "store_sorted xs \<Longrightarrow> map_of (filter (\<lambda>(k, v). p v) xs) k = (case map_of xs k of None \<Rightarrow> None | Some v \<Rightarrow> if p v then Some v else None)"
  by (induction xs) (auto simp: store_sorted_def split: option.splits dest: map_of_SomeD, fastforce dest: map_of_SomeD)

end
