(* ===== verification/Secret_Store.thy ===== *)
theory Secret_Store
  imports Rest_Keys Ordered_Map
begin

text \<open>
  The secrets of the system, \<^verbatim>\<open>src/SecretStore.cpp\<close>, with the endpoint that serves them,
  \<^verbatim>\<open>src/RESTAPI/RESTAPI_systemSecret_handler.cpp\<close>, and the list of the services of the system,
  \<^verbatim>\<open>src/RESTAPI/RESTAPI_system_endpoints_handler.cpp\<close>. The store is a
  \<^verbatim>\<open>std::map\<close>; the file is its text, and every change rewrites it.
\<close>

subsection \<open>The store\<close>

definition secrets_json :: "(string \<times> string) list \<Rightarrow> json" where
  "secrets_json st = JArr (map (\<lambda>(k, v). JObj [(''key'', JStr k), (''value'', JStr v)]) st)"

definition SaveStore :: "env \<Rightarrow> unit sec" where
  "SaveStore E = modify (\<lambda>w. w\<lparr>w_secretFile :=
     Some (json_condense (e_poco E) (JObj [(''secrets'', secrets_json (w_secrets w))]))\<rparr>)"

text \<open>An entry that is no object, or whose value has no text, throws: the entries before it stay.\<close>

fun read_entries :: "poco \<Rightarrow> json list \<Rightarrow> (string \<times> string) list \<Rightarrow> (string \<times> string) list" where
  "read_entries P [] st = st"
| "read_entries P (j # js) st =
     (case j of
        JObj entry \<Rightarrow>
          (case (map_of entry ''key'', map_of entry ''value'') of
             (Some k, Some v) \<Rightarrow>
               (case (var_toString P k, var_toString P v) of
                  (Some ks, Some vs) \<Rightarrow> read_entries P js (store_set ks vs st)
                | _ \<Rightarrow> st)
           | _ \<Rightarrow> read_entries P js st)
      | _ \<Rightarrow> st)"

definition read_text :: "poco \<Rightarrow> string \<Rightarrow> (string \<times> string) list \<Rightarrow> (string \<times> string) list" where
  "read_text P txt st =
     (case json_parse P txt of
        Some (JObj Doc) \<Rightarrow>
          (case map_of Doc ''secrets'' of
             Some (JArr Secrets) \<Rightarrow> read_entries P Secrets st
           | _ \<Rightarrow> st)
      | _ \<Rightarrow> st)"

definition ReadStore :: "env \<Rightarrow> unit sec" where
  "ReadStore E = modify (\<lambda>w. case w_secretFile w of
       None \<Rightarrow> w
     | Some txt \<Rightarrow> w\<lparr>w_secrets := read_text (e_poco E) txt (w_secrets w)\<rparr>)"

definition SecretStore_Start :: "env \<Rightarrow> unit sec" where
  "SecretStore_Start E = ReadStore E"

definition SecretStore_Stop :: "env \<Rightarrow> unit sec" where
  "SecretStore_Stop E = SaveStore E"

definition SecretStore_Get :: "string \<Rightarrow> string \<Rightarrow> (bool \<times> string) sec" where
  "SecretStore_Get k default_value = do {
     st \<leftarrow> gets w_secrets;
     ret (case map_of st k of Some v \<Rightarrow> (True, v) | None \<Rightarrow> (False, default_value))
   }"

definition SecretStore_Set :: "env \<Rightarrow> string \<Rightarrow> string \<Rightarrow> unit sec" where
  "SecretStore_Set E k v = do {
     modify (\<lambda>w. w\<lparr>w_secrets := store_set k v (w_secrets w)\<rparr>);
     SaveStore E
   }"

definition SecretStore_Remove :: "env \<Rightarrow> string \<Rightarrow> unit sec" where
  "SecretStore_Remove E k = do {
     modify (\<lambda>w. w\<lparr>w_secrets := store_erase k (w_secrets w)\<rparr>);
     SaveStore E
   }"

subsection \<open>The endpoint\<close>

definition key_value :: "string \<Rightarrow> string \<Rightarrow> response option" where
  "key_value k v = Some (ReturnObject (JObj [(''key'', JStr k), (''value'', JStr v)]))"

definition KnownKeys :: "(string \<times> string) list" where
  "KnownKeys =
     [(''google.maps.apikey'', ''A Google Key specific for the Google MAPS API.''),
      (''iptocountry.ipinfo.token'', ''IPInfo.io service token.''),
      (''iptocountry.ipdata.apikey'', ''IPData.co API Key.''),
      (''iptocountry.ip2location.apikey'', ''IP2Location.com API Key'')]"

definition RESTAPI_systemSecret_DoGet :: "env \<Rightarrow> rest_op" where
  "RESTAPI_systemSecret_DoGet E c =
     (if \<not> cx_internal c \<and> u_userRole (caller c) \<noteq> ROOT then ret (Some (UnAuthorized Err_ACCESS_DENIED))
      else if GetBoolParameter c ''all'' False then do {
        st \<leftarrow> gets w_secrets;
        ret (Some (ReturnObject (JObj [(''secrets'', secrets_json st)])))
      }
      else if GetBoolParameter c ''dictionary'' False then
        ret (Some (ReturnObject (JObj [(''knownKeys'',
          JArr (map (\<lambda>(k, d). JObj [(''key'', JStr k), (''description'', JStr d)]) KnownKeys))])))
      else if GetBinding E c ''secret'' [] = [] then ret (Some (BadRequest Err_MissingOrInvalidParameters))
      else do {
        (found, v) \<leftarrow> SecretStore_Get (GetBinding E c ''secret'' []) [];
        ret (if found then key_value (GetBinding E c ''secret'' []) v else Some NotFound)
      })"

definition RESTAPI_systemSecret_DoDelete :: "env \<Rightarrow> rest_op" where
  "RESTAPI_systemSecret_DoDelete E c =
     (if u_userRole (caller c) \<noteq> ROOT then ret (Some (UnAuthorized Err_ACCESS_DENIED))
      else if GetBinding E c ''secret'' [] = [] then ret (Some (BadRequest Err_MissingOrInvalidParameters))
      else do { SecretStore_Remove E (GetBinding E c ''secret'' []); ret (Some OK) })"

definition no_value :: string where
  "no_value = ''_______no_value_____''"

definition RESTAPI_systemSecret_DoPut :: "env \<Rightarrow> rest_op" where
  "RESTAPI_systemSecret_DoPut E c =
     (if u_userRole (caller c) \<noteq> ROOT then ret (Some (UnAuthorized Err_ACCESS_DENIED))
      else if GetBinding E c ''secret'' [] = [] \<or> GetParameter c ''value'' no_value = no_value
      then ret (Some (BadRequest Err_MissingOrInvalidParameters))
      else do {
        SecretStore_Set E (GetBinding E c ''secret'' []) (GetParameter c ''value'' no_value);
        ret (key_value (GetBinding E c ''secret'' []) (GetParameter c ''value'' no_value))
      })"

definition RESTAPI_systemSecret_handler :: "env \<Rightarrow> bool \<Rightarrow> handler" where
  "RESTAPI_systemSecret_handler E Internal =
     plain_handler [''GET'', ''PUT'', ''DELETE'', ''OPTIONS''] Internal (RESTAPI_systemSecret_DoGet E) no_operation
       (RESTAPI_systemSecret_DoPut E) (RESTAPI_systemSecret_DoDelete E)"

definition RESTAPI_system_endpoints_DoGet :: "env \<Rightarrow> rest_op" where
  "RESTAPI_system_endpoints_DoGet E c =
     ret (Some (ReturnObject (JObj (SystemEndpointList_to_json \<lparr>sel_endpoints =
       map (\<lambda>(t, i, endpoint). SystemEndpoint_init\<lparr>se_type := t, se_id := i, se_uri := endpoint\<rparr>) (e_services E)\<rparr>))))"

definition RESTAPI_system_endpoints_handler :: "env \<Rightarrow> bool \<Rightarrow> handler" where
  "RESTAPI_system_endpoints_handler E Internal =
     plain_handler [''GET'', ''OPTIONS''] Internal (RESTAPI_system_endpoints_DoGet E) no_operation no_operation no_operation"

subsection \<open>Reading what was saved\<close>

text \<open>Reading entries in the order of the keys puts each behind the ones before it.\<close>

lemma read_saved:
  assumes "poco_ok P" "store_sorted (ys @ xs)"
  shows "read_entries P (map (\<lambda>(k, v). JObj [(''key'', JStr k), (''value'', JStr v)]) xs) ys = ys @ xs"
  using assms(2)
proof (induction xs arbitrary: ys)
  case (Cons x xs)
  obtain k v where x: "x = (k, v)" by fastforce
  have "\<forall>k' \<in> set (map fst ys). k' < k"
    using Cons.prems by (auto simp: store_sorted_def sorted_wrt_append x)
  then have "store_set k v ys = ys @ [(k, v)]" by (rule store_set_last)
  moreover have "read_entries P (map (\<lambda>(k, v). JObj [(''key'', JStr k), (''value'', JStr v)]) xs) (ys @ [(k, v)]) = (ys @ [(k, v)]) @ xs"
    by (rule Cons.IH) (use Cons.prems x in simp)
  ultimately show ?case using assms(1) by (simp add: x poco_ok_def)
qed simp

definition store_saved :: "env \<Rightarrow> world \<Rightarrow> bool" where
  "store_saved E w \<longleftrightarrow> store_sorted (w_secrets w)
     \<and> w_secretFile w = Some (json_condense (e_poco E) (JObj [(''secrets'', secrets_json (w_secrets w))]))"

lemma read_store_saved:
  assumes "poco_ok (e_poco E)" "store_saved E w" "w_secrets w0 = []" "w_secretFile w0 = w_secretFile w"
  shows "wp (SecretStore_Start E) (\<lambda>_ w'. w_secrets w' = w_secrets w) w0"
  using assms read_saved [of "e_poco E" "[]" "w_secrets w"]
  by (simp add: SecretStore_Start_def ReadStore_def store_saved_def read_text_def secrets_json_def poco_ok_def)

text \<open>Changes as they come from the endpoint, and what they mean for the map of secrets.\<close>

fun run_change :: "env \<Rightarrow> (string, string) change \<Rightarrow> unit sec" where
  "run_change E (Put k v) = SecretStore_Set E k v"
| "run_change E (Drop k) = SecretStore_Remove E k"

lemma run_change_saved:
  "store_saved E w \<Longrightarrow> wp (run_change E ch) (\<lambda>_ w'. store_saved E w' \<and> map_of (w_secrets w') = spec_change ch (map_of (w_secrets w))) w"
  by (cases ch) (simp_all add: SecretStore_Set_def SecretStore_Remove_def SaveStore_def store_saved_def
      std_map.put_ok std_map.erase_ok std_map.lookup_put std_map.lookup_erase)

lemma run_changes_saved:
  "store_saved E w \<Longrightarrow> wp (foreach chs (run_change E))
     (\<lambda>_ w'. store_saved E w' \<and> map_of (w_secrets w') = fold spec_change chs (map_of (w_secrets w))) w"
proof (induction chs arbitrary: w)
  case (Cons ch chs)
  show ?case
    by (simp, rule wp_mono [OF run_change_saved [OF Cons.prems]]) (auto dest: Cons.IH)
qed simp

text \<open>A new process: the store is empty and the file is read.\<close>

definition restart :: "env \<Rightarrow> unit sec" where
  "restart E = do { modify (\<lambda>w. w\<lparr>w_secrets := []\<rparr>); SecretStore_Start E }"

text \<open>
  C27. The secrets survive a restart: after any changes, a service that starts with an empty
  store and reads the file answers for every key what a map would hold after the same changes.
\<close>

theorem secrets_survive_restart:
  assumes "poco_ok (e_poco E)" "store_saved E w"
  shows "wp (do { foreach chs (run_change E); restart E; SecretStore_Get k d }) (\<lambda>(found, v) w'.
    case fold spec_change chs (map_of (w_secrets w)) k of
      None \<Rightarrow> \<not> found \<and> v = d
    | Some x \<Rightarrow> found \<and> v = x) w"
proof -
  have start: "wp (SecretStore_Start E) (\<lambda>_ w'. w_secrets w' = w_secrets w1) (w1\<lparr>w_secrets := []\<rparr>)"
    if "store_saved E w1" for w1
    using read_store_saved [OF assms(1) that] by simp
  show ?thesis
    by (simp add: restart_def, rule wp_mono [OF run_changes_saved [OF assms(2)]])
      (auto intro!: wp_mono [OF start] simp: SecretStore_Get_def split: option.splits)
qed

theorem secrets_survive_restart_witness:
  "wp (do { foreach [Put ''b'' ''2'', Put ''a'' ''1'', Drop ''b''] (run_change env_inst);
      restart env_inst; SecretStore_Get ''a'' [] }) (\<lambda>(found, v) w'. found \<and> v = ''1'')
     (world_empty\<lparr>w_secretFile := Some (json_condense (e_poco env_inst) (JObj [(''secrets'', JArr [])]))\<rparr>)"
  (is "wp _ _ ?w")
proof -
  have "store_saved env_inst ?w" by (simp add: store_saved_def store_sorted_def secrets_json_def world_empty_def)
  from secrets_survive_restart [OF env_inst_ok(1) this, of "[Put ''b'' ''2'', Put ''a'' ''1'', Drop ''b'']" "''a''" "[]"]
  show ?thesis by (simp add: world_empty_def)
qed

end
