(* ===== verification/Rest_Factors.thy ===== *)
theory Rest_Factors
  imports Rest_Keys
begin

text \<open>
  The self-service endpoints for avatars and second factors and the two that send messages:
  \<^verbatim>\<open>src/RESTAPI/RESTAPI_avatar_handler.cpp\<close>, \<^verbatim>\<open>RESTAPI_subavatar_handler.cpp\<close>, \<^verbatim>\<open>RESTAPI_totp_handler.cpp\<close>,
  \<^verbatim>\<open>RESTAPI_subtotp_handler.cpp\<close>, \<^verbatim>\<open>RESTAPI_submfa_handler.cpp\<close>, \<^verbatim>\<open>RESTAPI_sms_handler.cpp\<close> and
  \<^verbatim>\<open>RESTAPI_email_handler.cpp\<close>. An endpoint for users and its twin for subscribers differ in the tables they use.
\<close>

subsection \<open>Avatars\<close>

text \<open>The part of an upload: its name, its content type and its content; without a part the name is empty.\<close>

definition avatar_part :: "rest_ctx \<Rightarrow> string \<times> string \<times> string" where
  "avatar_part c = (case rq_body (cx_request c) of PartBody name ctype content \<Rightarrow> (name, ctype, content) | _ \<Rightarrow> ([], [], []))"

definition avatar_DoPost :: "env \<Rightarrow> realm_id \<Rightarrow> rest_op" where
  "avatar_DoPost E Rm c =
     (let Id1 = u_id (caller c); (name, ctype, content) = avatar_part c
      in if name \<noteq> [] \<and> int (length content) < e_avatarMaxSize E then do {
           SetAvatar E Rm Id1 content ctype name;
           UserDB_SetAvatar E Rm Id1 ''1'';
           ret (Some (ReturnObject (JObj [(''avatarId'', JStr Id1), (''errorCode'', JNum 0)])))
         }
         else ret (Some (ReturnObject (JObj [(''avatarId'', JStr Id1), (''errorCode'', JNum 13),
           (''errorText'', JStr ''Avatar upload could not complete.'')]))))"

definition avatar_DoGet :: "env \<Rightarrow> realm_id \<Rightarrow> rest_op" where
  "avatar_DoGet E Rm c =
     (let Id1 = GetBinding E c ''id'' []
      in if Id1 = [] then ret (Some NotFound)
         else do {
           found \<leftarrow> GetAvatar E Rm Id1;
           ret (Some (case found of None \<Rightarrow> NotFound | Some (content, typ, name) \<Rightarrow> SendFileContent content typ name))
         })"

definition avatar_DoDelete :: "env \<Rightarrow> realm_id \<Rightarrow> rest_op" where
  "avatar_DoDelete E Rm c =
     (let Id1 = GetBinding E c ''id'' []
      in if u_userRole (caller c) \<noteq> ROOT \<and> Id1 \<noteq> u_id (caller c) then ret (Some (UnAuthorized Err_ACCESS_DENIED))
         else do {
           deleted \<leftarrow> DeleteAvatar E Rm Id1;
           if \<not> deleted then ret (Some NotFound)
           else do { UserDB_SetAvatar E Rm Id1 []; ret (Some OK) }
         })"

definition avatar_handler :: "env \<Rightarrow> realm_id \<Rightarrow> bool \<Rightarrow> handler" where
  "avatar_handler E Rm Internal =
     plain_handler [''GET'', ''POST'', ''DELETE'', ''OPTIONS''] Internal (avatar_DoGet E Rm) (avatar_DoPost E Rm) no_operation
       (avatar_DoDelete E Rm)"

definition RESTAPI_avatar_handler :: "env \<Rightarrow> bool \<Rightarrow> handler" where
  "RESTAPI_avatar_handler E = avatar_handler E Users"

definition RESTAPI_subavatar_handler :: "env \<Rightarrow> bool \<Rightarrow> handler" where
  "RESTAPI_subavatar_handler E = avatar_handler E Subs"

subsection \<open>Enrolment of an authenticator\<close>

definition totp_DoGet :: "env \<Rightarrow> bool \<Rightarrow> rest_op" where
  "totp_DoGet E Subscriber c = do {
     QRCode \<leftarrow> TotpCache_StartValidation E (caller c) Subscriber (GetBoolParameter c ''reset'' False);
     ret (Some (case QRCode of
       None \<Rightarrow> BadRequest Err_InvalidCommand
     | Some code \<Rightarrow> SendFileContent code ''image/svg+xml'' ''qrcode.svg''))
   }"

definition totp_DoPut :: "env \<Rightarrow> bool \<Rightarrow> rest_op" where
  "totp_DoPut E Subscriber c =
     (case GetParameter_u64 c ''index'' 0 of
        None \<Rightarrow> ret (Some EscapesHandler)
      | Some nextIndex \<Rightarrow> do {
          answer \<leftarrow> TotpCache_ContinueValidation E (caller c) Subscriber (GetParameter c ''value'' []) nextIndex False;
          ret (case answer of
                 None \<Rightarrow> Some EscapesHandler
               | Some (ok, nextIndex, moreCodes, err) \<Rightarrow>
                   if ok then Some (ReturnObject (JObj [(''nextIndex'', jU64 nextIndex), (''moreCodes'', JBool moreCodes)]))
                   else Some (BadRequest (case err of None \<Rightarrow> Err_InternalError | Some e \<Rightarrow> Err_TOT e)))
        })"

definition totp_handler :: "env \<Rightarrow> bool \<Rightarrow> bool \<Rightarrow> handler" where
  "totp_handler E Subscriber Internal =
     plain_handler [''GET'', ''PUT'', ''OPTIONS''] Internal (totp_DoGet E Subscriber) no_operation (totp_DoPut E Subscriber)
       no_operation"

definition RESTAPI_totp_handler :: "env \<Rightarrow> bool \<Rightarrow> handler" where
  "RESTAPI_totp_handler E = totp_handler E False"

definition RESTAPI_subtotp_handler :: "env \<Rightarrow> bool \<Rightarrow> handler" where
  "RESTAPI_subtotp_handler E = totp_handler E True"

subsection \<open>The second factor of a subscriber\<close>

text \<open>With the method \<^verbatim>\<open>sms\<close> and no number the first element of an empty vector is read.\<close>

definition mfa_config :: "UserInfo \<Rightarrow> SubMfaConfig option" where
  "mfa_config User =
     (let X = u_userTypeProprietaryInfo User; MFC = SubMfaConfig_init\<lparr>smc_id := u_id User\<rparr>
      in if mfa_enabled (ux_mfa X) then
           (if mfa_method (ux_mfa X) = ''sms''
            then (case ux_mobiles X of [] \<Rightarrow> None | m # ms \<Rightarrow> Some (MFC\<lparr>smc_sms := mp_number m, smc_type := ''sms''\<rparr>))
            else if mfa_method (ux_mfa X) = ''email'' then Some (MFC\<lparr>smc_email := u_email User, smc_type := ''email''\<rparr>)
            else Some MFC)
         else Some (MFC\<lparr>smc_type := ''disabled''\<rparr>))"

definition config_answer :: "SubMfaConfig \<Rightarrow> response option" where
  "config_answer MFC = Some (ReturnObject (JObj (SubMfaConfig_to_json MFC)))"

definition RESTAPI_submfa_DoGet :: "env \<Rightarrow> rest_op" where
  "RESTAPI_submfa_DoGet E c = do {
     user \<leftarrow> GetUserById E Subs (u_id (caller c));
     ret (case user of
            None \<Rightarrow> Some NotFound
          | Some User \<Rightarrow> (case mfa_config User of None \<Rightarrow> Some EscapesHandler | Some MFC \<Rightarrow> config_answer MFC))
   }"

text \<open>The result of the lookup is not checked: without the record the update writes an empty one.\<close>

definition change_mfa :: "env \<Rightarrow> (UserLoginLoginExtensions \<Rightarrow> UserLoginLoginExtensions) \<Rightarrow> rest_ctx \<Rightarrow> unit sec" where
  "change_mfa E f c = do {
     user \<leftarrow> GetUserById E Subs (u_id (caller c));
     let User = (case user of None \<Rightarrow> UserInfo_init | Some U \<Rightarrow> U);
     UpdateUserInfo E Subs (u_id (caller c)) (User\<lparr>u_userTypeProprietaryInfo := f (u_userTypeProprietaryInfo User)\<rparr>);
     ret ()
   }"

definition mfa_off :: "UserLoginLoginExtensions \<Rightarrow> UserLoginLoginExtensions" where
  "mfa_off X = X\<lparr>ux_mfa := (ux_mfa X)\<lparr>mfa_enabled := False\<rparr>\<rparr>"

definition mfa_email :: "UserLoginLoginExtensions \<Rightarrow> UserLoginLoginExtensions" where
  "mfa_email X = X\<lparr>ux_mfa := (ux_mfa X)\<lparr>mfa_enabled := True, mfa_method := ''email''\<rparr>\<rparr>"

definition mfa_phone :: "string \<Rightarrow> UserLoginLoginExtensions \<Rightarrow> UserLoginLoginExtensions" where
  "mfa_phone Number X = X\<lparr>ux_mfa := (ux_mfa X)\<lparr>mfa_enabled := True, mfa_method := ''sms''\<rparr>,
     ux_mobiles := [\<lparr>mp_number = Number, mp_verified = True, mp_primary = True\<rparr>]\<rparr>"

definition changed_config :: "env \<Rightarrow> string \<Rightarrow> SubMfaConfig \<Rightarrow> rest_op" where
  "changed_config E typ MFC c = do {
     uuid \<leftarrow> CreateUUID E;
     ret (config_answer (MFC\<lparr>smc_type := typ, smc_email := u_email (caller c), smc_id := uuid\<rparr>))
   }"

definition start_phone :: "env \<Rightarrow> SubMfaConfig \<Rightarrow> rest_op" where
  "start_phone E MFC c =
     (if smc_sms MFC = [] then ret (Some (BadRequest Err_SMSMissingPhoneNumber))
      else if \<not> e_smsEnabled E then ret (Some (BadRequest Err_SMSMFANotEnabled))
      else do {
        started \<leftarrow> SMSSender_StartValidation E (smc_sms MFC) (u_email (caller c));
        ret (Some (if started then OK else InternalErrorAnswer Err_SMSTryLater))
      })"

definition complete_phone :: "env \<Rightarrow> SubMfaConfig \<Rightarrow> rest_op" where
  "complete_phone E MFC c =
     (let ChallengeCode = GetParameter c ''challengeCode'' []
      in if \<not> e_smsEnabled E then ret (Some (BadRequest Err_SMSMFANotEnabled))
         else if ChallengeCode = [] then ret (Some (BadRequest Err_SMSMissingChallenge))
         else if smc_sms MFC = [] then ret (Some (BadRequest Err_SMSMissingPhoneNumber))
         else do {
           validated \<leftarrow> SMSSender_CompleteValidation E (smc_sms MFC) ChallengeCode (u_email (caller c));
           if \<not> validated then ret (Some (InternalErrorAnswer Err_SMSTryLater))
           else do {
             change_mfa E (mfa_phone (smc_sms MFC)) c;
             changed_config E ''sms'' MFC c
           }
         })"

definition set_mfa :: "env \<Rightarrow> SubMfaConfig \<Rightarrow> rest_op" where
  "set_mfa E MFC c =
     (if smc_type MFC = ''disabled'' then do { change_mfa E mfa_off c; ret (config_answer MFC) }
      else if smc_type MFC = ''email'' then do { change_mfa E mfa_email c; changed_config E ''email'' MFC c }
      else if smc_type MFC = ''sms'' \<and> GetBoolParameter c ''startValidation'' False then start_phone E MFC c
      else if smc_type MFC = ''sms'' \<and> GetBoolParameter c ''completeValidation'' False then complete_phone E MFC c
      else ret (Some (BadRequest Err_MissingOrInvalidParameters)))"

definition RESTAPI_submfa_DoPut :: "env \<Rightarrow> rest_op" where
  "RESTAPI_submfa_DoPut E c =
     (case map_option (\<lambda>Obj. SubMfaConfig_from_json (e_poco E) Obj SubMfaConfig_init) (ParsedBody c) of
        None \<Rightarrow> ret (Some (BadRequest Err_InvalidJSONDocument))
      | Some (MFC, parsed) \<Rightarrow>
          if \<not> parsed then ret (Some (BadRequest Err_InvalidJSONDocument)) else set_mfa E MFC c)"

definition RESTAPI_submfa_handler :: "env \<Rightarrow> bool \<Rightarrow> handler" where
  "RESTAPI_submfa_handler E Internal =
     \<lparr>hd_methods = [''PUT'', ''GET'', ''OPTIONS''], hd_internal = Internal, hd_always = True, hd_rateLimited = False,
      hd_interval = 1000, hd_maxCalls = 10, hd_subOnly = True,
      hd_get = RESTAPI_submfa_DoGet E, hd_post = no_operation, hd_put = RESTAPI_submfa_DoPut E, hd_delete = no_operation\<rparr>"

subsection \<open>Messages\<close>

definition may_send_sms :: "rest_ctx \<Rightarrow> bool" where
  "may_send_sms c \<longleftrightarrow> cx_internal c \<or> u_userRole (caller c) \<in> {ROOT, PARTNER, ADMIN}"

text \<open>Without a body the first access to it throws.\<close>

definition validate_number :: "rest_ctx \<Rightarrow> bool" where
  "validate_number c \<longleftrightarrow> HasParameter c ''validateNumber'' = Some ''true''"

definition complete_number :: "rest_ctx \<Rightarrow> string option" where
  "complete_number c =
     (if HasParameter c ''completeValidation'' = Some ''true'' then HasParameter c ''validationCode'' else None)"

definition send_sms :: "env \<Rightarrow> jobj \<Rightarrow> response option sec" where
  "send_sms E Obj =
     (case (map_of Obj ''to'', map_of Obj ''text'') of
        (Some number, Some txt) \<Rightarrow>
          (case (var_toString (e_poco E) number, var_toString (e_poco E) txt) of
             (Some PhoneNumber, Some Text) \<Rightarrow> do {
               sent \<leftarrow> SMSSender_Send E PhoneNumber Text;
               ret (Some (if sent then OK else InternalErrorAnswer Err_SMSCouldNotBeSentRetry))
             }
           | _ \<Rightarrow> ret None)
      | _ \<Rightarrow> ret (Some (BadRequest Err_MissingOrInvalidParameters)))"

definition sms_request :: "env \<Rightarrow> jobj \<Rightarrow> rest_op" where
  "sms_request E Obj c =
     (case map_of Obj ''to'' of
        Some number \<Rightarrow>
          if validate_number c then
            (case var_toString (e_poco E) number of
               None \<Rightarrow> ret None
             | Some Number \<Rightarrow> do {
                 started \<leftarrow> SMSSender_StartValidation E Number (u_email (caller c));
                 ret (Some (if started then OK else BadRequest Err_SMSCouldNotBeSentRetry))
               })
          else (case complete_number c of
              Some Code \<Rightarrow>
                (case var_toString (e_poco E) number of
                   None \<Rightarrow> ret None
                 | Some Number \<Rightarrow> do {
                     validated \<leftarrow> SMSSender_CompleteValidation E Number Code (u_email (caller c));
                     ret (Some (if validated then OK else BadRequest Err_SMSCouldNotValidate))
                   })
            | None \<Rightarrow> if may_send_sms c then send_sms E Obj else ret (Some (UnAuthorized Err_ACCESS_DENIED)))
      | None \<Rightarrow> if may_send_sms c then send_sms E Obj else ret (Some (UnAuthorized Err_ACCESS_DENIED)))"

definition RESTAPI_sms_DoPost :: "env \<Rightarrow> rest_op" where
  "RESTAPI_sms_DoPost E c =
     (if \<not> e_smsEnabled E then ret (Some (BadRequest Err_SMSMFANotEnabled))
      else case ParsedBody c of
        None \<Rightarrow>
          if validate_number c \<or> complete_number c \<noteq> None \<or> may_send_sms c then ret None
          else ret (Some (UnAuthorized Err_ACCESS_DENIED))
      | Some Obj \<Rightarrow> sms_request E Obj c)"

definition RESTAPI_sms_handler :: "env \<Rightarrow> bool \<Rightarrow> handler" where
  "RESTAPI_sms_handler E Internal =
     plain_handler [''POST'', ''OPTIONS''] Internal no_operation (RESTAPI_sms_DoPost E) no_operation no_operation"

text \<open>Reading past the end of the array gives an empty value, which has no text.\<close>

definition first_text :: "env \<Rightarrow> json list \<Rightarrow> string option" where
  "first_text E js = (case js of [] \<Rightarrow> None | j # js' \<Rightarrow> var_toString (e_poco E) j)"

definition RESTAPI_email_DoPost :: "env \<Rightarrow> rest_op" where
  "RESTAPI_email_DoPost E c =
     (case ParsedBody c of
        None \<Rightarrow> ret None
      | Some Obj \<Rightarrow>
          (case (map_of Obj ''subject'', map_of Obj ''from'', map_of Obj ''text'', map_of Obj ''recipients'') of
             (Some subject, Some sender, Some txt, Some (JArr Recipients)) \<Rightarrow>
               (case (first_text E Recipients, var_toString (e_poco E) subject, var_toString (e_poco E) txt,
                      var_toString (e_poco E) sender) of
                  (Some Recipient, Some s, Some t, Some f) \<Rightarrow> do {
                    sent \<leftarrow> SendMessage E Recipient ''password_reset.txt''
                      [RECIPIENT_EMAIL \<mapsto> Recipient, SUBJECT \<mapsto> s, TEXT \<mapsto> t, SENDER \<mapsto> f] False;
                    ret (Some (if sent then OK else ReturnStatus 503))
                  }
                | _ \<Rightarrow> ret None)
           | _ \<Rightarrow> ret (Some (BadRequest Err_MissingOrInvalidParameters))))"

definition RESTAPI_email_handler :: "env \<Rightarrow> bool \<Rightarrow> handler" where
  "RESTAPI_email_handler E Internal =
     plain_handler [''POST'', ''OPTIONS''] Internal no_operation (RESTAPI_email_DoPost E) no_operation no_operation"

subsection \<open>Changes of the second factor\<close>

definition requested_config :: "env \<Rightarrow> rest_ctx \<Rightarrow> SubMfaConfig option" where
  "requested_config E c =
     map_option (\<lambda>Obj. fst (SubMfaConfig_from_json (e_poco E) Obj SubMfaConfig_init)) (ParsedBody c)"

text \<open>The code was sent to the number for the caller.\<close>

definition phone_proved :: "rest_ctx \<Rightarrow> SubMfaConfig \<Rightarrow> world \<Rightarrow> bool" where
  "phone_proved c MFC w \<longleftrightarrow> (\<exists>i \<in> set (w_sms w). sv_Number i = smc_sms MFC \<and> sv_UserName i = u_email (caller c)
     \<and> sv_Code i = GetParameter c ''challengeCode'' [])"

text \<open>Only the row of the caller is written, with the factor changed by \<open>f\<close>.\<close>

definition factor_changed :: "env \<Rightarrow> rest_ctx \<Rightarrow> (UserLoginLoginExtensions \<Rightarrow> UserLoginLoginExtensions) \<Rightarrow> world \<Rightarrow> world \<Rightarrow> bool" where
  "factor_changed E c f w w' \<longleftrightarrow> (\<exists>User. r_users (w_sub w') = updated_rows (UserDB E Subs) ''id'' (u_id (caller c))
     (User\<lparr>u_userTypeProprietaryInfo := f (u_userTypeProprietaryInfo User)\<rparr>) (r_users (w_sub w)))"

definition factor_step :: "env \<Rightarrow> rest_ctx \<Rightarrow> SubMfaConfig \<Rightarrow> world \<Rightarrow> world \<Rightarrow> bool" where
  "factor_step E c MFC w w' \<longleftrightarrow>
     smc_type MFC = ''disabled'' \<and> factor_changed E c mfa_off w w'
     \<or> smc_type MFC = ''email'' \<and> factor_changed E c mfa_email w w'
     \<or> smc_type MFC = ''sms'' \<and> phone_proved c MFC w \<and> factor_changed E c (mfa_phone (smc_sms MFC)) w w'"

lemma mark_validated_found: "snd (mark_validated P xs) \<longleftrightarrow> (\<exists>i \<in> set xs. P i)"
  by (induction xs) (auto split: prod.splits)

lemma change_mfa_wp:
  "wp (change_mfa E f c) (\<lambda>_ w'. r_users (w_sub w') = r_users (w_sub w) \<or> factor_changed E c f w w') w"
proof -
  have upd: "wp (UpdateRecord E (UserDB E Subs) ''id'' i U) (\<lambda>_ w'. r_users (w_sub w') = r_users (w_sub w1)
      \<or> r_users (w_sub w') = updated_rows (UserDB E Subs) ''id'' i U (r_users (w_sub w1))) w1" for i U w1
    by (rule wp_mono [OF user_table.UpdateRecord_rows [of E E Subs "''id''" i U w1]]) (auto simp: UserDB_def split: if_splits)
  have get: "wp (GetUserById E Subs i) (\<lambda>_ w'. r_users (w_sub w') = r_users (w_sub w)) w" for i
    by (rule wp_mono [OF reads_onlyD [OF user_lookup_ro(2)]]) (auto dest: persist_eqD(1) [where R = Subs])
  show ?thesis
    unfolding change_mfa_def UpdateUserInfo_def
    by (simp add: Let_def, rule wp_mono [OF get], rule wp_mono [OF upd]) (auto simp: factor_changed_def)
qed

lemma changed_config_wp: "wp (changed_config E typ MFC c) (\<lambda>_ w'. w_sub w' = w_sub w) w"
  by (simp add: changed_config_def CreateUUID_def)

lemma change_then_answer:
  assumes "\<And>w1. wp (k :: response option sec) (\<lambda>_ w'. w_sub w' = w_sub w1) w1" "w_sub w1 = w_sub w"
  shows "wp (do { change_mfa E f c; k }) (\<lambda>_ w'. r_users (w_sub w') = r_users (w_sub w) \<or> factor_changed E c f w w') w1"
  unfolding wp_bind
  by (rule wp_mono [OF change_mfa_wp], rule wp_mono [OF assms(1)]) (use assms(2) in \<open>auto simp: factor_changed_def\<close>)

lemma complete_phone_wp:
  "wp (complete_phone E MFC c) (\<lambda>_ w'. r_users (w_sub w') = r_users (w_sub w)
     \<or> phone_proved c MFC w \<and> factor_changed E c (mfa_phone (smc_sms MFC)) w w') w"
proof -
  have code: "wp (SMSSender_CompleteValidation E (smc_sms MFC) (GetParameter c ''challengeCode'' []) (u_email (caller c)))
      (\<lambda>ok w'. w_sub w' = w_sub w \<and> (ok \<longrightarrow> phone_proved c MFC w)) w"
    by (auto simp: SMSSender_CompleteValidation_def Let_def mark_validated_found phone_proved_def)
  show ?thesis
    unfolding complete_phone_def Let_def wp_if wp_ret
    by (simp only: wp_bind [where m = "SMSSender_CompleteValidation E n1 c1 m1" for n1 c1 m1])
      (auto simp del: wp_bind intro!: wp_mono [OF code] change_then_answer [OF changed_config_wp] split: if_splits)
qed


end
