(* ===== verification/Service_Registry.thy ===== *)
theory Service_Registry
  imports Poco_Instance Ordered_Map "HOL-Library.Monad_Syntax"
begin

text \<open>
  The registry of the services of the system, kept by \<^verbatim>\<open>MicroService::BusMessageReceived\<close> of
  \<^verbatim>\<open>src/framework/MicroService.cpp\<close> from the messages on the bus, and the message a service sends about itself. A
  message is its text; the two readings of the clock are arguments. A Poco exception leaves the registry as it is.
\<close>

subsection \<open>Messages\<close>

record MicroServiceMeta =
  ms_Id :: u64
  ms_Type :: string
  ms_PrivateEndPoint :: string
  ms_PublicEndPoint :: string
  ms_AccessKey :: string
  ms_Version :: string
  ms_LastUpdate :: u64

type_synonym services = "(string \<times> MicroServiceMeta) list"

text \<open>What a service knows about itself.\<close>

record service_self =
  sf_ID :: u64
  sf_AppName :: string
  sf_Public :: string
  sf_Private :: string
  sf_Hash :: string
  sf_Version :: string

definition MakeSystemEventMessage :: "poco \<Rightarrow> service_self \<Rightarrow> string \<Rightarrow> string" where
  "MakeSystemEventMessage P S Type = json_condense P (JObj (obj_sets
     [(''event'', JStr Type),
      (''id'', jU64 (sf_ID S)),
      (''type'', JStr (str_toLower P (sf_AppName S))),
      (''publicEndPoint'', JStr (sf_Public S)),
      (''privateEndPoint'', JStr (sf_Private S)),
      (''key'', JStr (sf_Hash S)),
      (''version'', JStr (sf_Version S))]))"

subsection \<open>Receiving a message\<close>

definition text_of :: "poco \<Rightarrow> jobj \<Rightarrow> string \<Rightarrow> string option" where
  "text_of P Obj F = Option.bind (map_of Obj F) (var_toString P)"

definition service_info :: "poco \<Rightarrow> u64 \<Rightarrow> u64 \<Rightarrow> jobj \<Rightarrow> MicroServiceMeta option" where
  "service_info P ID now Obj = do {
     Type \<leftarrow> text_of P Obj ''type'';
     Private \<leftarrow> text_of P Obj ''privateEndPoint'';
     Public \<leftarrow> text_of P Obj ''publicEndPoint'';
     Key \<leftarrow> text_of P Obj ''key'';
     Version \<leftarrow> text_of P Obj ''version'';
     Some \<lparr>ms_Id = ID, ms_Type = str_toLower P Type, ms_PrivateEndPoint = Private, ms_PublicEndPoint = Public,
       ms_AccessKey = Key, ms_Version = Version, ms_LastUpdate = now\<rparr>
   }"

definition has_service_fields :: "jobj \<Rightarrow> bool" where
  "has_service_fields Obj \<longleftrightarrow>
     list_all (\<lambda>F. map_of Obj F \<noteq> None) [''type'', ''publicEndPoint'', ''privateEndPoint'', ''version'', ''key'']"

text \<open>\<open>None\<close> is the exception of a field without text. The other events leave the registry alone in this service.\<close>

definition service_event :: "poco \<Rightarrow> u64 \<Rightarrow> u64 \<Rightarrow> jobj \<Rightarrow> string \<Rightarrow> services \<Rightarrow> services option" where
  "service_event P ID now Obj Event Services =
     (if Event \<in> {''join'', ''keep-alive'', ''leave''} \<and> has_service_fields Obj then do {
        PrivateEndPoint \<leftarrow> text_of P Obj ''privateEndPoint'';
        if Event = ''leave'' then Some (store_erase PrivateEndPoint Services)
        else do {
          info \<leftarrow> service_info P ID now Obj;
          Some (store_set PrivateEndPoint info Services)
        }
      }
      else Some Services)"

text \<open>The difference of the times wraps around.\<close>

definition remove_zombies :: "u64 \<Rightarrow> services \<Rightarrow> services" where
  "remove_zombies now Services = filter (\<lambda>(_, s). \<not> 120 < now - ms_LastUpdate s) Services"

definition bus_object :: "poco \<Rightarrow> u64 \<Rightarrow> u64 \<Rightarrow> jobj \<Rightarrow> services \<Rightarrow> services option" where
  "bus_object P MyID updated Obj Services =
     (case (map_of Obj ''id'', map_of Obj ''event'') of
        (Some i, Some e) \<Rightarrow> do {
          ID \<leftarrow> var_toU64 P i;
          Event \<leftarrow> var_toString P e;
          if ID \<noteq> MyID then service_event P ID updated Obj Event Services else Some Services
        }
      | _ \<Rightarrow> Some Services)"

definition BusMessageReceived :: "poco \<Rightarrow> u64 \<Rightarrow> u64 \<Rightarrow> u64 \<Rightarrow> string \<Rightarrow> services \<Rightarrow> services" where
  "BusMessageReceived P MyID updated now Payload Services =
     (case json_parse P Payload of
        Some (JObj Obj) \<Rightarrow>
          (case bus_object P MyID updated Obj Services of
             None \<Rightarrow> Services
           | Some S \<Rightarrow> remove_zombies now S)
      | _ \<Rightarrow> Services)"

definition GetServices :: "services \<Rightarrow> MicroServiceMeta list" where
  "GetServices Services = map snd Services"

definition GetServices_type :: "poco \<Rightarrow> string \<Rightarrow> services \<Rightarrow> MicroServiceMeta list" where
  "GetServices_type P Type Services = filter (\<lambda>s. ms_Type s = str_toLower P Type) (map snd Services)"

definition MakeServiceListString :: "services \<Rightarrow> string" where
  "MakeServiceListString Services =
     foldl (\<lambda>SvcList (k, s). if SvcList = [] then ms_Type s else SvcList @ '', '' @ ms_Type s) [] Services"

subsection \<open>Joining and leaving\<close>

lemma map_of_zombies:
  "store_sorted S \<Longrightarrow> map_of (remove_zombies now S) k =
     (case map_of S k of None \<Rightarrow> None | Some s \<Rightarrow> if 120 < now - ms_LastUpdate s then None else Some s)"
  unfolding remove_zombies_def by (subst map_of_filter_sorted) (auto split: option.splits)

definition meta_of :: "poco \<Rightarrow> service_self \<Rightarrow> u64 \<Rightarrow> MicroServiceMeta" where
  "meta_of P A now = \<lparr>ms_Id = sf_ID A, ms_Type = str_toLower P (str_toLower P (sf_AppName A)), ms_PrivateEndPoint = sf_Private A,
     ms_PublicEndPoint = sf_Public A, ms_AccessKey = sf_Hash A, ms_Version = sf_Version A, ms_LastUpdate = now\<rparr>"

definition event_object :: "poco \<Rightarrow> service_self \<Rightarrow> string \<Rightarrow> jobj" where
  "event_object P A Type =
     [(''event'', JStr Type), (''id'', jU64 (sf_ID A)), (''type'', JStr (str_toLower P (sf_AppName A))),
      (''publicEndPoint'', JStr (sf_Public A)), (''privateEndPoint'', JStr (sf_Private A)),
      (''key'', JStr (sf_Hash A)), (''version'', JStr (sf_Version A))]"

lemma event_fields:
  "map_of (event_object P A Type) ''event'' = Some (JStr Type)" "map_of (event_object P A Type) ''id'' = Some (jU64 (sf_ID A))"
  "map_of (event_object P A Type) ''type'' = Some (JStr (str_toLower P (sf_AppName A)))"
  "map_of (event_object P A Type) ''publicEndPoint'' = Some (JStr (sf_Public A))"
  "map_of (event_object P A Type) ''privateEndPoint'' = Some (JStr (sf_Private A))"
  "map_of (event_object P A Type) ''key'' = Some (JStr (sf_Hash A))"
  "map_of (event_object P A Type) ''version'' = Some (JStr (sf_Version A))"
  by (simp_all add: event_object_def)

lemma announce_text: "MakeSystemEventMessage P A Type = json_condense P (JObj (event_object P A Type))"
  by (simp add: MakeSystemEventMessage_def event_object_def obj_sets_distinct)

lemma announce_event:
  assumes "poco_ok P" "Event \<in> {''join'', ''keep-alive'', ''leave''}"
  shows "service_event P (sf_ID A) now (event_object P A Event) Event S =
    Some (if Event = ''leave'' then store_erase (sf_Private A) S else store_set (sf_Private A) (meta_of P A now) S)"
  using assms
  by (simp add: service_event_def has_service_fields_def text_of_def service_info_def meta_of_def event_fields poco_ok_def)

lemma announce_object:
  assumes "poco_ok P" "sf_ID A \<noteq> MyID" "Event \<in> {''join'', ''keep-alive'', ''leave''}"
  shows "BusMessageReceived P MyID updated now (MakeSystemEventMessage P A Event) S =
    remove_zombies now (if Event = ''leave'' then store_erase (sf_Private A) S
      else store_set (sf_Private A) (meta_of P A updated) S)"
proof -
  have "json_parse P (MakeSystemEventMessage P A Event) = Some (JObj (event_object P A Event))"
    using assms(1) by (simp add: announce_text poco_ok_def)
  moreover have "bus_object P MyID updated (event_object P A Event) S = service_event P (sf_ID A) updated (event_object P A Event) Event S"
    using assms(1,2) by (simp add: bus_object_def event_fields jU64_def poco_ok_def)
  ultimately show ?thesis by (simp add: BusMessageReceived_def announce_event [OF assms(1,3)])
qed

text \<open>
  What a service says about itself reaches the registry of every other service: after \<^verbatim>\<open>join\<close> or
  \<^verbatim>\<open>keep-alive\<close> it is listed under its private end point with all it said, after \<^verbatim>\<open>leave\<close> it is not, and of the others exactly
  those remain that were heard of in the last two minutes.
\<close>

theorem announce_registers:
  assumes "poco_ok P" "sf_ID A \<noteq> MyID" "store_sorted S" "now - updated \<le> 120"
    and "Event \<in> {''join'', ''keep-alive'', ''leave''}"
  shows "map_of (BusMessageReceived P MyID updated now (MakeSystemEventMessage P A Event) S) k =
    (if k = sf_Private A then (if Event = ''leave'' then None else Some (meta_of P A updated))
     else case map_of S k of
       None \<Rightarrow> None
     | Some s \<Rightarrow> if 120 < now - ms_LastUpdate s then None else Some s)"
  using assms(3,4)
  by (simp add: announce_object [OF assms(1,2,5)] map_of_zombies std_map.put_ok std_map.erase_ok
      std_map.lookup_put std_map.lookup_erase meta_of_def not_less [symmetric])

definition sample_service :: service_self where
  "sample_service = \<lparr>sf_ID = 7, sf_AppName = ''owgw'', sf_Public = ''https://p'', sf_Private = ''https://q'', sf_Hash = ''h'',
     sf_Version = ''1''\<rparr>"

theorem announce_registers_witness:
  "map_of (BusMessageReceived poco_inst 1 5 6 (MakeSystemEventMessage poco_inst sample_service ''join'') []) ''https://q''
     = Some (meta_of poco_inst sample_service 5)"
  using announce_registers [of poco_inst sample_service 1 "[]" 6 5 "''join''" "''https://q''"] poco_inst_ok
  by (simp add: sample_service_def store_sorted_def)

subsection \<open>Reachable registries\<close>

text \<open>The registries a service can have at a time, when its clock does not go back.\<close>

inductive registry :: "poco \<Rightarrow> u64 \<Rightarrow> u64 \<Rightarrow> services \<Rightarrow> bool" for P MyID where
  start: "registry P MyID t []"
| message: "registry P MyID t S \<Longrightarrow> t \<le> updated \<Longrightarrow> updated \<le> now \<Longrightarrow>
    registry P MyID now (BusMessageReceived P MyID updated now Payload S)"

definition registry_inv :: "u64 \<Rightarrow> u64 \<Rightarrow> services \<Rightarrow> bool" where
  "registry_inv MyID t S \<longleftrightarrow> store_sorted S
     \<and> (\<forall>(k, s) \<in> set S. ms_PrivateEndPoint s = k \<and> ms_Id s \<noteq> MyID \<and> ms_LastUpdate s \<le> t)"

text \<open>The message is an object whose fields can be read.\<close>

definition readable_message :: "poco \<Rightarrow> u64 \<Rightarrow> u64 \<Rightarrow> string \<Rightarrow> services \<Rightarrow> bool" where
  "readable_message P MyID updated Payload S \<longleftrightarrow>
     (\<exists>Obj. json_parse P Payload = Some (JObj Obj) \<and> bus_object P MyID updated Obj S \<noteq> None)"

definition heard_recently :: "u64 \<Rightarrow> services \<Rightarrow> bool" where
  "heard_recently now S \<longleftrightarrow> (\<forall>s \<in> set (GetServices S). unat now \<le> unat (ms_LastUpdate s) + 120)"

lemma set_store_set: "p \<in> set (store_set k v xs) \<Longrightarrow> p = (k, v) \<or> p \<in> set xs"
  by (induction k v xs rule: store_set.induct) (auto split: if_splits)

lemma registry_inv_later: "registry_inv MyID t S \<Longrightarrow> t \<le> u \<Longrightarrow> registry_inv MyID u S"
  by (auto simp: registry_inv_def)

lemma service_event_inv:
  assumes "registry_inv MyID t S" "t \<le> updated" "ID \<noteq> MyID" "service_event P ID updated Obj Event S = Some S'"
  shows "registry_inv MyID updated S'"
proof -
  have later: "registry_inv MyID updated S"
    using assms(1,2) by (rule registry_inv_later)
  show ?thesis
  proof (cases "Event \<in> {''join'', ''keep-alive'', ''leave''} \<and> has_service_fields Obj \<and> Event \<noteq> ''leave''")
    case True
    then obtain k info where "text_of P Obj ''privateEndPoint'' = Some k" "service_info P ID updated Obj = Some info"
      "S' = store_set k info S"
      using assms(4) by (auto simp: service_event_def bind_eq_Some_conv split: if_splits)
    moreover from this have "ms_PrivateEndPoint info = k" "ms_Id info = ID" "ms_LastUpdate info = updated"
      by (auto simp: service_info_def bind_eq_Some_conv)
    ultimately show ?thesis
      using later assms(3) by (auto simp: registry_inv_def std_map.put_ok dest!: set_store_set)
  next
    case False
    then have "S' = S \<or> (\<exists>k. S' = store_erase k S)"
      using assms(4) by (auto simp: service_event_def bind_eq_Some_conv split: if_splits)
    then show ?thesis
      using later by (auto simp: registry_inv_def std_map.erase_ok) (auto simp: store_erase_def)
  qed
qed

lemma bus_object_inv:
  assumes "registry_inv MyID t S" "t \<le> updated" "bus_object P MyID updated Obj S = Some S'"
  shows "registry_inv MyID updated S'"
  using assms(3) service_event_inv [OF assms(1,2)] registry_inv_later [OF assms(1,2)]
  by (auto simp: bus_object_def bind_eq_Some_conv split: option.splits if_splits)

lemma zombies_inv: "registry_inv MyID t S \<Longrightarrow> t \<le> now \<Longrightarrow> registry_inv MyID now (remove_zombies now S)"
  by (auto simp: registry_inv_def remove_zombies_def store_filter_sorted)

lemma received_inv:
  assumes "registry_inv MyID t S" "t \<le> updated" "updated \<le> now"
  shows "registry_inv MyID now (BusMessageReceived P MyID updated now Payload S)"
proof -
  have "registry_inv MyID now S" using assms registry_inv_later order_trans by blast
  then show ?thesis
    using bus_object_inv [OF assms(1,2)] zombies_inv [OF _ assms(3)]
    by (auto simp: BusMessageReceived_def split: option.splits json.splits)
qed

text \<open>
  C26. Every registry a service can reach is ordered by the private end points, lists every service under
  its own end point and never the service itself; and after a message that can be read, every listed service was heard
  of in the last two minutes.
\<close>

theorem registry_sound:
  assumes "registry P MyID t S"
  shows "registry_inv MyID t S \<and> (\<forall>updated now Payload.
    t \<le> updated \<and> updated \<le> now \<and> readable_message P MyID updated Payload S \<longrightarrow>
    heard_recently now (BusMessageReceived P MyID updated now Payload S))"
proof -
  have inv: "registry_inv MyID t S"
    using assms by induction (auto simp: registry_inv_def [of _ _ "[]"] store_sorted_def intro: received_inv)
  have "unat now \<le> unat (ms_LastUpdate s) + 120"
    if *: "t \<le> updated" "updated \<le> now" "readable_message P MyID updated Payload S"
      "s \<in> set (GetServices (BusMessageReceived P MyID updated now Payload S))" for updated now Payload s
  proof -
    have "ms_LastUpdate s \<le> now"
      using received_inv [OF inv *(1,2), of P Payload] *(4) by (auto simp: registry_inv_def GetServices_def)
    moreover have "now - ms_LastUpdate s \<le> 120"
      using *(3,4) by (auto simp: readable_message_def BusMessageReceived_def GetServices_def remove_zombies_def)
    ultimately show ?thesis
      by (simp add: word_le_nat_alt unat_sub)
  qed
  with inv show ?thesis by (auto simp: heard_recently_def)
qed

theorem registry_sound_witness:
  "registry_inv 1 6 (BusMessageReceived poco_inst 1 5 6 (MakeSystemEventMessage poco_inst sample_service ''join'') [])"
  using registry_sound [OF registry.message [OF registry.start [of poco_inst 1 4],
      of 5 6 "MakeSystemEventMessage poco_inst sample_service ''join''"]] by simp

end
