(* ===== verification/Utils_Codec.thy ===== *)
theory Utils_Codec
  imports Utils_Text Totp_Bytes
begin

text \<open>
  The conversions of \<^verbatim>\<open>src/framework/utils.cpp\<close>: base64. Exceptions
  are the left summand of the result; arithmetic is done at the width of the source.
\<close>

subsection \<open>Base64\<close>

definition kEncodeLookup :: string where
  "kEncodeLookup = ''ABCDEFGHIJKLMNOPQRSTUVWXYZabcdefghijklmnopqrstuvwxyz0123456789+/''"

datatype base64_error = InvalidBase64Length | InvalidPadding | InvalidCharacter

fun base64encode :: "byte_string \<Rightarrow> string" where
  "base64encode [] = []"
| "base64encode [a] =
     (let temp = push_bit 16 (ucast a) :: u32 in
      [kEncodeLookup ! unat (drop_bit 18 (temp AND 0x00FC0000)),
       kEncodeLookup ! unat (drop_bit 12 (temp AND 0x0003F000)), CHR ''='', CHR ''=''])"
| "base64encode [a, b] =
     (let temp = push_bit 16 (ucast a) + push_bit 8 (ucast b) :: u32 in
      [kEncodeLookup ! unat (drop_bit 18 (temp AND 0x00FC0000)),
       kEncodeLookup ! unat (drop_bit 12 (temp AND 0x0003F000)),
       kEncodeLookup ! unat (drop_bit 6 (temp AND 0x00000FC0)), CHR ''=''])"
| "base64encode (a # b # c # input) =
     (let temp = push_bit 16 (ucast a) + push_bit 8 (ucast b) + ucast c :: u32 in
      [kEncodeLookup ! unat (drop_bit 18 (temp AND 0x00FC0000)),
       kEncodeLookup ! unat (drop_bit 12 (temp AND 0x0003F000)),
       kEncodeLookup ! unat (drop_bit 6 (temp AND 0x00000FC0)),
       kEncodeLookup ! unat (temp AND 0x0000003F)] @ base64encode input)"

definition base64_value :: "char \<Rightarrow> u32 option" where
  "base64_value it =
     (let n = of_char it :: nat in
      if 0x41 \<le> n \<and> n \<le> 0x5A then Some (of_nat (n - 0x41))
      else if 0x61 \<le> n \<and> n \<le> 0x7A then Some (of_nat (n - 0x47))
      else if 0x30 \<le> n \<and> n \<le> 0x39 then Some (of_nat (n + 0x04))
      else if n = 0x2B then Some 0x3E
      else if n = 0x2F then Some 0x3F
      else None)"

definition byte_at :: "nat \<Rightarrow> u32 \<Rightarrow> u8" where
  "byte_at n temp = ucast (drop_bit n temp AND 0x000000FF)"

text \<open>
  One step per character: \<open>i\<close> counts within the group of four, \<open>temp\<close> is not reset between groups.
\<close>

fun base64_loop :: "string \<Rightarrow> nat \<Rightarrow> u32 \<Rightarrow> base64_error + byte_string" where
  "base64_loop [] i temp = Inr []"
| "base64_loop (it # rest) i temp =
     (let temp = push_bit 6 temp in
      case base64_value it of
        Some v \<Rightarrow>
          (let temp = temp OR v in
           if i = 3 then map_sum id (\<lambda>out. byte_at 16 temp # byte_at 8 temp # byte_at 0 temp # out) (base64_loop rest 0 temp)
           else base64_loop rest (Suc i) temp)
      | None \<Rightarrow>
          if it = CHR ''='' then
            (case rest of
               [] \<Rightarrow> Inr [byte_at 16 temp, byte_at 8 temp]
             | [_] \<Rightarrow> Inr [byte_at 10 temp]
             | _ \<Rightarrow> Inl InvalidPadding)
          else Inl InvalidCharacter)"

definition base64decode :: "string \<Rightarrow> base64_error + byte_string" where
  "base64decode input = (if length input mod 4 \<noteq> 0 then Inl InvalidBase64Length else base64_loop input 0 0)"

lemma length_base64encode: "length (base64encode bs) = 4 * ((length bs + 2) div 3)"
proof (induction bs rule: base64encode.induct)
  case (4 a b c input)
  have "(length (a # b # c # input) + 2) div 3 = Suc ((length input + 2) div 3)"
    using div_add_self1 [of "3::nat" "length input + 2"] by (simp add: add.commute add.left_commute)
  with 4 show ?case by (simp only: base64encode.simps Let_def) simp
qed (simp_all add: Let_def)

lemma lookup_value:
  assumes "v < 64"
  shows "base64_value (kEncodeLookup ! unat v) = Some v"
proof -
  have "unat v < 64" using assms by (simp add: word_less_nat_alt)
  then have "v \<in> set (map of_nat [0..<64])" by (rule word_cases_upto)
  then show ?thesis
    by (auto simp: upt_64 kEncodeLookup_def base64_value_def)
qed

text \<open>The bits of three bytes in four groups of six, and back; \<open>t\<close> is what earlier groups left.\<close>

definition six :: "u32 \<Rightarrow> u32 list" where
  "six w = [drop_bit 18 (w AND 0x00FC0000), drop_bit 12 (w AND 0x0003F000), drop_bit 6 (w AND 0x00000FC0),
     w AND 0x0000003F]"

definition six_join :: "u32 \<Rightarrow> u32 list \<Rightarrow> u32" where
  "six_join t vs = foldl (\<lambda>t v. push_bit 6 t OR v) t vs"

definition or3 :: "u8 \<Rightarrow> u8 \<Rightarrow> u8 \<Rightarrow> u32" where
  "or3 a b c = push_bit 16 (ucast a) OR push_bit 8 (ucast b) OR ucast c"

lemma upt_32: "[0..<32::nat] =
  [0,1,2,3,4,5,6,7,8,9,10,11,12,13,14,15,16,17,18,19,20,21,22,23,24,25,26,27,28,29,30,31]"
  by (simp add: upt_rec)

lemma plus_is_or:
  "push_bit 16 (ucast a) + push_bit 8 (ucast b) + ucast c = or3 a b c"
  "push_bit 16 (ucast a) + push_bit 8 (ucast b) = or3 a b 0"
  "push_bit 16 (ucast a) = or3 a 0 0"
proof -
  have 1: "push_bit 16 (ucast a) + push_bit 8 (ucast b) = (push_bit 16 (ucast a) OR push_bit 8 (ucast b) :: u32)"
    by (rule disjunctive_add_eq_or, rule word_eq_by_bits) (simp add: upt_32 bit_simps)
  have 2: "(push_bit 16 (ucast a) OR push_bit 8 (ucast b)) + ucast c =
      (push_bit 16 (ucast a) OR push_bit 8 (ucast b) OR ucast c :: u32)"
    by (rule disjunctive_add_eq_or [THEN trans], rule word_eq_by_bits)
      (simp_all add: upt_32 bit_simps or.assoc)
  from 1 2 show "push_bit 16 (ucast a) + push_bit 8 (ucast b) + ucast c = or3 a b c" by (simp add: or3_def)
  from 1 show "push_bit 16 (ucast a) + push_bit 8 (ucast b) = or3 a b 0" by (simp add: or3_def)
  show "push_bit 16 (ucast a) = or3 a 0 0" by (simp add: or3_def)
qed

lemma six_small: "list_all (\<lambda>v. v < 64) (six w)"
proof -
  have "v AND 63 < 64" for v :: u32 using word_and_le1 [of v 63] by (simp add: word_le_less_eq order_le_less_trans)
  then have "list_all (\<lambda>v. v < 64) (map (\<lambda>v. v AND 63) (six w))" by (simp add: list_all_iff)
  moreover have "six w = map (\<lambda>v. v AND 63) (six w)"
    unfolding six_def list.map list.inject by (intro conjI refl; rule word_eq_by_bits) (simp_all add: upt_32 bit_simps)
  ultimately show ?thesis by argo
qed

lemma six_bytes:
  "byte_at 16 (six_join t (six (or3 a b c))) = a"
  "byte_at 8 (six_join t (six (or3 a b c))) = b"
  "byte_at 0 (six_join t (six (or3 a b c))) = c"
  unfolding six_def six_join_def byte_at_def or3_def foldl.simps
  by (rule word_eq_by_bits; simp add: upt_8 bit_simps bits_norm)+

lemma six_bytes_short:
  "byte_at 16 (push_bit 6 (six_join t (take 3 (six (or3 a b 0))))) = a"
  "byte_at 8 (push_bit 6 (six_join t (take 3 (six (or3 a b 0))))) = b"
  "byte_at 10 (push_bit 6 (six_join t (take 2 (six (or3 a 0 0))))) = a"
  unfolding six_def six_join_def byte_at_def or3_def
  by (rule word_eq_by_bits; simp add: upt_8 bit_simps bits_norm)+

lemma base64_loop_value:
  "v < 64 \<Longrightarrow> i < 3 \<Longrightarrow> base64_loop (kEncodeLookup ! unat v # rest) i t = base64_loop rest (Suc i) (push_bit 6 t OR v)"
  "v < 64 \<Longrightarrow> i = 3 \<Longrightarrow> base64_loop (kEncodeLookup ! unat v # rest) i t =
     (let t = push_bit 6 t OR v in
      map_sum id (\<lambda>out. byte_at 16 t # byte_at 8 t # byte_at 0 t # out) (base64_loop rest 0 t))"
  by (simp_all add: lookup_value Let_def)

lemma base64_loop_pad:
  "base64_loop [CHR ''=''] i t = Inr [byte_at 16 (push_bit 6 t), byte_at 8 (push_bit 6 t)]"
  "base64_loop [CHR ''='', c] i t = Inr [byte_at 10 (push_bit 6 t)]"
  by (simp_all add: base64_value_def Let_def)

abbreviation letters :: "u32 list \<Rightarrow> string" where
  "letters \<equiv> map (\<lambda>v. kEncodeLookup ! unat v)"

lemma base64encode_six:
  "base64encode [a] = letters (take 2 (six (or3 a 0 0))) @ ''==''"
  "base64encode [a, b] = letters (take 3 (six (or3 a b 0))) @ ''=''"
  "base64encode (a # b # c # input) = letters (six (or3 a b c)) @ base64encode input"
    apply (simp_all only: base64encode.simps Let_def six_def)
    apply (simp only: plus_is_or(3), simp)
   apply (simp only: plus_is_or(2), simp)
  apply (simp only: plus_is_or(1), simp)
  done

lemma six_values: obtains v0 v1 v2 v3 where "six w = [v0, v1, v2, v3]" "v0 < 64" "v1 < 64" "v2 < 64" "v3 < 64"
proof -
  obtain v0 v1 v2 v3 where v: "six w = [v0, v1, v2, v3]" unfolding six_def by blast
  with six_small [of w] that show ?thesis by simp
qed

lemma base64_loop_encode: "base64_loop (base64encode bs) 0 t = Inr bs"
proof (induction bs arbitrary: t rule: base64encode.induct)
  case (2 a)
  obtain v0 v1 v2 v3 where v: "six (or3 a 0 0) = [v0, v1, v2, v3]" "v0 < 64" "v1 < 64" by (rule six_values)
  with six_bytes_short(3) [of t a] show ?case
    by (simp add: base64encode_six(1) six_join_def base64_loop_value base64_loop_pad del: base64_loop.simps base64encode.simps)
next
  case (3 a b)
  obtain v0 v1 v2 v3 where v: "six (or3 a b 0) = [v0, v1, v2, v3]" "v0 < 64" "v1 < 64" "v2 < 64" by (rule six_values)
  with six_bytes_short(1,2) [of t a b] show ?case
    by (simp add: base64encode_six(2) six_join_def base64_loop_value base64_loop_pad del: base64_loop.simps base64encode.simps)
next
  case (4 a b c input)
  obtain v0 v1 v2 v3 where v: "six (or3 a b c) = [v0, v1, v2, v3]" "v0 < 64" "v1 < 64" "v2 < 64" "v3 < 64" by (rule six_values)
  with six_bytes [of t a b c] 4 show ?case
    by (simp add: base64encode_six(3) six_join_def base64_loop_value Let_def del: base64_loop.simps base64encode.simps)
qed simp

interpretation base64_codec: byte_codec "\<lambda>bs. Inr (base64encode bs)" base64decode
  by unfold_locales (simp add: base64decode_def length_base64encode base64_loop_encode)

text \<open>
  Decoding base64 gives back exactly the bytes that were encoded, and the text has four
  characters for every three bytes begun, so different contents have different texts.
\<close>

theorem base64_roundtrip:
  "base64decode (base64encode bs) = Inr bs \<and> length (base64encode bs) = 4 * ((length bs + 2) div 3) \<and>
    (base64encode bs = base64encode bs' \<longleftrightarrow> bs = bs')"
  using base64_codec.encode_decodes [of bs] base64_codec.encode_injective [of bs bs'] length_base64encode by auto

text \<open>A single padding character before the last one ends the text whatever follows it.\<close>

lemma base64_padding_unchecked: "base64decode ''QQ=x'' = Inr [0x41]"
  by (simp add: base64decode_def base64_value_def byte_at_def Let_def)

end
