(* ===== verification/Utils_Numbers.thy ===== *)
theory Utils_Numbers
  imports Utils_Text "HOL-Library.Multiset"
begin

text \<open>
  Numbers in text, from \<^verbatim>\<open>src/framework/utils.cpp\<close>: serial numbers and MAC addresses as 64-bit
  integers, times and dates, durations, the hexadecimal dump of a file, media types, and the
  password generator. \<^verbatim>\<open>std::stoull\<close>, \<^verbatim>\<open>std::atoi\<close> and \<^verbatim>\<open>std::to_string\<close> are written out; random
  numbers, the shuffle, the tokenizer and the log priorities of Poco are arguments.
\<close>

subsection \<open>Hexadecimal digits\<close>

definition hex_value :: "char \<Rightarrow> nat" where
  "hex_value c =
     (let n = of_char c in
      if is_digit c then n - 48 else if n \<in> {97..102} then n - 97 + 10 else if n \<in> {65..70} then n - 65 + 10 else 0)"

definition hex_char :: "nat \<Rightarrow> char" where
  "hex_char B = (if B < 10 then char_of (B + 48) else char_of (B - 10 + 97))"

lemma hex_char_value: "n < 16 \<Longrightarrow> hex_value (hex_char n) = n \<and> isxdigit (hex_char n) \<and> \<not> is_upper (hex_char n)"
  by (auto simp: hex_char_def hex_value_def isxdigit_def is_digit_def is_upper_def Let_def)

subsection \<open>Serial numbers and MAC addresses\<close>

fun mac_loop :: "u64 \<Rightarrow> string \<Rightarrow> u64" where
  "mac_loop Result [] = Result"
| "mac_loop Result (c # MAC) =
     (if c = CHR '':'' then mac_loop Result MAC
      else mac_loop (push_bit 4 Result + of_nat (hex_value c)) MAC)"

definition MACToInt :: "string \<Rightarrow> u64" where
  "MACToInt MAC = mac_loop 0 MAC"

datatype std_error = InvalidArgument | OutOfRange

definition isspace :: "char \<Rightarrow> bool" where
  "isspace c \<longleftrightarrow> of_char c \<in> {9, 10, 11, 12, 13, 32::nat}"

definition strip_sign :: "string \<Rightarrow> bool \<times> string" where
  "strip_sign s =
     (case s of c # r \<Rightarrow> if c = CHR ''-'' then (True, r) else if c = CHR ''+'' then (False, r) else (False, s)
      | [] \<Rightarrow> (False, []))"

text \<open>The prefix \<^verbatim>\<open>0x\<close> counts only in front of a hexadecimal digit.\<close>

definition strip_prefix :: "string \<Rightarrow> string" where
  "strip_prefix s =
     (case s of z # x # h # r \<Rightarrow>
        if z = CHR ''0'' \<and> (x = CHR ''x'' \<or> x = CHR ''X'') \<and> isxdigit h then h # r else s
      | _ \<Rightarrow> s)"

definition hex_number :: "string \<Rightarrow> nat" where
  "hex_number ds = foldl (\<lambda>n c. 16 * n + hex_value c) 0 ds"

definition stoull16 :: "string \<Rightarrow> std_error + u64" where
  "stoull16 S =
     (let (negative, s) = strip_sign (dropWhile isspace S);
          ds = takeWhile isxdigit (strip_prefix s);
          n = hex_number ds
      in if ds = [] then Inl InvalidArgument
         else if 2 ^ 64 \<le> n then Inl OutOfRange
         else Inr (if negative then - of_nat n else of_nat n))"

definition SerialNumberToInt :: "string \<Rightarrow> std_error + u64" where
  "SerialNumberToInt S = stoull16 S"

fun serial_digits :: "nat \<Rightarrow> u64 \<Rightarrow> string" where
  "serial_digits 0 S = []"
| "serial_digits (Suc k) S = serial_digits k (drop_bit 4 S) @ [hex_char (unat (S AND 0x0f))]"

definition IntToSerialNumber :: "u64 \<Rightarrow> string" where
  "IntToSerialNumber S = serial_digits 12 S"

definition SerialNumberMatch :: "string \<Rightarrow> string \<Rightarrow> nat \<Rightarrow> std_error + bool" where
  "SerialNumberMatch S1 S2 Bits =
     (case SerialNumberToInt S1 of Inl e \<Rightarrow> Inl e | Inr S1_i \<Rightarrow>
      (case SerialNumberToInt S2 of Inl e \<Rightarrow> Inl e | Inr S2_i \<Rightarrow> Inr (drop_bit Bits S1_i = drop_bit Bits S2_i)))"

fun oui_loop :: "u64 \<Rightarrow> nat \<Rightarrow> string \<Rightarrow> u64" where
  "oui_loop Result Digits [] = Result"
| "oui_loop Result Digits (i # S) =
     (if isxdigit i then
        (let Result = push_bit 4 Result + of_nat (hex_value i); Digits = Digits + 1 in
         if Digits = 6 then Result else oui_loop Result Digits S)
      else oui_loop Result Digits S)"

definition SerialNumberToOUI :: "string \<Rightarrow> u64" where
  "SerialNumberToOUI S = oui_loop 0 0 S"

text \<open>The loops compute the number the digits denote, wrapped to 64 bits.\<close>

lemma push_4: "push_bit 4 (R :: u64) + of_nat d = 16 * R + of_nat d"
  by (simp add: push_bit_eq_mult)

lemma hex_number_append: "hex_number (u @ [c]) = 16 * hex_number u + hex_value c"
  by (simp add: hex_number_def)

lemma mac_loop_number:
  "CHR '':'' \<notin> set s \<Longrightarrow> mac_loop (of_nat (hex_number u)) s = of_nat (hex_number (u @ s))"
proof (induction s arbitrary: u)
  case (Cons c s)
  then show ?case using Cons.IH [of "u @ [c]"] by (auto simp: push_4 hex_number_append)
qed simp

lemma oui_loop_number:
  "list_all isxdigit s \<Longrightarrow> k + length s \<le> 6 \<Longrightarrow> k < 6 \<Longrightarrow> (length s + k = 6 \<or> r = []) \<Longrightarrow>
    oui_loop (of_nat (hex_number u)) k (s @ r) = of_nat (hex_number (u @ s))"
proof (induction s arbitrary: u k)
  case (Cons c s)
  show ?case
  proof (cases "k + 1 = 6")
    case True
    with Cons show ?thesis by (simp add: push_4 hex_number_append Let_def)
  next
    case False
    with Cons Cons.IH [of "k + 1" "u @ [c]"] show ?thesis by (simp add: push_4 hex_number_append Let_def)
  qed
qed simp

lemma length_serial_digits [simp]: "length (serial_digits k S) = k"
  by (induction k arbitrary: S) auto

lemma unat_nibble: "unat (S AND 0x0f :: u64) = unat S mod 16"
proof -
  have "S AND 0x0f = take_bit 4 S" by (simp add: take_bit_eq_mask mask_eq_exp_minus_1)
  then show ?thesis by (simp add: take_bit_eq_mod unat_mod)
qed

lemma serial_digits_hex: "list_all (\<lambda>c. isxdigit c \<and> \<not> is_upper c) (serial_digits k S)"
  by (induction k arbitrary: S) (auto simp: unat_nibble hex_char_value)

lemma hex_number_serial: "hex_number (serial_digits k S) = unat S mod 16 ^ k"
proof (induction k arbitrary: S)
  case (Suc k)
  have "unat S mod 16 ^ Suc k = 16 * ((unat S div 16) mod 16 ^ k) + unat S mod 16"
    by (simp add: mod_mult2_eq)
  then show ?case using Suc
    by (simp add: hex_number_append unat_nibble hex_char_value unat_div drop_bit_eq_div)
qed (simp add: hex_number_def)

lemma serial_digits_add: "serial_digits (a + b) S = serial_digits a (drop_bit (4 * b) S) @ serial_digits b S"
  by (induction b arbitrary: S) (simp_all add: drop_bit_drop_bit add.commute)

lemma mac_loop_colons: "mac_loop R s = mac_loop R (filter (\<lambda>c. c \<noteq> CHR '':'') s)"
  by (induction s arbitrary: R) auto

lemma serial_to_mac_digits:
  assumes "length s = 12" and "list_all isxdigit s"
  shows "filter (\<lambda>c. c \<noteq> CHR '':'') (SerialToMAC s) = s"
proof -
  have "isxdigit c \<Longrightarrow> c \<noteq> CHR 0x00 \<and> c \<noteq> CHR '':''" for c by (auto simp: isxdigit_def is_digit_def)
  then have "i < 12 \<Longrightarrow> s ! i \<noteq> CHR 0x00 \<and> s ! i \<noteq> CHR '':''" for i using assms by (simp add: list_all_length)
  then have "filter (\<lambda>c. c \<noteq> CHR '':'') (SerialToMAC s) = map ((!) s) [0..<12]"
    using assms(1) by (simp add: SerialToMAC_def upt_rec) (simp add: numeral_eq_Suc)
  also have "\<dots> = s" using map_nth [of s] assms(1) by simp
  finally show ?thesis .
qed

lemma stoull16_digits:
  assumes "s \<noteq> []" "list_all isxdigit s" "hex_number s < 2 ^ 64"
  shows "stoull16 s = Inr (of_nat (hex_number s))"
proof -
  have x: "isxdigit c \<Longrightarrow> \<not> isspace c \<and> c \<noteq> CHR ''-'' \<and> c \<noteq> CHR ''+'' \<and> c \<noteq> CHR ''x'' \<and> c \<noteq> CHR ''X''" for c
    by (auto simp: isxdigit_def isspace_def is_digit_def)
  obtain c r where s: "s = c # r" using assms by (cases s) auto
  then have "dropWhile isspace s = s" "strip_sign s = (False, s)" using assms(2) x [of c] by (auto simp: strip_sign_def)
  moreover have "strip_prefix s = s" using assms(2) x by (auto simp: strip_prefix_def split: list.splits) blast+
  moreover have tw: "takeWhile isxdigit s = s" using assms(2) by (simp add: takeWhile_eq_all_conv list_all_iff)
  ultimately show ?thesis using assms by (simp add: stoull16_def Let_def tw)
qed

text \<open>
  A 64-bit number written as a serial number reads back as its low 48 bits, directly and through its MAC
  notation; its OUI is the upper half of those bits, and the serial number is valid.
\<close>

theorem serial_number_roundtrip:
  "SerialNumberToInt (IntToSerialNumber S) = Inr (S AND mask 48) \<and>
   MACToInt (SerialToMAC (IntToSerialNumber S)) = S AND mask 48 \<and>
   SerialNumberToOUI (IntToSerialNumber S) = drop_bit 24 S AND mask 24 \<and>
   ValidSerialNumber (IntToSerialNumber S) \<and> NormalizeMac (SerialToMAC (IntToSerialNumber S)) = (IntToSerialNumber S, True)"
proof -
  let ?s = "IntToSerialNumber S"
  have len: "length ?s = 12" and hex: "list_all isxdigit ?s" and low: "list_all (\<lambda>c. \<not> is_upper c) ?s"
    using serial_digits_hex [of 12 S] by (auto simp: IntToSerialNumber_def list_all_iff)
  have num: "hex_number ?s = unat S mod 2 ^ 48" using hex_number_serial [of 12 S] by (simp add: IntToSerialNumber_def)
  have word: "of_nat (unat S mod 2 ^ n) = S AND mask n" for S :: u64 and n
    by (simp add: take_bit_eq_mask [symmetric] take_bit_eq_mod [symmetric] of_nat_take_bit)
  have colon: "CHR '':'' \<notin> set ?s" "CHR ''-'' \<notin> set ?s" using hex by (auto simp: list_all_iff isxdigit_def is_digit_def)
  have mac: "filter (\<lambda>c. c \<noteq> CHR '':'') (SerialToMAC ?s) = ?s" by (rule serial_to_mac_digits [OF len hex])
  have "SerialNumberToInt ?s = Inr (S AND mask 48)"
    using stoull16_digits [OF _ hex] len num word [of S 48] by (force simp: SerialNumberToInt_def)
  moreover have "MACToInt (SerialToMAC ?s) = S AND mask 48"
    using mac_loop_number [OF colon(1), of "[]"] num word [of S 48]
    by (simp add: MACToInt_def mac_loop_colons [of _ "SerialToMAC _"] mac hex_number_def)
  moreover have "SerialNumberToOUI ?s = drop_bit 24 S AND mask 24"
  proof -
    have "?s = serial_digits 6 (drop_bit 24 S) @ serial_digits 6 S"
      using serial_digits_add [of 6 6 S] by (simp add: IntToSerialNumber_def)
    moreover have "hex_number (serial_digits 6 (drop_bit 24 S)) = unat (drop_bit 24 S) mod 2 ^ 24"
      using hex_number_serial [of 6 "drop_bit 24 S"] by simp
    moreover have "list_all isxdigit (serial_digits 6 (drop_bit 24 S))"
      using serial_digits_hex [of 6 "drop_bit 24 S"] by (auto simp: list_all_iff)
    ultimately show ?thesis
      using oui_loop_number [of "serial_digits 6 (drop_bit 24 S)" 0 "serial_digits 6 S" "[]"] word [of "drop_bit 24 S" 24]
      by (simp add: SerialNumberToOUI_def hex_number_def)
  qed
  moreover have "ValidSerialNumber ?s" using len hex by (simp add: ValidSerialNumber_def SERIAL_NUMBER_LENGTH_def)
  moreover have "NormalizeMac (SerialToMAC ?s) = (?s, True)"
  proof -
    have "map to_lower ?s = ?s" using low by (auto simp: to_lower_def list_all_iff intro: map_idI)
    moreover have "filter (\<lambda>c. c \<noteq> CHR ''-'') ?s = ?s" using colon by (auto simp: filter_id_conv)
    ultimately show ?thesis using len hex by (simp add: NormalizeMac_def mac)
  qed
  ultimately show ?thesis by blast
qed

subsection \<open>Times and durations\<close>

definition dec_number :: "string \<Rightarrow> int" where
  "dec_number ds = foldl (\<lambda>n c. 10 * n + (int (of_char c) - 48)) 0 ds"

text \<open>Values outside \<^verbatim>\<open>int\<close> are undefined in C and not wrapped here.\<close>

definition atoi :: "string \<Rightarrow> int" where
  "atoi s = (let (negative, r) = strip_sign (dropWhile isspace s); n = dec_number (takeWhile is_digit r)
     in if negative then - n else n)"

text \<open>\<open>tokens\<close> is the trimming tokenizer; the result holds the answer and the three numbers.\<close>

definition ParseTime :: "(string \<Rightarrow> string \<Rightarrow> string list) \<Rightarrow> string \<Rightarrow> bool \<times> int \<times> int \<times> int" where
  "ParseTime tokens Time =
     (case tokens Time '':'' of
        [h] \<Rightarrow> (True, atoi h, 0, 0)
      | [h, m] \<Rightarrow> (True, atoi h, atoi m, 0)
      | [h, m, s] \<Rightarrow> (True, atoi h, atoi m, atoi s)
      | _ \<Rightarrow> (False, 0, 0, 0))"

definition ParseDate :: "(string \<Rightarrow> string \<Rightarrow> string list) \<Rightarrow> string \<Rightarrow> bool \<times> int \<times> int \<times> int" where
  "ParseDate tokens Time =
     (case tokens Time ''-'' of
        [y, m, d] \<Rightarrow> (True, atoi y, atoi m, atoi d)
      | _ \<Rightarrow> (False, 0, 0, 0))"

definition CompareTime :: "int \<Rightarrow> int \<Rightarrow> int \<Rightarrow> int \<Rightarrow> int \<Rightarrow> int \<Rightarrow> bool" where
  "CompareTime H1 H2 M1 M2 S1 S2 =
     (if H1 < H2 then True
      else if H1 > H2 then False
      else if M1 < M2 then True
      else if M2 > M1 then False
      else if S1 \<le> S2 then True
      else False)"

text \<open>
  The second test of the minutes repeats the first, so within the same hour a time with more
  minutes still counts as not later when its seconds are fewer.
\<close>

lemma compare_time_meaning:
  "CompareTime h1 h2 m1 m2 s1 s2 \<longleftrightarrow> h1 < h2 \<or> h1 = h2 \<and> (m1 < m2 \<or> s1 \<le> s2)"
  by (auto simp: CompareTime_def)

lemma compare_time_wrong: "CompareTime 10 10 30 5 0 0"
  by (simp add: compare_time_meaning)

lemma compare_time_right:
  "m1 \<le> m2 \<Longrightarrow> CompareTime h1 h2 m1 m2 s1 s2 \<longleftrightarrow> h1 < h2 \<or> h1 = h2 \<and> (m1 < m2 \<or> m1 = m2 \<and> s1 \<le> s2)"
  by (auto simp: compare_time_meaning)

definition to_string_int :: "int \<Rightarrow> string" where
  "to_string_int n = (if n < 0 then CHR ''-'' # to_dec (nat (- n)) else to_dec (nat n))"

text \<open>\<^verbatim>\<open>Days * (24 * 60 * 60)\<close> is computed in \<^verbatim>\<open>int\<close>; \<open>None\<close> is its overflow.\<close>

definition int_fits :: "int \<Rightarrow> bool" where
  "int_fits n \<longleftrightarrow> - 2147483648 \<le> n \<and> n \<le> 2147483647"

definition as_int :: "u64 \<Rightarrow> int" where
  "as_int w = (let n = unat w mod 2 ^ 32 in if n < 2 ^ 31 then int n else int n - 2 ^ 32)"

definition SecondsToNiceText :: "u64 \<Rightarrow> string option" where
  "SecondsToNiceText Seconds =
     (let Days = as_int (Seconds div 86400) in
      if \<not> int_fits (Days * 86400) then None
      else
        (let Seconds = Seconds - of_int (Days * 86400);
             Hours = as_int (Seconds div 3600);
             Seconds = Seconds - of_int (Hours * 3600);
             Minutes = as_int (Seconds div 60);
             Seconds = Seconds - of_int (Minutes * 60)
         in Some (to_string_int Days @ '' days, '' @ to_string_int Hours @ '':'' @ to_string_int Minutes @ '':'' @
              to_dec (unat Seconds))))"

lemma as_int_small: "unat w < 2147483648 \<Longrightarrow> as_int w = int (unat w)"
  by (simp add: as_int_def)

lemma take_units:
  assumes "0 < k" "k < 2147483648" "unat w < 2147483648"
  shows "as_int (w div of_nat k) = int (unat w div k)"
    and "unat (w - of_int (int (unat w div k) * int k)) = unat w mod k"
proof -
  have "unat (w div of_nat k) = unat w div k" using assms by (simp add: unat_div unat_of_nat)
  moreover have "unat w div k < 2147483648" using assms(3) by (meson div_le_dividend le_less_trans)
  ultimately show "as_int (w div of_nat k) = int (unat w div k)" by (simp add: as_int_small)
  have "w = of_nat (unat w)" by simp
  also have "\<dots> = of_nat (unat w div k * k) + of_nat (unat w mod k)"
    unfolding of_nat_add [symmetric] by simp
  finally have "w - of_int (int (unat w div k) * int k) = of_nat (unat w mod k)" by (simp add: diff_eq_eq add.commute)
  moreover have "unat w mod k < k" using assms by simp
  then have "unat w mod k < 2 ^ 64" using assms(2) by (simp only: power_numeral) simp
  ultimately show "unat (w - of_int (int (unat w div k) * int k)) = unat w mod k" by (simp add: unat_of_nat)
qed

text \<open>Below \<open>2\<^sup>3\<^sup>1\<close> seconds the text shows the days, hours, minutes and seconds of the duration.\<close>

lemma nice_text:
  assumes "unat S < 2147483648"
  shows "SecondsToNiceText S = Some (to_dec (unat S div 86400) @ '' days, '' @ to_dec (unat S mod 86400 div 3600) @ '':'' @
    to_dec (unat S mod 3600 div 60) @ '':'' @ to_dec (unat S mod 60))"
proof -
  have D: "as_int (S div 86400) = int (unat S div 86400)"
    "unat (S - of_int (int (unat S div 86400) * 86400)) = unat S mod 86400"
    using take_units [of 86400 S] assms by simp_all
  define S1 where "S1 = S - of_int (int (unat S div 86400) * 86400)"
  have S1: "unat S1 = unat S mod 86400" using D(2) by (simp add: S1_def)
  then have small: "unat S1 < 2147483648" by (simp add: le_less_trans [OF mod_le_divisor])
  have H: "as_int (S1 div 3600) = int (unat S1 div 3600)"
    "unat (S1 - of_int (int (unat S1 div 3600) * 3600)) = unat S1 mod 3600"
    using take_units [of 3600 S1] small by simp_all
  define S2 where "S2 = S1 - of_int (int (unat S1 div 3600) * 3600)"
  have S2: "unat S2 = unat S mod 3600" using H(2) by (simp add: S2_def S1 mod_mod_cancel)
  then have small2: "unat S2 < 2147483648" by (simp add: le_less_trans [OF mod_le_divisor])
  have M: "as_int (S2 div 60) = int (unat S2 div 60)"
    "unat (S2 - of_int (int (unat S2 div 60) * 60)) = unat S2 mod 60"
    using take_units [of 60 S2] small2 by simp_all
  have fits: "int_fits (int (unat S div 86400) * 86400)"
    using assms by (simp add: int_fits_def)
  show ?thesis
    unfolding SecondsToNiceText_def Let_def D(1) S1_def [symmetric] H(1) S2_def [symmetric] M
    using fits by (simp add: to_string_int_def S1 S2 mod_mod_cancel)
qed

subsection \<open>Names of log levels and media types, file dumps\<close>

datatype log_prio = PRIO_FATAL | PRIO_CRITICAL | PRIO_ERROR | PRIO_WARNING | PRIO_NOTICE | PRIO_INFORMATION | PRIO_DEBUG | PRIO_TRACE

definition LogLevelToString :: "(log_prio \<Rightarrow> int) \<Rightarrow> int \<Rightarrow> string" where
  "LogLevelToString prio Level =
     (if Level = prio PRIO_DEBUG then ''debug''
      else if Level = prio PRIO_INFORMATION then ''information''
      else if Level = prio PRIO_FATAL then ''fatal''
      else if Level = prio PRIO_WARNING then ''warning''
      else if Level = prio PRIO_NOTICE then ''notice''
      else if Level = prio PRIO_CRITICAL then ''critical''
      else if Level = prio PRIO_ERROR then ''error''
      else if Level = prio PRIO_TRACE then ''trace''
      else ''none'')"

datatype MediaTypeEncodings = PLAIN | BINARY | BASE64

record MediaTypeEncoding =
  mt_Encoding :: MediaTypeEncodings
  mt_ContentType :: string

text \<open>\<open>extension\<close> is the path library's extension of a file name.\<close>

definition FindMediaType :: "(string \<Rightarrow> string) \<Rightarrow> string \<Rightarrow> MediaTypeEncoding" where
  "FindMediaType extension F =
     (let E = extension F; ty = (\<lambda>e t. \<lparr>mt_Encoding = e, mt_ContentType = t\<rparr>) in
      if E = ''png'' then ty BINARY ''image/png''
      else if E = ''gif'' then ty BINARY ''image/gif''
      else if E = ''jpeg'' \<or> E = ''jpg'' then ty BINARY ''image/jpeg''
      else if E = ''svg'' \<or> E = ''svgz'' then ty PLAIN ''image/svg+xml''
      else if E = ''html'' then ty PLAIN ''text/html''
      else if E = ''css'' then ty PLAIN ''text/css''
      else if E = ''js'' then ty PLAIN ''application/javascript''
      else if E = ''pcap'' then ty BINARY ''application/vnd.tcpdump.pcap''
      else if E = ''txt'' then ty PLAIN ''text/plain''
      else if E = ''tgz'' then ty BINARY ''application/tar+gzip''
      else if E = ''gz'' \<or> E = ''gzip'' then ty BINARY ''application/gzip''
      else ty BINARY ''application/octet-stream'')"

text \<open>
  The stream is good until a read fails: a file of \<open>n\<close> bytes is read \<open>n + 1\<close> times, and the last
  read gives \<^verbatim>\<open>EOF\<close>, the byte \<open>0xff\<close>. \<open>None\<close> is a file that cannot be opened.
\<close>

fun dump_loop :: "u8 list \<Rightarrow> nat \<Rightarrow> string" where
  "dump_loop [] Count = []"
| "dump_loop (C # cs) Count =
     (if Count \<noteq> 0 then '', '' else []) @ (if Count mod 32 = 0 then [CHR 0x0D, CHR 0x0A] else []) @
     ''0x'' @ [hex_char (unat (drop_bit 4 (C AND 0xf0))), hex_char (unat (C AND 0x0f))] @ dump_loop cs (Count + 1)"

definition BinaryFileToHexString :: "u8 list option \<Rightarrow> string" where
  "BinaryFileToHexString F = (case F of None \<Rightarrow> [] | Some bytes \<Rightarrow> dump_loop (bytes @ [0xff]) 0)"

text \<open>The dump of an empty file shows one byte.\<close>

lemma dump_of_nothing: "BinaryFileToHexString (Some []) = [CHR 0x0D, CHR 0x0A] @ ''0xff''"
  by (simp add: BinaryFileToHexString_def hex_char_def char_of_def bit_0)

subsection \<open>Generated passwords\<close>

definition lowercaseChars :: string where "lowercaseChars = ''abcdefghijklmnopqrstuvwxyz''"
definition uppercaseChars :: string where "uppercaseChars = ''ABCDEFGHIJKLMNOPQRSTUVWXYZ''"
definition digitChars :: string where "digitChars = ''0123456789''"
definition specialChars :: string where "specialChars = ''!@#$%^&*()_+[]{}|;:,.<>?''"

text \<open>\<open>g\<close> is the sequence of random numbers; the functions pass on how many are used up.\<close>

definition pick :: "(nat \<Rightarrow> nat) \<Rightarrow> nat \<Rightarrow> string \<Rightarrow> char" where
  "pick g k chars = chars ! (g k mod length chars)"

definition picks :: "(nat \<Rightarrow> nat) \<Rightarrow> nat \<Rightarrow> int \<Rightarrow> string \<Rightarrow> string" where
  "picks g k n chars = map (\<lambda>i. pick g (k + i) chars) [0..<nat n]"

fun fill :: "(nat \<Rightarrow> nat) \<Rightarrow> nat \<Rightarrow> nat \<Rightarrow> string" where
  "fill g k 0 = []"
| "fill g k (Suc n) =
     (let category = g k mod 4 in
      pick g (k + 1)
        (if category = 0 then lowercaseChars else if category = 1 then uppercaseChars
         else if category = 2 then digitChars else specialChars) # fill g (k + 2) n)"

definition generateStrongPassword ::
  "(nat \<Rightarrow> nat) \<Rightarrow> (string \<Rightarrow> string) \<Rightarrow> int \<Rightarrow> int \<Rightarrow> int \<Rightarrow> int \<Rightarrow> int \<Rightarrow> int \<Rightarrow> string" where
  "generateStrongPassword g shuffle minLength maxLength numDigits minLowercase minSpecial minUppercase =
     (if minLength < 1 \<or> minLength > maxLength \<or> minLowercase + minUppercase + numDigits + minSpecial > maxLength
      then ''Invalid parameters''
      else
        (let k1 = nat minLowercase; k2 = k1 + nat minUppercase; k3 = k2 + nat numDigits; k4 = k3 + nat minSpecial;
             password = picks g 0 minLowercase lowercaseChars @ picks g k1 minUppercase uppercaseChars @
               picks g k2 numDigits digitChars @ picks g k3 minSpecial specialChars;
             remainingLength = maxLength - int (length password)
         in shuffle (password @ fill g k4 (nat remainingLength))))"

definition count_in :: "string \<Rightarrow> string \<Rightarrow> nat" where
  "count_in chars s = length (filter (\<lambda>c. c \<in> set chars) s)"

lemma length_fill [simp]: "length (fill g k n) = n"
  by (induction n arbitrary: k) (auto simp: Let_def)

lemma length_picks [simp]: "length (picks g k n chars) = nat n"
  by (simp add: picks_def)

lemma pick_in: "chars \<noteq> [] \<Longrightarrow> pick g k chars \<in> set chars"
  by (simp add: pick_def)

lemma count_picks: "chars \<noteq> [] \<Longrightarrow> count_in chars (picks g k n chars) = nat n"
  by (simp add: count_in_def picks_def filter_map o_def pick_in)

lemma count_append [simp]: "count_in chars (u @ v) = count_in chars u + count_in chars v"
  by (simp add: count_in_def)

lemma chars_not_empty [simp]: "lowercaseChars \<noteq> []" "uppercaseChars \<noteq> []" "digitChars \<noteq> []" "specialChars \<noteq> []"
  by (simp_all add: lowercaseChars_def uppercaseChars_def digitChars_def specialChars_def)

lemma fill_alphabet: "set (fill g k n) \<subseteq> set (lowercaseChars @ uppercaseChars @ digitChars @ specialChars)"
  by (induction n arbitrary: k) (simp_all add: Let_def pick_in)

text \<open>
  For parameters that make sense the generated password has exactly the maximal length, whatever
  the random numbers are, and holds at least the requested number of lower-case letters,
  upper-case letters, digits and special characters and no other character.
\<close>

theorem generated_password:
  assumes "\<And>s. mset (shuffle s) = mset s"
    and "1 \<le> minLength" "minLength \<le> maxLength"
    and "0 \<le> numDigits" "0 \<le> minLowercase" "0 \<le> minSpecial" "0 \<le> minUppercase"
    and "minLowercase + minUppercase + numDigits + minSpecial \<le> maxLength"
  shows "let p = generateStrongPassword g shuffle minLength maxLength numDigits minLowercase minSpecial minUppercase in
    int (length p) = maxLength \<and> minLowercase \<le> int (count_in lowercaseChars p) \<and>
    minUppercase \<le> int (count_in uppercaseChars p) \<and> numDigits \<le> int (count_in digitChars p) \<and>
    minSpecial \<le> int (count_in specialChars p) \<and>
    set p \<subseteq> set (lowercaseChars @ uppercaseChars @ digitChars @ specialChars)"
proof -
  have len: "length (shuffle s) = length s" and st: "set (shuffle s) = set s"
    and cnt: "count_in cs (shuffle s) = count_in cs s" for s cs
    using assms(1) [of s] by (auto simp: count_in_def dest: mset_eq_length mset_eq_setD)
      (metis mset_filter size_mset)
  have sub: "set (picks g k n cs) \<subseteq> set cs" if "cs \<noteq> []" for k n cs using that pick_in by (auto simp: picks_def)
  let ?k1 = "nat minLowercase" and ?f = "fill g (nat minLowercase + nat minUppercase + nat numDigits + nat minSpecial)"
  obtain w where w: "w = picks g 0 minLowercase lowercaseChars @ picks g ?k1 minUppercase uppercaseChars @
      picks g (?k1 + nat minUppercase) numDigits digitChars @ picks g (?k1 + nat minUppercase + nat numDigits) minSpecial specialChars"
    by simp
  have p: "generateStrongPassword g shuffle minLength maxLength numDigits minLowercase minSpecial minUppercase =
      shuffle (w @ ?f (nat (maxLength - int (length w))))"
    using assms(2-) by (simp add: generateStrongPassword_def Let_def w)
  have "int (length w) = minLowercase + minUppercase + numDigits + minSpecial" using assms(4-7) by (simp add: w)
  moreover have "set w \<subseteq> set (lowercaseChars @ uppercaseChars @ digitChars @ specialChars)"
    unfolding w set_append by (intro Un_least) (use sub [OF chars_not_empty(1)] sub [OF chars_not_empty(2)]
      sub [OF chars_not_empty(3)] sub [OF chars_not_empty(4)] in blast)+
  moreover have "nat minLowercase \<le> count_in lowercaseChars w" "nat minUppercase \<le> count_in uppercaseChars w"
    "nat numDigits \<le> count_in digitChars w" "nat minSpecial \<le> count_in specialChars w"
    by (simp_all add: w count_picks)
  ultimately show ?thesis using assms(2-) fill_alphabet unfolding p Let_def len st cnt
    by (auto simp del: set_append simp add: set_append [of w])
qed

theorem generated_password_witness:
  "int (length (generateStrongPassword (\<lambda>k. 7 * k) rev 8 10 2 2 2 2)) = 10"
  using generated_password [of rev 8 10 2 2 2 2 "\<lambda>k. 7 * k"] by (simp add: Let_def)

end
