(* ===== verification/Utils_Cidr.thy ===== *)
theory Utils_Cidr
  imports Utils_Numbers
begin

text \<open>
  The address ranges of \<^verbatim>\<open>src/framework/CIDR.h\<close>. An address is kept as its 32-bit words read in network
  order, in which \<^verbatim>\<open>htonl\<close> of the sources is the identity. Parsing and ordering addresses and
  splitting text belong to the Poco library and are arguments. Reads outside an address and
  shifts outside the width are the value \<open>Undefined\<close>.
\<close>

datatype ip_addr = IPv4 u32 | IPv6 u32 u32 u32 u32

datatype net_error = InvalidAddress | Undefined

record net_lib =
  ip_parse :: "string \<Rightarrow> ip_addr option"
  ip_le :: "ip_addr \<Rightarrow> ip_addr \<Rightarrow> bool"
  ip_tokens :: "bool \<Rightarrow> string \<Rightarrow> char \<Rightarrow> string list"

primrec is_v4 :: "ip_addr \<Rightarrow> bool" where
  "is_v4 (IPv4 w) = True"
| "is_v4 (IPv6 a b c d) = False"

primrec words :: "ip_addr \<Rightarrow> u32 list" where
  "words (IPv4 w) = [w]"
| "words (IPv6 a b c d) = [a, b, c, d]"

definition net_mask :: "nat \<Rightarrow> u32" where
  "net_mask bits = push_bit (32 - bits) 0xFFFFFFFF"

definition cidr_match :: "u32 \<Rightarrow> u32 \<Rightarrow> u8 \<Rightarrow> net_error + bool" where
  "cidr_match addr net bits =
     (if bits = 0 then Inr True
      else if 32 < bits then Inl Undefined
      else Inr ((addr XOR net) AND net_mask (unat bits) = 0))"

definition cidr6_match :: "u32 list \<Rightarrow> u32 list \<Rightarrow> u8 \<Rightarrow> net_error + bool" where
  "cidr6_match a n bits =
     (let bits_whole = unat (drop_bit 5 bits); bits_incomplete = unat (bits AND 0x1F) in
      if length a < bits_whole \<or> length n < bits_whole then Inl Undefined
      else if take bits_whole a \<noteq> take bits_whole n then Inr False
      else if bits_incomplete \<noteq> 0 then
        (if length a \<le> bits_whole \<or> length n \<le> bits_whole then Inl Undefined
         else Inr ((a ! bits_whole XOR n ! bits_whole) AND net_mask bits_incomplete = 0))
      else Inr True)"

text \<open>\<^verbatim>\<open>strtol\<close> in base ten, saturating at 64 bits; \<open>None\<close> when there is no number.\<close>

definition ConvertStringToLong :: "string \<Rightarrow> u64 option" where
  "ConvertStringToLong S =
     (let (negative, r) = strip_sign (dropWhile isspace S); ds = takeWhile is_digit r;
          n = (if negative then - dec_number ds else dec_number ds)
      in if ds = [] then None else Some (of_int (max (- (2 ^ 63)) (min (2 ^ 63 - 1) n))))"

text \<open>The mask length is cut to eight bits by the call; the family of \<open>IP\<close> is not compared.\<close>

definition CidrIPinRange :: "net_lib \<Rightarrow> ip_addr \<Rightarrow> string \<Rightarrow> net_error + bool" where
  "CidrIPinRange N IP R =
     (let TimeTokens = ip_tokens N True R CHR ''/'' in
      case TimeTokens of
        [] \<Rightarrow> Inl Undefined
      | first # _ \<Rightarrow>
          (case ip_parse N first of
             None \<Rightarrow> Inr False
           | Some RangeIP \<Rightarrow>
               if length TimeTokens = 2 then
                 (case ConvertStringToLong (TimeTokens ! 1) of
                    None \<Rightarrow> Inr False
                  | Some MaskLength \<Rightarrow>
                      if is_v4 RangeIP then cidr_match (hd (words RangeIP)) (hd (words IP)) (ucast MaskLength)
                      else cidr6_match (words RangeIP) (words IP) (ucast MaskLength))
               else Inr False))"

definition try_parse :: "net_lib \<Rightarrow> string \<Rightarrow> bool" where
  "try_parse N s \<longleftrightarrow> ip_parse N s \<noteq> None"

text \<open>An address that was not parsed stays the IPv4 wildcard.\<close>

definition parsed_or_zero :: "net_lib \<Rightarrow> string \<Rightarrow> ip_addr" where
  "parsed_or_zero N s = (case ip_parse N s of None \<Rightarrow> IPv4 0 | Some a \<Rightarrow> a)"

definition ValidateRange :: "net_lib \<Rightarrow> string \<Rightarrow> bool" where
  "ValidateRange N R =
     (case ip_tokens N False R CHR ''-'' of
        [x, y] \<Rightarrow>
          if \<not> try_parse N x \<and> try_parse N y then False
          else is_v4 (parsed_or_zero N x) = is_v4 (if try_parse N x then IPv4 0 else parsed_or_zero N y)
      | _ \<Rightarrow>
          (let Tokens = ip_tokens N False R CHR '','' in
           if 1 < length Tokens then list_all (try_parse N) Tokens
           else (case ip_tokens N False R CHR ''/'' of
               [x, y] \<Rightarrow> if \<not> try_parse N x then False else if atoi y = 0 then False else True
             | _ \<Rightarrow> try_parse N R)))"

definition ip_parse_throw :: "net_lib \<Rightarrow> string \<Rightarrow> net_error + ip_addr" where
  "ip_parse_throw N s = (case ip_parse N s of None \<Rightarrow> Inl InvalidAddress | Some a \<Rightarrow> Inr a)"

fun any_of :: "('a \<Rightarrow> 'e + bool) \<Rightarrow> 'a list \<Rightarrow> 'e + bool" where
  "any_of f [] = Inr False"
| "any_of f (x # xs) = (case f x of Inl e \<Rightarrow> Inl e | Inr True \<Rightarrow> Inr True | Inr False \<Rightarrow> any_of f xs)"

definition IpInRange :: "net_lib \<Rightarrow> ip_addr \<Rightarrow> string \<Rightarrow> net_error + bool" where
  "IpInRange N target R =
     (case ip_tokens N False R CHR ''-'' of
        [x, y] \<Rightarrow>
          (case ip_parse_throw N x of Inl e \<Rightarrow> Inl e | Inr a \<Rightarrow>
           (case ip_parse_throw N y of Inl e \<Rightarrow> Inl e | Inr b \<Rightarrow>
            if is_v4 target \<noteq> is_v4 a then Inr False else Inr (ip_le N a target \<and> ip_le N target b)))
      | _ \<Rightarrow>
          (let Tokens = ip_tokens N False R CHR '','' in
           if 1 < length Tokens then
             any_of (\<lambda>Element. map_sum id (\<lambda>a. a = target) (ip_parse_throw N Element)) Tokens
           else if length (ip_tokens N False R CHR ''/'') = 2 then CidrIPinRange N target R
           else map_sum id (\<lambda>a. a = target) (ip_parse_throw N R)))"

definition IpInRanges :: "net_lib \<Rightarrow> string \<Rightarrow> string list \<Rightarrow> net_error + bool" where
  "IpInRanges N IP R = (case ip_parse N IP of None \<Rightarrow> Inr False | Some Target \<Rightarrow> any_of (IpInRange N Target) R)"

definition ValidateIpRanges :: "net_lib \<Rightarrow> string list \<Rightarrow> bool" where
  "ValidateIpRanges N Ranges = list_all (ValidateRange N) Ranges"

fun ip_bytes :: "ip_addr \<Rightarrow> u8 list" where
  "ip_bytes a = concat (map (\<lambda>w. [ucast (drop_bit 24 w), ucast (drop_bit 16 w), ucast (drop_bit 8 w), ucast w]) (words a))"

definition IPtoInt :: "net_lib \<Rightarrow> string \<Rightarrow> u32" where
  "IPtoInt N A =
     (case ip_parse N A of None \<Rightarrow> 0
      | Some IP \<Rightarrow> foldl (\<lambda>Result i. push_bit 8 Result + ucast i) 0 (ip_bytes IP))"

definition ValidIP :: "net_lib \<Rightarrow> string \<Rightarrow> bool" where
  "ValidIP N IPstr = try_parse N IPstr"

subsection \<open>Prefixes\<close>

text \<open>Bit \<open>k\<close> of an address, counted from the most significant one.\<close>

definition addr_bit :: "u32 list \<Rightarrow> nat \<Rightarrow> bool" where
  "addr_bit ws k = bit (ws ! (k div 32)) (31 - k mod 32)"

lemma bit_net_mask: "bits \<le> 32 \<Longrightarrow> bit (net_mask bits) n \<longleftrightarrow> n < 32 \<and> 32 - bits \<le> n"
proof -
  have "net_mask bits = push_bit (32 - bits) (mask 32)" by (simp add: net_mask_def mask_eq_exp_minus_1)
  then show "bits \<le> 32 \<Longrightarrow> ?thesis" by (auto simp: bit_simps)
qed

lemma masked_equal:
  assumes "bits \<le> 32"
  shows "(a XOR n) AND net_mask bits = 0 \<longleftrightarrow> (\<forall>k<bits. bit a (31 - k) = bit n (31 - k))"
proof -
  have "(a XOR n) AND net_mask bits = 0 \<longleftrightarrow> (\<forall>i<32. 32 - bits \<le> i \<longrightarrow> bit a i = bit n i)"
    using assms by (auto simp: bit_eq_iff bit_simps bit_net_mask)
  also have "\<dots> \<longleftrightarrow> (\<forall>k<bits. bit a (31 - k) = bit n (31 - k))"
  proof safe
    fix i :: nat
    assume *: "\<forall>k<bits. bit a (31 - k) = bit n (31 - k)" and i: "i < 32" "32 - bits \<le> i"
    then have "31 - (31 - i) = i" "31 - i < bits" using assms by linarith+
    with * show "bit a i \<Longrightarrow> bit n i" "bit n i \<Longrightarrow> bit a i" by metis+
  qed (use assms in auto)
  finally show ?thesis .
qed

lemma word_from_top: "(w :: u32) = v \<longleftrightarrow> (\<forall>j<32. bit w (31 - j) = bit v (31 - j))"
proof
  assume *: "\<forall>j<32. bit w (31 - j) = bit v (31 - j)"
  show "w = v"
  proof (rule bit_word_eqI)
    fix i assume "i < LENGTH(32)"
    then have "31 - (31 - i) = i" "31 - i < 32" by simp_all
    with * show "bit w i = bit v i" by metis
  qed
qed simp

lemma all_less_add: "(\<forall>k < x + r. P k) \<longleftrightarrow> (\<forall>k < x. P k) \<and> (\<forall>j < r. P (x + j))" for x r :: nat
  by (metis add_diff_inverse_nat nat_add_left_cancel_less trans_less_add1)

lemma words_equal: "take m a = take m n \<longleftrightarrow> (\<forall>k < 32 * m. addr_bit a k = addr_bit n k)"
  if "m \<le> length a" "m \<le> length n"
proof -
  have "take m a = take m n \<longleftrightarrow> (\<forall>i<m. a ! i = n ! i)" using that by (auto simp: list_eq_iff_nth_eq)
  also have "\<dots> \<longleftrightarrow> (\<forall>i<m. \<forall>j<32. bit (a ! i) (31 - j) = bit (n ! i) (31 - j))"
    by (subst word_from_top) (rule refl)
  also have "\<dots> \<longleftrightarrow> (\<forall>k < 32 * m. addr_bit a k = addr_bit n k)"
  proof safe
    fix k assume "\<forall>i<m. \<forall>j<32. bit (a ! i) (31 - j) = bit (n ! i) (31 - j)" "k < 32 * m"
    then show "addr_bit a k \<Longrightarrow> addr_bit n k" "addr_bit n k \<Longrightarrow> addr_bit a k"
      by (simp_all add: addr_bit_def less_mult_imp_div_less mult.commute)
  next
    fix i j :: nat assume *: "\<forall>k < 32 * m. addr_bit a k = addr_bit n k" and ij: "i < m" "j < 32"
    then have "addr_bit a (32 * i + j) = addr_bit n (32 * i + j)" by simp
    with ij show "bit (a ! i) (31 - j) \<Longrightarrow> bit (n ! i) (31 - j)" "bit (n ! i) (31 - j) \<Longrightarrow> bit (a ! i) (31 - j)"
      by (simp_all add: addr_bit_def)
  qed
  finally show ?thesis .
qed

lemma u8_parts: "unat (drop_bit 5 (b :: u8)) = unat b div 32" "unat (b AND 0x1F) = unat b mod 32"
proof -
  show "unat (drop_bit 5 b) = unat b div 32" by (simp add: drop_bit_eq_div unat_div)
  have "b AND 0x1F = take_bit 5 b" by (simp add: take_bit_eq_mask mask_eq_exp_minus_1)
  then show "unat (b AND 0x1F) = unat b mod 32" by (simp add: take_bit_eq_mod unat_mod)
qed

lemma cidr6_prefix:
  assumes "length a = 4" "length n = 4" "unat bits \<le> 128"
  shows "cidr6_match a n bits = Inr (\<forall>k < unat bits. addr_bit a k = addr_bit n k)"
proof -
  define m r where "m = unat bits div 32" and "r = unat bits mod 32"
  have bits: "unat bits = 32 * m + r" "r < 32" by (simp_all add: m_def r_def)
  have m: "m \<le> 4" "r \<noteq> 0 \<Longrightarrow> m < 4" using assms(3) bits by linarith+
  have split: "(\<forall>k < unat bits. addr_bit a k = addr_bit n k) \<longleftrightarrow>
      (\<forall>k < 32 * m. addr_bit a k = addr_bit n k) \<and> (\<forall>j < r. addr_bit a (32 * m + j) = addr_bit n (32 * m + j))"
    unfolding bits by (rule all_less_add)
  have tail: "(\<forall>j < r. addr_bit a (32 * m + j) = addr_bit n (32 * m + j)) \<longleftrightarrow> (a ! m XOR n ! m) AND net_mask r = 0"
    using bits(2) by (subst masked_equal) (auto simp: addr_bit_def)
  have "r = 0 \<Longrightarrow> (a ! m XOR n ! m) AND net_mask r = 0" by (simp add: masked_equal)
  then show ?thesis unfolding split tail
    using m assms(1,2) words_equal [of m a n]
    by (auto simp: cidr6_match_def u8_parts m_def [symmetric] r_def [symmetric])
qed

lemma cidr4_prefix:
  assumes "unat bits \<le> 32"
  shows "cidr_match a n bits = Inr (\<forall>k < unat bits. addr_bit [a] k = addr_bit [n] k)"
proof -
  have "\<not> 32 < bits" using assms by (simp add: word_less_nat_alt)
  moreover have "(\<forall>k < unat bits. addr_bit [a] k = addr_bit [n] k) \<longleftrightarrow> (a XOR n) AND net_mask (unat bits) = 0"
    using assms by (simp add: masked_equal addr_bit_def)
  moreover have "bits = 0 \<Longrightarrow> (a XOR n) AND net_mask (unat bits) = 0" by (simp add: masked_equal)
  ultimately show ?thesis by (auto simp: cidr_match_def)
qed

text \<open>
  A prefix of up to 32 bits of an IPv4 range, or up to 128 bits of an IPv6 range, matches an address of the same
  family exactly when the two agree on that many leading bits.
\<close>

theorem cidr_prefix:
  assumes "ip_tokens N True R CHR ''/'' = [x, y]" and "ip_parse N x = Some net" and "ConvertStringToLong y = Some L"
    and "is_v4 ip = is_v4 net" and "unat L \<le> (if is_v4 net then 32 else 128)"
  shows "CidrIPinRange N ip R = Inr (\<forall>k < unat L. addr_bit (words net) k = addr_bit (words ip) k)"
proof -
  have L: "unat (ucast L :: u8) = unat L"
    using assms(5) by (auto simp: unsigned_ucast_eq take_bit_nat_eq_self split: if_splits)
  show ?thesis
  proof (cases net)
    case (IPv4 w)
    then obtain v where "ip = IPv4 v" using assms(4) by (cases ip) auto
    with IPv4 assms L show ?thesis by (simp add: CidrIPinRange_def cidr4_prefix)
  next
    case (IPv6 a b c d)
    then obtain a' b' c' d' where "ip = IPv6 a' b' c' d'" using assms(4) by (cases ip) auto
    with IPv6 assms L show ?thesis by (simp add: CidrIPinRange_def cidr6_prefix)
  qed
qed

text \<open>An instance of the library: one address, and a tokenizer that splits at the delimiter.\<close>

definition demo_net :: net_lib where
  "demo_net = \<lparr>ip_parse = (\<lambda>s. if s = ''10.1.0.0'' then Some (IPv4 0x0A010000) else None),
     ip_le = (\<lambda>a b. a = b), ip_tokens = (\<lambda>_ s d. Split s d)\<rparr>"

lemma demo_tokens:
  "Split ''10.1.0.0/16'' CHR ''/'' = [''10.1.0.0'', ''16'']" "Split ''10.1.0.0/256'' CHR ''/'' = [''10.1.0.0'', ''256'']"
  "Split ''x-y'' CHR ''-'' = [''x'', ''y'']" "Split ''10.1.0.0/16'' CHR ''-'' = [''10.1.0.0/16'']"
  using Split_join [of "[''10.1.0.0'', ''16'']" "CHR ''/''"] Split_join [of "[''10.1.0.0'', ''256'']" "CHR ''/''"]
    Split_join [of "[''x'', ''y'']" "CHR ''-''"] Split_join [of "[''10.1.0.0/16'']" "CHR ''-''"] by simp_all

theorem cidr_prefix_witness:
  "CidrIPinRange demo_net (IPv4 0x0A01FFFF) ''10.1.0.0/16'' =
    Inr (\<forall>k < unat (16 :: u64). addr_bit [0x0A010000] k = addr_bit [0x0A01FFFF] k)"
proof -
  have "ConvertStringToLong ''16'' = Some 16"
    by (simp add: ConvertStringToLong_def strip_sign_def isspace_def is_digit_def dec_number_def)
  then show ?thesis
    using cidr_prefix [of demo_net "''10.1.0.0/16''" "''10.1.0.0''" "''16''" "IPv4 0x0A010000" 16 "IPv4 0x0A01FFFF"]
    by (simp add: demo_net_def demo_tokens)
qed

text \<open>A mask length of 256 is cut to zero and matches every address; an unparsable interval counts as valid.\<close>

lemma mask_256_matches_all: "CidrIPinRange demo_net ip ''10.1.0.0/256'' = Inr True"
  by (simp add: CidrIPinRange_def demo_net_def demo_tokens ConvertStringToLong_def strip_sign_def isspace_def
    is_digit_def dec_number_def cidr_match_def)

lemma junk_interval_valid: "ValidateRange demo_net ''x-y''"
  by (simp add: ValidateRange_def demo_net_def demo_tokens try_parse_def parsed_or_zero_def)

lemma interval_end_unchecked:
  assumes "ip_tokens N False R CHR ''-'' = [x, y]"
  shows "ValidateRange N R \<longleftrightarrow> (case ip_parse N x of Some a \<Rightarrow> is_v4 a | None \<Rightarrow> ip_parse N y = None)"
  by (auto simp: ValidateRange_def assms try_parse_def parsed_or_zero_def split: option.splits)

end
