(* ===== verification/Orm_Sql.thy ===== *)
theory Orm_Sql
  imports User_Store Ordered_Map
begin

text \<open>
  The text layer of the object mapper \<^verbatim>\<open>src/framework/orm.h\<close>: column types, the statements a table is made and
  used with, the numbering of parameters for PostgreSQL, the builders for conditions, orders and
  ranges, and the two loops over records, \<^verbatim>\<open>Iterate\<close> and \<^verbatim>\<open>ManipulateVectorMember\<close>.
\<close>

subsection \<open>Columns\<close>

datatype DBType = sqlite | pgsql | mysql

datatype FieldType = FT_INT | FT_BIGINT | FT_TEXT | FT_VARCHAR | FT_BLOB | FT_BOOLEAN | FT_REAL

datatype Indextype = ASC | DESC

record sql_field =
  f_Name :: string
  f_Type :: FieldType
  f_Size :: int
  f_Index :: bool

definition Field_typed :: "string \<Rightarrow> FieldType \<Rightarrow> int \<Rightarrow> bool \<Rightarrow> sql_field" where
  "Field_typed N T S I = \<lparr>f_Name = N, f_Type = T, f_Size = S, f_Index = I\<rparr>"

definition Field_text :: "string \<Rightarrow> sql_field" where
  "Field_text N = \<lparr>f_Name = N, f_Type = FT_TEXT, f_Size = 0, f_Index = False\<rparr>"

definition Field_sized :: "string \<Rightarrow> int \<Rightarrow> bool \<Rightarrow> sql_field" where
  "Field_sized N S I = \<lparr>f_Name = N, f_Type = (if 0 < S \<and> S < 255 then FT_VARCHAR else FT_TEXT), f_Size = S, f_Index = I\<rparr>"

definition int_text :: "int \<Rightarrow> string" where
  "int_text n = (if n < 0 then CHR ''-'' # to_dec (nat (- n)) else to_dec (nat n))"

definition FieldTypeToChar :: "DBType \<Rightarrow> FieldType \<Rightarrow> int \<Rightarrow> string" where
  "FieldTypeToChar Type T Size = (case T of
       FT_INT \<Rightarrow> ''INT''
     | FT_BIGINT \<Rightarrow> ''BIGINT''
     | FT_TEXT \<Rightarrow> ''TEXT''
     | FT_BOOLEAN \<Rightarrow> ''BOOLEAN''
     | FT_VARCHAR \<Rightarrow> if Size \<noteq> 0 then ''VARCHAR('' @ int_text Size @ '')'' else ''TEXT''
     | FT_BLOB \<Rightarrow> (case Type of mysql \<Rightarrow> ''LONGBLOB'' | pgsql \<Rightarrow> ''BYTEA'' | sqlite \<Rightarrow> ''BLOB'')
     | FT_REAL \<Rightarrow> ''REAL'')"

fun sep_list :: "string \<Rightarrow> string list \<Rightarrow> string" where
  "sep_list sep [] = []"
| "sep_list sep [x] = x"
| "sep_list sep (x # xs) = x @ sep @ sep_list sep xs"

definition FieldName :: "poco \<Rightarrow> sql_field \<Rightarrow> string" where
  "FieldName P f = str_toLower P (f_Name f)"

definition CreateFields :: "poco \<Rightarrow> DBType \<Rightarrow> sql_field list \<Rightarrow> string" where
  "CreateFields P Type Fields = sep_list '', '' (map (\<lambda>i. FieldName P i @ '' '' @ FieldTypeToChar Type (f_Type i) (f_Size i)
     @ (if f_Index i then '' unique primary key'' else [])) Fields)"

definition SelectFields :: "poco \<Rightarrow> sql_field list \<Rightarrow> string" where
  "SelectFields P Fields = sep_list '', '' (map (FieldName P) Fields)"

definition UpdateFields :: "poco \<Rightarrow> sql_field list \<Rightarrow> string" where
  "UpdateFields P Fields = sep_list '', '' (map (\<lambda>i. FieldName P i @ ''=?'') Fields)"

definition SelectList :: "sql_field list \<Rightarrow> string" where
  "SelectList Fields = (if Fields = [] then [] else ''('') @ sep_list '', '' (map (\<lambda>i. ''?'') Fields) @ '')''"

definition ValidFieldName :: "poco \<Rightarrow> sql_field list \<Rightarrow> string \<Rightarrow> bool" where
  "ValidFieldName P Fields name \<longleftrightarrow> str_toLower P name \<in> set (map (FieldName P) Fields)"

subsection \<open>Tables\<close>

record sql_index =
  ix_Name :: string
  ix_Entries :: "(string \<times> Indextype) list"

definition order_text :: "Indextype \<Rightarrow> string" where
  "order_text t = (if t = ASC then '' ASC'' else '' DESC'')"

definition index_line :: "poco \<Rightarrow> string \<Rightarrow> sql_index \<Rightarrow> string" where
  "index_line P TableName j = ''CREATE INDEX IF NOT EXISTS '' @ ix_Name j @ '' ON '' @ TableName @ '' (''
     @ sep_list '' , '' (map (\<lambda>(n, t). str_toLower P n @ order_text t) (ix_Entries j)) @ '' )''"

definition mysql_index :: "poco \<Rightarrow> sql_index \<Rightarrow> string" where
  "mysql_index P j = '' INDEX '' @ ix_Name j @ '' ( ''
     @ sep_list '' ,'' (map (\<lambda>(n, t). str_toLower P n @ order_text t) (ix_Entries j)) @ '' ) ''"

definition IndexCreation :: "poco \<Rightarrow> DBType \<Rightarrow> string \<Rightarrow> sql_index list \<Rightarrow> string list" where
  "IndexCreation P Type TableName Indexes =
     (if Indexes = [] then []
      else if Type = mysql then [sep_list '', '' (map (mysql_index P) Indexes)]
      else map (index_line P TableName) Indexes)"

definition table_statement :: "poco \<Rightarrow> DBType \<Rightarrow> string \<Rightarrow> sql_field list \<Rightarrow> string" where
  "table_statement P Type TableName Fields =
     ''create table if not exists '' @ TableName @ '' ( '' @ CreateFields P Type Fields @ '' )''"

text \<open>The statements \<^verbatim>\<open>Create\<close> runs.\<close>

definition Create :: "poco \<Rightarrow> DBType \<Rightarrow> string \<Rightarrow> sql_field list \<Rightarrow> sql_index list \<Rightarrow> string list" where
  "Create P Type TableName Fields Indexes =
     (let idx = IndexCreation P Type TableName Indexes; tab = table_statement P Type TableName Fields
      in if Type = mysql then (if idx = [] then [tab] else [tab @ '', '' @ hd idx @ '' )''])
         else tab # idx)"

definition insert_statement :: "poco \<Rightarrow> string \<Rightarrow> sql_field list \<Rightarrow> string" where
  "insert_statement P TableName Fields =
     ''insert into  '' @ TableName @ '' ( '' @ SelectFields P Fields @ '' ) values '' @ SelectList Fields"

definition update_statement :: "poco \<Rightarrow> string \<Rightarrow> sql_field list \<Rightarrow> string \<Rightarrow> string" where
  "update_statement P TableName Fields name =
     ''update '' @ TableName @ '' set '' @ UpdateFields P Fields @ '' where '' @ name @ ''=?''"

definition select_statement :: "poco \<Rightarrow> string \<Rightarrow> sql_field list \<Rightarrow> string \<Rightarrow> string" where
  "select_statement P TableName Fields name =
     ''select '' @ SelectFields P Fields @ '' from '' @ TableName @ '' where '' @ name @ ''=?'' @ '' limit 1''"

definition delete_statement :: "string \<Rightarrow> string \<Rightarrow> string" where
  "delete_statement TableName name = ''delete from '' @ TableName @ '' where '' @ name @ ''=?''"

subsection \<open>Parameters\<close>

fun convert_from :: "nat \<Rightarrow> string \<Rightarrow> string" where
  "convert_from Idx [] = []"
| "convert_from Idx (i # S) =
     (if i = CHR ''?'' then CHR ''$'' # to_dec Idx @ convert_from (Suc Idx) S else i # convert_from Idx S)"

definition ConvertParams :: "DBType \<Rightarrow> string \<Rightarrow> string" where
  "ConvertParams Type S = (if Type \<noteq> pgsql then S else convert_from 1 S)"

subsection \<open>Conditions, orders and ranges\<close>

datatype where_value = WStr string | WBool bool | WNum int

fun value_text :: "where_value \<Rightarrow> string" where
  "value_text (WStr v) = CHR 0x27 # Escape v @ [CHR 0x27]"
| "value_text (WBool b) = (if b then ''true'' else ''false'')"
| "value_text (WNum n) = int_text n"

text \<open>Empty texts are left out.\<close>

fun WHERE_AND_from :: "string \<Rightarrow> (string \<times> where_value) list \<Rightarrow> string" where
  "WHERE_AND_from Result [] = Result"
| "WHERE_AND_from Result ((fieldName, Value) # args) =
     (if Value = WStr [] then WHERE_AND_from Result args
      else WHERE_AND_from ((if Result \<noteq> [] then Result @ '' and '' else Result) @ fieldName @ ''='' @ value_text Value) args)"

definition WHERE_AND :: "(string \<times> where_value) list \<Rightarrow> string" where
  "WHERE_AND args = WHERE_AND_from [] args"

datatype SqlComparison = EQ | NEQ | LT | LTE | GT | GTE

datatype SqlBinaryOp = AND_OP | OR_OP

definition SQLCOMPS :: "SqlComparison \<Rightarrow> string" where
  "SQLCOMPS O1 = (case O1 of EQ \<Rightarrow> ''='' | NEQ \<Rightarrow> ''!='' | LT \<Rightarrow> ''<'' | LTE \<Rightarrow> ''<='' | GT \<Rightarrow> ''>'' | GTE \<Rightarrow> ''>='')"

definition BOPS :: "SqlBinaryOp \<Rightarrow> string" where
  "BOPS B = (case B of AND_OP \<Rightarrow> '' and '' | OR_OP \<Rightarrow> '' or '')"

definition OP_value :: "string \<Rightarrow> SqlComparison \<Rightarrow> where_value \<Rightarrow> string" where
  "OP_value F O1 V = ''('' @ F @ SQLCOMPS O1 @ value_text V @ '')''"

text \<open>The recursion of the variadic template: the operands after the first, each with its operator.\<close>

fun OP_open :: "string \<Rightarrow> (SqlBinaryOp \<times> string) list \<Rightarrow> string" where
  "OP_open P1 [] = P1"
| "OP_open P1 [(BOP, P2)] = P1 @ BOPS BOP @ P2 @ '')''"
| "OP_open P1 ((BOP, P2) # More) = P1 @ BOPS BOP @ OP_open P2 More @ '')''"

fun OP :: "string \<Rightarrow> (SqlBinaryOp \<times> string) list \<Rightarrow> string" where
  "OP P1 [] = P1"
| "OP P1 [(BOP, P2)] = ''('' @ P1 @ BOPS BOP @ P2 @ '')''"
| "OP P1 ((BOP, P2) # More) = ''('' @ P1 @ BOPS BOP @ OP_open P2 More"

definition ComputeRange :: "DBType \<Rightarrow> u64 \<Rightarrow> u64 \<Rightarrow> string" where
  "ComputeRange Type From HowMany =
     (if Type = sqlite then '' LIMIT '' @ to_dec (unat From) @ '', '' @ to_dec (unat HowMany) @ '' ''
      else '' LIMIT '' @ to_dec (unat HowMany) @ '' OFFSET '' @ to_dec (unat From) @ '' '')"

text \<open>One item of an order list is a column and a direction.\<close>

definition order_item :: "poco \<Rightarrow> sql_field list \<Rightarrow> string \<Rightarrow> string option" where
  "order_item P Fields i =
     (case str_tokens P CHR '':'' i of
        [n, d] \<Rightarrow>
          if d \<noteq> ''a'' \<and> d \<noteq> ''d'' then None
          else if \<not> ValidFieldName P Fields n then None
          else Some (n @ (if d = ''a'' then '' ASC'' else '' DESC''))
      | _ \<Rightarrow> None)"

fun order_items :: "poco \<Rightarrow> sql_field list \<Rightarrow> string list \<Rightarrow> string list option" where
  "order_items P Fields [] = Some []"
| "order_items P Fields (i # items) =
     (case order_item P Fields i of
        None \<Rightarrow> None
      | Some t \<Rightarrow> map_option (\<lambda>ts. t # ts) (order_items P Fields items))"

text \<open>Success and the order; an empty list leaves the text it was given.\<close>

definition PrepareOrderBy :: "poco \<Rightarrow> sql_field list \<Rightarrow> string \<Rightarrow> string \<Rightarrow> bool \<times> string" where
  "PrepareOrderBy P Fields OrderByList OrderByString =
     (case order_items P Fields (str_tokens P CHR '','' OrderByList) of
        None \<Rightarrow> (False, OrderByString)
      | Some [] \<Rightarrow> (True, OrderByString)
      | Some ts \<Rightarrow> (True, '' ORDER BY '' @ sep_list '' , '' ts))"

subsection \<open>Loops over records\<close>

text \<open>
  The body of \<^verbatim>\<open>Iterate\<close>: the records of a batch are given to the callback, which keeps its own state and says whether
  to go on.
\<close>

fun visit :: "('r \<Rightarrow> 'c \<Rightarrow> bool \<times> 'c) \<Rightarrow> 'r list \<Rightarrow> 'c \<Rightarrow> bool \<times> 'c" where
  "visit F [] c = (True, c)"
| "visit F (i # Records) c = (case F i c of (go, c') \<Rightarrow> if go then visit F Records c' else (False, c'))"

text \<open>The loop over the batches, with a bound on their number: \<open>None\<close> when it is not enough.\<close>

fun iterate_from :: "env \<Rightarrow> ('t, 'r) db \<Rightarrow> ('r \<Rightarrow> 'c \<Rightarrow> bool \<times> 'c) \<Rightarrow> ('t \<Rightarrow> bool) \<Rightarrow> nat \<Rightarrow> nat \<Rightarrow> 'c \<Rightarrow> 'c option sec" where
  "iterate_from E D F W 0 Offset c = ret None"
| "iterate_from E D F W (Suc n) Offset c = do {
     (Records, got) \<leftarrow> GetRecords E D Offset 50 W;
     if got then
       (case visit F Records c of (go, c') \<Rightarrow>
          if \<not> go then ret (Some c')
          else if length Records < 50 then ret (Some c')
          else iterate_from E D F W n (Offset + 50) c')
     else ret (Some c)
   }"

definition Iterate :: "env \<Rightarrow> ('t, 'r) db \<Rightarrow> ('r \<Rightarrow> 'c \<Rightarrow> bool \<times> 'c) \<Rightarrow> ('t \<Rightarrow> bool) \<Rightarrow> nat \<Rightarrow> 'c \<Rightarrow> 'c option sec" where
  "Iterate E D F W n c = iterate_from E D F W n 0 c"

text \<open>
  The member is read and written with \<open>get\<close> and \<open>put\<close>. The result of the update is not looked at.
\<close>

definition vector_change :: "string \<Rightarrow> bool \<Rightarrow> string list \<Rightarrow> string list option" where
  "vector_change Child Add xs =
     (if Add then (if Child \<in> set xs then None else Some (sort (xs @ [Child])))
      else (if Child \<in> set xs then Some (remove1 Child xs) else None))"

definition ManipulateVectorMember :: "env \<Rightarrow> ('t, 'r) db \<Rightarrow> ('r \<Rightarrow> string list) \<Rightarrow> (string list \<Rightarrow> 'r \<Rightarrow> 'r) \<Rightarrow>
    string \<Rightarrow> string \<Rightarrow> string \<Rightarrow> bool \<Rightarrow> bool sec" where
  "ManipulateVectorMember E D get put F ParentUUID ChildUUID Add = do {
     found \<leftarrow> GetRecord E D F ParentUUID;
     case found of
       None \<Rightarrow> ret False
     | Some R \<Rightarrow>
         (case vector_change ChildUUID Add (get R) of
            None \<Rightarrow> ret False
          | Some xs \<Rightarrow> do {
              UpdateRecord E D F ParentUUID (put xs R);
              ret True
            })
   }"

definition in_use_name :: "string \<Rightarrow> string \<Rightarrow> string" where
  "in_use_name Prefix ChildUUID = Prefix @ '':'' @ ChildUUID"

subsection \<open>Statements bind their columns in order\<close>

lemma convert_append:
  "convert_from k (s @ t) = convert_from k s @ convert_from (k + length (filter (\<lambda>c. c = CHR ''?'') s)) t"
  by (induction k s rule: convert_from.induct) auto

lemma convert_plain: "CHR ''?'' \<notin> set s \<Longrightarrow> convert_from k s = s"
  by (induction k s rule: convert_from.induct) auto

fun numbered :: "nat \<Rightarrow> string list \<Rightarrow> string list" where
  "numbered k [] = []"
| "numbered k (x # xs) = (x @ ''$'' @ to_dec k) # numbered (Suc k) xs"

lemma no_marks: "CHR ''?'' \<notin> set s \<Longrightarrow> filter (\<lambda>c. c = CHR ''?'') s = []"
  by (auto simp: filter_empty_conv)

lemma sep_list_Cons: "xs \<noteq> [] \<Longrightarrow> sep_list sep (x # xs) = x @ sep @ sep_list sep xs"
  by (cases xs) simp_all

lemma convert_list:
  assumes "\<forall>x \<in> set xs. CHR ''?'' \<notin> set x" "CHR ''?'' \<notin> set sep"
  shows "convert_from k (sep_list sep (map (\<lambda>x. x @ ''?'') xs)) = sep_list sep (numbered k xs)
    \<and> length (filter (\<lambda>c. c = CHR ''?'') (sep_list sep (map (\<lambda>x. x @ ''?'') xs))) = length xs"
  using assms(1)
proof (induction xs arbitrary: k)
  case (Cons x xs)
  show ?case
  proof (cases "xs = []")
    case False
    then have "map (\<lambda>x. x @ ''?'') xs \<noteq> []" "numbered (Suc k) xs \<noteq> []" by (auto elim!: numbered.elims)
    then show ?thesis
      using Cons.IH [of "Suc k"] Cons.prems assms(2)
      by (simp add: sep_list_Cons convert_append convert_plain no_marks)
  qed (use Cons.prems in \<open>simp add: convert_append convert_plain no_marks\<close>)
qed simp

text \<open>The columns of a table with their parameters.\<close>

definition bound_columns :: "poco \<Rightarrow> sql_field list \<Rightarrow> string" where
  "bound_columns P Fields = sep_list '', '' (numbered 1 (map (\<lambda>f. FieldName P f @ ''='') Fields))"

text \<open>
  For PostgreSQL the statement that updates a record gives every column the parameter with the place of the column, and
  the condition the parameter behind them, whatever columns the table has.
\<close>

theorem update_binds_in_order:
  assumes "\<forall>f \<in> set Fields. CHR ''?'' \<notin> set (FieldName P f)" "CHR ''?'' \<notin> set TableName" "CHR ''?'' \<notin> set name"
  shows "ConvertParams pgsql (update_statement P TableName Fields name) =
    ''update '' @ TableName @ '' set '' @ bound_columns P Fields @ '' where '' @ name @ ''=$'' @ to_dec (1 + length Fields)"
proof -
  let ?cols = "map (\<lambda>f. FieldName P f @ ''='') Fields"
  have "UpdateFields P Fields = sep_list '', '' (map (\<lambda>x. x @ ''?'') ?cols)"
    by (simp add: UpdateFields_def comp_def)
  moreover have "\<forall>x \<in> set ?cols. CHR ''?'' \<notin> set x" using assms(1) by simp
  ultimately have "convert_from 1 (UpdateFields P Fields) = bound_columns P Fields"
    "length (filter (\<lambda>c. c = CHR ''?'') (UpdateFields P Fields)) = length Fields"
    using convert_list [of ?cols "'', ''" 1] by (simp_all add: bound_columns_def)
  then show ?thesis
    using assms(2,3)
    by (simp add: ConvertParams_def update_statement_def convert_append convert_plain no_marks)
qed

theorem update_binds_in_order_witness:
  "ConvertParams pgsql (update_statement poco_inst ''apikeys'' [Field_sized ''id'' 64 True, Field_text ''name''] ''id'') =
    ''update apikeys set id=$1, name=$2 where id=$3''"
proof -
  have digits: "to_dec 1 = ''1''" "to_dec 2 = ''2''" "to_dec 3 = ''3''"
    by code_simp+
  have names: "map (FieldName poco_inst) [Field_sized ''id'' 64 True, Field_text ''name''] = [''id'', ''name'']"
    using poco_inst_ok by (simp add: FieldName_def Field_sized_def Field_text_def poco_ok_def ascii_lower_def)
  show ?thesis
    using update_binds_in_order [of "[Field_sized ''id'' 64 True, Field_text ''name'']" poco_inst "''apikeys''" "''id''"] names digits
    by (simp add: bound_columns_def numeral_2_eq_2 numeral_3_eq_3)
qed

subsection \<open>A value stays a value\<close>

text \<open>The reader of a conjunction: the columns with the values the database sees. An unquoted value ends at a blank.\<close>

lemma sql_literal_shorter: "sql_literal s = Some (v, r) \<Longrightarrow> length r < length s"
  by (induction s arbitrary: v r rule: sql_literal.induct) (fastforce split: if_splits)+

definition read_value :: "string \<Rightarrow> ((string + string) \<times> string) option" where
  "read_value s =
     (case s of
        c # cs \<Rightarrow>
          if c = CHR 0x27 then map_option (\<lambda>(v, r). (Inl v, r)) (sql_literal cs)
          else Some (Inr (takeWhile (\<lambda>c. c \<noteq> CHR '' '') s), dropWhile (\<lambda>c. c \<noteq> CHR '' '') s)
      | [] \<Rightarrow> None)"

lemma read_value_length: "read_value s = Some (v, r) \<Longrightarrow> length r \<le> length s"
  by (auto simp: read_value_def le_SucI [OF length_dropWhile_le] dest!: sql_literal_shorter split: list.splits if_splits)

function parse_where :: "string \<Rightarrow> (string \<times> (string + string)) list option" where
  "parse_where s =
     (let f = takeWhile (\<lambda>c. c \<noteq> CHR ''='') s; r = dropWhile (\<lambda>c. c \<noteq> CHR ''='') s
      in if r = [] then None
         else case read_value (tl r) of
           None \<Rightarrow> None
         | Some (v, t) \<Rightarrow>
             if t = [] then Some [(f, v)]
             else if take 5 t = '' and '' then map_option (\<lambda>cs. (f, v) # cs) (parse_where (drop 5 t))
             else None)"
  by pat_completeness auto

termination
proof (relation "measure length")
  fix s :: string and f r x v and t :: string
  assume r: "r = dropWhile (\<lambda>c. c \<noteq> CHR ''='') s" "r \<noteq> []" and v: "read_value (tl r) = Some x" "(v, t) = x" and t: "t \<noteq> []"
  have "length t \<le> length (tl r)" using v read_value_length by (metis)
  moreover have "length r \<le> length s" using r by (simp add: length_dropWhile_le)
  moreover have "length (drop 5 t) < length t" using t by simp
  ultimately show "(drop 5 t, s) \<in> measure length" using r(2) by simp
qed simp

declare parse_where.simps [simp del]

fun seen_value :: "where_value \<Rightarrow> string + string" where
  "seen_value (WStr v) = Inl v"
| "seen_value v = Inr (value_text v)"

lemma char_blank_code: "of_char (CHR '' '') = (32 :: nat)" "of_char (CHR 0x27) = (39 :: nat)"
  by code_simp+

lemma value_plain: "x \<in> set (int_text n) \<Longrightarrow> x \<noteq> CHR '' '' \<and> x \<noteq> CHR 0x27"
proof -
  assume "x \<in> set (int_text n)"
  then have "x = CHR ''-'' \<or> (\<exists>d < 10. x = digit d)" by (auto simp: int_text_def dest!: to_dec_digits split: if_splits)
  moreover have "digit d \<noteq> CHR '' '' \<and> digit d \<noteq> CHR 0x27" if "d < 10" for d
    using digit_code [OF that] by (auto simp: char_blank_code)
  ultimately show ?thesis by auto
qed

lemma read_value_text:
  assumes "rest = [] \<or> (\<exists>r. rest = CHR '' '' # r)"
  shows "read_value (value_text v @ rest) = Some (seen_value v, rest)"
proof (cases v)
  case (WStr t)
  have "sql_literal (Escape t @ CHR 0x27 # rest) = Some (t, rest)"
    using assms by (intro escape_keeps_literal) auto
  then show ?thesis by (simp add: WStr read_value_def)
next
  case (WNum n)
  have "int_text n \<noteq> []" by (simp add: int_text_def to_dec_not_empty)
  then show ?thesis
    using assms value_plain [of _ n]
    by (cases "int_text n") (auto simp: WNum read_value_def takeWhile_append dropWhile_append)
qed (use assms in \<open>auto simp: read_value_def\<close>)


definition kept :: "(string \<times> where_value) list \<Rightarrow> (string \<times> where_value) list" where
  "kept = filter (\<lambda>(f, v). v \<noteq> WStr [])"

definition condition :: "string \<times> where_value \<Rightarrow> string" where
  "condition = (\<lambda>(f, v). f @ ''='' @ value_text v)"

lemma WHERE_AND_from_conditions:
  "Result \<noteq> [] \<Longrightarrow> WHERE_AND_from Result args = Result @ concat (map (\<lambda>a. '' and '' @ condition a) (kept args))"
  by (induction Result args rule: WHERE_AND_from.induct) (simp_all add: kept_def condition_def)

lemma WHERE_AND_conditions:
  "WHERE_AND args =
    (case kept args of [] \<Rightarrow> [] | a # as \<Rightarrow> condition a @ concat (map (\<lambda>a. '' and '' @ condition a) as))"
proof (induction args)
  case (Cons a args)
  then show ?case
    by (cases a) (simp add: WHERE_AND_def kept_def condition_def WHERE_AND_from_conditions split: list.split)
qed (simp add: WHERE_AND_def kept_def)

lemma parse_conditions:
  assumes "\<forall>(f, v) \<in> set (a # as). CHR ''='' \<notin> set f"
  shows "parse_where (condition a @ concat (map (\<lambda>a. '' and '' @ condition a) as)) =
    Some (map (\<lambda>(f, v). (f, seen_value v)) (a # as))"
  using assms
proof (induction as arbitrary: a)
  case Nil
  obtain f v where a: "a = (f, v)" by (cases a)
  have f: "x \<in> set f \<Longrightarrow> x \<noteq> CHR ''=''" for x using Nil a by auto
  show ?case
    using read_value_text [of "[]" v] f
    by (subst parse_where.simps) (auto simp: a condition_def Let_def takeWhile_append2 dropWhile_append2)
next
  case (Cons b as)
  obtain f v where a: "a = (f, v)" by (cases a)
  have f: "x \<in> set f \<Longrightarrow> x \<noteq> CHR ''=''" for x using Cons.prems a by auto
  show ?case
    using read_value_text [of "'' and '' @ condition b @ concat (map (\<lambda>a. '' and '' @ condition a) as)" v] f Cons.IH [of b] Cons.prems
    by (subst parse_where.simps) (simp add: a condition_def Let_def takeWhile_append2 dropWhile_append2 split_beta)
qed

text \<open> The condition \<open>WHERE_AND\<close> builds is read back by the database as exactly the columns and the values it was
  given, whatever characters a text value holds: the empty texts are left out, every other value is compared with its column
  and nothing of it is taken for a further condition.\<close>

theorem where_and_reads_back:
  assumes "\<forall>(f, v) \<in> set args. CHR ''='' \<notin> set f"
  shows "if kept args = [] then WHERE_AND args = []
    else parse_where (WHERE_AND args) = Some (map (\<lambda>(f, v). (f, seen_value v)) (kept args))"
proof (cases "kept args")
  case (Cons a as)
  have "set (a # as) \<subseteq> set args" using Cons [symmetric] by (auto simp: kept_def)
  then show ?thesis using assms Cons parse_conditions [of a as] by (auto simp: WHERE_AND_conditions)
qed (simp add: WHERE_AND_conditions)

theorem where_and_reads_back_witness:
  "parse_where (WHERE_AND [(''owner'', WStr (''x'' @ [CHR 0x27] @ '' or 1=1'')), (''name'', WStr []), (''modified'', WNum 7)]) =
    Some [(''owner'', Inl (''x'' @ [CHR 0x27] @ '' or 1=1'')), (''modified'', Inr ''7'')]"
proof -
  have "int_text 7 = ''7''" by code_simp
  then show ?thesis
    using where_and_reads_back [of "[(''owner'', WStr (''x'' @ [CHR 0x27] @ '' or 1=1'')), (''name'', WStr []), (''modified'', WNum 7)]"]
    by (simp add: kept_def)
qed


subsection \<open>Every record is visited\<close>

lemma visit_append:
  "visit F (xs @ ys) c = (case visit F xs c of (go, c') \<Rightarrow> if go then visit F ys c' else (False, c'))"
  by (induction F xs c rule: visit.induct) (auto split: prod.splits)

lemma convert_rows_length: "length (fst (convert_rows conv rows)) \<le> length rows"
  by (induction conv rows rule: convert_rows.induct) (auto split: option.splits prod.splits)

lemma convert_rows_all:
  "\<forall>row \<in> set rows. conv row \<noteq> None \<Longrightarrow> convert_rows conv rows = (map (\<lambda>row. the (conv row)) rows, True)"
  by (induction conv rows rule: convert_rows.induct) auto

context orm_table
begin

lemma GetRecords_batch:
  assumes "M = filter W (d_rows D w)"
  shows "wp (GetRecords E D Offset k W) (\<lambda>(Rs, got) w'. d_rows D w' = d_rows D w \<and> length Rs \<le> k \<and>
    length Rs \<le> length M - Offset \<and>
    ((\<forall>t. e_db E t \<noteq> DbExecFails) \<and> (\<forall>row \<in> set M. d_from D row \<noteq> None) \<longrightarrow>
      Rs = map (\<lambda>row. the (d_from D row)) (take k (drop Offset M)) \<and> got = (Rs \<noteq> []))) w"
proof -
  let ?B = "take k (drop Offset M)"
  have "length (fst (convert_rows (d_from D) ?B)) \<le> min k (length M - Offset)"
    using convert_rows_length [of "d_from D" ?B] by simp
  moreover have "convert_rows (d_from D) ?B = (map (\<lambda>row. the (d_from D row)) ?B, True)"
    if "\<forall>row \<in> set M. d_from D row \<noteq> None"
    using that by (intro convert_rows_all) (meson in_set_dropD in_set_takeD)
  ultimately show ?thesis
    by (auto simp: GetRecords_def db_step_def rows_tick assms Let_def split: prod.splits)
qed

definition fine :: "env \<Rightarrow> ('t \<Rightarrow> bool) \<Rightarrow> 't list \<Rightarrow> bool" where
  "fine E W rows \<longleftrightarrow> (\<forall>t. e_db E t \<noteq> DbExecFails) \<and> (\<forall>row \<in> set (filter W rows). d_from D row \<noteq> None)"

lemma iterate_visits:
  assumes "M = filter W (d_rows D w)" "length M < Offset + 50 * n" "Offset \<le> length M"
  shows "wp (iterate_from E D F W n Offset c) (\<lambda>r w'. r \<noteq> None \<and> d_rows D w' = d_rows D w \<and>
    (fine E W (d_rows D w) \<longrightarrow> r = Some (snd (visit F (map (\<lambda>row. the (d_from D row)) (drop Offset M)) c)))) w"
  using assms
proof (induction n arbitrary: Offset c w)
  case 0
  then show ?case by simp
next
  case (Suc n)
  let ?rec = "\<lambda>row. the (d_from D row)"
  have split: "map ?rec (drop Offset M) = map ?rec (take 50 (drop Offset M)) @ map ?rec (drop (Offset + 50) M)"
    by (metis append_take_drop_id add.commute drop_drop map_append)
  show ?case
  proof (simp only: iterate_from.simps wp_bind, rule wp_mono [OF GetRecords_batch [OF Suc.prems(1), of E Offset 50]], clarify)
    fix Rs got w1
    assume rows: "d_rows D w1 = d_rows D w" and len: "length Rs \<le> 50" "length Rs \<le> length M - Offset"
      and all: "(\<forall>t. e_db E t \<noteq> DbExecFails) \<and> (\<forall>row \<in> set M. d_from D row \<noteq> None) \<longrightarrow>
        Rs = map ?rec (take 50 (drop Offset M)) \<and> got = (Rs \<noteq> [])"
    obtain go c' where v: "visit F Rs c = (go, c')" by fastforce
    have fin: "Rs = map ?rec (take 50 (drop Offset M)) \<and> got = (Rs \<noteq> [])" if "fine E W (d_rows D w)"
      using that all Suc.prems(1) by (simp add: fine_def)
    have whole: "visit F (map ?rec (drop Offset M)) c = visit F (Rs @ map ?rec (drop (Offset + 50) M)) c \<and> got = (Rs \<noteq> [])"
      if "fine E W (d_rows D w)"
      using fin [OF that] unfolding split by simp
    have short: "drop (Offset + 50) M = []" if "length Rs < 50" "fine E W (d_rows D w)"
      using that fin by auto
    consider "\<not> got" | "got" "\<not> go" | "got" "go" "length Rs < 50" | "got" "go" "length Rs = 50" using len by linarith
    then show "wp (if got then case visit F Rs c of (go, c') \<Rightarrow>
         if \<not> go then ret (Some c') else if length Rs < 50 then ret (Some c') else iterate_from E D F W n (Offset + 50) c'
       else ret (Some c)) (\<lambda>r w'. r \<noteq> None \<and> d_rows D w' = d_rows D w \<and>
         (fine E W (d_rows D w) \<longrightarrow> r = Some (snd (visit F (map ?rec (drop Offset M)) c)))) w1"
    proof cases
      case 1
      then show ?thesis using rows fin by auto
    next
      case 2
      then show ?thesis using rows whole by (simp add: v visit_append)
    next
      case 3
      then show ?thesis using rows whole short by (simp add: v visit_append)
    next
      case 4
      have "length M < (Offset + 50) + 50 * n" "Offset + 50 \<le> length M" using Suc.prems(2,3) 4 len by simp_all
      from Suc.IH [OF _ this, of w1 c'] Suc.prems(1)
      have "wp (iterate_from E D F W n (Offset + 50) c') (\<lambda>r w'. r \<noteq> None \<and> d_rows D w' = d_rows D w \<and>
        (fine E W (d_rows D w) \<longrightarrow> r = Some (snd (visit F (map ?rec (drop (Offset + 50) M)) c')))) w1" by (simp add: rows)
      then show ?thesis using 4 whole by (simp add: v visit_append)
    qed
  qed
qed

end


definition listed_world :: world where
  "listed_world = upd_realm Users (r_users_update (\<lambda>_. [UserInfo_to_tuple poco_inst sample_user])) world_empty"


subsection \<open>Conditions that nest, orders and members\<close>

definition depth :: "string \<Rightarrow> int" where
  "depth s = int (length (filter (\<lambda>c. c = CHR ''('') s)) - int (length (filter (\<lambda>c. c = CHR '')'') s))"

lemma depth_simps [simp]: "depth (a @ b) = depth a + depth b" "depth [] = 0" "depth (CHR ''('' # s) = 1 + depth s"
    "depth (CHR '')'' # s) = depth s - 1" "depth (BOPS B) = 0"
  by (simp_all add: depth_def BOPS_def split: SqlBinaryOp.split)

lemma OP_open_depth: "args \<noteq> [] \<Longrightarrow> \<forall>(b, p) \<in> set ((B, P1) # args). depth p = 0 \<Longrightarrow> depth (OP_open P1 args) = - int (length args)"
  by (induction P1 args arbitrary: B rule: OP_open.induct) auto

text \<open>
  With up to three operands the parentheses of \<open>OP\<close> match; every operand after the third adds a closing one too many.
\<close>

lemma OP_depth:
  assumes "depth P1 = 0" "\<forall>(b, p) \<in> set args. depth p = 0"
  shows "depth (OP P1 args) = (if length args \<le> 2 then 0 else 2 - int (length args))"
  using assms
  by (cases "(P1, args)" rule: OP.cases) (auto simp: OP_open_depth split_beta)

text \<open>Only columns of the table reach an order, with one of the two directions.\<close>

lemma order_items_columns:
  "order_items P Fields items = Some ts \<Longrightarrow> t \<in> set ts \<Longrightarrow>
    \<exists>n. ValidFieldName P Fields n \<and> (t = n @ '' ASC'' \<or> t = n @ '' DESC'')"
  by (induction P Fields items arbitrary: ts rule: order_items.induct)
    (fastforce simp: order_item_def split: option.splits list.splits if_splits)+

text \<open>The list of a member stays sorted and without repetition.\<close>

lemma vector_change_set:
  assumes "vector_change Child Add xs = Some ys" "sorted xs" "distinct xs"
  shows "sorted ys \<and> distinct ys \<and> set ys = (if Add then insert Child (set xs) else set xs - {Child})"
  using assms by (auto simp: vector_change_def sorted_remove1 split: if_splits)

end
