(* ===== verification/Error_Answers.thy ===== *)
theory Error_Answers
  imports Rest_Base
begin

text \<open>
  The error messages of \<^verbatim>\<open>src/framework/ow_constants.h\<close>, number and text, the bodies of the answers the request
  handlers make of them, and the commands and events named in the same file. A message is listed under the name of its constant.
\<close>

subsection \<open>Messages\<close>

record msg =
  err_number :: nat
  err_txt :: string

definition msg_of :: "nat \<Rightarrow> string \<Rightarrow> msg" where
  "msg_of n t = \<lparr>err_number = n, err_txt = t\<rparr>"

definition session_errors :: "(string \<times> msg) list" where
  "session_errors =
     [(''Error404'', msg_of 404 ''Resource does not exist.''),
      (''SUCCESS'', msg_of 0 ''No error.''),
      (''PASSWORD_CHANGE_REQUIRED'', msg_of 1 ''Password change required''),
      (''INVALID_CREDENTIALS'', msg_of 2 ''Invalid credentials.''),
      (''PASSWORD_ALREADY_USED'', msg_of 3 ''Password already used.''),
      (''USERNAME_PENDING_VERIFICATION'', msg_of 4 ''Username pending verification.''),
      (''PASSWORD_INVALID'', msg_of 5 ''Password is invalid''),
      (''INTERNAL_ERROR'', msg_of 6 ''Internal error.''),
      (''ACCESS_DENIED'', msg_of 7 ''Access denied.''),
      (''INVALID_TOKEN'', msg_of 8 ''Invalid token.''),
      (''EXPIRED_TOKEN'', msg_of 9 ''Expired token.''),
      (''RATE_LIMIT_EXCEEDED'', msg_of 10 ''Rate limit exceeded.''),
      (''BAD_MFA_TRANSACTION'', msg_of 11 ''Bad MFA transaction.''),
      (''MFA_FAILURE'', msg_of 12 ''MFA failure.''),
      (''SECURITY_SERVICE_UNREACHABLE'', msg_of 13 ''Security service is unreachable, try again later.''),
      (''CANNOT_REFRESH_TOKEN'', msg_of 14 ''Cannot refresh token.''),
      (''ACCOUNT_SUSPENDED'', msg_of 15 ''Account has been suspended.'')]"

definition record_errors :: "(string \<times> msg) list" where
  "record_errors =
     [(''MissingUUID'', msg_of 1000 ''Missing UUID.''),
      (''MissingSerialNumber'', msg_of 1001 ''Missing Serial Number.''),
      (''InternalError'', msg_of 1002 ''Internal error. Please try later.''),
      (''InvalidJSONDocument'', msg_of 1003 ''Invalid JSON document.''),
      (''UnsupportedHTTPMethod'', msg_of 1004 ''Unsupported HTTP Method''),
      (''StillInUse'', msg_of 1005 ''Element still in use.''),
      (''CouldNotBeDeleted'', msg_of 1006 ''Element could not be deleted.''),
      (''NameMustBeSet'', msg_of 1007 ''The name property must be set.''),
      (''ConfigBlockInvalid'', msg_of 1008 ''Configuration block type invalid.''),
      (''UnknownId'', msg_of 1009 ''Unknown UUID.''),
      (''InvalidDeviceTypes'', msg_of 1010 ''Unknown or invalid device type(s).''),
      (''RecordNotCreated'', msg_of 1011 ''Record could not be created.''),
      (''RecordNotUpdated'', msg_of 1012 ''Record could not be updated.''),
      (''UnknownManagementPolicyUUID'', msg_of 1013 ''Unknown management policy UUID.''),
      (''CannotDeleteRoot'', msg_of 1014 ''Root Entity cannot be removed, only modified.''),
      (''MustCreateRootFirst'', msg_of 1015 ''Root entity must be created first.''),
      (''ParentUUIDMustExist'', msg_of 1016 ''Parent UUID must exist.''),
      (''ConfigurationMustExist'', msg_of 1017 ''Configuration must exist.''),
      (''MissingOrInvalidParameters'', msg_of 1018 ''Invalid or missing parameters.''),
      (''UnknownSerialNumber'', msg_of 1019 ''Unknown Serial Number.''),
      (''InvalidSerialNumber'', msg_of 1020 ''Invalid Serial Number.''),
      (''SerialNumberExists'', msg_of 1021 ''Serial Number already exists.''),
      (''ValidNonRootUUID'', msg_of 1022 ''Must be a non-root, and valid UUID.''),
      (''VenueMustExist'', msg_of 1023 ''Venue does not exist.''),
      (''NotBoth'', msg_of 1024 ''You cannot specify both Entity and Venue''),
      (''EntityMustExist'', msg_of 1025 ''Entity must exist.''),
      (''ParentOrEntityMustBeSet'', msg_of 1026 ''Parent or Entity must be set.''),
      (''ContactMustExist'', msg_of 1027 ''Contact must exist.''),
      (''LocationMustExist'', msg_of 1028 ''Location must exist.''),
      (''OnlyWSSupported'', msg_of 1029 ''This endpoint only supports WebSocket.''),
      (''SerialNumberMismatch'', msg_of 1030 ''Serial Number mismatch.''),
      (''InvalidCommand'', msg_of 1031 ''Invalid command.''),
      (''NoRecordsDeleted'', msg_of 1032 ''No records deleted.''),
      (''DeviceNotConnected'', msg_of 1033 ''Device is not currently connected.''),
      (''CannotCreateWS'', msg_of 1034 ''Telemetry system could not create WS endpoint. Please try again.''),
      (''BothDeviceTypeRevision'', msg_of 1035 ''Both deviceType and revision must be set.''),
      (''IdOrSerialEmpty'', msg_of 1036 ''SerialNumber and Id must not be empty.'')]"

definition account_errors :: "(string \<times> msg) list" where
  "account_errors =
     [(''MissingUserID'', msg_of 1037 ''Missing user ID.''),
      (''IdMustBe0'', msg_of 1038 ''To create a user, you must set the ID to 0''),
      (''InvalidUserRole'', msg_of 1039 ''Invalid userRole.''),
      (''InvalidEmailAddress'', msg_of 1040 ''Invalid email address.''),
      (''PasswordRejected'', msg_of 1041 ''Password was rejected. This maybe an old password.''),
      (''InvalidIPRanges'', msg_of 1042 ''Invalid IP range specifications.''),
      (''InvalidLOrderBy'', msg_of 1043 ''Invalid orderBy specification.''),
      (''NeedMobileNumber'', msg_of 1044 ''You must provide at least one validated phone number.''),
      (''BadMFAMethod'', msg_of 1045 ''MFA only supports sms or email.''),
      (''InvalidCredentials'', msg_of 1046 ''Invalid credentials (username/password).''),
      (''InvalidPassword'', msg_of 1047 ''Password does not conform to basic password rules.''),
      (''UserPendingVerification'', msg_of 1048 ''User access denied pending email verification.''),
      (''PasswordMustBeChanged'', msg_of 1049 ''Password must be changed.''),
      (''UnrecognizedRequest'', msg_of 1050 ''Ill-formed request. Please consult documentation.''),
      (''MissingAuthenticationInformation'', msg_of 1051 ''Missing authentication information.''),
      (''InsufficientAccessRights'', msg_of 1052 ''Insufficient access rights to complete the operation.''),
      (''ExpiredToken'', msg_of 1053 ''Token has expired, user must login.''),
      (''SubscriberMustExist'', msg_of 1054 ''Subscriber must exist.''),
      (''AuthenticatorVerificationIncomplete'', msg_of 1055 ''Authenticator validation is not complete.''),
      (''SMSCouldNotBeSentRetry'', msg_of 1056 ''SMS could not be sent to validate device, try later or change the phone number.''),
      (''SMSCouldNotValidate'', msg_of 1057 ''Code and number could not be validated''),
      (''InvalidDeviceClass'', msg_of 1058 ''Invalid device class. Must be: any, venue, entity, or subscriber''),
      (''SerialNumberAlreadyProvisioned'', msg_of 1059 ''This device has already been provisioned to a subscriber.''),
      (''SerialNumberNotTheProperClass'', msg_of 1060 ''Device is not available to subscribers. It ahs been assigned to another class of devices.''),
      (''UserAlreadyExists'', msg_of 1061 ''Username already exists.''),
      (''NotImplemented'', msg_of 1062 ''Function not implemented.''),
      (''VariableMustExist'', msg_of 1063 ''Specified variable does not exist.''),
      (''InvalidEntityType'', msg_of 1064 ''Invalid entity type.''),
      (''CannotDeleteSubEntity'', msg_of 1065 ''Cannot delete the default subscriber entity.''),
      (''OperatorIdMustExist'', msg_of 1066 ''Missing or bad Operator ID''),
      (''CannotDeleteDefaultOperator'', msg_of 1067 ''Cannot delete the default operator.''),
      (''CannotCreateDefaultOperator'', msg_of 1068 ''Cannot create the default operator.''),
      (''InvalidRRM'', msg_of 1069 ''Invalid RRM value.''),
      (''InvalidIPAddresses'', msg_of 1070 ''Invalid IP addresses.''),
      (''InvalidBillingCode'', msg_of 1071 ''Empty of invalid billing code.''),
      (''InvalidBillingPeriod'', msg_of 1072 ''Invalid billing period.''),
      (''InvalidSubscriberId'', msg_of 1073 ''Invalid subscriber ID.''),
      (''InvalidContactId'', msg_of 1074 ''Invalid contact ID.''),
      (''InvalidLocationId'', msg_of 1075 ''Invalid location ID.''),
      (''InvalidContactType'', msg_of 1076 ''Invalid contact type.''),
      (''InvalidLocationType'', msg_of 1077 ''Invalid location type.''),
      (''InvalidOperatorId'', msg_of 1078 ''Invalid operator ID.''),
      (''InvalidServiceClassId'', msg_of 1079 ''Invalid service class ID.''),
      (''InvalidSubscriberDeviceId'', msg_of 1080 ''Invalid subscriber device ID.''),
      (''InvalidRegistrationOperatorId'', msg_of 1081 ''Invalid registration operator ID.''),
      (''InvalidRegistrationOperatorName'', msg_of 1082 ''Invalid registration operator name.''),
      (''RegistrationNameDuplicate'', msg_of 1083 ''Registration name must be unique.''),
      (''SMSMFANotEnabled'', msg_of 1084 ''SMS is not enabled in the security service.''),
      (''EMailMFANotEnabled'', msg_of 1085 ''email is not enabled in the security service.''),
      (''TOTInvalidCode'', msg_of 1086 ''Invalid code.''),
      (''TOTInvalidIndex'', msg_of 1087 ''Invalid index.''),
      (''TOTRepeatedCode'', msg_of 1088 ''Code is repeated. Must be new code.''),
      (''TOTInvalidProtocol'', msg_of 1089 ''Invalid protocol sequence.''),
      (''TOTNoSession'', msg_of 1090 ''No validation session present.''),
      (''SignupAlreadySigned'', msg_of 1091 ''User already signed up.''),
      (''SignupEmailCheck'', msg_of 1092 ''Waiting for email check completion.''),
      (''SignupWaitingForDevice'', msg_of 1093 ''Waiting for device.''),
      (''SMSMissingPhoneNumber'', msg_of 1094 ''Missing phone number''),
      (''SMSTryLater'', msg_of 1095 ''SMS could not be sent. Verify the number or try again later.''),
      (''SMSMissingChallenge'', msg_of 1096 (''Missing '' @ [CHR 0x27] @ ''challengeCode'' @ [CHR 0x27])),
      (''MustHaveConfigElement'', msg_of 1097 (''Must have '' @ [CHR 0x27] @ ''configuration'' @ [CHR 0x27] @ '' element.'')),
      (''ModelIDListCannotBeEmpty'', msg_of 1098 ''Model ID list cannot be empty.''),
      (''DefConfigNameExists'', msg_of 1099 ''Configuration name already exists.''),
      (''SubNoDeviceActivated'', msg_of 1100 ''No devices activated yet.'')]"

definition device_errors :: "(string \<times> msg) list" where
  "device_errors =
     [(''SubConfigNotRefreshed'', msg_of 1101 ''Configuration could not be refreshed.''),
      (''ProvServiceNotAvailable'', msg_of 1102 ''Provisioning service not available yet.''),
      (''SSIDInvalidPassword'', msg_of 1103 ''Invalid password length. Must be 8 characters or greater, and a maximum of 32 characters.''),
      (''InvalidStartingIPAddress'', msg_of 1104 ''Invalid starting/ending IP address.''),
      (''SubnetFormatError'', msg_of 1105 ''Subnet must be in format like 192.168.1.1/24.''),
      (''DeviceModeError'', msg_of 1106 ''Device mode subnet must be of the form 192.168.1.1/24.''),
      (''BadDeviceMode'', msg_of 1107 ''Mode must be bridge, nat, or manual.''),
      (''DefaultGatewayFormat'', msg_of 1108 ''Default gateway must be in format like 192.168.1.1.''),
      (''PrimaryDNSFormat'', msg_of 1109 ''Primary DNS must be an IP address i.e. 192.168.1.1.''),
      (''SecondaryDNSFormat'', msg_of 1110 ''Secondary DNS must be an IP address i.e. 192.168.1.1.''),
      (''BadConnectionType'', msg_of 1111 ''Internet Connection must be automatic, bridge, pppoe, or manual.''),
      (''InvalidDeviceID'', msg_of 1112 ''Invalid deviceID.''),
      (''InvalidVisibilityAttribute'', msg_of 1113 ''Invalid visibility attribute.''),
      (''UnknownConfigurationSection'', msg_of 1114 ''Unknown section.''),
      (''CannotValidatePhoneNumber'', msg_of 1115 ''Phone number could not be validated.''),
      (''RootUsersNoOwners'', msg_of 1116 ''ROOT users may not have owners.''),
      (''PartnerMustHaveEntity'', msg_of 1118 ''Partner user must belong to an entity.''),
      (''RootCannotModifyUsers'', msg_of 1119 ''ROOT may not modify user roles.''),
      (''CertificateNotIssued'', msg_of 1120 ''Certificate was not issued.''),
      (''IncompleteCertificate'', msg_of 1121 ''Incomplete certificate information. Cannot be downloaded. You must delete and recreate.''),
      (''InvalidCertificateType'', msg_of 1122 ''Invalid certificate type.''),
      (''InvalidDeviceName'', msg_of 1123 ''Invalid device name.''),
      (''InvalidRedirectorName'', msg_of 1124 ''Invalid redirector name''),
      (''CommonNameAlreadyExists'', msg_of 1125 ''A device/server of this name already exists''),
      (''CertificateAlreadyExists'', msg_of 1126 ''A certificate for this device already exists.''),
      (''CannotCreateCertTryAgain'', msg_of 1127 ''Device certificate could not be created. Please try later.''),
      (''CouldNotRevoke'', msg_of 1128 ''Certificate could not be revoked.''),
      (''CouldNotModifyCert'', msg_of 1129 ''Certificate could not me modified. Please verify the information you supplied.''),
      (''BatchCertNoCreated'', msg_of 1130 ''Certificates have not been created for this batch.''),
      (''BatchTooBig'', msg_of 1131 ''Illegal number of MAC Addresses: must be between 1 and 1000.''),
      (''OutstandingJobs'', msg_of 1132 ''Batch has running outstanding jobs. Please wait until job is finished.''),
      (''InvalidSMSNotificationList'', msg_of 1133 ''Invalid SMS Notification list.''),
      (''InvalidEMailNotificationList'', msg_of 1134 ''Invalid email Notification list.''),
      (''CannotChangeCommanNames'', msg_of 1135 ''You cannot provide new/modified common names after jobs have been run for a batch.''),
      (''FailedToVerifyDigicert'', msg_of 1136 ''Failed to verify the DigiCert information provided.''),
      (''CouldNotPerformCommand'', msg_of 1137 ''Could not perform command.''),
      (''PoolNameInvalid'', msg_of 1138 ''Pool name is invalid.''),
      (''InvalidRadiusProxyStrategy'', msg_of 1139 ''Strategy name must be: random, round_robin, weighted.''),
      (''InvalidRadiusProxyMonitorMethod'', msg_of 1140 ''monitorMethod must be: none, https, radius.''),
      (''MustHaveAtLeastOneRadiusServer'', msg_of 1141 ''Must have at least one RADIUS server.''),
      (''InvalidRadiusServerEntry'', msg_of 1142 ''RADIUS Server IP address invalid or port missing.''),
      (''InvalidRadiusServerWeigth'', msg_of 1143 ''RADIUS Server IP weight cannot be 0.''),
      (''MaximumRTTYSessionsReached'', msg_of 1144 ''Too many RTTY sessions currently active''),
      (''DeviceIsAlreadyBusy'', msg_of 1145 ''Device is already executing a command. Please try later.''),
      (''DeviceRequiresSignature'', msg_of 1146 ''Device requires device signature to be provided.'')]"

definition service_errors :: "(string \<times> msg) list" where
  "service_errors =
     [(''ApiKeyNameAlreadyExists'', msg_of 1147 ''API Key name must be unique.''),
      (''TooManyApiKeys'', msg_of 1148 ''Too many API Keys have already been created.''),
      (''UserMustExist'', msg_of 1149 ''User must exist.''),
      (''ApiKeyNameDoesNotExist'', msg_of 1150 ''API Key name does not exist.''),
      (''ApiKeyDoesNotExist'', msg_of 1150 ''API Key does not exist.''),
      (''DeviceIsRestricted'', msg_of 1151 ''Device is protected by regulation. This function is not allowed.''),
      (''InvalidURI'', msg_of 1152 ''Invalid URI.''),
      (''InvalidScriptSelection'', msg_of 1153 ''Only script or scriptId must be specified. Not both.''),
      (''NoDeviceStatisticsYet'', msg_of 1154 ''Device statistics not available yet.''),
      (''AccountSuspended'', msg_of 1155 ''You account was suspended. You can only use this site in read-only mode for now.''),
      (''BatchNameAlreadyExists'', msg_of 1156 ''Batch name must be unique.''),
      (''RedirectorNameIsInvalid'', msg_of 1157 ''Redirector name is invalid.''),
      (''CertificateAlreadyBelongsToYou'', msg_of 1158 ''The serial number already belongs to you. Please use the certificate modification API to change the redirector.''),
      (''RelocationDisabledForThisDevice'', msg_of 1159 ''Relocation disabled for this device.''),
      (''CannotModifyServerCertificates'', msg_of 1160 ''Server certificates cannot be modified.''),
      (''TransferNotInDispute'', msg_of 1161 ''The specified transfer is not being disputed.''),
      (''MissingComment'', msg_of 1162 ''Missing comment.''),
      (''EntityNotAllowedToTransfer'', msg_of 1163 ''Entity is not allowed to transfer devices.''),
      (''DailyTransferQuotaExceeded'', msg_of 1164 ''Entity has exceeded its daily quota.''),
      (''CertificateWasNotRevoked'', msg_of 1165 ''Certificate was not revoked, so it may not be re-created.''),
      (''CertificateTransferNoLongerExists'', msg_of 1166 ''The device certificate associated with this transfer no longer seem to exist.''),
      (''CertificateTransferEntityNoLongerExists'', msg_of 1167 ''The entity tied to this transfer no longer seems to exist.''),
      (''CannotRollBackDueToDigiCert'', msg_of 1168 ''The change could not be rolled back at this time. Please try later.''),
      (''CertificateTransferAlreadyRolledBack'', msg_of 1169 ''The certificate has already been rolled back.''),
      (''FirmwareBDInProgress'', msg_of 1170 ''Firmware DB update already in progress.''),
      (''SimulatedDeviceNotSupported'', msg_of 1171 ''Command not supported on simulated device.''),
      (''VenuesNameAlreadyExists'', msg_of 1172 ''The venue name already exists.''),
      (''InvalidGlobalReachAccount'', msg_of 1173 ''Invalid Global Reach account information.''),
      (''CannotCreateCSR'', msg_of 1174 ''Cannot create a CSR certificate.''),
      (''DefFirmwareNameExists'', msg_of 1175 ''Firmware name already exists.''),
      (''NotAValidECKey'', msg_of 1176 ''Not a valid Signing Key.''),
      (''NotAValidRadiusPoolType'', msg_of 1177 ''Not a valid RADIUS pool type.''),
      (''InvalidRadiusTypeEndpoint'', msg_of 1178 ''Invalid RADIUS Server Endpoint type.''),
      (''InvalidRadiusEndpointPoolStrategy'', msg_of 1179 ''Invalid RADIUS Server Endpoint Pool strategy.''),
      (''EndpointMustHaveOneTypeOfServers'', msg_of 1180 ''All servers must be either RADIUS or RADSEC.''),
      (''RadiusEndpointIndexInvalid'', msg_of 1181 ''Index must be an address between 0.0.1.1 and 0.0.2.254''),
      (''RadiusEndpointIndexMustBeUnique'', msg_of 1182 ''Index must be unique.''),
      (''OrionAccountMustExist'', msg_of 1183 ''Orion account must exist.''),
      (''GlobalReachCertMustExist'', msg_of 1184 ''Global Reach certificate must exist.''),
      (''InvalidRadsecMainCertificate'', msg_of 1185 ''Invalid Radsec main certificate.''),
      (''InvalidRadsecCaCertificate'', msg_of 1186 ''Invalid Radsec CA certificates.''),
      (''InvalidRadsecPrivteKey'', msg_of 1187 ''Invalid Radsec Private key.''),
      (''InvalidRadsecIPAddress'', msg_of 1188 ''Invalid Radsec IP Address.''),
      (''InvalidRadsecPort'', msg_of 1189 ''Invalid Radsec Port.''),
      (''InvalidRadsecSecret'', msg_of 1190 ''Invalid Radsec Secret.''),
      (''InvalidRadiusServer'', msg_of 1191 ''Invalid Radius Server.''),
      (''InvalidRRMAction'', msg_of 1192 ''Invalid RRM Action.''),
      (''SimulationDoesNotExist'', msg_of 7000 ''Simulation Instance ID does not exist.''),
      (''SimulationIsAlreadyRunning'', msg_of 7001 ''There is an instance of this simulation already running..'')]"

definition errors :: "(string \<times> msg) list" where
  "errors = session_errors @ record_errors @ account_errors @ device_errors @ service_errors"

lemmas errors_defs = errors_def session_errors_def record_errors_def account_errors_def device_errors_def service_errors_def

text \<open>The constants the handlers of this service use.\<close>

primrec totp_error_msg :: "totp_error \<Rightarrow> msg" where
  "totp_error_msg TOTInvalidCode = msg_of 1086 ''Invalid code.''"
| "totp_error_msg TOTInvalidIndex = msg_of 1087 ''Invalid index.''"
| "totp_error_msg TOTRepeatedCode = msg_of 1088 ''Code is repeated. Must be new code.''"
| "totp_error_msg TOTInvalidProtocol = msg_of 1089 ''Invalid protocol sequence.''"
| "totp_error_msg TOTNoSession = msg_of 1090 ''No validation session present.''"

primrec error_msg :: "rest_error \<Rightarrow> msg" where
  "error_msg Err_PASSWORD_CHANGE_REQUIRED = msg_of 1 ''Password change required''"
| "error_msg Err_INVALID_CREDENTIALS = msg_of 2 ''Invalid credentials.''"
| "error_msg Err_PASSWORD_ALREADY_USED = msg_of 3 ''Password already used.''"
| "error_msg Err_USERNAME_PENDING_VERIFICATION = msg_of 4 ''Username pending verification.''"
| "error_msg Err_PASSWORD_INVALID = msg_of 5 ''Password is invalid''"
| "error_msg Err_ACCESS_DENIED = msg_of 7 ''Access denied.''"
| "error_msg Err_INVALID_TOKEN = msg_of 8 ''Invalid token.''"
| "error_msg Err_EXPIRED_TOKEN = msg_of 9 ''Expired token.''"
| "error_msg Err_RATE_LIMIT_EXCEEDED = msg_of 10 ''Rate limit exceeded.''"
| "error_msg Err_BAD_MFA_TRANSACTION = msg_of 11 ''Bad MFA transaction.''"
| "error_msg Err_MFA_FAILURE = msg_of 12 ''MFA failure.''"
| "error_msg Err_SECURITY_SERVICE_UNREACHABLE = msg_of 13 ''Security service is unreachable, try again later.''"
| "error_msg Err_CANNOT_REFRESH_TOKEN = msg_of 14 ''Cannot refresh token.''"
| "error_msg Err_ACCOUNT_SUSPENDED = msg_of 15 ''Account has been suspended.''"
| "error_msg Err_InternalError = msg_of 1002 ''Internal error. Please try later.''"
| "error_msg Err_InvalidJSONDocument = msg_of 1003 ''Invalid JSON document.''"
| "error_msg Err_UnsupportedHTTPMethod = msg_of 1004 ''Unsupported HTTP Method''"
| "error_msg Err_RecordNotCreated = msg_of 1011 ''Record could not be created.''"
| "error_msg Err_RecordNotUpdated = msg_of 1012 ''Record could not be updated.''"
| "error_msg Err_MissingOrInvalidParameters = msg_of 1018 ''Invalid or missing parameters.''"
| "error_msg Err_InvalidCommand = msg_of 1031 ''Invalid command.''"
| "error_msg Err_MissingUserID = msg_of 1037 ''Missing user ID.''"
| "error_msg Err_IdMustBe0 = msg_of 1038 ''To create a user, you must set the ID to 0''"
| "error_msg Err_InvalidUserRole = msg_of 1039 ''Invalid userRole.''"
| "error_msg Err_InvalidEmailAddress = msg_of 1040 ''Invalid email address.''"
| "error_msg Err_PasswordRejected = msg_of 1041 ''Password was rejected. This maybe an old password.''"
| "error_msg Err_NeedMobileNumber = msg_of 1044 ''You must provide at least one validated phone number.''"
| "error_msg Err_BadMFAMethod = msg_of 1045 ''MFA only supports sms or email.''"
| "error_msg Err_InvalidPassword = msg_of 1047 ''Password does not conform to basic password rules.''"
| "error_msg Err_UnrecognizedRequest = msg_of 1050 ''Ill-formed request. Please consult documentation.''"
| "error_msg Err_AuthenticatorVerificationIncomplete = msg_of 1055 ''Authenticator validation is not complete.''"
| "error_msg Err_SMSCouldNotBeSentRetry = msg_of 1056 ''SMS could not be sent to validate device, try later or change the phone number.''"
| "error_msg Err_SMSCouldNotValidate = msg_of 1057 ''Code and number could not be validated''"
| "error_msg Err_UserAlreadyExists = msg_of 1061 ''Username already exists.''"
| "error_msg Err_SMSMFANotEnabled = msg_of 1084 ''SMS is not enabled in the security service.''"
| "error_msg Err_EMailMFANotEnabled = msg_of 1085 ''email is not enabled in the security service.''"
| "error_msg (Err_TOT e) = totp_error_msg e"
| "error_msg Err_SignupAlreadySigned = msg_of 1091 ''User already signed up.''"
| "error_msg Err_SMSMissingPhoneNumber = msg_of 1094 ''Missing phone number''"
| "error_msg Err_SMSTryLater = msg_of 1095 ''SMS could not be sent. Verify the number or try again later.''"
| "error_msg Err_SMSMissingChallenge = msg_of 1096 (''Missing '' @ [CHR 0x27] @ ''challengeCode'' @ [CHR 0x27])"
| "error_msg Err_ApiKeyNameAlreadyExists = msg_of 1147 ''API Key name must be unique.''"
| "error_msg Err_TooManyApiKeys = msg_of 1148 ''Too many API Keys have already been created.''"
| "error_msg Err_UserMustExist = msg_of 1149 ''User must exist.''"
| "error_msg Err_ApiKeyDoesNotExist = msg_of 1150 ''API Key does not exist.''"
| "error_msg Err_NotImplemented = msg_of 1062 ''Function not implemented.''"

subsection \<open>Bodies of answers\<close>

definition description :: "msg \<Rightarrow> string" where
  "description E = to_dec (err_number E) @ '': '' @ err_txt E"

definition error_object :: "int \<Rightarrow> string \<Rightarrow> msg \<Rightarrow> jobj" where
  "error_object code Method E =
     [(''ErrorCode'', JNum code), (''ErrorDetails'', JStr Method), (''ErrorDescription'', JStr (description E))]"

text \<open>\<open>None\<close> for the answers whose content is not made of a message.\<close>

fun answer_object :: "string \<Rightarrow> response \<Rightarrow> jobj option" where
  "answer_object Method (BadRequest e) = Some (error_object 400 Method (error_msg e))"
| "answer_object Method (InternalErrorAnswer e) = Some (error_object 500 Method (error_msg e))"
| "answer_object Method (UnAuthorized e) = Some (error_object (int (err_number (error_msg e))) Method (error_msg e))"
| "answer_object Method NotFound = Some (error_object 404 Method (the (map_of errors ''Error404'')))"
| "answer_object Method OK =
     (if Method = ''DELETE'' \<or> Method = ''OPTIONS'' then None
      else Some [(''Code'', JNum 0), (''Operation'', JStr Method), (''Details'', JStr ''Command completed.'')])"
| "answer_object Method other = None"

subsection \<open>Numbers\<close>

lemma error_numbers:
  "map (\<lambda>(n, m). err_number m) errors =
    [404, 0, 1, 2, 3, 4, 5, 6, 7, 8, 9, 10, 11, 12, 13, 14, 15, 1000, 1001, 1002, 1003, 1004, 1005, 1006, 1007, 1008, 1009,
     1010, 1011, 1012, 1013, 1014, 1015, 1016, 1017, 1018, 1019, 1020, 1021, 1022, 1023, 1024, 1025, 1026, 1027, 1028, 1029,
     1030, 1031, 1032, 1033, 1034, 1035, 1036, 1037, 1038, 1039, 1040, 1041, 1042, 1043, 1044, 1045, 1046, 1047, 1048, 1049,
     1050, 1051, 1052, 1053, 1054, 1055, 1056, 1057, 1058, 1059, 1060, 1061, 1062, 1063, 1064, 1065, 1066, 1067, 1068, 1069,
     1070, 1071, 1072, 1073, 1074, 1075, 1076, 1077, 1078, 1079, 1080, 1081, 1082, 1083, 1084, 1085, 1086, 1087, 1088, 1089,
     1090, 1091, 1092, 1093, 1094, 1095, 1096, 1097, 1098, 1099, 1100, 1101, 1102, 1103, 1104, 1105, 1106, 1107, 1108, 1109,
     1110, 1111, 1112, 1113, 1114, 1115, 1116, 1118, 1119, 1120, 1121, 1122, 1123, 1124, 1125, 1126, 1127, 1128, 1129, 1130,
     1131, 1132, 1133, 1134, 1135, 1136, 1137, 1138, 1139, 1140, 1141, 1142, 1143, 1144, 1145, 1146, 1147, 1148, 1149, 1150,
     1150, 1151, 1152, 1153, 1154, 1155, 1156, 1157, 1158, 1159, 1160, 1161, 1162, 1163, 1164, 1165, 1166, 1167, 1168, 1169,
     1170, 1171, 1172, 1173, 1174, 1175, 1176, 1177, 1178, 1179, 1180, 1181, 1182, 1183, 1184, 1185, 1186, 1187, 1188, 1189,
     1190, 1191, 1192, 7000, 7001]"
  by (simp add: errors_defs msg_of_def)

lemma sorted_numbers:
  "sorted_wrt (<) (remove1 1150 (tl (map (\<lambda>(n, m). err_number m) errors)))"
  unfolding error_numbers by (simp add: sorted_wrt2_simps del: sorted_wrt.simps(2))

lemma error_msg_number: "err_number (error_msg e) = err_num e"
proof (cases e)
  case (Err_TOT t)
  then show ?thesis by (cases t) (simp_all add: msg_of_def)
qed (simp_all add: msg_of_def)

lemma totp_num: "totp_err_num t = n \<Longrightarrow> 1086 \<le> n \<and> n \<le> 1090" "totp_err_num t = totp_err_num t' \<Longrightarrow> t = t'"
  by (cases t; cases t'; auto)+

lemma err_num_inj: "err_num e = err_num e' \<Longrightarrow> e = e'"
  by (cases e; cases e') (auto dest: totp_num totp_num [OF sym])

lemma err_num_range: "err_num e \<noteq> 400 \<and> err_num e \<noteq> 404 \<and> err_num e \<noteq> 500"
  by (cases e) (auto dest: totp_num)

lemma dec_value_to_dec: "dec_value (to_dec n) = n"
proof (induction n rule: to_dec.induct)
  case (1 n)
  then show ?case
    using digit_code [of "n mod 10"] digit_code [of n] by (subst to_dec.simps) (auto simp: dec_value_def)
qed

lemma description_number: "dec_value (takeWhile (\<lambda>c. c \<noteq> CHR '':'') (description m)) = err_number m"
proof -
  have "c \<noteq> CHR '':''" if c: "c \<in> set (to_dec k)" for c k
  proof
    assume "c = CHR '':''"
    then have "(of_char c :: nat) = 58" by simp
    then show False using to_dec_digits [OF c] digit_code by fastforce
  qed
  then have "takeWhile (\<lambda>c. c \<noteq> CHR '':'') (description m) = to_dec (err_number m)"
    by (simp add: description_def takeWhile_append2)
  then show ?thesis by (simp add: dec_value_to_dec)
qed

lemma error_object_eq:
  "error_object c Method E = error_object c' Method' E' \<Longrightarrow> c = c' \<and> err_number E = err_number E'"
  using description_number [of E] description_number [of E'] by (simp add: error_object_def)

fun is_error :: "response \<Rightarrow> bool" where
  "is_error (BadRequest e) = True"
| "is_error (UnAuthorized e) = True"
| "is_error (InternalErrorAnswer e) = True"
| "is_error NotFound = True"
| "is_error _ = False"

fun error_sign :: "response \<Rightarrow> int \<times> nat" where
  "error_sign (BadRequest e) = (400, err_num e)"
| "error_sign (UnAuthorized e) = (int (err_num e), err_num e)"
| "error_sign (InternalErrorAnswer e) = (500, err_num e)"
| "error_sign _ = (404, 404)"

lemma answer_sign:
  "is_error a \<Longrightarrow> \<exists>E. answer_object Method a = Some (error_object (fst (error_sign a)) Method E) \<and> err_number E = snd (error_sign a)"
  by (cases a) (auto simp: error_msg_number errors_def session_errors_def msg_of_def)

lemma code_differs [simp]: "int (err_num e) \<noteq> 400" "int (err_num e) \<noteq> 500" "int (err_num e) \<noteq> 404"
    "400 \<noteq> int (err_num e)" "500 \<noteq> int (err_num e)" "404 \<noteq> int (err_num e)" "404 \<noteq> err_num e"
  using err_num_range [of e] by linarith+

lemma error_sign_inj: "is_error a \<Longrightarrow> is_error b \<Longrightarrow> error_sign a = error_sign b \<Longrightarrow> a = b"
  by (elim is_error.elims(2)) (simp_all add: err_num_inj err_num_range)

text \<open> C36. The body of an error answer tells the client exactly which answer it got: two error answers of this service with the
  same body are the same kind of answer and the same error, so no two errors share a number.\<close>

theorem error_answers_identify:
  assumes "is_error a" "is_error b" "answer_object Method a = answer_object Method b"
  shows "a = b"
proof -
  obtain E where E: "answer_object Method a = Some (error_object (fst (error_sign a)) Method E)" "err_number E = snd (error_sign a)"
    using answer_sign [OF assms(1)] by blast
  obtain E' where E': "answer_object Method b = Some (error_object (fst (error_sign b)) Method E')" "err_number E' = snd (error_sign b)"
    using answer_sign [OF assms(2)] by blast
  have "error_object (fst (error_sign a)) Method E = error_object (fst (error_sign b)) Method E'"
    using E(1) E'(1) assms(3) by simp
  from error_object_eq [OF this] have "error_sign a = error_sign b" using E(2) E'(2) by (simp add: prod_eq_iff)
  then show ?thesis using assms(1,2) error_sign_inj by blast
qed

theorem error_answers_identify_witness:
  "BadRequest Err_InvalidCommand \<noteq> UnAuthorized Err_ACCESS_DENIED \<and>
    answer_object ''GET'' (BadRequest Err_InvalidCommand) \<noteq> answer_object ''GET'' (UnAuthorized Err_ACCESS_DENIED)"
  using error_answers_identify [of "BadRequest Err_InvalidCommand" "UnAuthorized Err_ACCESS_DENIED" "''GET''"] by auto

text \<open>Of all the constants, only those with the number 1150 share one.\<close>

lemma numbers_distinct: "distinct (remove1 1150 (map (\<lambda>(n, m). err_number m) errors))"
proof -
  obtain T where T: "map (\<lambda>(n, m). err_number m) errors = 404 # T" unfolding error_numbers by blast
  have "404 \<notin> set (tl (map (\<lambda>(n, m). err_number m) errors))" unfolding error_numbers by simp
  then have "404 \<notin> set T" by (simp add: T)
  moreover have "distinct (remove1 1150 T)" using sorted_numbers T by (simp add: strict_sorted_iff)
  ultimately show ?thesis by (simp add: T notin_set_remove1)
qed

subsection \<open>Commands and events\<close>

datatype EVENT_MSG = ET_UNKNOWN | ET_CONNECT | ET_STATE | ET_HEALTHCHECK | ET_LOG | ET_CRASHLOG | ET_PING | ET_CFGPENDING
  | ET_RECOVERY | ET_DEVICEUPDATE | ET_TELEMETRY | ET_VENUEBROADCAST | ET_EVENT | ET_WIFISCAN | ET_ALARM | ET_REBOOTLOG

definition EventFromString :: "string \<Rightarrow> EVENT_MSG" where
  "EventFromString Method =
     (if ''state'' = Method then ET_STATE
      else if ''healthcheck'' = Method then ET_HEALTHCHECK
      else if ''connect'' = Method then ET_CONNECT
      else if ''cfgpending'' = Method then ET_CFGPENDING
      else if ''crashlog'' = Method then ET_CRASHLOG
      else if ''deviceupdate'' = Method then ET_DEVICEUPDATE
      else if ''log'' = Method then ET_LOG
      else if ''ping'' = Method then ET_PING
      else if ''recovery'' = Method then ET_RECOVERY
      else if ''telemetry'' = Method then ET_TELEMETRY
      else if ''venue_broadcast'' = Method then ET_VENUEBROADCAST
      else if ''event'' = Method then ET_EVENT
      else if ''wifiscan'' = Method then ET_WIFISCAN
      else if ''alarm'' = Method then ET_ALARM
      else if ''rebootLog'' = Method then ET_REBOOTLOG
      else ET_UNKNOWN)"

text \<open>A command is its place in the list; the place after the last is the unknown command.\<close>

definition uCentralAPCommands :: "string list" where
  "uCentralAPCommands =
     [''capabilities'', ''logs'', ''healthchecks'', ''statistics'', ''status'', ''rtty'', ''configure'', ''upgrade'', ''reboot'',
      ''factory'', ''leds'', ''trace'', ''request'', ''wifiscan'', ''eventqueue'', ''telemetry'', ''ping'', ''script'', ''rrm'',
      ''certupdate'', ''transfer'', ''powercycle'']"

datatype Commands = Ccapabilities | Clogs | Chealthchecks | Cstatistics | Cstatus | Crtty | Cconfigure | Cupgrade | Creboot
  | Cfactory | Cleds | Ctrace | Crequest | Cwifiscan | Ceventqueue | Ctelemetry | Cping | Cscript | Crrm | Ccertupdate
  | Ctransfer | Cpowercycle | Cunknown

definition Commands_all :: "Commands list" where
  "Commands_all =
     [Ccapabilities, Clogs, Chealthchecks, Cstatistics, Cstatus, Crtty, Cconfigure, Cupgrade, Creboot, Cfactory, Cleds, Ctrace,
      Crequest, Cwifiscan, Ceventqueue, Ctelemetry, Cping, Cscript, Crrm, Ccertupdate, Ctransfer, Cpowercycle]"

text \<open>The unknown command has no text: the list is read past its end.\<close>

definition command_to_string :: "Commands \<Rightarrow> string option" where
  "command_to_string Cmd = map_of (zip Commands_all uCentralAPCommands) Cmd"

definition to_apcommand :: "string \<Rightarrow> Commands" where
  "to_apcommand cmd = (case map_of (zip uCentralAPCommands Commands_all) cmd of Some c \<Rightarrow> c | None \<Rightarrow> Cunknown)"

definition DeviceClass_Validate :: "string \<Rightarrow> bool" where
  "DeviceClass_Validate s = (s \<in> set [''any'', ''entity'', ''subscriber'', ''venue''])"

lemma command_roundtrip:
  assumes "command_to_string c = Some s"
  shows "to_apcommand s = c"
proof -
  have "distinct uCentralAPCommands" "length uCentralAPCommands = length Commands_all"
    by (simp_all add: uCentralAPCommands_def Commands_all_def)
  moreover have "(s, c) \<in> set (zip uCentralAPCommands Commands_all)"
    using map_of_SomeD [OF assms [unfolded command_to_string_def]] by (auto simp: in_set_zip)
  ultimately have "map_of (zip uCentralAPCommands Commands_all) s = Some c" by (intro map_of_is_SomeI) simp_all
  then show ?thesis by (simp add: to_apcommand_def)
qed

lemma command_known: "command_to_string c = None \<longleftrightarrow> c = Cunknown"
  by (cases c) (simp_all add: command_to_string_def Commands_all_def uCentralAPCommands_def)

end
