(* ===== verification/Rest_System.thy ===== *)
theory Rest_System
  imports Rest_Keys Utils_Numbers "HOL-Library.Sublist"
begin

text \<open>
  The endpoints of the running service itself: \<^verbatim>\<open>src/framework/RESTAPI_SystemCommand.h\<close> (information, log levels, reload),
  \<^verbatim>\<open>src/framework/RESTAPI_SystemConfiguration.h\<close>, the static files of \<^verbatim>\<open>src/RESTAPI/RESTAPI_asset_server.cpp\<close>, and the log levels
  of \<^verbatim>\<open>src/framework/MicroService.cpp\<close>. What the process and its host say about themselves is an argument, \<open>system_env\<close>.
  The subsystems with their levels are the field \<open>w_levels\<close> of the state, the names a client asked to reload \<open>w_reloads\<close>.
\<close>

record system_env =
  s_version :: string
  s_uptime :: "nat \<Rightarrow> u64"
  s_start :: u64
  s_osName :: string
  s_processors :: nat
  s_nodeName :: string
  s_certFiles :: "string list list"
  s_fileExists :: "string \<Rightarrow> bool"
  s_fileName :: "string \<Rightarrow> string"
  s_expiresOn :: "string \<Rightarrow> int option"
  s_openFds :: int
  s_memory :: "u64 \<times> u64 \<times> u64 \<times> u64"
  s_parseLevel :: "string \<Rightarrow> int option"
  s_prio :: "log_prio \<Rightarrow> int"
  s_config :: "string \<Rightarrow> string option"
  s_extension :: "string \<Rightarrow> string"

subsection \<open>Log levels\<close>

text \<open>The level of the first subsystem with that name.\<close>

fun set_level :: "env \<Rightarrow> string \<Rightarrow> int \<Rightarrow> (string \<times> int) list \<Rightarrow> bool \<times> (string \<times> int) list" where
  "set_level E Sub P [] = (False, [])"
| "set_level E Sub P ((Name, l) # SubSystems) =
     (if Sub = str_toLower (e_poco E) Name then (True, (Name, P) # SubSystems)
      else (case set_level E Sub P SubSystems of (ok, rest) \<Rightarrow> (ok, (Name, l) # rest)))"

definition SetSubsystemLogLevel :: "env \<Rightarrow> system_env \<Rightarrow> string \<Rightarrow> string \<Rightarrow> bool sec" where
  "SetSubsystemLogLevel E S SubSystem Level =
     (case s_parseLevel S Level of
        None \<Rightarrow> ret False
      | Some P \<Rightarrow>
          (let Sub = str_toLower (e_poco E) SubSystem in
           if Sub = ''all'' then do {
             modify (\<lambda>w. w\<lparr>w_levels := map (\<lambda>(Name, l). (Name, P)) (w_levels w)\<rparr>);
             ret True
           }
           else do {
             ok \<leftarrow> gets (\<lambda>w. fst (set_level E Sub P (w_levels w)));
             modify (\<lambda>w. w\<lparr>w_levels := snd (set_level E Sub P (w_levels w))\<rparr>);
             ret ok
           }))"

definition GetSubSystems :: "env \<Rightarrow> string list sec" where
  "GetSubSystems E = gets (\<lambda>w. map (\<lambda>(Name, l). str_toLower (e_poco E) Name) (w_levels w))"

definition GetLogLevels :: "system_env \<Rightarrow> (string \<times> string) list sec" where
  "GetLogLevels S = gets (\<lambda>w. map (\<lambda>(Name, l). (Name, LogLevelToString (s_prio S) l)) (w_levels w))"

definition GetLogLevelNames :: "string list" where
  "GetLogLevelNames =
     [''none'', ''fatal'', ''critical'', ''error'', ''warning'', ''notice'', ''information'', ''debug'', ''trace'']"

subsection \<open>System commands\<close>

text \<open>
  The certificates of the hosts of every subsystem, each file once; \<open>None\<close> when one cannot be read.
\<close>

fun certificates :: "system_env \<Rightarrow> string list \<Rightarrow> string list \<Rightarrow> json list option" where
  "certificates S CertNames [] = Some []"
| "certificates S CertNames (CertFileName # Files) =
     (if CertFileName \<noteq> [] \<and> s_fileExists S CertFileName \<and> CertFileName \<notin> set CertNames
      then (case s_expiresOn S CertFileName of
          None \<Rightarrow> None
        | Some t \<Rightarrow>
            map_option (\<lambda>Certificates.
                JObj [(''filename'', JStr (s_fileName S CertFileName)), (''expiresOn'', JNum t)] # Certificates)
              (certificates S (CertFileName # CertNames) Files))
      else certificates S CertNames Files)"

definition system_info :: "env \<Rightarrow> system_env \<Rightarrow> nat \<Rightarrow> jobj option" where
  "system_info E S t =
     map_option (\<lambda>Certificates.
         [(''version'', JStr (s_version S)), (''uptime'', jU64 (s_uptime S t)), (''start'', jU64 (s_start S)),
          (''os'', JStr (s_osName S)), (''processors'', JNum (int (s_processors S))), (''hostname'', JStr (s_nodeName S)),
          (''UI'', JStr (e_uiURI E)), (''certificates'', JArr Certificates)])
       (certificates S [] (concat (s_certFiles S)))"

definition GetExtraConfiguration :: jobj where
  "GetExtraConfiguration = [(''additionalConfiguration'', JBool False)]"

definition resources :: "system_env \<Rightarrow> jobj" where
  "resources S =
     (case s_memory S of (currRealMem, peakRealMem, currVirtMem, peakVirtMem) \<Rightarrow>
        [(''numberOfFileDescriptors'', JNum (s_openFds S)), (''currRealMem'', jU64 currRealMem), (''peakRealMem'', jU64 peakRealMem),
         (''currVirtMem'', jU64 currVirtMem), (''peakVirtMem'', jU64 peakVirtMem)])"

definition system_command_DoGet :: "env \<Rightarrow> system_env \<Rightarrow> rest_op" where
  "system_command_DoGet E S c =
     (if HasParameter c ''command'' = Some ''info'' then do {
        t \<leftarrow> step;
        ret (map_option (\<lambda>Answer. ReturnObject (JObj Answer)) (system_info E S t))
      }
      else if HasParameter c ''command'' = Some ''extraConfiguration'' then ret (Some (ReturnObject (JObj GetExtraConfiguration)))
      else if HasParameter c ''command'' = Some ''resources'' then ret (Some (ReturnObject (JObj (resources S))))
      else ret (Some (BadRequest Err_InvalidCommand)))"

text \<open>The loop over the parameters of a change of levels; \<open>False\<close> is an exception, which leaves the levels set so far.\<close>

fun set_log_levels :: "env \<Rightarrow> system_env \<Rightarrow> json list \<Rightarrow> bool sec" where
  "set_log_levels E S [] = ret True"
| "set_log_levels E S (i # ParametersBlock) =
     (case Option.bind (var_toString (e_poco E) i) (json_parse (e_poco E)) of
        Some (JObj InnerObj) \<Rightarrow>
          if map_of InnerObj ''tag'' \<noteq> None \<and> map_of InnerObj ''value'' \<noteq> None then
            (case (GetS E ''tag'' InnerObj [], GetS E ''value'' InnerObj []) of
               (Some Name, Some Value) \<Rightarrow> do {
                 SetSubsystemLogLevel E S Name Value;
                 set_log_levels E S ParametersBlock
               }
             | _ \<Rightarrow> ret False)
          else set_log_levels E S ParametersBlock
      | _ \<Rightarrow> ret False)"

fun texts_of :: "env \<Rightarrow> json list \<Rightarrow> string list option" where
  "texts_of E [] = Some []"
| "texts_of E (i # SubSystems) =
     (case var_toString (e_poco E) i of
        None \<Rightarrow> None
      | Some t \<Rightarrow> map_option (\<lambda>Names. t # Names) (texts_of E SubSystems))"

definition list_answer :: "string list \<Rightarrow> response" where
  "list_answer names = ReturnObject (JObj [(''list'', jStrings names)])"

definition system_command_DoPost :: "env \<Rightarrow> system_env \<Rightarrow> rest_op" where
  "system_command_DoPost E S c =
     (case ParsedBody c of
        None \<Rightarrow> ret None
      | Some Obj \<Rightarrow>
          (case map_of Obj ''command'' of
             None \<Rightarrow> ret (Some (BadRequest Err_InvalidCommand))
           | Some v \<Rightarrow>
               (case map_option (str_toLower (e_poco E)) (var_toString (e_poco E) v) of
                  None \<Rightarrow> ret None
                | Some Command \<Rightarrow>
                    if Command = ''setloglevel'' then
                      (case map_of Obj ''subsystems'' of
                         Some (JArr ParametersBlock) \<Rightarrow> do {
                           ok \<leftarrow> set_log_levels E S ParametersBlock;
                           ret (if ok then Some OK else None)
                         }
                       | _ \<Rightarrow> ret (Some (BadRequest Err_MissingOrInvalidParameters)))
                    else if Command = ''getloglevels'' then do {
                      CurrentLogLevels \<leftarrow> GetLogLevels S;
                      ret (Some (ReturnObject (JObj [(''tagList'',
                        JArr (map (\<lambda>(Name, Level). JObj [(''tag'', JStr Name), (''value'', JStr Level)]) CurrentLogLevels))])))
                    }
                    else if Command = ''getloglevelnames'' then ret (Some (list_answer GetLogLevelNames))
                    else if Command = ''getsubsystemnames'' then do {
                      SubSystemNames \<leftarrow> GetSubSystems E;
                      ret (Some (list_answer SubSystemNames))
                    }
                    else if Command = ''reload'' then
                      (case map_of Obj ''subsystems'' of
                         Some (JArr SubSystems) \<Rightarrow>
                           (case texts_of E SubSystems of
                              None \<Rightarrow> ret None
                            | Some Names \<Rightarrow> do {
                                modify (\<lambda>w. w\<lparr>w_reloads := w_reloads w @ Names\<rparr>);
                                ret (Some OK)
                              })
                       | _ \<Rightarrow> ret (Some OK))
                    else ret (Some (BadRequest Err_MissingOrInvalidParameters)))))"

definition RESTAPI_system_command :: "env \<Rightarrow> system_env \<Rightarrow> bool \<Rightarrow> handler" where
  "RESTAPI_system_command E S Internal =
     plain_handler [''POST'', ''GET'', ''OPTIONS''] Internal (system_command_DoGet E S) (system_command_DoPost E S)
       no_operation no_operation"

subsection \<open>System configuration\<close>

definition configuration_entry :: "system_env \<Rightarrow> string \<Rightarrow> json" where
  "configuration_entry S entry =
     JObj (ExtraSystemConfiguration_to_json
       \<lparr>esc_parameterName = entry, esc_parameterValue = (case s_config S entry of None \<Rightarrow> [] | Some v \<Rightarrow> v)\<rparr>)"

definition system_configuration_DoGet :: "env \<Rightarrow> system_env \<Rightarrow> rest_op" where
  "system_configuration_DoGet E S c =
     (let entries = GetParameter c ''entries'' [] in
      if entries = [] then ret (Some (BadRequest Err_MissingOrInvalidParameters))
      else ret (Some (ReturnObject (JArr (map (\<lambda>entry. configuration_entry S (str_trim (e_poco E) entry))
        (str_tokens (e_poco E) CHR '','' entries))))))"

definition root_only :: rest_op where
  "root_only c =
     (if u_userRole (caller c) \<noteq> ROOT then ret (Some (UnAuthorized Err_ACCESS_DENIED))
      else ret (Some (BadRequest Err_NotImplemented)))"

definition RESTAPI_system_configuration :: "env \<Rightarrow> system_env \<Rightarrow> bool \<Rightarrow> handler" where
  "RESTAPI_system_configuration E S Internal =
     plain_handler [''PUT'', ''GET'', ''DELETE'', ''OPTIONS''] Internal (system_configuration_DoGet E S) no_operation root_only root_only"

subsection \<open>Static files\<close>

text \<open>The address searched for the icon is the path of the request; its query is left out.\<close>

definition asset_file :: "env \<Rightarrow> rest_ctx \<Rightarrow> string" where
  "asset_file E c =
     (if sublist ''/favicon.ico'' (rq_path (cx_request c)) then e_wwwAssets E @ ''/favicon.ico''
      else e_wwwAssets E @ ''/'' @ GetBinding E c ''id'' [])"

definition asset_DoGet :: "env \<Rightarrow> system_env \<Rightarrow> rest_op" where
  "asset_DoGet E S c =
     (if \<not> e_isFile E (asset_file E c) then ret (Some NotFound)
      else ret (Some (SendFile (asset_file E c) (mt_ContentType (FindMediaType (s_extension S) (asset_file E c))))))"

definition RESTAPI_asset_server :: "env \<Rightarrow> system_env \<Rightarrow> bool \<Rightarrow> handler" where
  "RESTAPI_asset_server E S Internal =
     (plain_handler [''POST'', ''GET'', ''PUT'', ''DELETE'', ''OPTIONS''] Internal (asset_DoGet E S) no_operation no_operation
       no_operation)\<lparr>hd_always := False\<rparr>"

subsection \<open>What the endpoints give away\<close>

text \<open>
  The configuration endpoint answers any caller with any entry it asks for, in the order asked: the role is only looked at for
  changes, which are not implemented.
\<close>

lemma configuration_open:
  assumes "GetParameter c ''entries'' [] = entries" "entries \<noteq> []"
  shows "system_configuration_DoGet E S c =
    ret (Some (ReturnObject (JArr (map (\<lambda>entry. configuration_entry S (str_trim (e_poco E) entry)) (str_tokens (e_poco E) CHR '','' entries)))))"
  using assms by (simp add: system_configuration_DoGet_def Let_def)

lemma set_level_names: "map fst (snd (set_level E Sub P L)) = map fst L"
  by (induction L) (auto split: prod.splits)

lemma set_level_rest: "(Name, l) \<in> set (snd (set_level E Sub P L)) \<Longrightarrow> (Name, l) \<in> set L \<or> (l = P \<and> str_toLower (e_poco E) Name = Sub)"
  by (induction L) (auto split: prod.splits if_splits)

text \<open>A change of levels keeps the subsystems and gives them levels the log library knows.\<close>

definition levels_ok :: "system_env \<Rightarrow> string list \<Rightarrow> int set \<Rightarrow> world \<Rightarrow> bool" where
  "levels_ok S names L w \<longleftrightarrow> map fst (w_levels w) = names \<and> snd ` set (w_levels w) \<subseteq> L \<union> {P. \<exists>t. s_parseLevel S t = Some P}"

lemma SetSubsystemLogLevel_ok:
  "levels_ok S names L w \<Longrightarrow> wp (SetSubsystemLogLevel E S Sub Level) (\<lambda>_. levels_ok S names L) w"
  by (fastforce simp: SetSubsystemLogLevel_def levels_ok_def Let_def set_level_names comp_def split_beta
      dest: set_level_rest split: option.splits)

lemma set_log_levels_ok:
  "levels_ok S names L w \<Longrightarrow> wp (set_log_levels E S block) (\<lambda>_. levels_ok S names L) w"
  by (induction block arbitrary: w)
    (auto split: option.splits json.splits intro!: wp_mono [OF SetSubsystemLogLevel_ok])

end
