(* ===== verification/Ui_Sockets.thy ===== *)
theory Ui_Sockets
  imports Sessions Utils_Text Ordered_Map Utils_Numbers
begin

text \<open>
  The web-socket server for the user interface, \<^verbatim>\<open>src/framework/UI_WebSocketClientServer.cpp\<close>, with the notifications of
  \<^verbatim>\<open>UI_WebSocketClientNotifications.h\<close> and the log channel of \<^verbatim>\<open>WebSocketLogger.h\<close>. A connection is known by its socket number.
  What arrives on a socket, whether a frame can be sent and the processor of commands are arguments; the frames sent are kept
  in the state. \<open>None\<close> of the clean-up is the removal of a connection that is not there.
\<close>

subsection \<open>State\<close>

record ws_client =
  wc_Id :: string
  wc_UserName :: string
  wc_Authenticated :: bool
  wc_SocketRegistered :: bool
  wc_Filter :: "u64 list"
  wc_UserInfo :: UserInfoAndPolicy

record ws_server =
  ws_Clients :: "(int \<times> ws_client) list"
  ws_NotificationTypes :: "(u64 \<times> string) list"
  ws_NotificationTypesJSON :: jobj
  ws_ToBeRemoved :: "int list"
  ws_UsersConnected :: nat
  ws_xid :: u64
  ws_frames :: "(int \<times> string) list"

definition ws_init :: ws_server where
  "ws_init = \<lparr>ws_Clients = [], ws_NotificationTypes = [], ws_NotificationTypesJSON = [], ws_ToBeRemoved = [],
     ws_UsersConnected = 0, ws_xid = 1, ws_frames = []\<rparr>"

definition send_frame :: "int \<Rightarrow> string \<Rightarrow> ws_server \<Rightarrow> ws_server" where
  "send_frame fd Payload s = s\<lparr>ws_frames := ws_frames s @ [(fd, Payload)]\<rparr>"

definition set_client :: "int \<Rightarrow> ws_client \<Rightarrow> ws_server \<Rightarrow> ws_server" where
  "set_client fd Client s = s\<lparr>ws_Clients := store_set fd Client (ws_Clients s)\<rparr>"

subsection \<open>Connections\<close>

definition NewClient :: "int \<Rightarrow> string \<Rightarrow> string \<Rightarrow> ws_server \<Rightarrow> ws_server" where
  "NewClient ClientSocket cid UserName s =
     (let s1 = set_client ClientSocket
        \<lparr>wc_Id = cid, wc_UserName = UserName, wc_Authenticated = False, wc_SocketRegistered = True, wc_Filter = [],
         wc_UserInfo = UserInfoAndPolicy_init\<rparr> s
      in s1\<lparr>ws_UsersConnected := length (ws_Clients s1)\<rparr>)"

definition EndConnection :: "int \<Rightarrow> ws_client \<Rightarrow> ws_server \<Rightarrow> ws_server" where
  "EndConnection fd Client s =
     (set_client fd (Client\<lparr>wc_SocketRegistered := False\<rparr>) s)\<lparr>ws_ToBeRemoved := ws_ToBeRemoved s @ [fd]\<rparr>"

fun erase_all :: "int list \<Rightarrow> (int \<times> ws_client) list \<Rightarrow> (int \<times> ws_client) list option" where
  "erase_all [] Clients = Some Clients"
| "erase_all (i # ToBeRemoved) Clients =
     (if map_of Clients i = None then None else erase_all ToBeRemoved (store_erase i Clients))"

definition clean_clients :: "ws_server \<Rightarrow> ws_server option" where
  "clean_clients s =
     map_option (\<lambda>Clients. s\<lparr>ws_Clients := Clients, ws_ToBeRemoved := [], ws_UsersConnected := length Clients\<rparr>)
       (erase_all (ws_ToBeRemoved s) (ws_Clients s))"

text \<open>\<^verbatim>\<open>OnSocketError\<close> and \<^verbatim>\<open>OnSocketShutdown\<close>.\<close>

definition OnSocketShutdown :: "int \<Rightarrow> ws_server \<Rightarrow> ws_server" where
  "OnSocketShutdown fd s = (case map_of (ws_Clients s) fd of None \<Rightarrow> s | Some Client \<Rightarrow> EndConnection fd Client s)"

subsection \<open>Notifications\<close>

definition IsFiltered :: "u64 \<Rightarrow> ws_client \<Rightarrow> bool" where
  "IsFiltered i Client \<longleftrightarrow> i \<in> set (wc_Filter Client)"

definition SortNotifications :: "ws_server \<Rightarrow> ws_server" where
  "SortNotifications s =
     (let types = sort_key fst (ws_NotificationTypes s)
      in s\<lparr>ws_NotificationTypes := types,
           ws_NotificationTypesJSON :=
             [(''notificationTypes'', JArr (map (\<lambda>(i, helper). JObj [(''id'', jU64 i), (''helper'', JStr helper)]) types))]\<rparr>)"

definition RegisterNotifications :: "(u64 \<times> string) list \<Rightarrow> ws_server \<Rightarrow> ws_server" where
  "RegisterNotifications Notifications s =
     SortNotifications (s\<lparr>ws_NotificationTypes := ws_NotificationTypes s @ Notifications\<rparr>)"

text \<open>The first connection with that name decides.\<close>

fun send_to_user :: "(int \<Rightarrow> bool) \<Rightarrow> string \<Rightarrow> u64 \<Rightarrow> string \<Rightarrow> (int \<times> ws_client) list \<Rightarrow> ws_server \<Rightarrow> bool \<times> ws_server" where
  "send_to_user sends UserName i Payload [] s = (False, s)"
| "send_to_user sends UserName i Payload ((fd, Client) # Clients) s =
     (if wc_UserName Client = UserName then
        (if \<not> IsFiltered i Client \<and> wc_Authenticated Client \<and> sends fd then (True, send_frame fd Payload s) else (False, s))
      else send_to_user sends UserName i Payload Clients s)"

definition SendToUser :: "(int \<Rightarrow> bool) \<Rightarrow> string \<Rightarrow> u64 \<Rightarrow> string \<Rightarrow> ws_server \<Rightarrow> bool \<times> ws_server" where
  "SendToUser sends UserName i Payload s = send_to_user sends UserName i Payload (ws_Clients s) s"

definition SendToAll :: "(int \<Rightarrow> bool) \<Rightarrow> u64 \<Rightarrow> string \<Rightarrow> ws_server \<Rightarrow> ws_server" where
  "SendToAll sends i Payload s =
     foldl (\<lambda>s' (fd, Client).
       if \<not> IsFiltered i Client \<and> wc_Authenticated Client \<and> sends fd then send_frame fd Payload s' else s') s (ws_Clients s)"

definition notification_json :: "u64 \<Rightarrow> u64 \<Rightarrow> jobj \<Rightarrow> json" where
  "notification_json notification_id type_id content =
     JObj [(''notification'', JObj [(''notification_id'', jU64 notification_id), (''type_id'', jU64 type_id), (''content'', JObj content)])]"

text \<open>The identifier of a notification is drawn when it is made.\<close>

definition new_notification :: "ws_server \<Rightarrow> u64 \<times> ws_server" where
  "new_notification s = (ws_xid s + 1, s\<lparr>ws_xid := ws_xid s + 1\<rparr>)"

definition SendNotification :: "poco \<Rightarrow> (int \<Rightarrow> bool) \<Rightarrow> u64 \<Rightarrow> u64 \<Rightarrow> jobj \<Rightarrow> ws_server \<Rightarrow> ws_server" where
  "SendNotification P sends notification_id type_id content s =
     SendToAll sends type_id (json_condense P (notification_json notification_id type_id content)) s"

definition SendUserNotification :: "poco \<Rightarrow> (int \<Rightarrow> bool) \<Rightarrow> string \<Rightarrow> u64 \<Rightarrow> u64 \<Rightarrow> jobj \<Rightarrow> ws_server \<Rightarrow> bool \<times> ws_server" where
  "SendUserNotification P sends userName notification_id type_id content s =
     SendToUser sends userName type_id (json_condense P (notification_json notification_id type_id content)) s"

subsection \<open>Log messages\<close>

definition priority_text :: "(log_prio \<Rightarrow> int) \<Rightarrow> int \<Rightarrow> string" where
  "priority_text prio p =
     (if p = prio PRIO_INFORMATION then ''information''
      else if p = prio PRIO_CRITICAL then ''critical''
      else if p = prio PRIO_DEBUG then ''debug''
      else if p = prio PRIO_ERROR then ''error''
      else if p = prio PRIO_FATAL then ''fatal''
      else if p = prio PRIO_NOTICE then ''notice''
      else if p = prio PRIO_TRACE then ''trace''
      else if p = prio PRIO_WARNING then ''warning''
      else ''none'')"

record NotificationLogMessage =
  nl_msg :: string
  nl_level :: string
  nl_timestamp :: u64
  nl_source :: string
  nl_thread_name :: string
  nl_thread_id :: u64

definition NotificationLogMessage_init :: NotificationLogMessage where
  "NotificationLogMessage_init =
     \<lparr>nl_msg = [], nl_level = [], nl_timestamp = 0, nl_source = [], nl_thread_name = [], nl_thread_id = 0\<rparr>"

definition NotificationLogMessage_to_json :: "NotificationLogMessage \<Rightarrow> jobj" where
  "NotificationLogMessage_to_json r = obj_sets
     [(''msg'', JStr (nl_msg r)), (''level'', JStr (nl_level r)), (''timestamp'', jU64 (nl_timestamp r)),
      (''source'', JStr (nl_source r)), (''thread_name'', JStr (nl_thread_name r)), (''thread_id'', jU64 (nl_thread_id r))]"

definition NotificationLogMessage_from_json :: "poco \<Rightarrow> jobj \<Rightarrow> NotificationLogMessage reader" where
  "NotificationLogMessage_from_json P Obj = read_fields
     [fj_string P Obj ''msg'' nl_msg_update,
      fj_string P Obj ''level'' nl_level_update,
      fj_u64 P Obj ''timestamp'' nl_timestamp_update,
      fj_string P Obj ''source'' nl_source_update,
      fj_string P Obj ''thread_name'' nl_thread_name_update,
      fj_u64 P Obj ''thread_id'' nl_thread_id_update]"

definition log_message :: "poco \<Rightarrow> (int \<Rightarrow> bool) \<Rightarrow> NotificationLogMessage \<Rightarrow> ws_server \<Rightarrow> ws_server" where
  "log_message P sends m s =
     (if ws_UsersConnected s = 0 then s
      else (case new_notification s of (xid, s1) \<Rightarrow> SendNotification P sends xid 1 (NotificationLogMessage_to_json m) s1))"

subsection \<open>What a client sends\<close>

text \<open>
  \<open>RecvThrows\<close> is a frame that cannot be received, \<open>NoData\<close> one of length zero. A text is read up to its first zero byte.
\<close>

datatype incoming = RecvThrows | NoData | PingFrame | PongFrame | CloseFrame | TextFrame string | OtherFrame

definition c_text :: "string \<Rightarrow> string" where
  "c_text s = takeWhile (\<lambda>c. c \<noteq> CHR 0x00) s"

text \<open>The members read before one that is not a number.\<close>

fun read_filters :: "poco \<Rightarrow> json list \<Rightarrow> u64 list \<times> bool" where
  "read_filters P [] = ([], True)"
| "read_filters P (Filter # Filters) =
     (case var_toU64 P Filter of
        None \<Rightarrow> ([], False)
      | Some i \<Rightarrow> (case read_filters P Filters of (fs, ok) \<Rightarrow> (i # fs, ok)))"

type_synonym ws_processor = "jobj \<Rightarrow> UserInfo \<Rightarrow> string \<times> bool"

text \<open>\<open>sends\<close> says whether a frame to this client can be sent now; when it cannot, the connection ends.\<close>

definition answer_client :: "bool \<Rightarrow> int \<Rightarrow> ws_client \<Rightarrow> string \<Rightarrow> bool \<Rightarrow> ws_server \<Rightarrow> ws_server" where
  "answer_client sends fd Client Payload CloseConnection s =
     (if \<not> sends then EndConnection fd Client s
      else if CloseConnection then EndConnection fd Client (send_frame fd Payload s)
      else send_frame fd Payload s)"

definition welcome_text :: "poco \<Rightarrow> ws_server \<Rightarrow> string" where
  "welcome_text P s = json_condense P (JObj (obj_set ''success'' (JStr ''Welcome! Bienvenue! Bienvenidos!'') (ws_NotificationTypesJSON s)))"

definition goodbye_text :: "poco \<Rightarrow> string" where
  "goodbye_text P = json_condense P (JObj [(''error'', JStr ''Invalid token. Closing connection.'')])"

definition authenticate :: "env \<Rightarrow> bool \<Rightarrow> int \<Rightarrow> ws_client \<Rightarrow> string \<Rightarrow> ws_server \<Rightarrow> ws_server sec" where
  "authenticate E sends fd Client Frame s =
     (case Split Frame CHR '':'' of
        [_, tok] \<Rightarrow> do {
          (ok, UserInfo, Expired) \<leftarrow> IsAuthorized_token E tok (wc_UserInfo Client);
          let Client1 = Client\<lparr>wc_UserInfo := UserInfo\<rparr>;
          if ok then
            (let Client2 = Client1\<lparr>wc_Authenticated := True, wc_UserName := u_email (uip_userinfo UserInfo)\<rparr>
             in ret (answer_client sends fd Client2 (welcome_text (e_poco E) s) False (set_client fd Client2 s)))
          else ret (answer_client sends fd Client1 (goodbye_text (e_poco E)) True (set_client fd Client1 s))
        }
      | _ \<Rightarrow> ret (answer_client sends fd Client (goodbye_text (e_poco E)) True s))"

definition client_command :: "env \<Rightarrow> ws_processor option \<Rightarrow> bool \<Rightarrow> int \<Rightarrow> ws_client \<Rightarrow> string \<Rightarrow> ws_server \<Rightarrow> ws_server" where
  "client_command E Processor sends fd Client Frame s =
     (case json_parse (e_poco E) Frame of
        Some (JObj Obj) \<Rightarrow>
          (case map_of Obj ''drop-notifications'' of
             Some (JArr Filters) \<Rightarrow>
               (case read_filters (e_poco E) Filters of (fs, ok) \<Rightarrow>
                  if ok then set_client fd (Client\<lparr>wc_Filter := sort fs\<rparr>) s
                  else EndConnection fd (Client\<lparr>wc_Filter := fs\<rparr>) s)
           | _ \<Rightarrow>
               (case (case Processor of None \<Rightarrow> ([], False) | Some F \<Rightarrow> F Obj (uip_userinfo (wc_UserInfo Client))) of
                  (Answer, CloseConnection) \<Rightarrow>
                    answer_client sends fd Client (if Answer \<noteq> [] then Answer else ''{}'') CloseConnection s))
      | _ \<Rightarrow> EndConnection fd Client s)"

definition OnSocketReadable :: "env \<Rightarrow> ws_processor option \<Rightarrow> bool \<Rightarrow> int \<Rightarrow> incoming \<Rightarrow> ws_server \<Rightarrow> ws_server sec" where
  "OnSocketReadable E Processor sends fd frame s =
     (case map_of (ws_Clients s) fd of
        None \<Rightarrow> ret s
      | Some Client \<Rightarrow>
          (case frame of
             RecvThrows \<Rightarrow> ret (EndConnection fd Client s)
           | NoData \<Rightarrow> ret (EndConnection fd Client s)
           | PingFrame \<Rightarrow> ret (answer_client sends fd Client [] False s)
           | PongFrame \<Rightarrow> ret s
           | CloseFrame \<Rightarrow> ret (EndConnection fd Client s)
           | OtherFrame \<Rightarrow> ret s
           | TextFrame t \<Rightarrow>
               if \<not> wc_Authenticated Client then authenticate E sends fd Client (c_text t) s
               else ret (client_command E Processor sends fd Client (c_text t) s)))"

subsection \<open>Runs of the server\<close>

text \<open>
  The events of the server with the state of the service beside it. A new socket has a number that is not in use: a connection
  keeps its socket open until it is removed. The reactor calls the handlers only of sockets that are registered with it.
  Everything else in the service may change between two events.
\<close>

definition registered :: "ws_server \<Rightarrow> int \<Rightarrow> bool" where
  "registered s fd \<longleftrightarrow> (\<exists>Client. map_of (ws_Clients s) fd = Some Client \<and> wc_SocketRegistered Client)"

inductive ws_run :: "env \<Rightarrow> ws_processor option \<Rightarrow> ws_server \<Rightarrow> world \<Rightarrow> bool" for E Processor where
  start: "ws_run E Processor ws_init w"
| connect: "ws_run E Processor s w \<Longrightarrow> map_of (ws_Clients s) fd = None \<Longrightarrow> ws_run E Processor (NewClient fd cid UserName s) w"
| readable: "ws_run E Processor s w \<Longrightarrow> registered s fd \<Longrightarrow>
    run_state (OnSocketReadable E Processor sends fd frame s) w = (s', w') \<Longrightarrow> ws_run E Processor s' w'"
| closed: "ws_run E Processor s w \<Longrightarrow> registered s fd \<Longrightarrow> ws_run E Processor (OnSocketShutdown fd s) w"
| clean: "ws_run E Processor s w \<Longrightarrow> clean_clients s = Some s' \<Longrightarrow> ws_run E Processor s' w"
| notify_all: "ws_run E Processor s w \<Longrightarrow> ws_run E Processor (SendToAll ok i Payload s) w"
| notify_user: "ws_run E Processor s w \<Longrightarrow> ws_run E Processor (snd (SendToUser ok UserName i Payload s)) w"
| types: "ws_run E Processor s w \<Longrightarrow> ws_run E Processor (RegisterNotifications ns s) w"
| log: "ws_run E Processor s w \<Longrightarrow> ws_run E Processor (log_message (e_poco E) ok m s) w"
| elsewhere: "ws_run E Processor s w \<Longrightarrow> ws_run E Processor s w'"

text \<open>
  The invariant: connections in the order of their sockets, those to be removed are listed once and are exactly the ones no
  longer registered, and an authenticated connection carries the name of the user it was authenticated for.
\<close>

definition ws_ok :: "ws_server \<Rightarrow> bool" where
  "ws_ok s \<longleftrightarrow> store_sorted (ws_Clients s) \<and> distinct (ws_ToBeRemoved s) \<and>
     (\<forall>fd. fd \<in> set (ws_ToBeRemoved s) \<longleftrightarrow> (\<exists>c. map_of (ws_Clients s) fd = Some c \<and> \<not> wc_SocketRegistered c)) \<and>
     (\<forall>fd c. map_of (ws_Clients s) fd = Some c \<longrightarrow> wc_Authenticated c \<longrightarrow> wc_UserName c = u_email (uip_userinfo (wc_UserInfo c)))"

definition client_ok :: "ws_client \<Rightarrow> bool" where
  "client_ok c \<longleftrightarrow> (wc_Authenticated c \<longrightarrow> wc_UserName c = u_email (uip_userinfo (wc_UserInfo c)))"

lemma ws_ok_init: "ws_ok ws_init"
  by (simp add: ws_ok_def ws_init_def store_sorted_def)

lemma ws_ok_frames [simp]: "ws_ok (send_frame fd p s) = ws_ok s" "ws_Clients (send_frame fd p s) = ws_Clients s"
    "ws_ToBeRemoved (send_frame fd p s) = ws_ToBeRemoved s"
  by (simp_all add: ws_ok_def send_frame_def)

lemma ws_ok_set: "ws_ok s \<Longrightarrow> registered s fd \<Longrightarrow> wc_SocketRegistered c \<Longrightarrow> client_ok c \<Longrightarrow> ws_ok (set_client fd c s) \<and> registered (set_client fd c s) fd"
  by (auto simp: ws_ok_def registered_def client_ok_def set_client_def map_of_store_set store_set_sorted)

lemma ws_ok_end: "ws_ok s \<Longrightarrow> registered s fd \<Longrightarrow> client_ok c \<Longrightarrow> ws_ok (EndConnection fd c s)"
  by (auto simp: ws_ok_def registered_def client_ok_def EndConnection_def set_client_def map_of_store_set store_set_sorted)

lemma ws_ok_new: "ws_ok s \<Longrightarrow> map_of (ws_Clients s) fd = None \<Longrightarrow> ws_ok (NewClient fd cid UserName s)"
  by (auto simp: ws_ok_def NewClient_def Let_def set_client_def map_of_store_set store_set_sorted)

lemma ws_ok_client: "ws_ok s \<Longrightarrow> map_of (ws_Clients s) fd = Some c \<Longrightarrow> client_ok c"
  by (simp add: ws_ok_def client_ok_def)

lemma registered_frames [simp]: "registered (send_frame fd p s) = registered s"
  by (simp add: registered_def fun_eq_iff)

lemma ws_ok_answer: "ws_ok s \<Longrightarrow> registered s fd \<Longrightarrow> client_ok c \<Longrightarrow> ws_ok (answer_client sends fd c p close s)"
  by (simp add: answer_client_def ws_ok_end)

lemma registeredD: "registered s fd \<Longrightarrow> map_of (ws_Clients s) fd = Some c \<Longrightarrow> wc_SocketRegistered c"
  by (simp add: registered_def)

lemma ws_ok_authenticate:
  assumes "ws_ok s" "registered s fd" "map_of (ws_Clients s) fd = Some c" "\<not> wc_Authenticated c"
  shows "wp (authenticate E sends fd c Frame s) (\<lambda>s' w'. ws_ok s') w"
proof -
  have auth: "ws_ok (answer_client sends fd c2 p close (set_client fd c2 s))" if "wc_SocketRegistered c2" "client_ok c2" for c2 p close
    using ws_ok_set [OF assms(1,2) that] that(2) by (simp add: ws_ok_answer)
  have reg: "wc_SocketRegistered c" using registeredD assms(2,3) by blast
  have c: "client_ok c" by (rule ws_ok_client [OF assms(1,3)])
  have any: "wp (IsAuthorized_token E tok ui) (\<lambda>r w'. True) w" for tok ui by (simp add: wp_def split_beta)
  show ?thesis
    unfolding authenticate_def using reg c assms(4) auth ws_ok_answer [OF assms(1,2) c]
    by (auto simp: client_ok_def Let_def intro!: wp_mono [OF any] split: list.splits)
qed

lemma ws_ok_command:
  assumes "ws_ok s" "registered s fd" "map_of (ws_Clients s) fd = Some c"
  shows "ws_ok (client_command E Processor sends fd c Frame s)"
proof -
  have reg: "wc_SocketRegistered c" using registeredD assms(2,3) by blast
  have c: "client_ok c" by (rule ws_ok_client [OF assms(1,3)])
  have f: "client_ok (c\<lparr>wc_Filter := fs\<rparr>)" for fs using c by (simp add: client_ok_def)
  show ?thesis
    unfolding client_command_def
    using ws_ok_end [OF assms(1,2)] ws_ok_answer [OF assms(1,2) c] ws_ok_set [OF assms(1,2)] reg c f
    by (auto split: option.splits json.splits prod.splits)
qed

lemma ws_ok_readable:
  assumes "ws_ok s" "registered s fd"
  shows "wp (OnSocketReadable E Processor sends fd frame s) (\<lambda>s' w'. ws_ok s') w"
proof -
  obtain c where c: "map_of (ws_Clients s) fd = Some c" using assms(2) by (auto simp: registered_def)
  note ok = ws_ok_client [OF assms(1) c]
  show ?thesis
    unfolding OnSocketReadable_def
    using assms c ok ws_ok_end [OF assms ok] ws_ok_answer [OF assms ok] ws_ok_authenticate [OF assms c] ws_ok_command [OF assms c]
    by (auto split: incoming.split)
qed

lemma erase_all_filter:
  "distinct ks \<Longrightarrow> \<forall>k \<in> set ks. map_of C k \<noteq> None \<Longrightarrow> erase_all ks C = Some (filter (\<lambda>(k, v). k \<notin> set ks) C)"
proof (induction ks C rule: erase_all.induct)
  case (2 i ks C)
  have "\<forall>k \<in> set ks. map_of (store_erase i C) k \<noteq> None" using "2.prems" by (auto simp: map_of_store_erase)
  then have "erase_all ks (store_erase i C) = Some (filter (\<lambda>(k, v). k \<notin> set ks) (store_erase i C))"
    using 2 by simp
  moreover have "filter (\<lambda>(k, v). k \<notin> set ks) (store_erase i C) = filter (\<lambda>(k, v). k \<notin> set (i # ks)) C"
    by (auto simp: store_erase_def intro!: filter_cong)
  ultimately show ?case using 2 by auto
qed simp

lemma clean_registered:
  assumes "ws_ok s"
  shows "clean_clients s = Some (s\<lparr>ws_Clients := filter (\<lambda>(fd, c). wc_SocketRegistered c) (ws_Clients s), ws_ToBeRemoved := [],
    ws_UsersConnected := length (filter (\<lambda>(fd, c). wc_SocketRegistered c) (ws_Clients s))\<rparr>)"
proof -
  have "distinct (map fst (ws_Clients s))" using assms sorted_distinct by (auto simp: ws_ok_def)
  then have "map_of (ws_Clients s) fd = Some c" if "(fd, c) \<in> set (ws_Clients s)" for fd c using that by simp
  then have "filter (\<lambda>(fd, c). fd \<notin> set (ws_ToBeRemoved s)) (ws_Clients s) = filter (\<lambda>(fd, c). wc_SocketRegistered c) (ws_Clients s)"
    using assms by (intro filter_cong refl) (auto simp: ws_ok_def)
  moreover have "\<forall>k \<in> set (ws_ToBeRemoved s). map_of (ws_Clients s) k \<noteq> None" using assms by (auto simp: ws_ok_def)
  ultimately show ?thesis
    using assms erase_all_filter [of "ws_ToBeRemoved s" "ws_Clients s"] by (simp add: clean_clients_def ws_ok_def)
qed

lemma ws_ok_clean: "ws_ok s \<Longrightarrow> clean_clients s = Some s' \<Longrightarrow> ws_ok s'"
  by (auto simp: clean_registered ws_ok_def store_filter_sorted map_of_filter_sorted split: option.splits if_splits)

lemma foldl_frames:
  "foldl (\<lambda>s (fd, c). if Q fd c then send_frame fd p s else s) s cs = s\<lparr>ws_frames := ws_frames s @ map (\<lambda>(fd, c). (fd, p)) (filter (\<lambda>(fd, c). Q fd c) cs)\<rparr>"
  by (induction cs arbitrary: s) (auto simp: send_frame_def)

text \<open>A notification for all goes to exactly the authenticated connections that did not drop its kind.\<close>

lemma SendToAll_frames:
  "SendToAll sends i Payload s = s\<lparr>ws_frames := ws_frames s @
    map (\<lambda>(fd, c). (fd, Payload)) (filter (\<lambda>(fd, c). \<not> IsFiltered i c \<and> wc_Authenticated c \<and> sends fd) (ws_Clients s))\<rparr>"
  unfolding SendToAll_def by (rule foldl_frames)

lemma ws_ok_same: "ws_Clients s' = ws_Clients s \<Longrightarrow> ws_ToBeRemoved s' = ws_ToBeRemoved s \<Longrightarrow> ws_ok s' = ws_ok s"
  by (simp add: ws_ok_def)

lemma send_to_user_ok: "ws_ok (snd (send_to_user sends UserName i Payload cs s)) = ws_ok s"
  by (induction cs) (auto split: if_splits)

lemma ws_run_ok: "ws_run E Processor s w \<Longrightarrow> ws_ok s"
proof (induction rule: ws_run.induct)
  case (readable s w fd sends frame s' w')
  then show ?case using ws_ok_readable [of s fd E Processor sends frame w] by (simp add: wp_def)
next
  case (closed s w fd)
  then show ?case
    using ws_ok_end ws_ok_client by (fastforce simp: OnSocketShutdown_def registered_def split: option.splits)
next
  case (types s w ns)
  then show ?case
    using ws_ok_same [of "RegisterNotifications ns s" s] by (simp add: RegisterNotifications_def SortNotifications_def Let_def)
next
  case (log s w ok m)
  then show ?case
    using ws_ok_same [of "log_message (e_poco E) ok m s" s]
    by (simp add: log_message_def new_notification_def SendNotification_def SendToAll_frames)
qed (auto simp: ws_ok_init ws_ok_new ws_ok_clean SendToAll_frames SendToUser_def send_to_user_ok ws_ok_same [of "_\<lparr>ws_frames := _\<rparr>"])


definition closing_server :: ws_server where
  "closing_server = OnSocketShutdown 7 (NewClient 7 ''b'' [] (NewClient 5 ''a'' [] ws_init))"


definition keeps_client :: "int \<Rightarrow> ws_client \<Rightarrow> ws_server \<Rightarrow> bool" where
  "keeps_client fd c s \<longleftrightarrow> (\<exists>c'. map_of (ws_Clients s) fd = Some c' \<and> wc_Authenticated c' = wc_Authenticated c \<and>
     wc_UserInfo c' = wc_UserInfo c \<and> wc_UserName c' = wc_UserName c)"

lemma keeps_end: "keeps_client fd c (EndConnection fd c s)"
  by (simp add: keeps_client_def EndConnection_def set_client_def map_of_store_set)

lemma keeps_answer: "map_of (ws_Clients s) fd = Some c \<Longrightarrow> keeps_client fd c (answer_client sends fd c p close s)"
  using keeps_end by (auto simp: answer_client_def) (simp add: keeps_client_def)

lemma set_client_lookup: "map_of (ws_Clients (set_client fd c s)) fd = Some c"
  by (simp add: set_client_def map_of_store_set)

text \<open>
  What becomes of a connection whose frame is read: authenticated only for a session.
\<close>

definition auth_post :: "env \<Rightarrow> world \<Rightarrow> int \<Rightarrow> incoming \<Rightarrow> ws_server \<Rightarrow> bool" where
  "auth_post E w fd frame s' \<longleftrightarrow> (\<exists>c'. map_of (ws_Clients s') fd = Some c' \<and>
     (if wc_Authenticated c'
      then \<exists>t a tok u. frame = TextFrame t \<and> Split (c_text t) CHR '':'' = [a, tok] \<and> session_of E Users w tok = Some u \<and>
        same_user (uip_userinfo (wc_UserInfo c')) u \<and> wc_UserName c' = u_email (uip_userinfo (wc_UserInfo c'))
      else \<forall>t a tok. frame = TextFrame t \<and> Split (c_text t) CHR '':'' = [a, tok] \<longrightarrow> session_of E Users w tok = None))"

lemma auth_post_none:
  "keeps_client fd c s' \<Longrightarrow> \<not> wc_Authenticated c \<Longrightarrow>
    (\<And>t a tok. frame = TextFrame t \<Longrightarrow> Split (c_text t) CHR '':'' = [a, tok] \<Longrightarrow> session_of E Users w tok = None) \<Longrightarrow>
    auth_post E w fd frame s'"
  by (auto simp: keeps_client_def auth_post_def)

lemma auth_post_some:
  "keeps_client fd c s' \<Longrightarrow> wc_Authenticated c \<Longrightarrow> Split (c_text t) CHR '':'' = [a, tok] \<Longrightarrow> session_of E Users w tok = Some u \<Longrightarrow>
    same_user (uip_userinfo (wc_UserInfo c)) u \<Longrightarrow> wc_UserName c = u_email (uip_userinfo (wc_UserInfo c)) \<Longrightarrow>
    auth_post E w fd (TextFrame t) s'"
  by (auto simp: keeps_client_def auth_post_def)

lemma authenticate_wp:
  assumes "coh E Users w" "db_healthy E" "map_of (ws_Clients s) fd = Some c" "\<not> wc_Authenticated c"
  shows "wp (authenticate E sends fd c (c_text t) s) (\<lambda>s' w'. persist w' = persist w \<and> auth_post E w fd (TextFrame t) s') w"
proof (cases "\<exists>a tok. Split (c_text t) CHR '':'' = [a, tok]")
  case True
  then obtain a tok where split: "Split (c_text t) CHR '':'' = [a, tok]" by blast
  have refused: "auth_post E w fd (TextFrame t) (answer_client sends fd (c\<lparr>wc_UserInfo := ui\<rparr>) p True (set_client fd (c\<lparr>wc_UserInfo := ui\<rparr>) s))"
    if "session_of E Users w tok = None" for ui p
    by (rule auth_post_none [OF keeps_answer [OF set_client_lookup]]) (use assms(4) split that in auto)
  have accepted: "auth_post E w fd (TextFrame t) (answer_client sends fd (c\<lparr>wc_UserInfo := ui, wc_Authenticated := True, wc_UserName := u_email (uip_userinfo ui)\<rparr>) p False
      (set_client fd (c\<lparr>wc_UserInfo := ui, wc_Authenticated := True, wc_UserName := u_email (uip_userinfo ui)\<rparr>) s))"
    if "session_of E Users w tok = Some u" "same_user (uip_userinfo ui) u" for ui u p
    by (rule auth_post_some [OF keeps_answer [OF set_client_lookup] _ split that(1)]) (use that(2) in auto)
  show ?thesis
    unfolding authenticate_def split IsAuthorized_token_def
    by (auto simp: Let_def check_post_def refused accepted split: option.splits
        intro!: wp_mono [OF check_token_wp [OF assms(1,2)]])
next
  case False
  have "auth_post E w fd (TextFrame t) (answer_client sends fd c p True s)" for p
    by (rule auth_post_none [OF keeps_answer [OF assms(3)] assms(4)]) (use False in auto)
  then show ?thesis using False unfolding authenticate_def by (auto split: list.splits)
qed

text \<open> C25. A connection that is not authenticated becomes so exactly by a text of two parts whose second part is the token of a
  session: it then belongs to the user of that session. Any other frame leaves it without rights, and no frame of such a
  connection changes a table.\<close>

theorem ws_authentication:
  assumes "coh E Users w" "db_healthy E" "map_of (ws_Clients s) fd = Some c" "\<not> wc_Authenticated c"
  shows "wp (OnSocketReadable E Processor sends fd frame s) (\<lambda>s' w'. persist w' = persist w \<and>
    (\<exists>c'. map_of (ws_Clients s') fd = Some c' \<and>
      (if wc_Authenticated c'
       then \<exists>t a tok u. frame = TextFrame t \<and> Split (c_text t) CHR '':'' = [a, tok] \<and> session_of E Users w tok = Some u \<and>
         same_user (uip_userinfo (wc_UserInfo c')) u \<and> wc_UserName c' = u_email (uip_userinfo (wc_UserInfo c'))
       else \<forall>t a tok. frame = TextFrame t \<and> Split (c_text t) CHR '':'' = [a, tok] \<longrightarrow> session_of E Users w tok = None))) w"
proof -
  have other: "auth_post E w fd frame s'" if "keeps_client fd c s'" "\<And>t. frame \<noteq> TextFrame t" for s'
    by (rule auth_post_none [OF that(1) assms(4)]) (use that(2) in auto)
  have same: "keeps_client fd c s" using assms(3) by (simp add: keeps_client_def)
  have "wp (OnSocketReadable E Processor sends fd frame s) (\<lambda>s' w'. persist w' = persist w \<and> auth_post E w fd frame s') w"
    unfolding OnSocketReadable_def
    using assms(3,4) other authenticate_wp [OF assms] keeps_end keeps_answer [OF assms(3)] same
    by (auto split: incoming.split)
  then show ?thesis by (simp add: auth_post_def)
qed

theorem ws_authentication_witness:
  "wp (OnSocketReadable env_inst None True 5 (TextFrame ''token:tok'') (NewClient 5 ''a'' [] ws_init))
    (\<lambda>s' w'. \<exists>c'. map_of (ws_Clients s') 5 = Some c' \<and> wc_Authenticated c' \<and> wc_UserName c' = u_email (uip_userinfo (wc_UserInfo c'))) session_world"
proof -
  have split: "Split (c_text ''token:tok'') CHR '':'' = [''token'', ''tok'']"
    by (simp add: c_text_def Split_def split_loop.simps find_first_of_def substr_def numeral_nat)
  have session: "session_of env_inst Users session_world ''tok'' \<noteq> None"
    using session_world_token session_world_user by (simp add: session_of_def sample_token_def Token_init_def)
  have client: "map_of (ws_Clients (NewClient 5 ''a'' [] ws_init)) 5 = Some \<lparr>wc_Id = ''a'', wc_UserName = [], wc_Authenticated = False,
      wc_SocketRegistered = True, wc_Filter = [], wc_UserInfo = UserInfoAndPolicy_init\<rparr>"
    by (simp add: NewClient_def Let_def set_client_def ws_init_def)
  show ?thesis
    by (rule wp_mono [OF ws_authentication [OF session_world_coh _ client]])
      (use split session in \<open>auto split: if_splits\<close>)
qed

end
