(* ===== verification/Rest_Router.thy ===== *)
theory Rest_Router
  imports Rest_System Rest_Accounts Rest_Factors Secret_Store Rest_Links Rest_Guard Ui_Sockets
begin

text \<open>
  The two routers of \<^verbatim>\<open>src/RESTAPI/RESTAPI_routers.cpp\<close>: every handler of the service with its path names, the choice of a
  handler by path (\<^verbatim>\<open>RESTAPI_Router\<close>, \<^verbatim>\<open>RESTAPI_Router_I\<close> and the handler of unknown requests of
  \<^verbatim>\<open>src/framework/RESTAPI_Handler.h\<close>) and a request served by what was chosen. The external router serves clients, the internal
  one the other services.
\<close>

subsection \<open>The web-socket endpoint\<close>

text \<open>A connection that asks for the upgrade is handed to the web-socket server, with a new identifier and no user name.\<close>

definition web_socket_DoGet :: "env \<Rightarrow> rest_op" where
  "web_socket_DoGet E c =
     (case rq_upgrade (cx_request c) of
        None \<Rightarrow> ret (Some NoAnswer)
      | Some u \<Rightarrow>
          if str_icompare (e_poco E) u ''websocket'' then do {
            cid \<leftarrow> CreateUUID E;
            ret (Some (Upgraded cid (u_email (caller c))))
          }
          else ret (Some NoAnswer))"

definition RESTAPI_webSocketServer :: "env \<Rightarrow> bool \<Rightarrow> handler" where
  "RESTAPI_webSocketServer E Internal =
     (plain_handler [''GET'', ''OPTIONS''] Internal (web_socket_DoGet E) no_operation no_operation no_operation)\<lparr>hd_always := False\<rparr>"

definition RESTAPI_UnknownRequestHandler :: "bool \<Rightarrow> handler" where
  "RESTAPI_UnknownRequestHandler Internal = plain_handler [] Internal no_operation no_operation no_operation no_operation"

subsection \<open>Routes\<close>

type_synonym route = "string list \<times> (bool \<Rightarrow> handler)"

definition route_oauth2 :: "env \<Rightarrow> route" where
  "route_oauth2 E = ([''/api/v1/oauth2/{token}'', ''/api/v1/oauth2''], \<lambda>Internal. (RESTAPI_oauth2_handler E)\<lparr>hd_internal := Internal\<rparr>)"

definition route_user :: "env \<Rightarrow> route" where "route_user E = ([''/api/v1/user/{id}''], RESTAPI_user_handler E)"
definition route_users :: "env \<Rightarrow> route" where "route_users E = ([''/api/v1/users''], RESTAPI_users_handler E)"
definition route_system :: "env \<Rightarrow> system_env \<Rightarrow> route" where "route_system E S = ([''/api/v1/system''], RESTAPI_system_command E S)"
definition route_configuration :: "env \<Rightarrow> system_env \<Rightarrow> route" where
  "route_configuration E S = ([''/api/v1/systemConfiguration''], RESTAPI_system_configuration E S)"
definition route_assets :: "env \<Rightarrow> system_env \<Rightarrow> route" where
  "route_assets E S = ([''/wwwassets/{id}'', ''/favicon.ico''], RESTAPI_asset_server E S)"
definition route_endpoints :: "env \<Rightarrow> route" where "route_endpoints E = ([''/api/v1/systemEndpoints''], RESTAPI_system_endpoints_handler E)"
definition route_links :: "env \<Rightarrow> route" where "route_links E = ([''/api/v1/actionLink''], RESTAPI_action_links E)"
definition route_avatar :: "env \<Rightarrow> route" where "route_avatar E = ([''/api/v1/avatar/{id}''], RESTAPI_avatar_handler E)"
definition route_subavatar :: "env \<Rightarrow> route" where "route_subavatar E = ([''/api/v1/subavatar/{id}''], RESTAPI_subavatar_handler E)"
definition route_email :: "env \<Rightarrow> route" where "route_email E = ([''/api/v1/email''], RESTAPI_email_handler E)"
definition route_sms :: "env \<Rightarrow> route" where "route_sms E = ([''/api/v1/sms''], RESTAPI_sms_handler E)"
definition route_preferences :: "env \<Rightarrow> route" where "route_preferences E = ([''/api/v1/preferences''], RESTAPI_preferences E)"
definition route_subpreferences :: "env \<Rightarrow> route" where "route_subpreferences E = ([''/api/v1/subpreferences''], RESTAPI_subpreferences E)"
definition route_suboauth2 :: "env \<Rightarrow> route" where
  "route_suboauth2 E = ([''/api/v1/suboauth2/{token}'', ''/api/v1/suboauth2''], \<lambda>Internal. (RESTAPI_suboauth2_handler E)\<lparr>hd_internal := Internal\<rparr>)"
definition route_subuser :: "env \<Rightarrow> route" where "route_subuser E = ([''/api/v1/subuser/{id}''], RESTAPI_subuser_handler E)"
definition route_subusers :: "env \<Rightarrow> route" where "route_subusers E = ([''/api/v1/subusers''], RESTAPI_subusers_handler E)"
definition route_submfa :: "env \<Rightarrow> route" where "route_submfa E = ([''/api/v1/submfa''], RESTAPI_submfa_handler E)"
definition route_totp :: "env \<Rightarrow> route" where "route_totp E = ([''/api/v1/totp''], RESTAPI_totp_handler E)"
definition route_subtotp :: "env \<Rightarrow> route" where "route_subtotp E = ([''/api/v1/subtotp''], RESTAPI_subtotp_handler E)"
definition route_signup :: "env \<Rightarrow> route" where "route_signup E = ([''/api/v1/signup''], RESTAPI_signup_handler E)"
definition route_validate_sub :: "env \<Rightarrow> route" where
  "route_validate_sub E = ([''/api/v1/validateSubToken''], RESTAPI_validate_sub_token_handler E)"
definition route_validate :: "env \<Rightarrow> route" where "route_validate E = ([''/api/v1/validateToken''], RESTAPI_validate_token_handler E)"
definition route_validate_key :: "env \<Rightarrow> route" where "route_validate_key E = ([''/api/v1/validateApiKey''], RESTAPI_validate_apikey E)"
definition route_ws :: "env \<Rightarrow> route" where "route_ws E = ([''/api/v1/ws''], RESTAPI_webSocketServer E)"
definition route_keys :: "env \<Rightarrow> route" where "route_keys E = ([''/api/v1/apiKey/{uuid}''], RESTAPI_apiKey_handler E)"
definition route_secrets :: "env \<Rightarrow> route" where "route_secrets E = ([''/api/v1/systemSecret/{secret}''], RESTAPI_systemSecret_handler E)"

definition ext_routes :: "env \<Rightarrow> system_env \<Rightarrow> route list" where
  "ext_routes E S =
     [route_oauth2 E, route_user E, route_users E, route_system E S, route_configuration E S, route_assets E S, route_endpoints E,
      route_links E, route_avatar E, route_subavatar E, route_email E, route_sms E, route_preferences E, route_subpreferences E,
      route_suboauth2 E, route_subuser E, route_subusers E, route_submfa E, route_totp E, route_subtotp E, route_signup E,
      route_validate_sub E, route_validate E, route_validate_key E, route_ws E, route_keys E, route_secrets E]"

definition int_routes :: "env \<Rightarrow> system_env \<Rightarrow> route list" where
  "int_routes E S =
     [route_oauth2 E, route_user E, route_users E, route_system E S, route_configuration E S, route_assets E S, route_endpoints E,
      route_links E, route_avatar E, route_subavatar E, route_email E, route_sms E, route_preferences E, route_subpreferences E,
      route_suboauth2 E, route_subuser E, route_subusers E, route_submfa E, route_totp E, route_subtotp E,
      route_validate_sub E, route_validate E, route_validate_key E, route_signup E, route_secrets E]"

fun RESTAPI_Router :: "env \<Rightarrow> bool \<Rightarrow> string \<Rightarrow> route list \<Rightarrow> handler \<times> (string \<times> string) list" where
  "RESTAPI_Router E Internal RequestedPath [] = (RESTAPI_UnknownRequestHandler Internal, [])"
| "RESTAPI_Router E Internal RequestedPath ((PathName, T) # Args) =
     (case ParseBindings E RequestedPath PathName of
        (True, Bindings) \<Rightarrow> (T Internal, Bindings)
      | (False, Bindings) \<Rightarrow>
          if Args = [] then (RESTAPI_UnknownRequestHandler Internal, Bindings)
          else RESTAPI_Router E Internal RequestedPath Args)"

definition RESTAPI_ExtRouter :: "env \<Rightarrow> system_env \<Rightarrow> string \<Rightarrow> handler \<times> (string \<times> string) list" where
  "RESTAPI_ExtRouter E S Path = RESTAPI_Router E False Path (ext_routes E S)"

definition RESTAPI_IntRouter :: "env \<Rightarrow> system_env \<Rightarrow> string \<Rightarrow> handler \<times> (string \<times> string) list" where
  "RESTAPI_IntRouter E S Path = RESTAPI_Router E True Path (int_routes E S)"

text \<open>A request to the service: the bindings of the path reach the handler.\<close>

definition serve_ext :: "env \<Rightarrow> system_env \<Rightarrow> request \<Rightarrow> response sec" where
  "serve_ext E S R =
     (case RESTAPI_ExtRouter E S (rq_path R) of (H, Bindings) \<Rightarrow> handleRequest E H (R\<lparr>rq_bindings := Bindings\<rparr>))"

definition serve_int :: "env \<Rightarrow> system_env \<Rightarrow> request \<Rightarrow> response sec" where
  "serve_int E S R =
     (case RESTAPI_IntRouter E S (rq_path R) of (H, Bindings) \<Rightarrow> handleRequest E H (R\<lparr>rq_bindings := Bindings\<rparr>))"

subsection \<open>What is open to a client without a session\<close>

text \<open>The routes whose handlers do not ask for a session.\<close>

definition public_routes :: "env \<Rightarrow> system_env \<Rightarrow> route list" where
  "public_routes E S = [route_oauth2 E, route_assets E S, route_links E, route_suboauth2 E, route_signup E, route_ws E]"

definition is_public :: "env \<Rightarrow> system_env \<Rightarrow> string \<Rightarrow> bool" where
  "is_public E S Path = list_ex (\<lambda>(PathName, T). fst (ParseBindings E Path PathName)) (public_routes E S)"

lemmas route_defs = route_oauth2_def route_user_def route_users_def route_system_def route_configuration_def route_assets_def
  route_endpoints_def route_links_def route_avatar_def route_subavatar_def route_email_def route_sms_def route_preferences_def
  route_subpreferences_def route_suboauth2_def route_subuser_def route_subusers_def route_submfa_def route_totp_def route_subtotp_def
  route_signup_def route_validate_sub_def route_validate_def route_validate_key_def route_ws_def route_keys_def route_secrets_def

lemmas protected_defs = plain_handler_def RESTAPI_user_handler_def RESTAPI_users_handler_def RESTAPI_system_command_def
  RESTAPI_system_configuration_def RESTAPI_system_endpoints_handler_def RESTAPI_avatar_handler_def avatar_handler_def
  RESTAPI_subavatar_handler_def RESTAPI_email_handler_def RESTAPI_sms_handler_def RESTAPI_preferences_def RESTAPI_subpreferences_def
  preferences_handler_def RESTAPI_subuser_handler_def RESTAPI_subusers_handler_def RESTAPI_submfa_handler_def RESTAPI_totp_handler_def
  totp_handler_def RESTAPI_subtotp_handler_def RESTAPI_validate_token_handler_def RESTAPI_validate_sub_token_handler_def
  validate_handler_def RESTAPI_validate_apikey_def RESTAPI_apiKey_handler_def RESTAPI_systemSecret_handler_def

lemma protected_routes:
  "list_all (\<lambda>(PathName, T). hd_always (T False) \<and> \<not> hd_internal (T False))
    [route_user E, route_users E, route_system E S, route_configuration E S, route_endpoints E, route_avatar E, route_subavatar E,
     route_email E, route_sms E, route_preferences E, route_subpreferences E, route_subuser E, route_subusers E, route_submfa E,
     route_totp E, route_subtotp E, route_validate_sub E, route_validate E, route_validate_key E, route_keys E, route_secrets E]"
  by (simp add: route_defs protected_defs)

lemma router_choice:
  "RESTAPI_Router E Internal Path routes = (H, Bs) \<Longrightarrow>
    H = RESTAPI_UnknownRequestHandler Internal \<or> (\<exists>(PathName, T) \<in> set routes. fst (ParseBindings E Path PathName) \<and> H = T Internal)"
  by (induction E Internal Path routes rule: RESTAPI_Router.induct) (auto split: prod.splits bool.splits if_splits)

lemma ext_protected:
  assumes "\<not> is_public E S Path" "RESTAPI_ExtRouter E S Path = (H, Bs)"
  shows "hd_always H \<and> \<not> hd_internal H"
proof -
  have "hd_always H \<and> \<not> hd_internal H" if r: "r \<in> set (ext_routes E S)" "fst (ParseBindings E Path (fst r))" "H = snd r False" for r
  proof -
    have "r \<notin> set (public_routes E S)" using assms(1) r(2) by (auto simp: is_public_def list_ex_iff split_beta)
    with r(1) have "r \<in> set [route_user E, route_users E, route_system E S, route_configuration E S, route_endpoints E, route_avatar E,
      route_subavatar E, route_email E, route_sms E, route_preferences E, route_subpreferences E, route_subuser E, route_subusers E,
      route_submfa E, route_totp E, route_subtotp E, route_validate_sub E, route_validate E, route_validate_key E, route_keys E,
      route_secrets E]" by (auto simp: ext_routes_def public_routes_def)
    then show ?thesis using protected_routes [of E S, unfolded list_all_iff] r(3) by (metis (no_types, lifting) case_prod_beta)
  qed
  then show ?thesis
    using router_choice [OF assms(2) [unfolded RESTAPI_ExtRouter_def]]
    by (auto simp: RESTAPI_UnknownRequestHandler_def plain_handler_def)
qed


definition system_inst :: system_env where
  "system_inst =
     \<lparr>s_version = ''3.0'', s_uptime = of_nat, s_start = 5, s_osName = ''Linux'', s_processors = 4, s_nodeName = ''sec'',
      s_certFiles = [], s_fileExists = (\<lambda>f. False), s_fileName = id, s_expiresOn = (\<lambda>f. None), s_openFds = 10,
      s_memory = (0, 0, 0, 0), s_parseLevel = (\<lambda>t. None), s_prio = (\<lambda>p. 0), s_config = (\<lambda>k. None), s_extension = (\<lambda>f. [])\<rparr>"


subsection \<open>Static files stay in their directory\<close>

lemma update_values: "snd ` set (AList.update k v bs) \<subseteq> insert v (snd ` set bs)"
  by (induction bs) auto

lemma match_items_values:
  "match_items E ps qs bs = (m, bs') \<Longrightarrow> snd ` set bs' \<subseteq> snd ` set bs \<union> set ps"
proof (induction E ps qs bs arbitrary: m bs' rule: match_items.induct)
  case (1 E p ps q qs bs)
  let ?bs = "AList.update (str_toLower (e_poco E) (take (length q - 2) (drop 1 q))) p bs"
  consider (same) "p = q" "match_items E ps qs bs = (m, bs')"
    | (bound) "p \<noteq> q" "q \<noteq> [] \<and> q ! 0 = CHR ''{''" "match_items E ps qs ?bs = (m, bs')" | (none) "bs' = bs"
    using "1.prems" by (auto split: if_splits)
  then show ?case
  proof cases
    case same
    then show ?thesis using "1.IH"(1) by (meson Un_mono order_refl order_trans set_subset_Cons)
  next
    case bound
    then have "snd ` set bs' \<subseteq> snd ` set ?bs \<union> set ps" using "1.IH"(2) by blast
    also have "\<dots> \<subseteq> snd ` set bs \<union> set (p # ps)" using update_values [of _ p bs] by auto
    finally show ?thesis .
  qed auto
qed auto

lemma match_endpoints_values:
  "match_endpoints E items eps bs = (m, bs') \<Longrightarrow> snd ` set bs' \<subseteq> snd ` set bs \<union> set items"
proof (induction E items eps bs rule: match_endpoints.induct)
  case (2 E items ep eps bs)
  let ?params = "str_tokens (e_poco E) CHR ''/'' ep"
  obtain m1 bs1 where m1: "match_items E items ?params bs = (m1, bs1)" by fastforce
  have sub: "snd ` set bs1 \<subseteq> snd ` set bs \<union> set items" by (rule match_items_values [OF m1])
  consider (other) "length items \<noteq> length ?params" "match_endpoints E items eps bs = (m, bs')"
    | (found) "bs' = bs1" | (next1) "length items = length ?params" "\<not> m1" "match_endpoints E items eps bs1 = (m, bs')"
    using "2.prems" m1 by (auto simp: Let_def split: if_splits bool.splits)
  then show ?case
  proof cases
    case other
    then show ?thesis using "2.IH"(1) by blast
  next
    case found
    then show ?thesis using sub by simp
  next
    case next1
    then have "snd ` set bs' \<subseteq> snd ` set bs1 \<union> set items" using "2.IH"(2) m1 by simp
    then show ?thesis using sub by blast
  qed
qed simp

lemma router_values:
  "RESTAPI_Router E Internal Path routes = (H, Bs) \<Longrightarrow> snd ` set Bs \<subseteq> set (str_tokens (e_poco E) CHR ''/'' Path)"
proof (induction E Internal Path routes rule: RESTAPI_Router.induct)
  case (2 E Internal Path PathName T Args)
  then show ?case
    using match_endpoints_values [of E "str_tokens (e_poco E) CHR ''/'' Path" PathName "[]"]
    by (auto simp: ParseBindings_def split: prod.splits bool.splits if_splits)
qed simp

text \<open>
  Whatever the path, the file sent is one directly in the directory of the assets: its name holds no separator. The tokens of
  a path are what is between its separators.
\<close>

lemma asset_inside:
  assumes "\<forall>s t. t \<in> set (str_tokens (e_poco E) CHR ''/'' s) \<longrightarrow> CHR ''/'' \<notin> set t"
    and "RESTAPI_ExtRouter E S (rq_path R) = (H, Bs)" "rq_bindings (cx_request c) = Bs"
  shows "\<exists>name. asset_file E c = e_wwwAssets E @ ''/'' @ name \<and> CHR ''/'' \<notin> set name"
proof -
  have "snd ` set Bs \<subseteq> set (str_tokens (e_poco E) CHR ''/'' (rq_path R))"
    using router_values [OF assms(2) [unfolded RESTAPI_ExtRouter_def]] .
  then have "CHR ''/'' \<notin> set v" if "map_of Bs k = Some v" for k v
    using map_of_SomeD [OF that] assms(1) by (force simp: subset_iff)
  then have "CHR ''/'' \<notin> set (GetBinding E c ''id'' [])"
    by (auto simp: GetBinding_def assms(3) split: option.splits)
  then show ?thesis by (auto simp: asset_file_def intro: exI [of _ "''favicon.ico''"])
qed

end
