(* ===== verification/Kafka_Bus.thy ===== *)
theory Kafka_Bus
  imports Service_Registry
begin

text \<open>
  The message bus as the service sees it, \<^verbatim>\<open>src/framework/KafkaManager.cpp\<close> and \<^verbatim>\<open>src/framework/EventBusManager.cpp\<close>: the
  watchers of the topics and the dispatch of a message to them, the queue of the producer, and the messages a service sends over
  its life. A watcher is known by its number; the library that carries the messages is left out.
\<close>

subsection \<open>Watchers\<close>

type_synonym 'f watcher = "'f \<times> int"

record 'f kafka_consumer =
  kc_Notifiers :: "(string \<times> 'f watcher list) list"
  kc_FunctionId :: u64
  kc_Topics :: "(string \<times> unit) list"

definition kafka_consumer_init :: "'f kafka_consumer" where
  "kafka_consumer_init = \<lparr>kc_Notifiers = [], kc_FunctionId = 1, kc_Topics = []\<rparr>"

text \<open>The number is kept as a 32-bit integer and given back as one of 64 bits.\<close>

definition as_int32 :: "u64 \<Rightarrow> int" where
  "as_int32 n = sint (ucast n :: 32 word)"

definition RegisterTopicWatcher :: "string \<Rightarrow> 'f \<Rightarrow> 'f kafka_consumer \<Rightarrow> u64 \<times> 'f kafka_consumer" where
  "RegisterTopicWatcher Topic F s =
     (let n = kc_FunctionId s;
          L = (case map_of (kc_Notifiers s) Topic of None \<Rightarrow> [] | Some L \<Rightarrow> L)
      in (n, s\<lparr>kc_Notifiers := store_set Topic (L @ [(F, as_int32 n)]) (kc_Notifiers s),
               kc_Topics := store_set Topic () (kc_Topics s), kc_FunctionId := n + 1\<rparr>))"

fun erase_watcher :: "int \<Rightarrow> 'f watcher list \<Rightarrow> 'f watcher list" where
  "erase_watcher n [] = []"
| "erase_watcher n ((F, k) # L) = (if k = n then L else (F, k) # erase_watcher n L)"

definition UnregisterTopicWatcher :: "string \<Rightarrow> u64 \<Rightarrow> 'f kafka_consumer \<Rightarrow> 'f kafka_consumer" where
  "UnregisterTopicWatcher Topic n s =
     (case map_of (kc_Notifiers s) Topic of
        None \<Rightarrow> s
      | Some L \<Rightarrow> s\<lparr>kc_Notifiers := store_set Topic (erase_watcher (as_int32 n) L) (kc_Notifiers s)\<rparr>)"

text \<open>The calls a message causes: its watchers in the order they came. An exception of one does not keep the others from it.\<close>

definition dispatch_message :: "string \<Rightarrow> string \<Rightarrow> string \<Rightarrow> 'f kafka_consumer \<Rightarrow> ('f \<times> string \<times> string) list" where
  "dispatch_message topic key payload s =
     (case map_of (kc_Notifiers s) topic of None \<Rightarrow> [] | Some FL \<Rightarrow> map (\<lambda>(F, _). (F, key, payload)) FL)"

subsection \<open>Messages sent\<close>

record kafka_message =
  km_Topic :: string
  km_Key :: string
  km_Payload :: string

definition WrapSystemId :: "u64 \<Rightarrow> string \<Rightarrow> string \<Rightarrow> string" where
  "WrapSystemId systemid host PayLoad =
     ''{ '' @ [CHR 0x22] @ ''system'' @ [CHR 0x22] @ '' : { '' @ [CHR 0x22] @ ''id'' @ [CHR 0x22] @ '' : '' @ to_dec (unat systemid) @
     '', '' @ [CHR 0x22] @ ''host'' @ [CHR 0x22] @ '' : '' @ [CHR 0x22] @ host @ [CHR 0x22] @ '' }, '' @
     [CHR 0x22] @ ''payload'' @ [CHR 0x22] @ '' : '' @ PayLoad @ '' }''"

definition PostMessage :: "bool \<Rightarrow> u64 \<Rightarrow> string \<Rightarrow> string \<Rightarrow> string \<Rightarrow> string \<Rightarrow> bool \<Rightarrow> kafka_message list \<Rightarrow> kafka_message list" where
  "PostMessage KafkaEnabled systemid host topic key PayLoad WrapMessage Queue =
     (if KafkaEnabled
      then Queue @ [\<lparr>km_Topic = topic, km_Key = key, km_Payload = (if WrapMessage then WrapSystemId systemid host PayLoad else PayLoad)\<rparr>]
      else Queue)"

text \<open>
  The loop of the producer: at each turn, whether it is still running and whether the message could be handed to the library. Left
  are the messages produced and those still in the queue.
\<close>

fun producer_run :: "(bool \<times> bool) list \<Rightarrow> kafka_message list \<Rightarrow> kafka_message list \<times> kafka_message list" where
  "producer_run turns [] = ([], [])"
| "producer_run [] Queue = ([], Queue)"
| "producer_run ((Running, produced) # turns) (Msg # Queue) =
     (if \<not> Running then ([], Queue)
      else (case producer_run turns Queue of (sent, left) \<Rightarrow> (if produced then Msg # sent else sent, left)))"

text \<open>The messages of a service: it joins, says that it is alive each time its timer runs out, and leaves.\<close>

definition event_messages :: "poco \<Rightarrow> service_self \<Rightarrow> nat \<Rightarrow> string list" where
  "event_messages P S beats =
     MakeSystemEventMessage P S ''join'' # replicate beats (MakeSystemEventMessage P S ''keep-alive'') @
     [MakeSystemEventMessage P S ''leave'']"

subsection \<open>Watchers get their messages\<close>

definition watchers_ok :: "'f kafka_consumer \<Rightarrow> bool" where
  "watchers_ok s \<longleftrightarrow> unat (kc_FunctionId s) < 2 ^ 31 \<and>
     (\<forall>topic L. map_of (kc_Notifiers s) topic = Some L \<longrightarrow> distinct (map snd L) \<and> (\<forall>(F, k) \<in> set L. 0 \<le> k \<and> k < int (unat (kc_FunctionId s))))"

lemma as_int32_small: "unat n < 2 ^ 31 \<Longrightarrow> as_int32 n = int (unat n)"
proof -
  assume small: "unat n < 2 ^ 31"
  then have n: "uint n < 2 ^ 31" by (metis of_nat_less_iff of_nat_numeral of_nat_power uint_nat)
  then have "uint (ucast n :: 32 word) = uint n" by (simp add: unsigned_ucast_eq take_bit_int_eq_self)
  then have "sint (ucast n :: 32 word) = signed_take_bit 31 (uint n)" by (simp add: sint_uint)
  also have "\<dots> = uint n" using n by (intro signed_take_bit_int_eq_self) (simp_all add: order_trans [of _ 0])
  finally show ?thesis by (simp add: as_int32_def)
qed

lemma register_lists:
  assumes "RegisterTopicWatcher Topic F s = (n, s')"
  shows "n = kc_FunctionId s" "kc_FunctionId s' = kc_FunctionId s + 1"
    "map_of (kc_Notifiers s') = (map_of (kc_Notifiers s))(Topic \<mapsto>
      (case map_of (kc_Notifiers s) Topic of None \<Rightarrow> [] | Some L \<Rightarrow> L) @ [(F, as_int32 n)])"
  using assms by (auto simp: RegisterTopicWatcher_def Let_def map_of_store_set)

text \<open>A new watcher gets every message of its topic, after those already there.\<close>

lemma register_dispatch:
  assumes "RegisterTopicWatcher Topic F s = (n, s')"
  shows "dispatch_message t k p s' = dispatch_message t k p s @ (if t = Topic then [(F, k, p)] else [])"
  by (auto simp: dispatch_message_def register_lists(3) [OF assms] split: option.splits)

lemma register_ok:
  assumes "watchers_ok s" "unat (kc_FunctionId s) + 1 < 2 ^ 31" "RegisterTopicWatcher Topic F s = (n, s')"
  shows "watchers_ok s'"
proof -
  have step: "unat (kc_FunctionId s + 1) = unat (kc_FunctionId s) + 1"
    using assms(2) by (simp add: unat_word_ariths(1))
  have n: "as_int32 n = int (unat (kc_FunctionId s))" using assms(1) as_int32_small by (auto simp: register_lists(1) [OF assms(3)] watchers_ok_def)
  show ?thesis
    using assms(1,2) unfolding watchers_ok_def register_lists(2,3) [OF assms(3)] step n
    by (fastforce split: option.splits if_splits)
qed

lemma erase_last: "\<forall>(F, k) \<in> set L. k \<noteq> n \<Longrightarrow> erase_watcher n (L @ [(F, n)]) = L"
  by (induction L) auto

text \<open>Leaving undoes coming: nobody else notices.\<close>

lemma unregister_undoes:
  assumes "watchers_ok s" "RegisterTopicWatcher Topic F s = (n, s')"
  shows "dispatch_message t k p (UnregisterTopicWatcher Topic n s') = dispatch_message t k p s"
proof -
  let ?L = "case map_of (kc_Notifiers s) Topic of None \<Rightarrow> [] | Some L \<Rightarrow> L"
  have n: "as_int32 n = int (unat (kc_FunctionId s))" using assms(1) as_int32_small by (auto simp: register_lists(1) [OF assms(2)] watchers_ok_def)
  have "k < int (unat (kc_FunctionId s))" if "(F, k) \<in> set L" "map_of (kc_Notifiers s) Topic = Some L" for F k L
    using assms(1) that unfolding watchers_ok_def by blast
  then have "\<forall>(F, k) \<in> set ?L. k \<noteq> as_int32 n" unfolding n by (cases "map_of (kc_Notifiers s) Topic") auto
  then show ?thesis
    by (auto simp: UnregisterTopicWatcher_def dispatch_message_def register_lists(3) [OF assms(2)] map_of_store_set erase_last split: option.splits)
qed

text \<open>While the producer runs and the library takes every message, all of the queue is produced, in order.\<close>

lemma producer_all: "length Queue \<le> length turns \<Longrightarrow> \<forall>x \<in> set turns. x = (True, True) \<Longrightarrow> producer_run turns Queue = (Queue, [])"
  by (induction turns Queue rule: producer_run.induct) auto

text \<open>A producer that was stopped drops the message it was woken with and leaves the rest of the queue.\<close>

lemma producer_stopped: "producer_run ((False, ok) # turns) (Msg # Queue) = ([], Queue)"
  by simp

end
