(* ===== verification/Auth_Client.thy ===== *)
theory Auth_Client
  imports Rest_Keys
begin

text \<open>
  The client the other services use to ask this one about tokens and API keys, \<^verbatim>\<open>src/framework/AuthClient.cpp\<close>: two caches in
  front of the endpoints \<^verbatim>\<open>validateToken\<close>, \<^verbatim>\<open>validateSubToken\<close> and \<^verbatim>\<open>validateApiKey\<close>. The answer of the request is an argument: its
  status and its object, \<open>None\<close> when there is none. The caches drop entries when they are full or old: a lookup says whether its
  entry is gone.
\<close>

record ApiKeyCacheEntry =
  ake_UserInfo :: UserInfoAndPolicy
  ake_ExpiresOn :: u64

record auth_client =
  ac_Cache :: "string \<rightharpoonup> UserInfoAndPolicy"
  ac_ApiKeyCache :: "string \<rightharpoonup> ApiKeyCacheEntry"

record auth_result =
  ax_ok :: bool
  ax_info :: UserInfoAndPolicy
  ax_Expired :: bool
  ax_Contacted :: bool

definition IsTokenExpired :: "u64 \<Rightarrow> WebToken \<Rightarrow> bool" where
  "IsTokenExpired now T \<longleftrightarrow> wt_expires_in T + wt_created T < now"

definition RemovedCachedToken :: "string \<Rightarrow> auth_client \<Rightarrow> auth_client" where
  "RemovedCachedToken Token s =
     s\<lparr>ac_Cache := (ac_Cache s)(Token := None), ac_ApiKeyCache := (ac_ApiKeyCache s)(Token := None)\<rparr>"

subsection \<open>Tokens\<close>

definition RetrieveTokenInformation ::
  "poco \<Rightarrow> u64 \<Rightarrow> nat \<times> jobj option \<Rightarrow> string \<Rightarrow> UserInfoAndPolicy \<Rightarrow> bool \<Rightarrow> bool \<Rightarrow> auth_client \<Rightarrow> auth_result \<times> auth_client" where
  "RetrieveTokenInformation P now answer SessionToken UInfo Expired Contacted s =
     (case answer of (StatusCode, Response) \<Rightarrow>
        if StatusCode = 504 then (\<lparr>ax_ok = False, ax_info = UInfo, ax_Expired = Expired, ax_Contacted = False\<rparr>, s)
        else if StatusCode = 200 then
          (case Response of
             None \<Rightarrow> (\<lparr>ax_ok = False, ax_info = UInfo, ax_Expired = False, ax_Contacted = True\<rparr>, s)
           | Some Obj \<Rightarrow>
               if map_of Obj ''tokenInfo'' \<noteq> None \<and> map_of Obj ''userInfo'' \<noteq> None then
                 (let UInfo1 = fst (UserInfoAndPolicy_from_json P Obj UInfo)
                  in if IsTokenExpired now (uip_webtoken UInfo1)
                     then (\<lparr>ax_ok = False, ax_info = UInfo1, ax_Expired = True, ax_Contacted = True\<rparr>, s)
                     else (\<lparr>ax_ok = True, ax_info = UInfo1, ax_Expired = False, ax_Contacted = True\<rparr>,
                           s\<lparr>ac_Cache := (ac_Cache s)(SessionToken \<mapsto> UInfo1)\<rparr>))
               else (\<lparr>ax_ok = False, ax_info = UInfo, ax_Expired = Expired, ax_Contacted = True\<rparr>, s))
        else (\<lparr>ax_ok = False, ax_info = UInfo, ax_Expired = False, ax_Contacted = True\<rparr>, s))"

definition client_IsAuthorized ::
  "poco \<Rightarrow> u64 \<Rightarrow> bool \<Rightarrow> nat \<times> jobj option \<Rightarrow> string \<Rightarrow> UserInfoAndPolicy \<Rightarrow> bool \<Rightarrow> bool \<Rightarrow> auth_client \<Rightarrow> auth_result \<times> auth_client" where
  "client_IsAuthorized P now gone answer SessionToken UInfo Expired Contacted s =
     (case (if gone then None else ac_Cache s SessionToken) of
        Some User \<Rightarrow>
          if IsTokenExpired now (uip_webtoken User)
          then (\<lparr>ax_ok = False, ax_info = UInfo, ax_Expired = True, ax_Contacted = Contacted\<rparr>,
                s\<lparr>ac_Cache := (ac_Cache s)(SessionToken := None)\<rparr>)
          else (\<lparr>ax_ok = True, ax_info = User, ax_Expired = False, ax_Contacted = Contacted\<rparr>, s)
      | None \<Rightarrow> RetrieveTokenInformation P now answer SessionToken UInfo Expired Contacted s)"

subsection \<open>API keys\<close>

definition RetrieveApiKeyInformation ::
  "poco \<Rightarrow> nat \<times> jobj option \<Rightarrow> string \<Rightarrow> UserInfoAndPolicy \<Rightarrow> bool \<Rightarrow> bool \<Rightarrow> auth_client \<Rightarrow> auth_result \<times> auth_client" where
  "RetrieveApiKeyInformation P answer SessionToken UInfo Expired Contacted s =
     (case answer of (StatusCode, Response) \<Rightarrow>
        if StatusCode = 504 then (\<lparr>ax_ok = False, ax_info = UInfo, ax_Expired = Expired, ax_Contacted = False\<rparr>, s)
        else if StatusCode = 200 then
          (case Response of
             None \<Rightarrow> (\<lparr>ax_ok = False, ax_info = UInfo, ax_Expired = False, ax_Contacted = True\<rparr>, s)
           | Some Obj \<Rightarrow>
               (case (map_of Obj ''tokenInfo'', map_of Obj ''userInfo'', map_of Obj ''expiresOn'') of
                  (Some _, Some _, Some e) \<Rightarrow>
                    (let UInfo1 = fst (UserInfoAndPolicy_from_json P Obj UInfo)
                     in case var_toU64 P e of
                          None \<Rightarrow> (\<lparr>ax_ok = False, ax_info = UInfo1, ax_Expired = False, ax_Contacted = True\<rparr>, s)
                        | Some expiresOn \<Rightarrow>
                            (\<lparr>ax_ok = True, ax_info = UInfo1, ax_Expired = False, ax_Contacted = True\<rparr>,
                             s\<lparr>ac_ApiKeyCache := (ac_ApiKeyCache s)(SessionToken \<mapsto>
                               \<lparr>ake_UserInfo = UInfo1, ake_ExpiresOn = expiresOn\<rparr>)\<rparr>))
                | _ \<Rightarrow> (\<lparr>ax_ok = False, ax_info = UInfo, ax_Expired = Expired, ax_Contacted = True\<rparr>, s)))
        else (\<lparr>ax_ok = False, ax_info = UInfo, ax_Expired = False, ax_Contacted = True\<rparr>, s))"

definition client_IsValidApiKey ::
  "poco \<Rightarrow> u64 \<Rightarrow> bool \<Rightarrow> nat \<times> jobj option \<Rightarrow> string \<Rightarrow> UserInfoAndPolicy \<Rightarrow> bool \<Rightarrow> bool \<Rightarrow> auth_client \<Rightarrow> auth_result \<times> auth_client" where
  "client_IsValidApiKey P now gone answer SessionToken UInfo Expired Contacted s =
     (case (if gone then None else ac_ApiKeyCache s SessionToken) of
        Some User \<Rightarrow>
          if ake_ExpiresOn User < now
          then (\<lparr>ax_ok = True, ax_info = ake_UserInfo User, ax_Expired = False, ax_Contacted = Contacted\<rparr>, s)
          else RetrieveApiKeyInformation P answer SessionToken UInfo Expired Contacted
            (s\<lparr>ac_ApiKeyCache := (ac_ApiKeyCache s)(SessionToken := None)\<rparr>)
      | None \<Rightarrow> RetrieveApiKeyInformation P answer SessionToken UInfo Expired Contacted s)"

subsection \<open>What the caches do\<close>

text \<open>A token is never accepted after its time, from the cache or from an answer.\<close>

lemma accepted_token_alive:
  "client_IsAuthorized P now gone answer tok UInfo Expired Contacted s = (x, s') \<Longrightarrow> ax_ok x \<Longrightarrow>
    \<not> IsTokenExpired now (uip_webtoken (ax_info x))"
  by (auto simp: client_IsAuthorized_def RetrieveTokenInformation_def Let_def split: option.splits if_splits prod.splits)

text \<open>A token that was removed is asked for again.\<close>

lemma removed_token_asked:
  "client_IsAuthorized P now gone answer tok UInfo Expired Contacted (RemovedCachedToken tok s) =
    RetrieveTokenInformation P now answer tok UInfo Expired Contacted (RemovedCachedToken tok s)"
  by (simp add: client_IsAuthorized_def RemovedCachedToken_def)

text \<open> C40. The cache of API keys works the wrong way round. A key that this service has confirmed is accepted from the cache, without
  any question and whatever this service would answer now, exactly when its time is over; as long as it is valid the entry is
  thrown away and this service is asked.\<close>

theorem cached_key_inverted:
  assumes "client_IsValidApiKey P now gone (200, Some Obj) key UInfo Expired Contacted s = (x, s1)" "ax_ok x"
    and "ac_ApiKeyCache s key = None" "var_toU64 P (the (map_of Obj ''expiresOn'')) = Some expiresOn"
  shows "client_IsValidApiKey P later False answer key UInfo' Expired' Contacted' s1 =
    (if expiresOn < later then (\<lparr>ax_ok = True, ax_info = ax_info x, ax_Expired = False, ax_Contacted = Contacted'\<rparr>, s1)
     else RetrieveApiKeyInformation P answer key UInfo' Expired' Contacted' (s1\<lparr>ac_ApiKeyCache := (ac_ApiKeyCache s1)(key := None)\<rparr>))"
proof -
  have "RetrieveApiKeyInformation P (200, Some Obj) key UInfo Expired Contacted s = (x, s1)"
    using assms(1,3) by (simp add: client_IsValidApiKey_def split: if_splits)
  then have "ac_ApiKeyCache s1 key = Some \<lparr>ake_UserInfo = ax_info x, ake_ExpiresOn = expiresOn\<rparr>"
    using assms(2,4) by (auto simp: RetrieveApiKeyInformation_def Let_def split: option.splits)
  then show ?thesis by (simp add: client_IsValidApiKey_def)
qed

definition key_answer :: jobj where
  "key_answer = [(''tokenInfo'', JObj []), (''userInfo'', JObj []), (''expiresOn'', JNum 50)]"

theorem cached_key_inverted_witness:
  "ax_ok (fst (client_IsValidApiKey poco_inst 60 False (200, None) ''key'' UserInfoAndPolicy_init False False
     (snd (client_IsValidApiKey poco_inst 40 False (200, Some key_answer) ''key'' UserInfoAndPolicy_init False False
       \<lparr>ac_Cache = Map.empty, ac_ApiKeyCache = Map.empty\<rparr>))))"
proof -
  let ?s = "\<lparr>ac_Cache = Map.empty, ac_ApiKeyCache = Map.empty\<rparr> :: auth_client"
  let ?r = "client_IsValidApiKey poco_inst 40 False (200, Some key_answer) ''key'' UserInfoAndPolicy_init False False ?s"
  have u64: "var_toU64 poco_inst (JNum 50) = Some 50"
    by (simp add: poco_inst_def)
  have first: "ax_ok (fst ?r)"
    using u64 by (simp add: client_IsValidApiKey_def RetrieveApiKeyInformation_def key_answer_def Let_def)
  show ?thesis
    using cached_key_inverted [of poco_inst 40 False key_answer "''key''" UserInfoAndPolicy_init False False ?s "fst ?r" "snd ?r" 50 60 "(200, None)"
        UserInfoAndPolicy_init False False] first u64
    by (simp add: key_answer_def)
qed

end
