(* ===== verification/App_Registry.thy ===== *)
theory App_Registry
  imports User_Store
begin

text \<open>
  The registry file of the service, \<^verbatim>\<open>src/framework/AppServiceRegistry.h\<close>, the system identifier kept in it
  (\<^verbatim>\<open>src/framework/utils.cpp\<close>) and the default user made once, \<^verbatim>\<open>src/SpecialUserHelpers.h\<close>. The registry is the parsed object,
  \<open>None\<close> when there is none: without a file the pointer stays null. Every access goes through a copy of the registry, whose
  destructor saves the file; on a null pointer it throws again, which ends the process.
\<close>

subsection \<open>The registry\<close>

record app_registry =
  ar_object :: "jobj option"
  ar_file :: "string option"

datatype 'a reg_result = RegOk 'a | RegThrows | RegTerminates

definition load_registry :: "poco \<Rightarrow> string option \<Rightarrow> app_registry" where
  "load_registry P file =
     \<lparr>ar_object =
        (case file of
           None \<Rightarrow> None
         | Some text \<Rightarrow> (case json_parse P text of Some (JObj Registry) \<Rightarrow> Some Registry | _ \<Rightarrow> Some [])),
      ar_file = file\<rparr>"

definition registry_Save :: "poco \<Rightarrow> app_registry \<Rightarrow> app_registry" where
  "registry_Save P r = (case ar_object r of None \<Rightarrow> r | Some o1 \<Rightarrow> r\<lparr>ar_file := Some (json_condense P (JObj o1))\<rparr>)"

text \<open>A value is null when it is the JSON null.\<close>

definition registry_has :: "string \<Rightarrow> jobj \<Rightarrow> json option" where
  "registry_has key Registry = (case map_of Registry key of Some JNull \<Rightarrow> None | v \<Rightarrow> v)"

definition registry_Get :: "poco \<Rightarrow> (json \<Rightarrow> 'a option) \<Rightarrow> string \<Rightarrow> app_registry \<Rightarrow> 'a option reg_result \<times> app_registry" where
  "registry_Get P getValue key r =
     (case ar_object r of
        None \<Rightarrow> (RegTerminates, r)
      | Some Registry \<Rightarrow>
          ((case registry_has key Registry of
              None \<Rightarrow> RegOk None
            | Some v \<Rightarrow> (case getValue v of None \<Rightarrow> RegThrows | Some x \<Rightarrow> RegOk (Some x))),
           registry_Save P r))"

definition registry_Set :: "poco \<Rightarrow> string \<Rightarrow> json \<Rightarrow> app_registry \<Rightarrow> unit reg_result \<times> app_registry" where
  "registry_Set P key Value r =
     (case ar_object r of
        None \<Rightarrow> (RegTerminates, r)
      | Some Registry \<Rightarrow> (RegOk (), registry_Save P (r\<lparr>ar_object := Some (obj_set key Value Registry)\<rparr>)))"

text \<open>The forms for lists of texts.\<close>

definition registry_Set_strings :: "poco \<Rightarrow> string \<Rightarrow> string list \<Rightarrow> app_registry \<Rightarrow> unit reg_result \<times> app_registry" where
  "registry_Set_strings P key V r = registry_Set P key (jStrings V) r"

fun all_texts :: "poco \<Rightarrow> json list \<Rightarrow> string list option" where
  "all_texts P [] = Some []"
| "all_texts P (v # vs) = (case var_toString P v of None \<Rightarrow> None | Some t \<Rightarrow> map_option (\<lambda>ts. t # ts) (all_texts P vs))"

definition registry_Get_strings :: "poco \<Rightarrow> string \<Rightarrow> app_registry \<Rightarrow> string list option reg_result \<times> app_registry" where
  "registry_Get_strings P key r =
     (case ar_object r of
        None \<Rightarrow> (RegTerminates, r)
      | Some Registry \<Rightarrow>
          ((case registry_has key Registry of
              Some (JArr Arr) \<Rightarrow> (case all_texts P Arr of None \<Rightarrow> RegThrows | Some ts \<Rightarrow> RegOk (Some ts))
            | _ \<Rightarrow> RegOk None),
           registry_Save P r))"

subsection \<open>The system identifier\<close>

definition InitializeSystemId :: "poco \<Rightarrow> u64 \<Rightarrow> app_registry \<Rightarrow> u64 reg_result \<times> app_registry" where
  "InitializeSystemId P S r =
     (case registry_Set P ''systemid'' (jU64 S) r of
        (RegOk _, r1) \<Rightarrow> (RegOk S, r1)
      | (RegThrows, r1) \<Rightarrow> (RegThrows, r1)
      | (RegTerminates, r1) \<Rightarrow> (RegTerminates, r1))"

text \<open>\<open>S\<close> is the number made of the hardware address, the random generator and the clock.\<close>

definition GetSystemId :: "poco \<Rightarrow> u64 \<Rightarrow> app_registry \<Rightarrow> u64 reg_result \<times> app_registry" where
  "GetSystemId P S r =
     (case registry_Get P (var_toU64 P) ''systemid'' r of
        (RegOk None, r1) \<Rightarrow> InitializeSystemId P S r1
      | (RegOk (Some ID), r1) \<Rightarrow> (RegOk ID, r1)
      | (RegThrows, r1) \<Rightarrow> (RegThrows, r1)
      | (RegTerminates, r1) \<Rightarrow> (RegTerminates, r1))"

subsection \<open>The default user\<close>

definition NewDefaultUseridStockUUID :: string where
  "NewDefaultUseridStockUUID = ''11111111-0000-0000-6666-999999999999''"

definition default_user :: "string \<Rightarrow> string \<Rightarrow> u64 \<Rightarrow> UserInfo" where
  "default_user password username now =
     UserInfo_init\<lparr>u_currentPassword := password, u_lastPasswords := u_lastPasswords UserInfo_init @ [password], u_email := username,
       u_id := NewDefaultUseridStockUUID, u_userRole := ROOT, u_creationDate := now, u_validated := True, u_name := ''Default User'',
       u_description := ''Default user should be deleted.'', u_changePassword := True\<rparr>"

text \<open>
  Whether the user was made; whether that succeeded is not looked at. \<open>to_bool\<close> is the library's conversion of a value to a
  truth value.
\<close>

definition InitializeDefaultUser ::
  "env \<Rightarrow> (json \<Rightarrow> bool option) \<Rightarrow> string \<Rightarrow> string \<Rightarrow> app_registry \<Rightarrow> (bool reg_result \<times> app_registry) sec" where
  "InitializeDefaultUser E to_bool password username r =
     (case registry_Get (e_poco E) to_bool ''defaultusercreated'' r of
        (RegOk flag, r1) \<Rightarrow> do {
          user \<leftarrow> GetUserById E Users NewDefaultUseridStockUUID;
          if user = None \<and> flag \<noteq> Some True then do {
            now \<leftarrow> Now E;
            CreateUser E Users (default_user password username now) True;
            ret (case registry_Set (e_poco E) ''defaultusercreated'' (JBool True) r1 of
                (RegOk _, r2) \<Rightarrow> (RegOk True, r2)
              | (RegThrows, r2) \<Rightarrow> (RegThrows, r2)
              | (RegTerminates, r2) \<Rightarrow> (RegTerminates, r2))
          }
          else ret (RegOk False, r1)
        }
      | (RegThrows, r1) \<Rightarrow> ret (RegThrows, r1)
      | (RegTerminates, r1) \<Rightarrow> ret (RegTerminates, r1))"

subsection \<open>What is kept over a restart\<close>

lemma obj_set_map: "map_of (obj_set k v Obj) = (map_of Obj)(k \<mapsto> v)"
  by (induction k v Obj rule: obj_set.induct) (auto simp: fun_eq_iff)

text \<open>A registry as every access leaves it: its file holds its object.\<close>

definition saved :: "poco \<Rightarrow> app_registry \<Rightarrow> bool" where
  "saved P r \<longleftrightarrow> ar_object r = None \<or> (\<exists>o1. ar_object r = Some o1 \<and> ar_file r = Some (json_condense P (JObj o1)))"

lemma Save_saved: "saved P (registry_Save P r)" "ar_object (registry_Save P r) = ar_object r"
  by (simp_all add: registry_Save_def saved_def split: option.split)

lemma reload_saved:
  assumes "poco_ok P" "saved P r" "ar_object r \<noteq> None"
  shows "load_registry P (ar_file r) = r"
  using assms by (auto simp: saved_def load_registry_def poco_ok_def)

lemma Get_saved: "saved P r \<Longrightarrow> registry_Get P f key r = (res, r') \<Longrightarrow> saved P r' \<and> ar_object r' = ar_object r"
  by (auto simp: registry_Get_def Save_saved split: option.splits)

lemma Set_saved:
  "registry_Set P key v r = (RegOk u, r') \<Longrightarrow> saved P r' \<and> (\<exists>Obj. ar_object r = Some Obj \<and> ar_object r' = Some (obj_set key v Obj))"
  by (auto simp: registry_Set_def Save_saved split: option.splits)

lemma has_set: "v \<noteq> JNull \<Longrightarrow> registry_has key' (obj_set key v Obj) = (if key' = key then Some v else registry_has key' Obj)"
  by (cases v) (simp_all add: registry_has_def obj_set_map)

text \<open>What was set is read again, and every other entry as before.\<close>

lemma Get_Set:
  assumes "registry_Set P key v r = (RegOk u, r')" "v \<noteq> JNull"
  shows "fst (registry_Get P f key' r') = (if key' = key then (case f v of None \<Rightarrow> RegThrows | Some x \<Rightarrow> RegOk (Some x)) else fst (registry_Get P f key' r))"
  using Set_saved [OF assms(1)] assms(2) by (auto simp: registry_Get_def has_set)

lemma Get_again:
  assumes "poco_ok P" "saved P r" "registry_Get P f key r = (res, r')" "res \<noteq> RegTerminates"
  shows "load_registry P (ar_file r') = r' \<and> fst (registry_Get P f key' r') = fst (registry_Get P f key' r)"
proof -
  have r': "saved P r'" "ar_object r' = ar_object r" using Get_saved [OF assms(2,3)] by simp_all
  have "ar_object r' \<noteq> None" using assms(3,4) r'(2) by (auto simp: registry_Get_def split: option.splits)
  then show ?thesis using reload_saved [OF assms(1) r'(1)] r'(2) by (auto simp: registry_Get_def)
qed

text \<open>The identifier of the system is drawn once: after any restart it is the same, whatever the generator would give.\<close>

lemma system_id_stable:
  assumes P: "poco_ok P" and r: "saved P r" "GetSystemId P S r = (RegOk ID, r1)"
  shows "fst (GetSystemId P S' (load_registry P (ar_file r1))) = RegOk ID"
proof (cases "registry_Get P (var_toU64 P) ''systemid'' r")
  case (Pair res r0)
  consider (kept) "res = RegOk (Some ID)" "r0 = r1" | (drawn) "res = RegOk None" "InitializeSystemId P S r0 = (RegOk ID, r1)"
    using r(2) by (auto simp: GetSystemId_def Pair split: reg_result.splits option.splits)
  then show ?thesis
  proof cases
    case kept
    then have "load_registry P (ar_file r1) = r1" "fst (registry_Get P (var_toU64 P) ''systemid'' r1) = RegOk (Some ID)"
      using Get_again [OF P r(1) Pair, of "''systemid''"] Pair by simp_all
    then show ?thesis by (cases "registry_Get P (var_toU64 P) ''systemid'' r1") (simp add: GetSystemId_def)
  next
    case drawn
    then have set: "registry_Set P ''systemid'' (jU64 S) r0 = (RegOk (), r1)" "ID = S"
      by (auto simp: InitializeSystemId_def split: reg_result.splits prod.splits)
    have "jU64 S \<noteq> JNull" "var_toU64 P (jU64 S) = Some S" using P by (simp_all add: jU64_def poco_ok_def)
    then have "fst (registry_Get P (var_toU64 P) ''systemid'' r1) = RegOk (Some S)"
      using Get_Set [OF set(1), of "var_toU64 P" "''systemid''"] by simp
    moreover have "load_registry P (ar_file r1) = r1" using Set_saved [OF set(1)] reload_saved [OF P, of r1] by auto
    ultimately show ?thesis using set(2) by (cases "registry_Get P (var_toU64 P) ''systemid'' r1") (simp add: GetSystemId_def)
  qed
qed

lemma not_made_again:
  assumes "fst (registry_Get (e_poco E) to_bool ''defaultusercreated'' r) = RegOk (Some True)"
  shows "wp (InitializeDefaultUser E to_bool password username r) (\<lambda>(again, r') w'. again = RegOk False \<and> persist w' = persist w) w"
proof -
  obtain r1 where "registry_Get (e_poco E) to_bool ''defaultusercreated'' r = (RegOk (Some True), r1)"
    using assms by (cases "registry_Get (e_poco E) to_bool ''defaultusercreated'' r") simp
  then show ?thesis
    unfolding InitializeDefaultUser_def by (auto intro!: wp_mono [OF reads_onlyD [OF user_lookup_ro(2)]])
qed

lemma wp_any:
  "wp (GetUserById E Users i) (\<lambda>_ _. True) w" "wp (Now E) (\<lambda>_ _. True) w" "wp (CreateUser E Users u hashed) (\<lambda>_ _. True) w"
  by (simp_all add: wp_def split_beta)


definition first_registry :: app_registry where
  "first_registry = \<lparr>ar_object = Some [], ar_file = Some (json_condense poco_inst (JObj []))\<rparr>"

definition json_bool :: "json \<Rightarrow> bool option" where
  "json_bool j = (case j of JBool b \<Rightarrow> Some b | _ \<Rightarrow> None)"


end
